(* ===== verification/Prelude.thy ===== *)
theory Prelude
  imports Main "HOL-Library.List_Lexorder" "HOL-Library.Char_ord"
begin

text \<open>
  Shared vocabulary of the development.  A Go \<open>map[string]T\<close> is an association list
  whose keys are distinct; the three operations the code performs on maps (index, assign,
  delete) are \<open>map_of\<close>, \<open>mput\<close> and \<open>mdel\<close>.  Their interface is the locale
  \<open>go_map\<close>, interpreted on these operations.  The theorem collections gather what the
  component proofs feed to the simplifier.
\<close>

named_theorems map_simps \<open>lookups in maps built by assignments\<close>
named_theorems frame_simps \<open>state fields an operation leaves alone\<close>

section \<open>Go maps\<close>

type_synonym 'v gomap = "(string \<times> 'v) list"

fun mput :: "string \<Rightarrow> 'v \<Rightarrow> 'v gomap \<Rightarrow> 'v gomap" where
  "mput k v [] = [(k, v)]"
| "mput k v ((k', v') # m) = (if k = k' then (k, v) # m else (k', v') # mput k v m)"

definition mdel :: "string \<Rightarrow> 'v gomap \<Rightarrow> 'v gomap" where
  "mdel k m = filter (\<lambda>(k', _). k' \<noteq> k) m"

definition mkeys :: "'v gomap \<Rightarrow> string list" where
  "mkeys m = map fst m"

definition mhas :: "'v gomap \<Rightarrow> string \<Rightarrow> bool" where
  "mhas m k = (map_of m k \<noteq> None)"

definition wf_map :: "'v gomap \<Rightarrow> bool" where
  "wf_map m = distinct (map fst m)"

lemma map_of_mput [simp, map_simps]: "map_of (mput k v m) k' = (if k' = k then Some v else map_of m k')"
  by (induction m) auto

lemma map_of_mdel [simp, map_simps]: "map_of (mdel k m) k' = (if k' = k then None else map_of m k')"
  by (induction m) (auto simp: mdel_def)

lemma mhas_mput [simp, map_simps]: "mhas (mput k v m) k' = (k' = k \<or> mhas m k')"
  by (simp add: mhas_def)

lemma mhas_mdel [simp, map_simps]: "mhas (mdel k m) k' = (k' \<noteq> k \<and> mhas m k')"
  by (simp add: mhas_def)

lemma mhas_Nil [simp]: "\<not> mhas [] k"
  by (simp add: mhas_def)

lemma mhas_Cons [simp]: "mhas ((k', v) # m) k = (k' = k \<or> mhas m k)"
  by (auto simp: mhas_def)

lemma mput_not_Nil [simp]: "mput k v m \<noteq> []"
  by (cases "(k, v, m)" rule: mput.cases) auto

lemma set_keys_mput [simp]: "fst ` set (mput k v m) = insert k (fst ` set m)"
  by (induction k v m rule: mput.induct) (simp_all add: insert_commute)

lemma set_map_fst_mput [simp]: "set (map fst (mput k v m)) = insert k (set (map fst m))"
  by simp

lemma mhas_iff_key: "mhas m k \<longleftrightarrow> k \<in> set (mkeys m)"
  by (induction m) (auto simp: mkeys_def)

lemma map_of_Some_mhas: "map_of m k = Some v \<Longrightarrow> mhas m k"
  by (simp add: mhas_def)

lemma wf_map_Nil [simp]: "wf_map []"
  by (simp add: wf_map_def)

lemma wf_map_mput [simp, intro]: "wf_map m \<Longrightarrow> wf_map (mput k v m)"
  by (induction m) (auto simp: wf_map_def simp flip: set_map)

lemma wf_map_mdel [simp, intro]: "wf_map m \<Longrightarrow> wf_map (mdel k m)"
  by (auto simp: wf_map_def mdel_def distinct_map intro: inj_on_subset)

subsection \<open>The interface\<close>

text \<open>
  What the translator relies on: an assignment is read back, leaves the other keys alone, and
  the key set grows by the assigned key only.
\<close>

locale go_map =
  fixes lookup :: "'m \<Rightarrow> string \<Rightarrow> 'v option"
    and assign :: "string \<Rightarrow> 'v \<Rightarrow> 'm \<Rightarrow> 'm"
    and remove :: "string \<Rightarrow> 'm \<Rightarrow> 'm"
    and ok :: "'m \<Rightarrow> bool"
  assumes lookup_assign: "lookup (assign k v m) k' = (if k' = k then Some v else lookup m k')"
    and lookup_remove: "lookup (remove k m) k' = (if k' = k then None else lookup m k')"
    and ok_assign: "ok m \<Longrightarrow> ok (assign k v m)"
    and ok_remove: "ok m \<Longrightarrow> ok (remove k m)"
begin

definition assign_absent :: "string \<Rightarrow> 'v \<Rightarrow> 'm \<Rightarrow> 'm" where
  "assign_absent k v m = (case lookup m k of None \<Rightarrow> assign k v m | Some _ \<Rightarrow> m)"

lemma assign_absent_defined: "lookup (assign_absent k v m) k \<noteq> None"
  by (auto simp: assign_absent_def lookup_assign split: option.splits)

lemma assign_absent_keeps: "lookup m k' = Some w \<Longrightarrow> lookup (assign_absent k v m) k' = Some w"
  by (auto simp: assign_absent_def lookup_assign split: option.splits)

lemma assign_absent_idem: "assign_absent k w (assign_absent k v m) = assign_absent k v m"
  by (auto simp: assign_absent_def lookup_assign split: option.splits)

lemma assign_absent_ok: "ok m \<Longrightarrow> ok (assign_absent k v m)"
  by (auto simp: assign_absent_def ok_assign split: option.splits)

lemma assign_remove: "lookup (assign k v (remove k m)) k' = lookup (assign k v m) k'"
  by (simp add: lookup_assign lookup_remove)

end

interpretation gm: go_map map_of mput mdel wf_map
  by unfold_locales auto

section \<open>Lists and options\<close>

text \<open>
  \<open>fold_out\<close> is a loop over a slice that appends to an output slice while it updates a
  state: Go's \<open>for _, x := range xs { ...; out = append(out, y) }\<close>.
\<close>

fun fold_out :: "('a \<Rightarrow> 's \<Rightarrow> 'b list \<times> 's) \<Rightarrow> 'a list \<Rightarrow> 's \<Rightarrow> 'b list \<times> 's" where
  "fold_out f [] s = ([], s)"
| "fold_out f (x # xs) s =
     (let (ys, s1) = f x s; (zs, s2) = fold_out f xs s1 in (ys @ zs, s2))"

lemma fold_out_invariant:
  assumes "P s" and "\<And>x s ys s'. x \<in> set xs \<Longrightarrow> P s \<Longrightarrow> f x s = (ys, s') \<Longrightarrow> P s'"
  shows "P (snd (fold_out f xs s))"
  using assms
proof (induction xs arbitrary: s)
  case Nil
  then show ?case by simp
next
  case (Cons x xs)
  obtain ys s1 where f: "f x s = (ys, s1)" by (cases "f x s")
  obtain zs s2 where g: "fold_out f xs s1 = (zs, s2)" by (cases "fold_out f xs s1")
  have "P s1" using Cons.prems(2)[of x s ys s1] Cons.prems(1) f by simp
  then have "P (snd (fold_out f xs s1))"
    by (rule Cons.IH) (use Cons.prems(2) in auto)
  then show ?case by (simp add: f g)
qed

text \<open>Every output element satisfies \<open>Q\<close>, if each step's outputs do under the invariant.\<close>

lemma fold_out_elements:
  assumes "P s" and "\<And>x s ys s'. x \<in> set xs \<Longrightarrow> P s \<Longrightarrow> f x s = (ys, s') \<Longrightarrow> P s' \<and> (\<forall>y\<in>set ys. Q y)"
  shows "\<forall>y\<in>set (fst (fold_out f xs s)). Q y"
  using assms
proof (induction xs arbitrary: s)
  case Nil
  then show ?case by simp
next
  case (Cons x xs)
  obtain ys s1 where f: "f x s = (ys, s1)" by (cases "f x s")
  obtain zs s2 where g: "fold_out f xs s1 = (zs, s2)" by (cases "fold_out f xs s1")
  have *: "P s1 \<and> (\<forall>y\<in>set ys. Q y)" using Cons.prems(2)[of x s ys s1] Cons.prems(1) f by simp
  then have "P s1" ..
  then have "\<forall>y\<in>set (fst (fold_out f xs s1)). Q y"
    by (rule Cons.IH) (meson Cons.prems(2) list.set_intros(2))
  with * show ?case by (auto simp: f g)
qed

text \<open>
  The two facts above at once, for an output that is named: the form the component proofs use
  when the state's invariant and the outputs are needed together.
\<close>

lemma fold_out_rule:
  assumes "fold_out f xs s = (out, s')" and "P s"
    and "\<And>x s ys s'. x \<in> set xs \<Longrightarrow> P s \<Longrightarrow> f x s = (ys, s') \<Longrightarrow> P s' \<and> (\<forall>y\<in>set ys. Q y)"
  shows "P s' \<and> (\<forall>y\<in>set out. Q y)"
proof -
  have "P (snd (fold_out f xs s))"
    by (rule fold_out_invariant [where P = P, OF assms(2)]) (use assms(3) in blast)
  moreover have "\<forall>y\<in>set (fst (fold_out f xs s)). Q y"
    by (rule fold_out_elements [where P = P, OF assms(2)]) (use assms(3) in blast)
  ultimately show ?thesis using assms(1) by simp
qed

lemma find_Some_D: "find P xs = Some x \<Longrightarrow> x \<in> set xs \<and> P x"
  by (induction xs) (auto split: if_splits)

end
