(* ===== verification/GoStrings.thy ===== *)
theory GoStrings
  imports Prelude "HOL-Library.Word"
begin

text \<open>
  What the code uses of Go's \<open>strings\<close> and \<open>strconv\<close> packages.  A Go string is a
  byte sequence, here a HOL \<open>string\<close> whose characters are bytes; \<open>len\<close> counts bytes.
  Unicode enters in four places only (trimming, case mapping, case folding, quoting) and is
  written out on the UTF-8 encodings there.  Errors of \<open>strconv\<close> are values.
\<close>

section \<open>Bytes and searching\<close>

definition has_prefix :: "string \<Rightarrow> string \<Rightarrow> bool" where
  "has_prefix s p = (take (length p) s = p)"

definition has_suffix :: "string \<Rightarrow> string \<Rightarrow> bool" where
  "has_suffix s p = has_prefix (rev s) (rev p)"

definition trim_prefix :: "string \<Rightarrow> string \<Rightarrow> string" where
  "trim_prefix s p = (if has_prefix s p then drop (length p) s else s)"

definition trim_suffix :: "string \<Rightarrow> string \<Rightarrow> string" where
  "trim_suffix s p = (if has_suffix s p then take (length s - length p) s else s)"

text \<open>\<open>strings.Index\<close>; the result -1 is \<open>None\<close>.\<close>

fun str_index :: "string \<Rightarrow> string \<Rightarrow> nat option" where
  "str_index [] sub = (if sub = [] then Some 0 else None)"
| "str_index (c # s) sub =
     (if has_prefix (c # s) sub then Some 0 else map_option Suc (str_index s sub))"

definition str_contains :: "string \<Rightarrow> string \<Rightarrow> bool" where
  "str_contains s sub = (str_index s sub \<noteq> None)"

text \<open>\<open>strings.Cut\<close>: the text before and after the first separator, and whether it occurs.\<close>

definition str_cut :: "string \<Rightarrow> string \<Rightarrow> string \<times> string \<times> bool" where
  "str_cut s sep = (case str_index s sep of
     None \<Rightarrow> (s, [], False)
   | Some i \<Rightarrow> (take i s, drop (i + length sep) s, True))"

definition last_index :: "string \<Rightarrow> char \<Rightarrow> nat option" where
  "last_index s c =
     (if c \<in> set s then Some (length s - 1 - length (takeWhile (\<lambda>x. x \<noteq> c) (rev s))) else None)"

text \<open>\<open>strings.Split\<close> with a one-byte separator and \<open>strings.Join\<close>.\<close>

fun str_split :: "char \<Rightarrow> string \<Rightarrow> string list" where
  "str_split sep [] = [[]]"
| "str_split sep (c # s) =
     (if c = sep then [] # str_split sep s
      else (case str_split sep s of [] \<Rightarrow> [[c]] | p # ps \<Rightarrow> (c # p) # ps))"

fun str_join :: "string \<Rightarrow> string list \<Rightarrow> string" where
  "str_join sep [] = []"
| "str_join sep [s] = s"
| "str_join sep (s # ss) = s @ sep @ str_join sep ss"

text \<open>\<open>strings.TrimRight\<close> with a cutset of one byte.\<close>

definition trim_right :: "char \<Rightarrow> string \<Rightarrow> string" where
  "trim_right c s = rev (dropWhile (\<lambda>x. x = c) (rev s))"

section \<open>White space and letter case\<close>

text \<open>
  The UTF-8 encodings of the code points of \<open>unicode.IsSpace\<close>: tab to carriage return and
  space, U+0085, U+00A0, U+1680, U+2000 to U+200A, U+2028, U+2029, U+202F, U+205F, U+3000.
\<close>

definition go_spaces :: "string list" where
  "go_spaces =
     [[CHR 9], [CHR 10], [CHR 11], [CHR 12], [CHR 13], [CHR 32],
      [CHR 194, CHR 133], [CHR 194, CHR 160], [CHR 225, CHR 154, CHR 128]] @
     map (\<lambda>c. [CHR 226, CHR 128, c])
       [CHR 128, CHR 129, CHR 130, CHR 131, CHR 132, CHR 133, CHR 134, CHR 135, CHR 136,
        CHR 137, CHR 138, CHR 168, CHR 169, CHR 175] @
     [[CHR 226, CHR 129, CHR 159], [CHR 227, CHR 128, CHR 128]]"

text \<open>\<open>strip_any ps\<close> removes leading occurrences of the (non-empty) patterns.\<close>

fun strip_any :: "string list \<Rightarrow> string \<Rightarrow> string" where
  "strip_any ps [] = []"
| "strip_any ps (c # s) =
     (case find (\<lambda>p. p \<noteq> [] \<and> has_prefix (c # s) p) ps of
        None \<Rightarrow> c # s
      | Some p \<Rightarrow> strip_any ps (drop (length p - 1) s))"

definition trim_space :: "string \<Rightarrow> string" where
  "trim_space s = rev (strip_any (map rev go_spaces) (rev (strip_any go_spaces s)))"

definition is_digit :: "char \<Rightarrow> bool" where
  "is_digit c = (48 \<le> (of_char c :: int) \<and> (of_char c :: int) \<le> 57)"

definition is_upper :: "char \<Rightarrow> bool" where
  "is_upper c = (65 \<le> (of_char c :: int) \<and> (of_char c :: int) \<le> 90)"

definition is_lower :: "char \<Rightarrow> bool" where
  "is_lower c = (97 \<le> (of_char c :: int) \<and> (of_char c :: int) \<le> 122)"

definition lower_char :: "char \<Rightarrow> char" where
  "lower_char c = (if is_upper c then char_of (of_char c + (32::int)) else c)"

definition upper_char :: "char \<Rightarrow> char" where
  "upper_char c = (if is_lower c then char_of (of_char c - (32::int)) else c)"

text \<open>
  \<open>map_special tbl f\<close> applies \<open>f\<close> bytewise but replaces the encodings in the table.
  The tables hold the code points outside ASCII whose image is an ASCII letter; every other
  non-ASCII character is left alone, which the code cannot tell from its real image: it compares
  the results with ASCII literals, byte ranges and ASCII lengths only.
\<close>

fun map_special :: "(string \<times> char) list \<Rightarrow> (char \<Rightarrow> char) \<Rightarrow> string \<Rightarrow> string" where
  "map_special tbl f [] = []"
| "map_special tbl f (c # s) =
     (case find (\<lambda>(p, _). p \<noteq> [] \<and> has_prefix (c # s) p) tbl of
        None \<Rightarrow> f c # map_special tbl f s
      | Some (p, d) \<Rightarrow> d # map_special tbl f (drop (length p - 1) s))"

text \<open>Dotted capital I and the Kelvin sign have ASCII lower case letters.\<close>

definition to_lower :: "string \<Rightarrow> string" where
  "to_lower s = map_special [([CHR 196, CHR 176], CHR ''i''), ([CHR 226, CHR 132, CHR 170], CHR ''k'')] lower_char s"

text \<open>Dotless i and long s have ASCII upper case letters.\<close>

definition to_upper :: "string \<Rightarrow> string" where
  "to_upper s = map_special [([CHR 196, CHR 177], CHR ''I''), ([CHR 197, CHR 191], CHR ''S'')] upper_char s"

text \<open>Simple case folding, as \<open>strings.EqualFold\<close> uses it against an ASCII literal.\<close>

definition fold_case :: "string \<Rightarrow> string" where
  "fold_case s = map_special [([CHR 197, CHR 191], CHR ''s''), ([CHR 226, CHR 132, CHR 170], CHR ''k'')] lower_char s"

definition equal_fold :: "string \<Rightarrow> string \<Rightarrow> bool" where
  "equal_fold s t = (fold_case s = fold_case t)"

section \<open>Decimal numbers\<close>

definition max_int64 :: int where "max_int64 = 9223372036854775807"
definition min_int64 :: int where "min_int64 = -9223372036854775808"

definition digit_char :: "int \<Rightarrow> char" where
  "digit_char d = char_of (48 + d)"

definition digit_val :: "char \<Rightarrow> int" where
  "digit_val c = of_char c - 48"

text \<open>The decimal digits of a non-negative number.\<close>

function dec_str :: "int \<Rightarrow> string" where
  "dec_str n = (if n < 10 then [digit_char n] else dec_str (n div 10) @ [digit_char (n mod 10)])"
  by pat_completeness auto
termination by (relation "measure nat") auto

declare dec_str.simps [simp del]

definition itoa :: "int \<Rightarrow> string" where
  "itoa i = (if i < 0 then CHR ''-'' # dec_str (- i) else dec_str i)"

fun digits_val :: "int \<Rightarrow> string \<Rightarrow> int" where
  "digits_val acc [] = acc"
| "digits_val acc (c # s) = digits_val (acc * 10 + digit_val c) s"

datatype num_error = NumSyntax | NumRange

text \<open>
  \<open>strconv.Atoi\<close> on a 64-bit platform.  The value is returned together with the error:
  0 for a syntax error, the nearest bound for a range error.
\<close>

definition atoi :: "string \<Rightarrow> int \<times> num_error option" where
  "atoi s =
     (let (neg, ds) = (case s of c # cs \<Rightarrow> if c = CHR ''-'' then (True, cs)
                                           else if c = CHR ''+'' then (False, cs) else (False, s)
                               | [] \<Rightarrow> (False, s))
      in if ds = [] \<or> \<not> list_all is_digit ds then (0, Some NumSyntax)
         else let v = (if neg then - digits_val 0 ds else digits_val 0 ds)
              in if max_int64 < v then (max_int64, Some NumRange)
                 else if v < min_int64 then (min_int64, Some NumRange) else (v, None))"

text \<open>\<open>strconv.ParseUint(s, 10, 64)\<close> on a non-empty digit string.\<close>

definition parse_uint64 :: "string \<Rightarrow> 64 word option" where
  "parse_uint64 ds =
     (if ds \<noteq> [] \<and> list_all is_digit ds \<and> digits_val 0 ds < 18446744073709551616
      then Some (of_int (digits_val 0 ds)) else None)"

section \<open>Lemmas\<close>

lemma has_prefix_append [simp]: "has_prefix (p @ s) p"
  by (simp add: has_prefix_def)

lemma has_prefix_Nil [simp]: "has_prefix s []"
  by (simp add: has_prefix_def)

lemma has_prefix_Cons [simp]: "has_prefix (c # s) (d # p) = (c = d \<and> has_prefix s p)"
  by (auto simp: has_prefix_def)

lemma has_prefix_Nil_Cons [simp]: "\<not> has_prefix [] (d # p)"
  by (simp add: has_prefix_def)

lemma has_prefix_iff: "has_prefix s p \<longleftrightarrow> (\<exists>r. s = p @ r)"
  by (metis append_eq_conv_conj has_prefix_def)

lemma trim_prefix_append [simp]: "trim_prefix (p @ s) p = s"
  by (simp add: trim_prefix_def)

lemma str_split_not_Nil [simp]: "str_split sep s \<noteq> []"
  by (induction s) (auto split: list.splits)

lemma str_split_no_sep: "p \<in> set (str_split sep s) \<Longrightarrow> sep \<notin> set p"
proof (induction s arbitrary: p)
  case Nil
  then show ?case by simp
next
  case (Cons c s)
  then show ?case
    by (cases "str_split sep s") (auto split: if_splits)
qed

lemma str_join_Cons: "ss \<noteq> [] \<Longrightarrow> str_join sep (s # ss) = s @ sep @ str_join sep ss"
  by (cases ss) auto

lemma str_join_prepend: "str_join sep ((c # p) # ps) = c # str_join sep (p # ps)"
  by (cases ps) auto

text \<open>Splitting and joining are inverse.\<close>

lemma str_join_split: "str_join [sep] (str_split sep s) = s"
proof (induction s)
  case Nil
  then show ?case by simp
next
  case (Cons c s)
  obtain p ps where sp: "str_split sep s = p # ps"
    by (meson list.exhaust str_split_not_Nil)
  show ?case
    using Cons by (auto simp: sp str_join_Cons str_join_prepend)
qed

lemma str_split_append_no_sep:
  "sep \<notin> set a \<Longrightarrow> str_split sep (a @ sep # b) = a # str_split sep b"
  by (induction a) auto

lemma str_split_single: "sep \<notin> set a \<Longrightarrow> str_split sep a = [a]"
  by (induction a) auto

lemma str_split_join:
  "ss \<noteq> [] \<Longrightarrow> \<forall>s\<in>set ss. sep \<notin> set s \<Longrightarrow> str_split sep (str_join [sep] ss) = ss"
proof (induction ss)
  case Nil
  then show ?case by simp
next
  case (Cons s ss)
  then show ?case
    by (cases ss) (auto simp: str_split_single str_split_append_no_sep)
qed

lemma of_char_digit_char [simp]: "0 \<le> d \<Longrightarrow> d < 10 \<Longrightarrow> of_char (digit_char d) = 48 + d"
  by (simp add: digit_char_def of_char_of)

lemma is_digit_digit_char [simp]: "0 \<le> d \<Longrightarrow> d < 10 \<Longrightarrow> is_digit (digit_char d)"
  by (simp add: is_digit_def)

lemma digit_val_digit_char [simp]: "0 \<le> d \<Longrightarrow> d < 10 \<Longrightarrow> digit_val (digit_char d) = d"
  by (simp add: digit_val_def)

lemma dec_str_not_Nil [simp]: "dec_str n \<noteq> []"
  by (subst dec_str.simps) simp

lemma dec_str_digits: "0 \<le> n \<Longrightarrow> list_all is_digit (dec_str n)"
proof (induction n rule: dec_str.induct)
  case (1 n)
  then show ?case by (subst dec_str.simps) auto
qed

lemma digits_val_append: "digits_val acc (s @ [c]) = digits_val acc s * 10 + digit_val c"
  by (induction s arbitrary: acc) auto

lemma digits_val_dec_str [simp]: "0 \<le> n \<Longrightarrow> digits_val 0 (dec_str n) = n"
proof (induction n rule: dec_str.induct)
  case (1 n)
  show ?case
  proof (cases "n < 10")
    case True
    with 1 show ?thesis by (subst dec_str.simps) simp
  next
    case False
    with 1 have "digits_val 0 (dec_str (n div 10)) = n div 10" by simp
    with False show ?thesis
      by (subst dec_str.simps) (simp add: digits_val_append)
  qed
qed

lemma digit_val_nonneg: "is_digit c \<Longrightarrow> 0 \<le> digit_val c"
  by (simp add: is_digit_def digit_val_def)

lemma digits_val_nonneg: "list_all is_digit s \<Longrightarrow> 0 \<le> acc \<Longrightarrow> 0 \<le> digits_val acc s"
  by (induction s arbitrary: acc) (auto simp: digit_val_nonneg)

lemma dec_str_hd_digit: "0 \<le> n \<Longrightarrow> dec_str n = c # s \<Longrightarrow> is_digit c"
  using dec_str_digits[of n] by simp

lemma not_digit_sign: "\<not> is_digit (CHR ''-'')" "\<not> is_digit (CHR ''+'')"
  by (simp_all add: is_digit_def)

lemma itoa_nonneg: "0 \<le> i \<Longrightarrow> itoa i = dec_str i"
  by (simp add: itoa_def)

lemma itoa_inj: "itoa i = itoa j \<Longrightarrow> i = j"
proof -
  have hd: "0 \<le> k \<Longrightarrow> dec_str k \<noteq> CHR ''-'' # l" for k l
    using dec_str_hd_digit not_digit_sign by metis
  have inj: "0 \<le> k \<Longrightarrow> 0 \<le> l \<Longrightarrow> dec_str k = dec_str l \<Longrightarrow> k = l" for k l
    using digits_val_dec_str by metis
  show "itoa i = itoa j \<Longrightarrow> i = j"
    using hd[of i] hd[of j] hd[of j, symmetric] inj[of "-i" "-j"] inj[of i j]
    by (auto simp: itoa_def split: if_splits)
qed

text \<open>\<open>Atoi\<close> reads back what \<open>Itoa\<close> prints.\<close>

lemma atoi_dec_str: "0 \<le> i \<Longrightarrow> i \<le> max_int64 \<Longrightarrow> atoi (dec_str i) = (i, None)"
proof -
  assume r: "0 \<le> i" "i \<le> max_int64"
  obtain c s where n: "dec_str i = c # s"
    by (meson list.exhaust dec_str_not_Nil)
  then have "is_digit c" using r by (intro dec_str_hd_digit)
  then have "c \<noteq> CHR ''-''" "c \<noteq> CHR ''+''" using not_digit_sign by auto
  moreover have "digits_val 0 (c # s) = i" "list_all is_digit (c # s)"
    using digits_val_dec_str[of i] dec_str_digits[of i] r by (simp_all only: n)
  ultimately show ?thesis using r
    by (auto simp: atoi_def n Let_def min_int64_def)
qed

lemma atoi_itoa: "min_int64 \<le> i \<Longrightarrow> i \<le> max_int64 \<Longrightarrow> atoi (itoa i) = (i, None)"
proof (cases "i < 0")
  case True
  moreover assume "min_int64 \<le> i" "i \<le> max_int64"
  ultimately show ?thesis
    using dec_str_digits[of "- i"] by (simp add: atoi_def itoa_def Let_def max_int64_def)
next
  case False
  moreover assume "i \<le> max_int64"
  ultimately show ?thesis by (simp add: itoa_nonneg atoi_dec_str)
qed

lemma atoi_bounds: "atoi s = (v, e) \<Longrightarrow> min_int64 \<le> v \<and> v \<le> max_int64"
  by (auto simp: atoi_def Let_def min_int64_def max_int64_def split: if_splits list.splits)

text \<open>
  Trimming does nothing to a string that starts and ends with a graphic ASCII character, which
  is what every rendered number, port or rate is.
\<close>

definition graphic :: "char \<Rightarrow> bool" where
  "graphic c = (33 \<le> (of_char c :: int) \<and> (of_char c :: int) \<le> 126)"

lemma strip_any_id:
  "(\<forall>p\<in>set ps. p \<noteq> [] \<longrightarrow> hd p \<noteq> c) \<Longrightarrow> strip_any ps (c # s) = c # s"
proof -
  assume a: "\<forall>p\<in>set ps. p \<noteq> [] \<longrightarrow> hd p \<noteq> c"
  have "find (\<lambda>p. p \<noteq> [] \<and> has_prefix (c # s) p) ps = None"
    using a by (auto simp: find_None_iff neq_Nil_conv)
  then show ?thesis by simp
qed

lemma hd_go_spaces:
  "list_all (\<lambda>p. p \<noteq> [] \<longrightarrow> \<not> graphic (hd p)) go_spaces"
  "list_all (\<lambda>p. p \<noteq> [] \<longrightarrow> \<not> graphic (hd p)) (map rev go_spaces)"
  by (simp_all add: go_spaces_def graphic_def)

lemma strip_spaces_id:
  "graphic c \<Longrightarrow> strip_any go_spaces (c # s) = c # s"
  "graphic c \<Longrightarrow> strip_any (map rev go_spaces) (c # s) = c # s"
  by (rule strip_any_id, use hd_go_spaces in \<open>force simp: list_all_iff\<close>)+

lemma trim_space_id: "s \<noteq> [] \<Longrightarrow> graphic (hd s) \<Longrightarrow> graphic (last s) \<Longrightarrow> trim_space s = s"
proof -
  assume a: "s \<noteq> []" "graphic (hd s)" "graphic (last s)"
  have 1: "strip_any go_spaces s = s"
    using a strip_spaces_id(1)[of "hd s" "tl s"] by simp
  have "strip_any (map rev go_spaces) (rev s) = rev s"
    using a strip_spaces_id(2)[of "last s" "rev (butlast s)"]
    by (metis append_butlast_last_id rev.simps(2) rev_rev_ident)
  then show ?thesis by (simp add: trim_space_def 1)
qed

lemma trim_space_Nil [simp]: "trim_space [] = []"
  by (simp add: trim_space_def)

lemma graphic_digit: "is_digit c \<Longrightarrow> graphic c"
  by (auto simp: is_digit_def graphic_def)

lemma graphic_dec_str: "0 \<le> n \<Longrightarrow> graphic (hd (dec_str n))" "0 \<le> n \<Longrightarrow> graphic (last (dec_str n))"
  using dec_str_digits[of n] dec_str_not_Nil[of n]
  by (auto simp: list_all_iff intro!: graphic_digit)

lemma trim_space_dec_str [simp]: "0 \<le> n \<Longrightarrow> trim_space (dec_str n) = dec_str n"
  by (simp add: trim_space_id graphic_dec_str)

lemma char_not_in_dec_str: "0 \<le> n \<Longrightarrow> \<not> is_digit c \<Longrightarrow> c \<notin> set (dec_str n)"
  using dec_str_digits[of n] by (auto simp: list_all_iff)

lemma str_index_char: "c \<notin> set a \<Longrightarrow> str_index (a @ c # b) [c] = Some (length a)"
  by (induction a) auto

lemma str_index_char_None: "c \<notin> set a \<Longrightarrow> str_index a [c] = None"
  by (induction a) auto

lemma str_cut_char: "c \<notin> set a \<Longrightarrow> str_cut (a @ c # b) [c] = (a, b, True)"
  by (simp add: str_cut_def str_index_char)

lemma str_cut_char_None: "c \<notin> set a \<Longrightarrow> str_cut a [c] = (a, [], False)"
  by (simp add: str_cut_def str_index_char_None)

end
