(* ===== verification/GoValues.thy ===== *)
theory GoValues
  imports GoStrings
begin

text \<open>
  Dynamically typed Go values (\<open>any\<close>): what the YAML and JSON decoders produce and what the
  translator writes into its output maps.  One constructor per dynamic type the code tests for
  in a type switch or assertion; every other type is \<open>VOther\<close>.  A \<open>float64\<close> is represented by
  the three observations the code can make of it: its conversion to \<open>int\<close>, its text under
  \<open>FormatFloat(f, 'f', -1, 64)\<close> and its text under the verb \<open>%v\<close>.  \<open>VOther\<close> carries its
  \<open>%v\<close> text, the only thing the code can observe of it.
\<close>

datatype gval =
    VNil
  | VStr string
  | VInt int
  | VInt64 int
  | VUint32 "32 word"
  | VFloat int string string
  | VBool bool
  | VStrs "string list"
  | VInts "int list"
  | VList "gval list"
  | VMap "(string \<times> gval) list"
  | VStrMap "(string \<times> string) list"
  | VMaps "(string \<times> gval) list list"
  | VStrMaps "(string \<times> string) list list"
  | VOther string

type_synonym gmap = "gval gomap"

section \<open>Type assertions\<close>

text \<open>\<open>s, _ := m[k].(string)\<close>: the empty string when absent or of another type.\<close>

fun as_str :: "gval option \<Rightarrow> string" where
  "as_str (Some (VStr s)) = s"
| "as_str _ = []"

definition mstr :: "gmap \<Rightarrow> string \<Rightarrow> string" where
  "mstr m k = as_str (map_of m k)"

fun as_strs :: "gval option \<Rightarrow> string list" where
  "as_strs (Some (VStrs ss)) = ss"
| "as_strs _ = []"

definition mstrs :: "gmap \<Rightarrow> string \<Rightarrow> string list" where
  "mstrs m k = as_strs (map_of m k)"

fun as_maps :: "gval option \<Rightarrow> gmap list" where
  "as_maps (Some (VMaps ms)) = ms"
| "as_maps _ = []"

definition mmaps :: "gmap \<Rightarrow> string \<Rightarrow> gmap list" where
  "mmaps m k = as_maps (map_of m k)"

text \<open>\<open>sub, ok := m[k].(map[string]any)\<close>.\<close>

fun as_map :: "gval option \<Rightarrow> gmap option" where
  "as_map (Some (VMap m)) = Some m"
| "as_map _ = None"

text \<open>The string elements of an \<open>[]any\<close>.\<close>

definition str_items :: "gval list \<Rightarrow> string list" where
  "str_items vs = concat (map (\<lambda>v. case v of VStr s \<Rightarrow> [s] | _ \<Rightarrow> []) vs)"

section \<open>Conditional assignments\<close>

text \<open>
  The idioms by which the translators build an output map: assign a string when it is not
  empty, a number when it is positive, \<open>true\<close> when a flag is set, a map or slice when it is
  not nil.
\<close>

definition put_str :: "string \<Rightarrow> string \<Rightarrow> gmap \<Rightarrow> gmap" where
  "put_str k s m = (if s \<noteq> [] then mput k (VStr s) m else m)"

definition put_pos :: "string \<Rightarrow> int \<Rightarrow> gmap \<Rightarrow> gmap" where
  "put_pos k n m = (if 0 < n then mput k (VInt n) m else m)"

definition put_true :: "string \<Rightarrow> bool \<Rightarrow> gmap \<Rightarrow> gmap" where
  "put_true k b m = (if b then mput k (VBool True) m else m)"

definition put_map :: "string \<Rightarrow> gmap option \<Rightarrow> gmap \<Rightarrow> gmap" where
  "put_map k mo m = (case mo of Some x \<Rightarrow> mput k (VMap x) m | None \<Rightarrow> m)"

definition put_strs :: "string \<Rightarrow> string list option \<Rightarrow> gmap \<Rightarrow> gmap" where
  "put_strs k so m = (case so of Some x \<Rightarrow> mput k (VStrs x) m | None \<Rightarrow> m)"

lemma map_of_put_str [simp, map_simps]:
  "map_of (put_str k s m) k' = (if k' = k \<and> s \<noteq> [] then Some (VStr s) else map_of m k')"
  by (simp add: put_str_def)

lemma map_of_put_pos [simp, map_simps]:
  "map_of (put_pos k n m) k' = (if k' = k \<and> 0 < n then Some (VInt n) else map_of m k')"
  by (simp add: put_pos_def)

lemma map_of_put_true [simp, map_simps]:
  "map_of (put_true k b m) k' = (if k' = k \<and> b then Some (VBool True) else map_of m k')"
  by (simp add: put_true_def)

lemma map_of_put_map [simp, map_simps]:
  "map_of (put_map k mo m) k' =
     (if k' = k \<and> mo \<noteq> None then Some (VMap (the mo)) else map_of m k')"
  by (simp add: put_map_def split: option.splits)

lemma map_of_put_strs [simp, map_simps]:
  "map_of (put_strs k so m) k' =
     (if k' = k \<and> so \<noteq> None then Some (VStrs (the so)) else map_of m k')"
  by (simp add: put_strs_def split: option.splits)

lemma wf_map_puts [simp, intro]:
  assumes "wf_map m"
  shows "wf_map (put_str k s m)" "wf_map (put_pos k n m)" "wf_map (put_true k b m)"
    "wf_map (put_map k mo m)" "wf_map (put_strs k so m)"
  using assms by (auto simp: put_str_def put_pos_def put_true_def put_map_def put_strs_def
      split: option.splits)

section \<open>Formatting with \<open>%v\<close>\<close>

text \<open>
  \<open>fmt.Sprintf("%v", x)\<close>: slices are bracketed and space separated, maps are printed in the
  order of their keys.
\<close>

definition fmt_list :: "string list \<Rightarrow> string" where
  "fmt_list ss = ''['' @ str_join '' '' ss @ '']''"

definition fmt_map :: "(string \<times> string) list \<Rightarrow> string" where
  "fmt_map m = ''map['' @ str_join '' '' (map (\<lambda>(k, s). k @ '':'' @ s) (sort_key fst m)) @ '']''"

definition fmt_bool :: "bool \<Rightarrow> string" where
  "fmt_bool b = (if b then ''true'' else ''false'')"

primrec fmt_v :: "gval \<Rightarrow> string" where
  "fmt_v VNil = ''<nil>''"
| "fmt_v (VStr s) = s"
| "fmt_v (VInt i) = itoa i"
| "fmt_v (VInt64 i) = itoa i"
| "fmt_v (VUint32 w) = itoa (uint w)"
| "fmt_v (VFloat _ _ v) = v"
| "fmt_v (VBool b) = fmt_bool b"
| "fmt_v (VStrs ss) = fmt_list ss"
| "fmt_v (VInts is) = fmt_list (map itoa is)"
| "fmt_v (VList vs) = fmt_list (map fmt_v vs)"
| "fmt_v (VMap m) = fmt_map (map (map_prod id fmt_v) m)"
| "fmt_v (VStrMap m) = fmt_map m"
| "fmt_v (VMaps ms) = fmt_list (map fmt_map (map (map (map_prod id fmt_v)) ms))"
| "fmt_v (VStrMaps ms) = fmt_list (map fmt_map ms)"
| "fmt_v (VOther s) = s"

text \<open>Lookup facts about the assertions, by the shape of the entry.\<close>

lemma as_str_simps [simp]: "as_str None = []" "as_str (Some (VInt i)) = []" "as_str (Some (VBool b)) = []"
  "as_str (Some (VMap m)) = []" "as_str (Some (VStrs x)) = []"
  by simp_all

lemma mstr_mput [simp]: "mstr (mput k v m) k' = (if k' = k then as_str (Some v) else mstr m k')"
  by (simp add: mstr_def)

lemma mstrs_mput [simp]: "mstrs (mput k v m) k' = (if k' = k then as_strs (Some v) else mstrs m k')"
  by (simp add: mstrs_def)

lemma mstr_Nil [simp]: "mstr [] k = []"
  by (simp add: mstr_def)

lemma mstr_Cons [simp]: "mstr ((k', v) # m) k = (if k' = k then as_str (Some v) else mstr m k)"
  by (simp add: mstr_def)

lemma mstrs_Nil [simp]: "mstrs [] k = []"
  by (simp add: mstrs_def)

lemma mstrs_Cons [simp]: "mstrs ((k', v) # m) k = (if k' = k then as_strs (Some v) else mstrs m k)"
  by (simp add: mstrs_def)

lemma mstr_not_Nil_D: "mstr m k \<noteq> [] \<Longrightarrow> map_of m k = Some (VStr (mstr m k))"
  by (cases "map_of m k" rule: as_str.cases) (auto simp: mstr_def)

end
