(* ===== verification/ProxyCommon.thy ===== *)
theory ProxyCommon
  imports GoValues
begin

text \<open>
  \<open>translator/proxy/common.go\<close>: the accessors for loosely typed YAML maps, the fields every
  outbound shares, and the three value converters (durations, bandwidths, port lists).  A
  translator that may warn returns its result with the warnings it emitted, in order.
\<close>

type_synonym 'a warned = "'a \<times> string list"

section \<open>Accessors\<close>

definition GetStr :: "gmap \<Rightarrow> string \<Rightarrow> string" where
  "GetStr m key = (case map_of m key of
     None \<Rightarrow> []
   | Some v \<Rightarrow> (case v of
        VStr s \<Rightarrow> s
      | VInt i \<Rightarrow> itoa i
      | VInt64 i \<Rightarrow> itoa i
      | VFloat _ plain _ \<Rightarrow> plain
      | VBool b \<Rightarrow> fmt_bool b
      | _ \<Rightarrow> []))"

definition GetInt :: "gmap \<Rightarrow> string \<Rightarrow> int" where
  "GetInt m key = (case map_of m key of
     None \<Rightarrow> 0
   | Some v \<Rightarrow> (case v of
        VInt n \<Rightarrow> n
      | VInt64 n \<Rightarrow> n
      | VFloat n _ _ \<Rightarrow> n
      | VStr s \<Rightarrow> (case atoi s of (i, None) \<Rightarrow> i | (_, Some _) \<Rightarrow> 0)
      | _ \<Rightarrow> 0))"

definition GetBool :: "gmap \<Rightarrow> string \<Rightarrow> bool" where
  "GetBool m key = (case map_of m key of Some (VBool b) \<Rightarrow> b | _ \<Rightarrow> False)"

definition GetMap :: "gmap \<Rightarrow> string \<Rightarrow> gmap option" where
  "GetMap m key = (case map_of m key of Some (VMap sub) \<Rightarrow> Some sub | _ \<Rightarrow> None)"

definition GetStrSlice :: "gmap \<Rightarrow> string \<Rightarrow> string list option" where
  "GetStrSlice m key = (case map_of m key of
     Some (VStrs ss) \<Rightarrow> Some ss
   | Some (VList vs) \<Rightarrow> Some (str_items vs)
   | _ \<Rightarrow> None)"

section \<open>Common outbound fields\<close>

definition ApplyCommonFields :: "gmap \<Rightarrow> gmap \<Rightarrow> gmap" where
  "ApplyCommonFields src dst =
    (let dst = mput ''tag'' (VStr (GetStr src ''name'')) dst;
         dst = mput ''server'' (VStr (GetStr src ''server'')) dst;
         port = GetInt src ''port'';
         dst = (if port \<noteq> 0 then mput ''server_port'' (VInt port) dst else dst);
         dst = put_str ''bind_interface'' (GetStr src ''interface-name'') dst;
         dst = put_pos ''routing_mark'' (GetInt src ''routing-mark'') dst;
         dst = put_true ''tcp_fast_open'' (GetBool src ''tfo'') dst;
         dst = put_true ''tcp_multi_path'' (GetBool src ''mptcp'') dst
     in put_str ''detour'' (GetStr src ''dialer-proxy'') dst)"

section \<open>Durations\<close>

definition SecondsToDuration :: "int \<Rightarrow> string" where
  "SecondsToDuration seconds =
    (if seconds \<le> 0 then ''0s''
     else let h = seconds div 3600; m = (seconds mod 3600) div 60; s = seconds mod 60
          in (if h > 0 then itoa h @ ''h'' else []) @
             (if m > 0 then itoa m @ ''m'' else []) @
             (if s > 0 then itoa s @ ''s'' else []))"

section \<open>Bandwidths\<close>

text \<open>\<open>\s\<close> of the regular expression: tab, newline, form feed, carriage return, space.\<close>

definition re_space :: "char \<Rightarrow> bool" where
  "re_space c = (c \<in> set [CHR 9, CHR 10, CHR 12, CHR 13, CHR 32])"

definition is_rate_prefix :: "char \<Rightarrow> bool" where
  "is_rate_prefix c = (c \<in> set ''KMGTkmgt'')"

text \<open>The submatches of \<open>bandwidthPattern\<close>: digits, prefix (possibly empty), unit letter.\<close>

definition bandwidthPattern :: "string \<Rightarrow> (string \<times> string \<times> char) option" where
  "bandwidthPattern s =
    (let ds = takeWhile is_digit s;
         rest = dropWhile re_space (dropWhile is_digit s);
         (pre, tl) = (case rest of c # cs \<Rightarrow> if is_rate_prefix c then ([c], cs) else ([], rest)
                                 | [] \<Rightarrow> ([], []))
     in if ds = [] then None
        else (case tl of
                u # cs \<Rightarrow> if (u = CHR ''b'' \<or> u = CHR ''B'') \<and> cs = ''ps''
                          then Some (ds, pre, u) else None
              | [] \<Rightarrow> None))"

definition max_int32 :: int where "max_int32 = 2147483647"

text \<open>The prefix switch and the byte factor, on 64-bit words as in the source; then the rounding.\<close>

definition rate_bits :: "string \<Rightarrow> char \<Rightarrow> 64 word \<Rightarrow> 64 word" where
  "rate_bits pre unit value =
    (let p = to_upper pre;
         bits = (if p = ''T'' then value * 1000000000000
                 else if p = ''G'' then value * 1000000000
                 else if p = ''M'' then value * 1000000
                 else if p = ''K'' then value * 1000
                 else value)
     in if unit = CHR ''B'' then bits * 8 else bits)"

definition bits_mbps :: "64 word \<Rightarrow> int" where
  "bits_mbps bits =
    (let mbps = bits div 1000000
     in if mbps = 0 \<and> bits > 0 then 1
        else if uint mbps > max_int32 then max_int32
        else uint mbps)"

definition ParseBandwidth :: "string \<Rightarrow> int" where
  "ParseBandwidth s0 =
    (let s = trim_space s0 in
     if s = [] then 0
     else case atoi s of
       (mbps, None) \<Rightarrow> mbps
     | (_, Some _) \<Rightarrow>
       (case bandwidthPattern s of
          None \<Rightarrow> 0
        | Some (ds, pre, unit) \<Rightarrow>
          (case parse_uint64 ds of
             None \<Rightarrow> 0
           | Some value \<Rightarrow> bits_mbps (rate_bits pre unit value))))"

section \<open>Port lists\<close>

definition isPortNumber :: "string \<Rightarrow> bool" where
  "isPortNumber s =
    (s \<noteq> [] \<and> (case atoi s of (n, None) \<Rightarrow> 0 < n \<and> n \<le> 65535 | (_, Some _) \<Rightarrow> False))"

text \<open>One comma separated segment: its entry, or nothing when it is skipped.\<close>

definition server_port_segment :: "string \<Rightarrow> string list" where
  "server_port_segment seg0 =
    (let seg = trim_space seg0 in
     if seg = [] then []
     else let (start, end, found) = str_cut seg ''-'';
              start = trim_space start;
              end = (if found then trim_space end else start)
          in if \<not> isPortNumber start \<or> \<not> isPortNumber end then []
             else [start @ '':'' @ end])"

definition ParseServerPorts :: "string \<Rightarrow> string list" where
  "ParseServerPorts ports = concat (map server_port_segment (str_split CHR '','' ports))"

section \<open>Multiplex and TLS shared by several protocols\<close>

definition smux_brutal :: "gmap \<Rightarrow> gmap" where
  "smux_brutal brutalOpts =
    (let b = put_true ''enabled'' (GetBool brutalOpts ''enabled'') [];
         up = GetStr brutalOpts ''up'';
         b = (if up \<noteq> [] then put_pos ''up_mbps'' (ParseBandwidth up) b else b);
         down = GetStr brutalOpts ''down''
     in if down \<noteq> [] then put_pos ''down_mbps'' (ParseBandwidth down) b else b)"

definition smux_multiplex :: "gmap \<Rightarrow> gmap" where
  "smux_multiplex smux =
    (let x = [(''enabled'', VBool True)];
         x = put_str ''protocol'' (GetStr smux ''protocol'') x;
         x = put_pos ''max_connections'' (GetInt smux ''max-connections'') x;
         x = put_pos ''min_streams'' (GetInt smux ''min-streams'') x;
         x = put_pos ''max_streams'' (GetInt smux ''max-streams'') x;
         x = put_true ''padding'' (GetBool smux ''padding'') x
     in case GetMap smux ''brutal-opts'' of
          None \<Rightarrow> x
        | Some brutalOpts \<Rightarrow>
            let b = smux_brutal brutalOpts
            in if b \<noteq> [] then mput ''brutal'' (VMap b) x else x)"

definition applyMultiplex :: "gmap \<Rightarrow> gmap \<Rightarrow> gmap" where
  "applyMultiplex m outbound =
    (case GetMap m ''smux'' of
       None \<Rightarrow> outbound
     | Some smux \<Rightarrow>
         if \<not> GetBool smux ''enabled'' then outbound
         else mput ''multiplex'' (VMap (smux_multiplex smux)) outbound)"

definition BuildAlwaysOnTLS :: "gmap \<Rightarrow> gmap" where
  "BuildAlwaysOnTLS m =
    (let tls = [(''enabled'', VBool True)];
         tls = put_str ''server_name'' (GetStr m ''sni'') tls;
         tls = put_true ''insecure'' (GetBool m ''skip-cert-verify'') tls
     in put_strs ''alpn'' (GetStrSlice m ''alpn'') tls)"

section \<open>Lemmas: shared fields\<close>

lemma ApplyCommonFields_tag [simp, map_simps]:
  "map_of (ApplyCommonFields src dst) ''tag'' = Some (VStr (GetStr src ''name''))"
  by (simp add: ApplyCommonFields_def Let_def)

lemma ApplyCommonFields_server [simp, map_simps]:
  "map_of (ApplyCommonFields src dst) ''server'' = Some (VStr (GetStr src ''server''))"
  by (simp add: ApplyCommonFields_def Let_def)

definition common_keys :: "string set" where
  "common_keys = {''tag'', ''server'', ''server_port'', ''bind_interface'', ''routing_mark'',
     ''tcp_fast_open'', ''tcp_multi_path'', ''detour''}"

lemma ApplyCommonFields_frame [simp, map_simps]:
  "k \<notin> common_keys \<Longrightarrow> map_of (ApplyCommonFields src dst) k = map_of dst k"
  by (simp add: ApplyCommonFields_def Let_def common_keys_def)

lemma common_keys_simps [simp]:
  "''type'' \<notin> common_keys" "''outbounds'' \<notin> common_keys" "''tls'' \<notin> common_keys"
  "''detour'' \<in> common_keys" "''transport'' \<notin> common_keys" "''username'' \<notin> common_keys"
  by (simp_all add: common_keys_def)

lemma ApplyCommonFields_detour:
  "map_of dst ''detour'' = None \<Longrightarrow>
   map_of (ApplyCommonFields src dst) ''detour'' =
     (if GetStr src ''dialer-proxy'' = [] then None else Some (VStr (GetStr src ''dialer-proxy'')))"
  by (simp add: ApplyCommonFields_def Let_def)

lemma applyMultiplex_frame [simp, map_simps]:
  "k \<noteq> ''multiplex'' \<Longrightarrow> map_of (applyMultiplex m ob) k = map_of ob k"
  by (simp add: applyMultiplex_def split: option.splits)

lemma wf_map_ApplyCommonFields [simp, intro]: "wf_map dst \<Longrightarrow> wf_map (ApplyCommonFields src dst)"
  by (simp add: ApplyCommonFields_def Let_def)

lemma wf_map_applyMultiplex [simp, intro]: "wf_map ob \<Longrightarrow> wf_map (applyMultiplex m ob)"
  by (simp add: applyMultiplex_def split: option.splits)

lemma BuildAlwaysOnTLS_enabled [simp]:
  "map_of (BuildAlwaysOnTLS m) ''enabled'' = Some (VBool True)"
  by (simp add: BuildAlwaysOnTLS_def Let_def)

lemma BuildAlwaysOnTLS_alpn [simp]:
  "map_of (BuildAlwaysOnTLS m) ''alpn'' = map_option VStrs (GetStrSlice m ''alpn'')"
  by (auto simp: BuildAlwaysOnTLS_def Let_def)

section \<open>Lemmas: durations\<close>

text \<open>
  The value of a duration string in seconds: a non-empty sequence of a number and one of the
  units h, m, s, as \<open>time.ParseDuration\<close> reads it.
\<close>

definition unit_seconds :: "char \<Rightarrow> int option" where
  "unit_seconds c = (if c = CHR ''h'' then Some 3600 else if c = CHR ''m'' then Some 60
                     else if c = CHR ''s'' then Some 1 else None)"

fun duration_parts :: "int option \<Rightarrow> string \<Rightarrow> int option" where
  "duration_parts None [] = Some 0"
| "duration_parts (Some _) [] = None"
| "duration_parts cur (c # s) =
     (if is_digit c
      then duration_parts (Some ((case cur of None \<Rightarrow> 0 | Some n \<Rightarrow> n) * 10 + digit_val c)) s
      else (case (cur, unit_seconds c) of
              (Some n, Some u) \<Rightarrow> map_option (\<lambda>t. n * u + t) (duration_parts None s)
            | _ \<Rightarrow> None))"

definition duration_seconds :: "string \<Rightarrow> int option" where
  "duration_seconds s = (if s = [] then None else duration_parts None s)"

lemma duration_parts_digits:
  "list_all is_digit ds \<Longrightarrow> duration_parts (Some a) (ds @ r) = duration_parts (Some (digits_val a ds)) r"
  by (induction ds arbitrary: a) auto

lemma duration_parts_dec_str:
  "0 \<le> n \<Longrightarrow> duration_parts None (dec_str n @ r) = duration_parts (Some n) r"
proof -
  assume nn: "0 \<le> n"
  obtain d ds where n: "dec_str n = d # ds"
    by (meson list.exhaust dec_str_not_Nil)
  have "list_all is_digit (d # ds)" using dec_str_digits[OF nn] by (simp add: n)
  moreover have "digits_val 0 (d # ds) = n" using digits_val_dec_str[OF nn] by (simp add: n)
  ultimately show ?thesis by (simp add: n duration_parts_digits)
qed

lemma not_digit_units: "\<not> is_digit (CHR ''h'')" "\<not> is_digit (CHR ''m'')" "\<not> is_digit (CHR ''s'')"
  by (simp_all add: is_digit_def)

lemma duration_parts_unit:
  "unit_seconds c = Some u \<Longrightarrow> \<not> is_digit c \<Longrightarrow> 0 \<le> n \<Longrightarrow>
   duration_parts None (dec_str n @ c # r) = map_option (\<lambda>t. n * u + t) (duration_parts None r)"
  by (simp add: duration_parts_dec_str)

lemma duration_parts_units:
  "0 \<le> n \<Longrightarrow> duration_parts None (dec_str n @ CHR ''h'' # r) = map_option (\<lambda>t. n * 3600 + t) (duration_parts None r)"
  "0 \<le> n \<Longrightarrow> duration_parts None (dec_str n @ CHR ''m'' # r) = map_option (\<lambda>t. n * 60 + t) (duration_parts None r)"
  "0 \<le> n \<Longrightarrow> duration_parts None (dec_str n @ CHR ''s'' # r) = map_option (\<lambda>t. n + t) (duration_parts None r)"
  by (simp_all add: duration_parts_unit unit_seconds_def not_digit_units)

lemma SecondsToDuration_value:
  "duration_seconds (SecondsToDuration n) = Some (max 0 n)"
proof (cases "n \<le> 0")
  case True
  then show ?thesis
    by (simp add: SecondsToDuration_def duration_seconds_def is_digit_def digit_val_def unit_seconds_def)
next
  case False
  define h where "h = n div 3600"
  define m where "m = (n mod 3600) div 60"
  define s where "s = n mod 60"
  have nn: "0 \<le> h" "0 \<le> m" "0 \<le> s" using False by (simp_all add: h_def m_def s_def)
  have "s = (n mod 3600) mod 60" by (simp add: s_def mod_mod_cancel)
  then have "m * 60 + s = n mod 3600" by (simp add: m_def)
  then have sum: "h * 3600 + (m * 60 + s) = n" by (simp add: h_def)
  have eq: "SecondsToDuration n = (if h > 0 then itoa h @ ''h'' else []) @
      (if m > 0 then itoa m @ ''m'' else []) @ (if s > 0 then itoa s @ ''s'' else [])"
    using False by (simp add: SecondsToDuration_def h_def m_def s_def Let_def)
  have "duration_parts None (SecondsToDuration n) = Some (h * 3600 + (m * 60 + s))"
    unfolding eq using nn by (auto simp: itoa_nonneg duration_parts_units)
  moreover have "SecondsToDuration n \<noteq> []"
    using sum nn False unfolding eq by auto
  ultimately show ?thesis using False by (simp add: duration_seconds_def sum)
qed

section \<open>Lemmas: bandwidths\<close>

definition rate_scale :: "string \<Rightarrow> int" where
  "rate_scale pre = (if pre = ''T'' \<or> pre = ''t'' then 1000000000000
     else if pre = ''G'' \<or> pre = ''g'' then 1000000000
     else if pre = ''M'' \<or> pre = ''m'' then 1000000
     else if pre = ''K'' \<or> pre = ''k'' then 1000 else 1)"

definition unit_bits :: "char \<Rightarrow> int" where
  "unit_bits u = (if u = CHR ''B'' then 8 else 1)"

text \<open>The intended value of a rate given in bits per second: Mbps, a positive rate rounded up to at
  least 1, capped at the largest 32-bit value.\<close>

definition mbps_of_bits :: "int \<Rightarrow> int" where
  "mbps_of_bits b = (if b = 0 then 0 else if b < 1000000 then 1 else min (b div 1000000) max_int32)"

definition rate_prefixes :: "string list" where
  "rate_prefixes = [[], ''K'', ''M'', ''G'', ''T'', ''k'', ''m'', ''g'', ''t'']"

lemma takeWhile_digits:
  "list_all is_digit ds \<Longrightarrow> r = [] \<or> \<not> is_digit (hd r) \<Longrightarrow>
   takeWhile is_digit (ds @ r) = ds \<and> dropWhile is_digit (ds @ r) = r"
  by (induction ds) (cases r, auto)

lemma dropWhile_spaces:
  "list_all re_space sp \<Longrightarrow> r = [] \<or> \<not> re_space (hd r) \<Longrightarrow> dropWhile re_space (sp @ r) = r"
  by (induction sp) (cases r, auto)

lemma re_space_not_digit: "re_space c \<Longrightarrow> \<not> is_digit c"
  by (auto simp: re_space_def is_digit_def)

lemma bandwidthPattern_match:
  assumes v: "0 \<le> v" and sp: "list_all re_space sp" and pre: "pre \<in> set rate_prefixes" and u: "u \<in> set ''bB''"
  shows "bandwidthPattern (dec_str v @ sp @ pre @ u # ''ps'') = Some (dec_str v, pre, u)"
proof -
  have u': "\<not> is_digit u" "\<not> re_space u" "\<not> is_rate_prefix u" "u = CHR ''b'' \<or> u = CHR ''B''"
    using u by (auto simp: is_digit_def re_space_def is_rate_prefix_def)
  have ps: "\<forall>p \<in> set ''KMGTkmgt''. \<not> is_digit p \<and> \<not> re_space p \<and> is_rate_prefix p"
    by (simp add: is_digit_def re_space_def is_rate_prefix_def)
  have pre': "pre = [] \<or> (\<exists>p. pre = [p] \<and> \<not> is_digit p \<and> \<not> re_space p \<and> is_rate_prefix p)"
    using pre ps by (auto simp: rate_prefixes_def)
  have "\<not> is_digit (hd (sp @ pre @ u # ''ps''))"
    using sp pre' u' by (cases sp) (auto simp: re_space_not_digit)
  then have td: "takeWhile is_digit (dec_str v @ sp @ pre @ u # ''ps'') = dec_str v"
      "dropWhile is_digit (dec_str v @ sp @ pre @ u # ''ps'') = sp @ pre @ u # ''ps''"
    using takeWhile_digits[OF dec_str_digits[OF v]] by auto
  have "dropWhile re_space (sp @ pre @ u # ''ps'') = pre @ u # ''ps''"
    using sp pre' u' by (intro dropWhile_spaces) auto
  note dr = this
  show ?thesis
    unfolding bandwidthPattern_def td dr Let_def
    using pre' u' by (elim disjE exE conjE) simp_all
qed

lemma atoi_not_digits:
  "x \<in> set s \<Longrightarrow> \<not> is_digit x \<Longrightarrow> x \<noteq> CHR ''-'' \<Longrightarrow> x \<noteq> CHR ''+'' \<Longrightarrow> atoi s = (0, Some NumSyntax)"
  by (cases s) (auto simp: atoi_def Let_def list_all_iff)

text \<open>The last step of the conversion, for a bit count that fits 64 bits.\<close>

lemma bits_mbps_value:
  assumes "0 \<le> b" "b < 18446744073709551616"
  shows "bits_mbps (of_int b) = mbps_of_bits b"
proof -
  define bits :: "64 word" where "bits = of_int b"
  have ub: "uint bits = b" using assms by (simp add: bits_def uint_word_of_int take_bit_int_eq_self)
  have ud: "uint (bits div 1000000) = b div 1000000" by (simp add: uint_div ub)
  have z: "bits div 1000000 = 0 \<longleftrightarrow> b div 1000000 = 0"
    using ud by (metis uint_0_iff)
  have p: "bits > 0 \<longleftrightarrow> b > 0" by (simp add: word_less_def ub)
  show ?thesis using assms(1) unfolding bits_mbps_def bits_def [symmetric] Let_def z p ud
    by (auto simp: mbps_of_bits_def max_int32_def min_def div_pos_pos_trivial zdiv_eq_0_iff)
qed

lemma to_upper_rate:
  "\<forall>pre \<in> set rate_prefixes. to_upper pre =
     (if pre = ''t'' then ''T'' else if pre = ''g'' then ''G'' else if pre = ''m'' then ''M''
      else if pre = ''k'' then ''K'' else pre)"
  by code_simp

lemma rate_bits_value:
  assumes "pre \<in> set rate_prefixes"
  shows "rate_bits pre u (of_int v) = of_int (v * rate_scale pre * unit_bits u)"
  unfolding rate_bits_def bspec [OF to_upper_rate assms]
  by (simp add: rate_scale_def unit_bits_def Let_def)

lemma ParseBandwidth_value:
  assumes v: "0 \<le> v" and sp: "list_all re_space sp" and pre: "pre \<in> set rate_prefixes" and u: "u \<in> set ''bB''"
    and small: "v * rate_scale pre * unit_bits u < 18446744073709551616"
  shows "ParseBandwidth (dec_str v @ sp @ pre @ u # ''ps'') = mbps_of_bits (v * rate_scale pre * unit_bits u)"
proof -
  let ?s = "dec_str v @ sp @ pre @ u # ''ps''"
  have trim: "trim_space ?s = ?s"
    using graphic_dec_str[OF v] by (intro trim_space_id) (auto simp: graphic_def)
  have at: "atoi ?s = (0, Some NumSyntax)"
    by (rule atoi_not_digits [of "CHR ''s''"]) (auto simp: is_digit_def)
  have sc: "1 \<le> rate_scale pre" "1 \<le> unit_bits u" by (auto simp: rate_scale_def unit_bits_def)
  have "1 * 1 \<le> rate_scale pre * unit_bits u" using sc by (intro mult_mono) auto
  then have "v * 1 \<le> v * (rate_scale pre * unit_bits u)"
    using v by (intro mult_left_mono) auto
  then have vs: "v < 18446744073709551616" using small by (simp add: mult.assoc)
  have pu: "parse_uint64 (dec_str v) = Some (of_int v)"
    using v vs by (simp add: parse_uint64_def dec_str_digits)
  have nn: "0 \<le> v * rate_scale pre * unit_bits u" using v sc by simp
  have "ParseBandwidth ?s = bits_mbps (rate_bits pre u (of_int v))"
    unfolding ParseBandwidth_def trim Let_def at bandwidthPattern_match[OF v sp pre u] by (simp add: pu)
  also have "\<dots> = mbps_of_bits (v * rate_scale pre * unit_bits u)"
    unfolding rate_bits_value[OF pre] by (rule bits_mbps_value [OF nn small])
  finally show ?thesis .
qed

lemma ParseBandwidth_plain: "0 \<le> v \<Longrightarrow> v \<le> max_int64 \<Longrightarrow> ParseBandwidth (dec_str v) = v"
  by (simp add: ParseBandwidth_def Let_def atoi_dec_str)

lemma mbps_of_bits_pos: "0 < b \<Longrightarrow> 0 < mbps_of_bits b"
  by (auto simp: mbps_of_bits_def max_int32_def min_def)

section \<open>Lemmas: port lists\<close>

text \<open>An entry sing-box accepts: two port numbers separated by a colon.\<close>

definition sing_port_entry :: "string \<Rightarrow> bool" where
  "sing_port_entry e =
    (case str_cut e '':'' of
       (a, b, found) \<Rightarrow>
         found \<and>
         (case (atoi a, atoi b) of
            ((n, None), (k, None)) \<Rightarrow> 1 \<le> n \<and> n \<le> 65535 \<and> 1 \<le> k \<and> k \<le> 65535
          | _ \<Rightarrow> False))"

lemma isPortNumber_no_colon: "isPortNumber s \<Longrightarrow> CHR '':'' \<notin> set s"
  using atoi_not_digits[of "CHR '':''" s] by (auto simp: isPortNumber_def is_digit_def)

lemma isPortNumber_iff:
  "isPortNumber s \<longleftrightarrow> (case atoi s of (n, None) \<Rightarrow> 1 \<le> n \<and> n \<le> 65535 | (_, Some _) \<Rightarrow> False)"
proof (cases "s = []")
  case True
  then show ?thesis by (simp add: isPortNumber_def atoi_def)
next
  case False
  then show ?thesis by (auto simp: isPortNumber_def split: prod.split option.split)
qed

lemma sing_port_entry_iff:
  "sing_port_entry e \<longleftrightarrow> (case str_cut e '':'' of (a, b, found) \<Rightarrow> found \<and> isPortNumber a \<and> isPortNumber b)"
  unfolding sing_port_entry_def isPortNumber_iff by (simp split: prod.split option.split)

lemma server_port_segment_entry: "e \<in> set (server_port_segment seg) \<Longrightarrow> sing_port_entry e"
  by (auto simp: server_port_segment_def sing_port_entry_iff Let_def isPortNumber_no_colon str_cut_char
      split: prod.splits if_splits)

lemma ParseServerPorts_entries: "list_all sing_port_entry (ParseServerPorts s)"
  by (auto simp: ParseServerPorts_def list_all_iff dest: server_port_segment_entry)

text \<open>The two forms of a segment: a single port and a range.\<close>

datatype port_seg = Single int | Range int int

fun seg_valid :: "port_seg \<Rightarrow> bool" where
  "seg_valid (Single a) = (0 < a \<and> a \<le> 65535)"
| "seg_valid (Range a b) = (0 < a \<and> a \<le> 65535 \<and> 0 < b \<and> b \<le> 65535)"

fun mihomo_seg :: "port_seg \<Rightarrow> string" where
  "mihomo_seg (Single a) = dec_str a"
| "mihomo_seg (Range a b) = dec_str a @ CHR ''-'' # dec_str b"

fun sing_seg :: "port_seg \<Rightarrow> string" where
  "sing_seg (Single a) = dec_str a @ CHR '':'' # dec_str a"
| "sing_seg (Range a b) = dec_str a @ CHR '':'' # dec_str b"

lemma isPortNumber_dec_str: "0 < a \<Longrightarrow> a \<le> 65535 \<Longrightarrow> isPortNumber (dec_str a)"
  by (simp add: isPortNumber_def atoi_dec_str max_int64_def)

lemma trim_mihomo_seg: "seg_valid g \<Longrightarrow> trim_space (mihomo_seg g) = mihomo_seg g"
  by (cases g) (auto intro!: trim_space_id simp: graphic_dec_str)

lemma server_port_segment_mihomo: "seg_valid g \<Longrightarrow> server_port_segment (mihomo_seg g) = [sing_seg g]"
  unfolding server_port_segment_def Let_def
  by (cases g) (simp_all add: trim_mihomo_seg trim_mihomo_seg [of "Range _ _", simplified]
      str_cut_char str_cut_char_None char_not_in_dec_str not_digit_sign isPortNumber_dec_str)

lemma mihomo_seg_no_comma: "seg_valid g \<Longrightarrow> CHR '','' \<notin> set (mihomo_seg g)"
  by (cases g) (auto simp: char_not_in_dec_str is_digit_def)

lemma ParseServerPorts_render:
  assumes "gs \<noteq> []" and "list_all seg_valid gs"
  shows "ParseServerPorts (str_join '','' (map mihomo_seg gs)) = map sing_seg gs"
proof -
  have "str_split CHR '','' (str_join '','' (map mihomo_seg gs)) = map mihomo_seg gs"
    using assms by (intro str_split_join) (auto simp: list_all_iff mihomo_seg_no_comma)
  moreover have "map server_port_segment (map mihomo_seg gs) = map (\<lambda>g. [sing_seg g]) gs"
    using assms(2) by (auto simp: list_all_iff server_port_segment_mihomo)
  ultimately show ?thesis
    unfolding ParseServerPorts_def by (simp only: concat_map_singleton)
qed

end
