(* ===== verification/GoBase64.thy ===== *)
theory GoBase64
  imports GoStrings
begin

text \<open>
  What the code uses of \<open>encoding/base64\<close> and \<open>encoding/pem\<close>: the four standard alphabets and
  padding modes, non-strict decoding (line breaks are skipped, trailing bits ignored), padded
  encoding, and the PEM armour with 64 columns.  Encoding and decoding are inverse.
\<close>

section \<open>Alphabets\<close>

definition std_alphabet :: string where
  "std_alphabet = ''ABCDEFGHIJKLMNOPQRSTUVWXYZabcdefghijklmnopqrstuvwxyz0123456789+/''"

definition url_alphabet :: string where
  "url_alphabet = ''ABCDEFGHIJKLMNOPQRSTUVWXYZabcdefghijklmnopqrstuvwxyz0123456789-_''"

record base64_encoding =
  alphabet :: string
  padded :: bool

definition StdEncoding :: base64_encoding where
  "StdEncoding = \<lparr>alphabet = std_alphabet, padded = True\<rparr>"
definition RawStdEncoding :: base64_encoding where
  "RawStdEncoding = \<lparr>alphabet = std_alphabet, padded = False\<rparr>"
definition URLEncoding :: base64_encoding where
  "URLEncoding = \<lparr>alphabet = url_alphabet, padded = True\<rparr>"
definition RawURLEncoding :: base64_encoding where
  "RawURLEncoding = \<lparr>alphabet = url_alphabet, padded = False\<rparr>"

fun index_from :: "int \<Rightarrow> char list \<Rightarrow> char \<Rightarrow> int option" where
  "index_from i [] c = None"
| "index_from i (x # xs) c = (if x = c then Some i else index_from (i + 1) xs c)"

definition sextet :: "base64_encoding \<Rightarrow> char \<Rightarrow> int option" where
  "sextet e c = index_from 0 (alphabet e) c"

section \<open>Decoding\<close>

definition byte1 :: "int \<Rightarrow> int \<Rightarrow> char" where "byte1 a b = char_of (a * 4 + b div 16)"
definition byte2 :: "int \<Rightarrow> int \<Rightarrow> char" where "byte2 b c = char_of (b mod 16 * 16 + c div 4)"
definition byte3 :: "int \<Rightarrow> int \<Rightarrow> char" where "byte3 c d = char_of (c mod 4 * 64 + d)"

fun decode_quanta :: "base64_encoding \<Rightarrow> string \<Rightarrow> string option" where
  "decode_quanta e [] = Some []"
| "decode_quanta e [a] = None"
| "decode_quanta e [a, b] =
     (if padded e then None
      else (case (sextet e a, sextet e b) of (Some x, Some y) \<Rightarrow> Some [byte1 x y] | _ \<Rightarrow> None))"
| "decode_quanta e [a, b, c] =
     (if padded e then None
      else (case (sextet e a, sextet e b, sextet e c) of
              (Some x, Some y, Some z) \<Rightarrow> Some [byte1 x y, byte2 y z] | _ \<Rightarrow> None))"
| "decode_quanta e (a # b # c # d # rest) =
     (case (sextet e a, sextet e b) of
        (Some x, Some y) \<Rightarrow>
          (case sextet e c of
             None \<Rightarrow> if padded e \<and> c = CHR ''='' \<and> d = CHR ''='' \<and> rest = [] then Some [byte1 x y] else None
           | Some z \<Rightarrow>
             (case sextet e d of
                None \<Rightarrow> if padded e \<and> d = CHR ''='' \<and> rest = [] then Some [byte1 x y, byte2 y z] else None
              | Some w \<Rightarrow> map_option (\<lambda>bs. byte1 x y # byte2 y z # byte3 z w # bs) (decode_quanta e rest)))
      | _ \<Rightarrow> None)"

definition base64_decode :: "base64_encoding \<Rightarrow> string \<Rightarrow> string option" where
  "base64_decode e s = decode_quanta e (filter (\<lambda>c. c \<noteq> CHR 10 \<and> c \<noteq> CHR 13) s)"

section \<open>Encoding\<close>

definition letter :: "int \<Rightarrow> char" where
  "letter i = std_alphabet ! nat i"

fun base64_encode :: "string \<Rightarrow> string" where
  "base64_encode [] = []"
| "base64_encode [a] =
     (let a = of_char a in [letter (a div 4), letter (a mod 4 * 16), CHR ''='', CHR ''=''])"
| "base64_encode [a, b] =
     (let a = of_char a; b = of_char b
      in [letter (a div 4), letter (a mod 4 * 16 + b div 16), letter (b mod 16 * 4), CHR ''=''])"
| "base64_encode (a # b # c # rest) =
     (let a = of_char a; b = of_char b; c = of_char c
      in letter (a div 4) # letter (a mod 4 * 16 + b div 16) # letter (b mod 16 * 4 + c div 64) #
         letter (c mod 64) # base64_encode rest)"

section \<open>PEM\<close>

function chunks :: "nat \<Rightarrow> 'a list \<Rightarrow> 'a list list" where
  "chunks n xs = (if n = 0 \<or> xs = [] then [] else take n xs # chunks n (drop n xs))"
  by pat_completeness auto
termination by (relation "measure (\<lambda>(n, xs). length xs)") auto

declare chunks.simps [simp del]

text \<open>\<open>pem.EncodeToMemory\<close> for a block without headers: every line, the last one included, is terminated.\<close>

definition pem_encode :: "string \<Rightarrow> string \<Rightarrow> string" where
  "pem_encode typ bytes =
    (''-----BEGIN '' @ typ @ ''-----'' @ [CHR 10]) @
    concat (map (\<lambda>l. l @ [CHR 10]) (chunks 64 (base64_encode bytes))) @
    (''-----END '' @ typ @ ''-----'' @ [CHR 10])"

section \<open>Round trip\<close>

lemma concat_chunks: "0 < n \<Longrightarrow> concat (chunks n xs) = xs"
proof (induction n xs rule: chunks.induct)
  case (1 n xs)
  then show ?case by (subst chunks.simps) auto
qed

lemma chunks_elem: "c \<in> set (chunks n xs) \<Longrightarrow> c \<noteq> [] \<and> length c \<le> n \<and> set c \<subseteq> set xs"
proof (induction n xs rule: chunks.induct)
  case (1 n xs)
  then show ?case
    by (subst (asm) (2) chunks.simps)
       (auto split: if_splits dest: in_set_takeD in_set_dropD)
qed

lemma index_from_nth: "distinct xs \<Longrightarrow> i < length xs \<Longrightarrow> index_from k xs (xs ! i) = Some (k + int i)"
proof (induction xs arbitrary: i k)
  case (Cons x xs)
  then show ?case by (cases i) auto
qed simp

lemma distinct_std: "distinct std_alphabet"
  by (simp add: std_alphabet_def)

lemma sextet_letter: "0 \<le> i \<Longrightarrow> i < 64 \<Longrightarrow> sextet StdEncoding (letter i) = Some i"
  using index_from_nth[OF distinct_std, of "nat i" 0]
  by (simp add: sextet_def StdEncoding_def letter_def std_alphabet_def del: index_from.simps)

lemma padding_no_sextet: "sextet StdEncoding (CHR ''='') = None"
  by code_simp

lemma letters_plain: "list_all (\<lambda>c. c \<noteq> CHR 10 \<and> c \<noteq> CHR 13 \<and> c \<noteq> CHR ''='') std_alphabet"
  by code_simp

lemma letter_plain: "0 \<le> i \<Longrightarrow> i < 64 \<Longrightarrow> letter i \<noteq> CHR 10 \<and> letter i \<noteq> CHR 13"
proof -
  assume "0 \<le> i" "i < 64"
  then have "nat i < length std_alphabet" by (simp add: std_alphabet_def)
  then have "letter i \<in> set std_alphabet" by (simp add: letter_def)
  then show ?thesis using letters_plain by (auto simp: list_all_iff)
qed

lemma of_char_range: "0 \<le> (of_char c :: int)" "(of_char c :: int) < 256"
proof -
  have "(of_char c :: int) = of_char c mod 256" by simp
  then show "0 \<le> (of_char c :: int)" "(of_char c :: int) < 256"
    using pos_mod_sign [of 256 "of_char c :: int"] pos_mod_bound [of 256 "of_char c :: int"] by linarith+
qed

lemma div_mod_parts: "0 \<le> r \<Longrightarrow> r < (n::int) \<Longrightarrow> (q * n + r) div n = q \<and> (q * n + r) mod n = r"
  by simp

lemma quantum_bits:
  fixes a b c :: int
  assumes "0 \<le> a" "a < 256" "0 \<le> b" "b < 256" "0 \<le> c" "c < 256"
  shows "0 \<le> a div 4 \<and> a div 4 < 64" "0 \<le> a mod 4 * 16 + b div 16 \<and> a mod 4 * 16 + b div 16 < 64"
    "0 \<le> b mod 16 * 4 + c div 64 \<and> b mod 16 * 4 + c div 64 < 64" "0 \<le> c mod 64 \<and> c mod 64 < 64"
    "a div 4 * 4 + (a mod 4 * 16 + b div 16) div 16 = a"
    "(a mod 4 * 16 + b div 16) mod 16 * 16 + (b mod 16 * 4 + c div 64) div 4 = b"
    "(b mod 16 * 4 + c div 64) mod 4 * 64 + c mod 64 = c"
proof -
  have r: "0 \<le> b div 16" "b div 16 < 16" "0 \<le> c div 64" "c div 64 < 4" "0 \<le> a div 4" "a div 4 < 64"
    using assms by linarith+
  have m: "0 \<le> a mod 4" "a mod 4 < 4" "0 \<le> b mod 16" "b mod 16 < 16" "0 \<le> c mod 64" "c mod 64 < 64"
    by simp_all
  show "0 \<le> a div 4 \<and> a div 4 < 64" using r by blast
  show "0 \<le> a mod 4 * 16 + b div 16 \<and> a mod 4 * 16 + b div 16 < 64" using r(1,2) m(1,2) by linarith
  show "0 \<le> b mod 16 * 4 + c div 64 \<and> b mod 16 * 4 + c div 64 < 64" using r(3,4) m(3,4) by linarith
  show "0 \<le> c mod 64 \<and> c mod 64 < 64" using m by blast
  show "a div 4 * 4 + (a mod 4 * 16 + b div 16) div 16 = a"
    unfolding div_mod_parts[OF r(1,2), THEN conjunct1] by (rule div_mult_mod_eq)
  show "(a mod 4 * 16 + b div 16) mod 16 * 16 + (b mod 16 * 4 + c div 64) div 4 = b"
    unfolding div_mod_parts[OF r(1,2), THEN conjunct2] div_mod_parts[OF r(3,4), THEN conjunct1]
    by (rule div_mult_mod_eq)
  show "(b mod 16 * 4 + c div 64) mod 4 * 64 + c mod 64 = c"
    unfolding div_mod_parts[OF r(3,4), THEN conjunct2] by (rule div_mult_mod_eq)
qed

lemmas quantum_ranges =
  quantum_bits(1)[OF of_char_range of_char_range of_char_range, THEN conjunct1]
  quantum_bits(1)[OF of_char_range of_char_range of_char_range, THEN conjunct2]
  quantum_bits(2)[OF of_char_range of_char_range of_char_range, THEN conjunct1]
  quantum_bits(2)[OF of_char_range of_char_range of_char_range, THEN conjunct2]
  quantum_bits(3)[OF of_char_range of_char_range of_char_range, THEN conjunct1]
  quantum_bits(3)[OF of_char_range of_char_range of_char_range, THEN conjunct2]
  quantum_bits(4)[OF of_char_range of_char_range of_char_range, THEN conjunct1]
  quantum_bits(4)[OF of_char_range of_char_range of_char_range, THEN conjunct2]

lemma quantum_sextets:
  "sextet StdEncoding (letter (of_char a div 4)) = Some (of_char a div 4)"
  "sextet StdEncoding (letter (of_char a mod 4 * 16 + of_char b div 16)) = Some (of_char a mod 4 * 16 + of_char b div 16)"
  "sextet StdEncoding (letter (of_char b mod 16 * 4 + of_char c div 64)) = Some (of_char b mod 16 * 4 + of_char c div 64)"
  "sextet StdEncoding (letter (of_char c mod 64)) = Some (of_char c mod 64)"
  by (rule sextet_letter; rule quantum_ranges)+

lemma quantum_bytes:
  "byte1 (of_char a div 4) (of_char a mod 4 * 16 + of_char b div 16) = a"
  "byte2 (of_char a mod 4 * 16 + of_char b div 16) (of_char b mod 16 * 4 + of_char c div 64) = b"
  "byte3 (of_char b mod 16 * 4 + of_char c div 64) (of_char c mod 64) = c"
  unfolding byte1_def byte2_def byte3_def
    quantum_bits(5,6,7)[OF of_char_range[of a] of_char_range[of b] of_char_range[of c]]
  by simp_all

lemma quantum_letters:
  "letter (of_char a div 4) \<noteq> CHR 10 \<and> letter (of_char a div 4) \<noteq> CHR 13"
  "letter (of_char a mod 4 * 16 + of_char b div 16) \<noteq> CHR 10 \<and> letter (of_char a mod 4 * 16 + of_char b div 16) \<noteq> CHR 13"
  "letter (of_char b mod 16 * 4 + of_char c div 64) \<noteq> CHR 10 \<and> letter (of_char b mod 16 * 4 + of_char c div 64) \<noteq> CHR 13"
  "letter (of_char c mod 64) \<noteq> CHR 10 \<and> letter (of_char c mod 64) \<noteq> CHR 13"
  by (rule letter_plain; rule quantum_ranges)+

text \<open>The same facts for the short last quantum, whose missing bytes are zero.\<close>

lemma of_char_zero: "of_char (CHR 0x00) = (0::int)"
  by simp

lemmas tail_sextets = quantum_sextets(2)[of _ "CHR 0x00", unfolded of_char_zero, simplified]
  quantum_sextets(3)[of _ "CHR 0x00", unfolded of_char_zero, simplified]
lemmas tail_bytes = quantum_bytes(1)[of _ "CHR 0x00", unfolded of_char_zero, simplified]
  quantum_bytes(2)[of _ _ "CHR 0x00", unfolded of_char_zero, simplified]
lemmas tail_letters = quantum_letters(2)[of _ "CHR 0x00", unfolded of_char_zero, simplified]
  quantum_letters(3)[of _ "CHR 0x00", unfolded of_char_zero, simplified]

lemma padded_Std: "padded StdEncoding"
  by (simp add: StdEncoding_def)

lemma decode_encode_quanta: "decode_quanta StdEncoding (base64_encode s) = Some s"
proof (induction s rule: base64_encode.induct)
  case (4 a b c rest)
  then show ?case
    by (simp only: base64_encode.simps decode_quanta.simps Let_def quantum_sextets quantum_bytes
        option.case prod.case option.map)
qed (simp_all only: base64_encode.simps decode_quanta.simps Let_def quantum_sextets quantum_bytes tail_sextets
    tail_bytes padding_no_sextet padded_Std option.case prod.case if_True simp_thms)

lemma base64_encode_plain: "list_all (\<lambda>c. c \<noteq> CHR 10 \<and> c \<noteq> CHR 13) (base64_encode s)"
proof (induction s rule: base64_encode.induct)
  case (4 a b c rest)
  then show ?case
    by (simp only: base64_encode.simps Let_def list.pred_inject quantum_letters simp_thms)
qed (simp_all add: Let_def quantum_letters tail_letters del: of_char_mod_256)

lemma base64_roundtrip: "base64_decode StdEncoding (base64_encode s) = Some s"
proof -
  have "filter (\<lambda>c. c \<noteq> CHR 10 \<and> c \<noteq> CHR 13) (base64_encode s) = base64_encode s"
    using base64_encode_plain[of s] by (auto simp: list_all_iff filter_id_conv)
  then show ?thesis by (simp add: base64_decode_def decode_encode_quanta)
qed

end
