(* ===== verification/ProxyTLS.thy ===== *)
theory ProxyTLS
  imports ProxyCommon GoBase64
begin

text \<open>
  \<open>translator/proxy/tls.go\<close>: the \<open>tls\<close> object of an outbound.  \<open>None\<close> stands for the nil map,
  "no TLS".  A nil result of \<open>echConfigToPEMLines\<close> is \<open>None\<close> too.  The lemmas give the condition
  under which TLS is emitted, the fields that survive the later steps, and the reason the ECH
  lines are what the consumer decodes: joined by newlines they are the PEM text of the block.
\<close>

definition echConfigToPEMLines :: "string \<Rightarrow> string list option" where
  "echConfigToPEMLines b64 =
    (case base64_decode StdEncoding (trim_space b64) of
       None \<Rightarrow> None
     | Some raw \<Rightarrow>
         if raw = [] then None
         else Some (str_split CHR 10 (trim_right CHR 10 (pem_encode ''ECH CONFIGS'' raw))))"

definition applyUTLS :: "gmap \<Rightarrow> gmap \<Rightarrow> gmap" where
  "applyUTLS m tls =
    (let fp = GetStr m ''client-fingerprint''
     in if fp = [] then tls
        else mput ''utls'' (VMap [(''enabled'', VBool True), (''fingerprint'', VStr fp)]) tls)"

definition reality_object :: "gmap \<Rightarrow> gmap" where
  "reality_object realityOpts =
    (let r = [(''enabled'', VBool True)];
         r = put_str ''public_key'' (GetStr realityOpts ''public-key'') r
     in put_str ''short_id'' (GetStr realityOpts ''short-id'') r)"

definition fingerprint_warning :: "string \<Rightarrow> string" where
  "fingerprint_warning name = ''proxy '' @ [CHR 34] @ name @ [CHR 34] @
     '': fingerprint (certificate pinning) has no equivalent in sing-box and was ignored; TLS still uses standard chain verification''"

definition ech_warning :: "string \<Rightarrow> string" where
  "ech_warning name = ''proxy '' @ [CHR 34] @ name @ [CHR 34] @
     '': ech-opts.config is not valid base64, ECH disabled''"

definition ech_object :: "string \<Rightarrow> gmap \<Rightarrow> gmap warned" where
  "ech_object name echOpts =
    (let ech = put_true ''enabled'' (GetBool echOpts ''enable'') [];
         cfg = GetStr echOpts ''config'';
         (ech, warns) =
           (if cfg = [] then (ech, [])
            else case echConfigToPEMLines cfg of
                   Some lines \<Rightarrow> (mput ''config'' (VStrs lines) ech, [])
                 | None \<Rightarrow> (ech, [ech_warning name]))
     in (put_str ''query_server_name'' (GetStr echOpts ''query-server-name'') ech, warns))"

definition tls_configured :: "gmap \<Rightarrow> bool" where
  "tls_configured m =
    (\<not> (\<not> GetBool m ''tls'' \<and> GetMap m ''reality-opts'' = None \<and> GetMap m ''ech-opts'' = None \<and>
        GetStr m ''sni'' = [] \<and> GetStr m ''servername'' = [] \<and> \<not> GetBool m ''skip-cert-verify'' \<and>
        GetStrSlice m ''alpn'' = None \<and> GetStr m ''fingerprint'' = [] \<and> GetStr m ''certificate'' = [] \<and>
        GetStr m ''private-key'' = [] \<and> GetStr m ''client-fingerprint'' = []))"

text \<open>The object before the ECH part.\<close>

definition tls_base :: "gmap \<Rightarrow> gmap" where
  "tls_base m =
    (let sni = GetStr m ''sni'';
         cert = GetStr m ''certificate'';
         privateKey = GetStr m ''private-key'';
         tls = [(''enabled'', VBool True)];
         serverName = (if sni = [] then GetStr m ''servername'' else sni);
         tls = put_str ''server_name'' serverName tls;
         tls = put_true ''insecure'' (GetBool m ''skip-cert-verify'') tls;
         tls = put_strs ''alpn'' (GetStrSlice m ''alpn'') tls;
         tls = applyUTLS m tls;
         tls = put_map ''reality'' (map_option reality_object (GetMap m ''reality-opts'')) tls;
         tls = put_strs ''client_certificate'' (if cert \<noteq> [] then Some [cert] else None) tls
     in put_strs ''client_key'' (if privateKey \<noteq> [] then Some [privateKey] else None) tls)"

definition TranslateTLS :: "gmap \<Rightarrow> gmap option warned" where
  "TranslateTLS m =
    (if \<not> tls_configured m then (None, [])
     else
       let name = GetStr m ''name'';
           tls = tls_base m;
           w1 = (if GetStr m ''fingerprint'' \<noteq> [] then [fingerprint_warning name] else [])
       in case GetMap m ''ech-opts'' of
            None \<Rightarrow> (Some tls, w1)
          | Some echOpts \<Rightarrow>
              let (ech, w2) = ech_object name echOpts
              in (Some (if ech \<noteq> [] then mput ''ech'' (VMap ech) tls else tls), w1 @ w2))"

section \<open>Lemmas\<close>

lemma TranslateTLS_None_iff: "fst (TranslateTLS m) = None \<longleftrightarrow> \<not> tls_configured m"
  by (simp add: TranslateTLS_def Let_def split: option.splits prod.splits)

lemma applyUTLS_frame: "k \<noteq> ''utls'' \<Longrightarrow> map_of (applyUTLS m tls) k = map_of tls k"
  by (simp add: applyUTLS_def Let_def)

lemma tls_base_fields:
  "map_of (tls_base m) ''enabled'' = Some (VBool True)"
  "map_of (tls_base m) ''insecure'' = (if GetBool m ''skip-cert-verify'' then Some (VBool True) else None)"
  "map_of (tls_base m) ''certificate_public_key_sha256'' = None"
  by (simp_all add: tls_base_def Let_def applyUTLS_frame)

lemma TranslateTLS_base:
  assumes "TranslateTLS m = (Some tls, ws)" "k \<noteq> ''ech''"
  shows "map_of tls k = map_of (tls_base m) k"
  using assms by (auto simp: TranslateTLS_def Let_def split: option.splits prod.splits if_splits)

text \<open>Pinning is never translated, and never silently dropped.\<close>

lemma TranslateTLS_pinning:
  assumes "TranslateTLS m = (Some tls, ws)" "GetStr m ''fingerprint'' \<noteq> []"
  shows "fingerprint_warning (GetStr m ''name'') \<in> set ws"
  using assms by (auto simp: TranslateTLS_def Let_def split: option.splits prod.splits if_splits)

section \<open>The ECH lines\<close>

lemma chunk_lines_nonempty: "bytes \<noteq> [] \<Longrightarrow> base64_encode bytes \<noteq> []"
  by (cases bytes rule: base64_encode.cases) (simp_all add: Let_def)

lemma trim_right_id: "s \<noteq> [] \<Longrightarrow> last s \<noteq> c \<Longrightarrow> trim_right c s = s"
  by (cases s rule: rev_cases) (simp_all add: trim_right_def)

lemma trim_right_snoc: "trim_right c (s @ [c]) = trim_right c s"
  by (simp add: trim_right_def)

definition pem_lines :: "string \<Rightarrow> string list" where
  "pem_lines bytes = [''-----BEGIN ECH CONFIGS-----''] @ chunks 64 (base64_encode bytes) @ [''-----END ECH CONFIGS-----'']"

lemma str_join_concat:
  "ls \<noteq> [] \<Longrightarrow> concat (map (\<lambda>l. l @ sep) ls) = str_join sep ls @ sep"
  by (induction sep ls rule: str_join.induct) simp_all

lemma pem_encode_lines: "pem_encode ''ECH CONFIGS'' bytes = str_join [CHR 10] (pem_lines bytes) @ [CHR 10]"
  using str_join_concat[of "pem_lines bytes" "[CHR 10]"]
  by (simp add: pem_encode_def pem_lines_def)

text \<open>
  The translated lines are the PEM lines of the decoded bytes, whatever line breaks or stray bits
  the given base64 has, and no line holds a newline.
\<close>

lemma last_str_join: "ls \<noteq> [] \<Longrightarrow> last ls \<noteq> [] \<Longrightarrow> str_join sep ls \<noteq> [] \<and> last (str_join sep ls) = last (last ls)"
proof (induction sep ls rule: str_join.induct)
  case (3 sep s t ss)
  then show ?case by simp
qed simp_all

lemma pem_lines_no_newline: "list_all (\<lambda>l. CHR 10 \<notin> set l) (pem_lines bytes)"
proof -
  have "CHR 10 \<notin> set l" if "l \<in> set (chunks 64 (base64_encode bytes))" for l
    using chunks_elem[OF that] base64_encode_plain[of bytes] by (auto simp: list_all_iff)
  then show ?thesis by (simp add: pem_lines_def list_all_iff)
qed

lemma echConfigToPEMLines_eq:
  assumes "base64_decode StdEncoding (trim_space b64) = Some raw" "raw \<noteq> []"
  shows "echConfigToPEMLines b64 = Some (pem_lines raw)"
proof -
  have l: "last (pem_lines raw) = ''-----END ECH CONFIGS-----''" "pem_lines raw \<noteq> []"
    by (simp_all add: pem_lines_def)
  have "str_join [CHR 10] (pem_lines raw) \<noteq> [] \<and> last (str_join [CHR 10] (pem_lines raw)) = CHR ''-''"
    using last_str_join[of "pem_lines raw" "[CHR 10]"] l by simp
  then have "trim_right CHR 10 (pem_encode ''ECH CONFIGS'' raw) = str_join [CHR 10] (pem_lines raw)"
    by (simp add: pem_encode_lines trim_right_snoc trim_right_id)
  moreover have "str_split CHR 10 (str_join [CHR 10] (pem_lines raw)) = pem_lines raw"
    using pem_lines_no_newline[of raw] l by (intro str_split_join) (auto simp: list_all_iff)
  ultimately show ?thesis
    using assms by (simp add: echConfigToPEMLines_def)
qed

lemma echConfigToPEMLines_cases:
  "echConfigToPEMLines b64 =
     (case base64_decode StdEncoding (trim_space b64) of
        Some raw \<Rightarrow> if raw = [] then None else Some (pem_lines raw)
      | None \<Rightarrow> None)"
  using echConfigToPEMLines_eq by (auto simp: echConfigToPEMLines_def split: option.splits)

end
