(* ===== verification/ProxyTransport.thy ===== *)
theory ProxyTransport
  imports ProxyCommon
begin

text \<open>
  \<open>translator/proxy/transport.go\<close>: the V2Ray transport of an outbound, one function per network.
  A nil options map is \<open>None\<close>.  The lemmas say which transport type each network yields and that
  only the fields the consumer knows are ever written.
\<close>

definition xhttp_warning :: string where
  "xhttp_warning = ''xhttp (SplitHTTP) transport is not supported by sing-box, skipping proxy''"

definition SkipUnsupportedNetwork :: "gmap \<Rightarrow> bool warned" where
  "SkipUnsupportedNetwork m =
    (if GetStr m ''network'' = ''xhttp'' then (True, [xhttp_warning]) else (False, []))"

definition getHeadersMap :: "gmap \<Rightarrow> string \<Rightarrow> gmap option" where
  "getHeadersMap opts key =
    (case map_of opts key of
       Some (VMap h) \<Rightarrow> if h = [] then None else Some h
     | Some (VStrMap h) \<Rightarrow> if h = [] then None else Some (map (map_prod id VStr) h)
     | _ \<Rightarrow> None)"

definition max_uint32 :: int where "max_uint32 = 4294967295"

definition translateWS :: "gmap option \<Rightarrow> gmap" where
  "translateWS wsOpts =
    (let transport = [(''type'', VStr ''ws'')] in
     case wsOpts of
       None \<Rightarrow> transport
     | Some opts \<Rightarrow>
         let transport = put_str ''path'' (GetStr opts ''path'') transport;
             transport = put_map ''headers'' (getHeadersMap opts ''headers'') transport;
             maxEarlyData = GetInt opts ''max-early-data'';
             transport = (if maxEarlyData > 0
                          then mput ''max_early_data'' (VInt (min maxEarlyData max_uint32)) transport
                          else transport)
         in put_str ''early_data_header_name'' (GetStr opts ''early-data-header-name'') transport)"

definition translateHTTPUpgrade :: "gmap option \<Rightarrow> gmap" where
  "translateHTTPUpgrade wsOpts =
    (let transport = [(''type'', VStr ''httpupgrade'')] in
     case wsOpts of
       None \<Rightarrow> transport
     | Some opts \<Rightarrow>
         let transport = put_str ''host'' (GetStr opts ''host'') transport;
             transport = put_str ''path'' (GetStr opts ''path'') transport
         in put_map ''headers'' (getHeadersMap opts ''headers'') transport)"

definition translateHTTP :: "gmap \<Rightarrow> gmap" where
  "translateHTTP m =
    (let transport = [(''type'', VStr ''http'')] in
     case GetMap m ''http-opts'' of
       None \<Rightarrow> transport
     | Some opts \<Rightarrow>
         let transport = put_str ''method'' (GetStr opts ''method'') transport;
             path = GetStr opts ''path'';
             transport =
               (if path \<noteq> [] then mput ''path'' (VStr path) transport
                else case GetStrSlice opts ''path'' of
                       Some (p # _) \<Rightarrow> mput ''path'' (VStr p) transport
                     | _ \<Rightarrow> transport)
         in put_map ''headers'' (getHeadersMap opts ''headers'') transport)"

definition translateH2 :: "gmap \<Rightarrow> gmap" where
  "translateH2 m =
    (let transport = [(''type'', VStr ''http'')] in
     case GetMap m ''h2-opts'' of
       None \<Rightarrow> transport
     | Some opts \<Rightarrow>
         let host = GetStr opts ''host'';
             transport = (if host \<noteq> [] then mput ''host'' (VStrs [host]) transport
                          else put_strs ''host'' (GetStrSlice opts ''host'') transport)
         in put_str ''path'' (GetStr opts ''path'') transport)"

definition translateGRPC :: "gmap \<Rightarrow> gmap" where
  "translateGRPC m =
    (let transport = [(''type'', VStr ''grpc'')] in
     case GetMap m ''grpc-opts'' of
       None \<Rightarrow> transport
     | Some opts \<Rightarrow> put_str ''service_name'' (GetStr opts ''grpc-service-name'') transport)"

definition TranslateTransport :: "gmap \<Rightarrow> gmap option" where
  "TranslateTransport m =
    (let network = GetStr m ''network'' in
     if network = [] \<or> network = ''tcp'' then None
     else
       let wsOpts = GetMap m ''ws-opts'' in
       if network = ''ws'' \<and> (case wsOpts of Some wo \<Rightarrow> GetBool wo ''v2ray-http-upgrade'' | None \<Rightarrow> False)
       then Some (translateHTTPUpgrade wsOpts)
       else if network = ''ws'' then Some (translateWS wsOpts)
       else if network = ''http'' then Some (translateHTTP m)
       else if network = ''h2'' then Some (translateH2 m)
       else if network = ''grpc'' then Some (translateGRPC m)
       else None)"

section \<open>Lemmas\<close>

lemma transport_types:
  "map_of (translateWS o1) ''type'' = Some (VStr ''ws'')"
  "map_of (translateHTTPUpgrade o1) ''type'' = Some (VStr ''httpupgrade'')"
  "map_of (translateHTTP m) ''type'' = Some (VStr ''http'')"
  "map_of (translateH2 m) ''type'' = Some (VStr ''http'')"
  "map_of (translateGRPC m) ''type'' = Some (VStr ''grpc'')"
  by (simp_all add: translateWS_def translateHTTPUpgrade_def translateHTTP_def translateH2_def
      translateGRPC_def Let_def split: option.split list.split)

text \<open>Exactly four networks have a transport; everything else is plain TCP.\<close>

lemma TranslateTransport_network:
  "TranslateTransport m \<noteq> None \<longleftrightarrow> GetStr m ''network'' \<in> set [''ws'', ''http'', ''h2'', ''grpc'']"
  by (auto simp: TranslateTransport_def Let_def)

definition transport_type :: "gmap \<Rightarrow> string" where
  "transport_type m =
    (let n = GetStr m ''network'' in
     if n = ''ws'' then
       (case GetMap m ''ws-opts'' of
          Some wo \<Rightarrow> if GetBool wo ''v2ray-http-upgrade'' then ''httpupgrade'' else ''ws''
        | None \<Rightarrow> ''ws'')
     else if n = ''h2'' then ''http'' else n)"

lemma TranslateTransport_type:
  "TranslateTransport m = Some t \<Longrightarrow> map_of t ''type'' = Some (VStr (transport_type m))"
  by (auto simp: TranslateTransport_def transport_type_def Let_def transport_types
      split: if_splits option.splits)

text \<open>The early data size fits the consumer's 32-bit field.\<close>

lemma max_early_data_bounds:
  "map_of (translateWS o1) ''max_early_data'' = Some v \<Longrightarrow> \<exists>n. v = VInt n \<and> 0 < n \<and> n \<le> max_uint32"
  by (auto simp: translateWS_def Let_def max_uint32_def split: option.splits if_splits)

end
