(* ===== verification/ProxyProtocols.thy ===== *)
theory ProxyProtocols
  imports ProxyTLS ProxyTransport
begin

text \<open>
  The per-protocol files of \<open>translator/proxy\<close>.  A translator maps a proxy entry to its outbound,
  or to \<open>None\<close> (nil) with a warning.  What every one of them promises is the locale
  \<open>outbound_translator\<close>: the type, the common fields, well-formedness, no group members, and no
  silent failure.  It is interpreted on all eleven supported protocols.
\<close>

section \<open>The contract of an outbound\<close>

definition reserved_keys :: "string list" where
  "reserved_keys = [''type'', ''outbounds'', ''default'', ''tag'', ''server'', ''server_port'', ''bind_interface'',
     ''routing_mark'', ''tcp_fast_open'', ''tcp_multi_path'', ''detour'']"

definition outbound_of :: "string \<Rightarrow> gmap \<Rightarrow> gmap \<Rightarrow> bool" where
  "outbound_of ty m out \<longleftrightarrow>
     (\<forall>k\<in>common_keys. map_of out k = map_of (ApplyCommonFields m []) k) \<and>
     map_of out ''type'' = Some (VStr ty) \<and> map_of out ''outbounds'' = None \<and>
     map_of out ''default'' = None \<and> wf_map out"

named_theorems outbound_intros \<open>assignments that keep an outbound well formed\<close>

lemma reserved_simps [simp]:
  "''type'' \<in> set reserved_keys" "''outbounds'' \<in> set reserved_keys" "''default'' \<in> set reserved_keys"
  by (simp_all add: reserved_keys_def)

lemma reserved_common: "common_keys \<subseteq> set reserved_keys"
  unfolding common_keys_def reserved_keys_def by simp

lemma outbound_of_mput [outbound_intros]:
  assumes "outbound_of ty m out" "k \<notin> set reserved_keys"
  shows "outbound_of ty m (mput k v out)"
proof -
  have "k \<noteq> ''type''" "k \<noteq> ''outbounds''" "k \<noteq> ''default''" "\<forall>k'\<in>common_keys. k' \<noteq> k"
    using assms(2) reserved_common by (metis reserved_simps subsetD)+
  then show ?thesis using assms(1) by (simp add: outbound_of_def)
qed

lemma outbound_of_puts [outbound_intros]:
  "outbound_of ty m out \<Longrightarrow> k \<notin> set reserved_keys \<Longrightarrow> outbound_of ty m (put_str k s out)"
  "outbound_of ty m out \<Longrightarrow> k \<notin> set reserved_keys \<Longrightarrow> outbound_of ty m (put_pos k n out)"
  "outbound_of ty m out \<Longrightarrow> k \<notin> set reserved_keys \<Longrightarrow> outbound_of ty m (put_true k b out)"
  "outbound_of ty m out \<Longrightarrow> k \<notin> set reserved_keys \<Longrightarrow> outbound_of ty m (put_map k mo out)"
  "outbound_of ty m out \<Longrightarrow> k \<notin> set reserved_keys \<Longrightarrow> outbound_of ty m (put_strs k so out)"
  by (simp_all add: put_str_def put_pos_def put_true_def put_map_def put_strs_def outbound_of_mput
      split: option.split)

lemma outbound_of_if [outbound_intros]:
  "outbound_of ty m x \<Longrightarrow> outbound_of ty m y \<Longrightarrow> outbound_of ty m (if b then x else y)"
  by simp

lemma outbound_of_multiplex [outbound_intros]:
  "outbound_of ty m out \<Longrightarrow> outbound_of ty m (applyMultiplex m' out)"
  by (auto simp: applyMultiplex_def reserved_keys_def split: option.splits intro: outbound_of_mput)

lemma ApplyCommonFields_base:
  assumes "k \<in> common_keys" "\<forall>k'\<in>common_keys - {''tag''}. map_of dst k' = None"
  shows "map_of (ApplyCommonFields m dst) k = map_of (ApplyCommonFields m []) k"
proof (cases "k = ''tag'' \<or> k = ''server''")
  case False
  then have "map_of dst k = None" using assms by blast
  then show ?thesis using False by (simp add: ApplyCommonFields_def Let_def)
qed auto

lemma more_common_keys [simp]: "''default'' \<notin> common_keys" "''version'' \<notin> common_keys"
  by (simp_all add: common_keys_def)

lemma outbound_of_start:
  assumes "map_of dst ''type'' = Some (VStr ty)" "map_of dst ''outbounds'' = None" "map_of dst ''default'' = None"
    "wf_map dst" "\<forall>k'\<in>common_keys - {''tag''}. map_of dst k' = None"
  shows "outbound_of ty m (ApplyCommonFields m dst)"
  unfolding outbound_of_def
  using ApplyCommonFields_base[OF _ assms(5), of _ m] assms(1-4) by (auto simp: wf_map_ApplyCommonFields)

lemma outbound_of_base [outbound_intros]:
  "outbound_of ty m (ApplyCommonFields m [(''type'', VStr ty), (''tag'', VStr (GetStr m ''name''))])"
  "outbound_of ty m (ApplyCommonFields m
     [(''type'', VStr ty), (''tag'', VStr (GetStr m ''name'')), (''version'', VStr ''5'')])"
  by (rule outbound_of_start; use common_keys_simps(1) more_common_keys(2) in \<open>auto simp: wf_map_def\<close>)+

locale outbound_translator =
  fixes translate :: "gmap \<Rightarrow> gmap option warned" and ty :: string
  assumes translated: "translate m = (Some out, ws) \<Longrightarrow> outbound_of ty m out"
    and not_silent: "translate m = (None, ws) \<Longrightarrow> ws \<noteq> []"
begin

lemma has_tag: "translate m = (Some out, ws) \<Longrightarrow> map_of out ''tag'' = Some (VStr (GetStr m ''name''))"
  using translated[of m out ws] by (simp add: outbound_of_def common_keys_def)

lemma has_type: "translate m = (Some out, ws) \<Longrightarrow> map_of out ''type'' = Some (VStr ty)"
  using translated[of m out ws] by (simp add: outbound_of_def)

lemma has_detour:
  "translate m = (Some out, ws) \<Longrightarrow> GetStr m ''dialer-proxy'' \<noteq> [] \<Longrightarrow>
   map_of out ''detour'' = Some (VStr (GetStr m ''dialer-proxy''))"
  using translated[of m out ws] ApplyCommonFields_detour[of "[]" m]
  by (simp add: outbound_of_def common_keys_def)

lemma no_members: "translate m = (Some out, ws) \<Longrightarrow> map_of out ''outbounds'' = None"
  using translated[of m out ws] by (simp add: outbound_of_def)

lemma drop_warned: "fst (translate m) = None \<Longrightarrow> snd (translate m) \<noteq> []"
  using not_silent[of m "snd (translate m)"] by (cases "translate m") auto

end

section \<open>Warnings\<close>

definition quoted :: "string \<Rightarrow> string" where "quoted s = [CHR 34] @ s @ [CHR 34]"

definition not_supported :: "string \<Rightarrow> string \<Rightarrow> string \<Rightarrow> string" where
  "not_supported proto what v =
    proto @ '': '' @ what @ '' '' @ [CHR 39] @ v @ [CHR 39] @ '' is not supported by sing-box, skipping''"

definition missing :: "string \<Rightarrow> string \<Rightarrow> string" where
  "missing proto what = proto @ '': missing '' @ what @ '', skipping''"

section \<open>VLESS\<close>

definition supportedVLESSFlows :: "string list" where
  "supportedVLESSFlows = ['''', ''xtls-rprx-vision'']"

definition supportedVLESSPacketEncodings :: "string list" where
  "supportedVLESSPacketEncodings = ['''', ''packetaddr'', ''xudp'']"

definition TranslateVLESS :: "gmap \<Rightarrow> gmap option warned" where
  "TranslateVLESS m =
    (let (skip, w0) = SkipUnsupportedNetwork m in
     if skip then (None, w0)
     else
       let outbound = ApplyCommonFields m [(''type'', VStr ''vless''), (''tag'', VStr (GetStr m ''name''))];
           uuid = GetStr m ''uuid'';
           flow = GetStr m ''flow'';
           packetEnc = GetStr m ''packet-encoding''
       in
       if uuid = [] then (None, w0 @ [missing ''vless'' ''uuid''])
       else
         let outbound = mput ''uuid'' (VStr uuid) outbound in
         if flow \<noteq> [] \<and> flow \<notin> set supportedVLESSFlows
         then (None, w0 @ [not_supported ''vless'' ''flow'' flow])
         else
           let outbound = put_str ''flow'' flow outbound in
           if packetEnc \<noteq> [] \<and> packetEnc \<notin> set supportedVLESSPacketEncodings
           then (None, w0 @ [not_supported ''vless'' ''packet-encoding'' packetEnc])
           else
             let outbound = put_str ''packet_encoding'' packetEnc outbound;
                 (tls, w1) = TranslateTLS m;
                 outbound = put_map ''tls'' tls outbound;
                 outbound = put_map ''transport'' (TranslateTransport m) outbound
             in (Some (applyMultiplex m outbound), w0 @ w1))"

section \<open>VMess\<close>

definition supportedVMessSecurities :: "string list" where
  "supportedVMessSecurities = [''auto'', ''none'', ''zero'', ''aes-128-cfb'', ''aes-128-gcm'', ''chacha20-poly1305'']"

definition supportedVMessPacketEncodings :: "string list" where
  "supportedVMessPacketEncodings = ['''', ''packetaddr'', ''xudp'']"

definition TranslateVMess :: "gmap \<Rightarrow> gmap option warned" where
  "TranslateVMess m =
    (let (skip, w0) = SkipUnsupportedNetwork m in
     if skip then (None, w0)
     else
       let outbound = ApplyCommonFields m [(''type'', VStr ''vmess''), (''tag'', VStr (GetStr m ''name''))];
           uuid = GetStr m ''uuid''
       in
       if uuid = [] then (None, w0 @ [missing ''vmess'' ''uuid''])
       else
         let outbound = mput ''uuid'' (VStr uuid) outbound;
             alterID = (if GetInt m ''alterId'' = 0 then GetInt m ''alter_id'' else GetInt m ''alterId'');
             outbound = mput ''alter_id'' (VInt alterID) outbound;
             cipher = (if GetStr m ''cipher'' = [] then ''auto'' else GetStr m ''cipher'')
         in
         if cipher \<notin> set supportedVMessSecurities
         then (None, w0 @ [not_supported ''vmess'' ''cipher'' cipher])
         else
           let outbound = mput ''security'' (VStr cipher) outbound;
               outbound = put_true ''global_padding'' (GetBool m ''global-padding'') outbound;
               outbound = put_true ''authenticated_length'' (GetBool m ''authenticated-length'') outbound;
               packetEnc = GetStr m ''packet-encoding''
           in
           if packetEnc \<noteq> [] \<and> packetEnc \<notin> set supportedVMessPacketEncodings
           then (None, w0 @ [not_supported ''vmess'' ''packet-encoding'' packetEnc])
           else
             let outbound = put_str ''packet_encoding'' packetEnc outbound;
                 (tls, w1) = TranslateTLS m;
                 outbound = put_map ''tls'' tls outbound;
                 outbound = put_map ''transport'' (TranslateTransport m) outbound
             in (Some (applyMultiplex m outbound), w0 @ w1))"

section \<open>Trojan\<close>

definition TranslateTrojan :: "gmap \<Rightarrow> gmap option warned" where
  "TranslateTrojan m =
    (let (skip, w0) = SkipUnsupportedNetwork m in
     if skip then (None, w0)
     else
       let outbound = ApplyCommonFields m [(''type'', VStr ''trojan''), (''tag'', VStr (GetStr m ''name''))];
           password = GetStr m ''password''
       in
       if password = [] then (None, w0 @ [missing ''trojan'' ''password''])
       else
         let outbound = mput ''password'' (VStr password) outbound;
             (tls, w1) = TranslateTLS m;
             outbound = mput ''tls'' (VMap (case tls of None \<Rightarrow> [(''enabled'', VBool True)] | Some x \<Rightarrow> x)) outbound;
             outbound = put_map ''transport'' (TranslateTransport m) outbound
         in (Some (applyMultiplex m outbound), w0 @ w1))"

section \<open>Shadowsocks\<close>

definition supportedSSCiphers :: "string list" where
  "supportedSSCiphers = [''aes-128-gcm'', ''aes-192-gcm'', ''aes-256-gcm'', ''chacha20-ietf-poly1305'',
     ''xchacha20-ietf-poly1305'', ''2022-blake3-aes-128-gcm'', ''2022-blake3-aes-256-gcm'',
     ''2022-blake3-chacha20-poly1305'']"

definition sip003PluginNames :: "string gomap" where
  "sip003PluginNames = [(''obfs'', ''obfs-local''), (''obfs-local'', ''obfs-local''),
     (''simple-obfs'', ''obfs-local''), (''v2ray-plugin'', ''v2ray-plugin'')]"

definition obfsKeyMap :: "string gomap" where
  "obfsKeyMap = [(''mode'', ''obfs''), (''host'', ''obfs-host'')]"

text \<open>The options are written in the order of their keys, whatever order the map iterates in.\<close>

definition sip003_key :: "string \<Rightarrow> string \<Rightarrow> string" where
  "sip003_key plugin k =
    (if plugin = ''obfs-local''
     then (case map_of obfsKeyMap k of Some mapped \<Rightarrow> mapped | None \<Rightarrow> k) else k)"

definition sip003_value :: "gmap \<Rightarrow> string \<Rightarrow> string" where
  "sip003_value opts k = fmt_v (case map_of opts k of Some v \<Rightarrow> v | None \<Rightarrow> VNil)"

definition buildSIP003Opts :: "gmap \<Rightarrow> string \<Rightarrow> string" where
  "buildSIP003Opts opts plugin =
    (if opts = [] then []
     else str_join '';''
       (map (\<lambda>k. sip003_key plugin k @ ''='' @ sip003_value opts k) (sort (mkeys opts))))"

definition TranslateShadowsocks :: "gmap \<Rightarrow> gmap option warned" where
  "TranslateShadowsocks m =
    (let cipher = GetStr m ''cipher'' in
     if cipher = [] then (None, [''shadowsocks: missing cipher''])
     else if cipher \<notin> set supportedSSCiphers
     then (None, [not_supported ''shadowsocks'' ''cipher'' cipher])
     else
       let outbound = ApplyCommonFields m [(''type'', VStr ''shadowsocks''), (''tag'', VStr (GetStr m ''name''))];
           outbound = mput ''method'' (VStr cipher) outbound;
           password = GetStr m ''password''
       in
       if password = [] then (None, [missing ''shadowsocks'' ''password''])
       else
         let outbound = mput ''password'' (VStr password) outbound;
             plugin = GetStr m ''plugin'';
             mapped = map_of sip003PluginNames plugin
         in
         if plugin \<noteq> [] \<and> mapped = None
         then (None, [''shadowsocks '' @ quoted (GetStr m ''name'') @ '': plugin '' @ quoted plugin @
                      '' is not supported by sing-box, skipping''])
         else
           let outbound =
                 (if plugin = [] then outbound
                  else let outbound = mput ''plugin'' (VStr (the mapped)) outbound
                       in case GetMap m ''plugin-opts'' of
                            None \<Rightarrow> outbound
                          | Some opts \<Rightarrow> mput ''plugin_opts'' (VStr (buildSIP003Opts opts (the mapped))) outbound);
               outbound = put_true ''udp_over_tcp'' (GetBool m ''udp-over-tcp'') outbound
           in (Some (applyMultiplex m outbound), []))"

section \<open>Hysteria and Hysteria2\<close>

definition put_bandwidth :: "string \<Rightarrow> string \<Rightarrow> gmap \<Rightarrow> gmap" where
  "put_bandwidth k s outbound = put_pos k (ParseBandwidth s) outbound"

definition put_server_ports :: "string \<Rightarrow> gmap \<Rightarrow> gmap \<Rightarrow> gmap warned" where
  "put_server_ports proto m outbound =
    (let ports = GetStr m ''ports'' in
     if ports = [] then (outbound, [])
     else let sp = ParseServerPorts ports
          in if sp \<noteq> [] then (mput ''server_ports'' (VStrs sp) outbound, [])
             else (outbound, [proto @ '' '' @ quoted (GetStr m ''name'') @ '': unparsable ports '' @
                              quoted ports @ '', port hopping disabled'']))"

definition put_hop_interval :: "gmap \<Rightarrow> gmap \<Rightarrow> gmap" where
  "put_hop_interval m outbound =
    (if GetInt m ''hop-interval'' > 0
     then mput ''hop_interval'' (VStr (SecondsToDuration (GetInt m ''hop-interval''))) outbound
     else outbound)"

definition TranslateHysteria :: "gmap \<Rightarrow> gmap option warned" where
  "TranslateHysteria m =
    (let outbound = ApplyCommonFields m [(''type'', VStr ''hysteria''), (''tag'', VStr (GetStr m ''name''))];
         outbound = (if GetStr m ''auth-str'' \<noteq> [] then mput ''auth_str'' (VStr (GetStr m ''auth-str'')) outbound
                     else put_str ''auth_str'' (GetStr m ''auth'') outbound);
         up = GetStr m ''up'';
         outbound = (if up \<noteq> [] then put_bandwidth ''up_mbps'' up outbound
                     else put_pos ''up_mbps'' (GetInt m ''up-speed'') outbound);
         down = GetStr m ''down'';
         outbound = (if down \<noteq> [] then put_bandwidth ''down_mbps'' down outbound
                     else put_pos ''down_mbps'' (GetInt m ''down-speed'') outbound);
         outbound = put_str ''obfs'' (GetStr m ''obfs'') outbound;
         (outbound, w0) = put_server_ports ''hysteria'' m outbound;
         outbound = put_hop_interval m outbound;
         outbound = put_pos ''recv_window_conn'' (GetInt m ''recv-window-conn'') outbound;
         outbound = put_pos ''recv_window'' (GetInt m ''recv-window'') outbound;
         outbound = put_true ''disable_mtu_discovery'' (GetBool m ''disable-mtu-discovery'') outbound;
         outbound = put_str ''network'' (GetStr m ''protocol'') outbound;
         w1 = (if GetStr m ''fingerprint'' \<noteq> []
               then [''hysteria '' @ quoted (GetStr m ''name'') @
                     '': fingerprint has no equivalent in sing-box (QUIC outbounds do not support uTLS) and was ignored'']
               else [])
     in (Some (mput ''tls'' (VMap (BuildAlwaysOnTLS m)) outbound), w0 @ w1))"

definition TranslateHysteria2 :: "gmap \<Rightarrow> gmap option warned" where
  "TranslateHysteria2 m =
    (let outbound = ApplyCommonFields m [(''type'', VStr ''hysteria2''), (''tag'', VStr (GetStr m ''name''))];
         outbound = put_str ''password'' (GetStr m ''password'') outbound;
         up = GetStr m ''up'';
         outbound = (if up \<noteq> [] then put_bandwidth ''up_mbps'' up outbound else outbound);
         down = GetStr m ''down'';
         outbound = (if down \<noteq> [] then put_bandwidth ''down_mbps'' down outbound else outbound);
         obfs = GetStr m ''obfs'';
         obfsPassword = GetStr m ''obfs-password''
     in
     if obfs \<noteq> [] \<and> obfs \<noteq> ''salamander''
     then (None, [not_supported ''hysteria2'' ''obfs'' obfs])
     else if obfs \<noteq> [] \<and> obfsPassword = []
     then (None, [''hysteria2: obfs-password is required by sing-box when obfs is enabled, skipping''])
     else
       let outbound = (if obfs \<noteq> []
                       then mput ''obfs'' (VMap [(''type'', VStr obfs), (''password'', VStr obfsPassword)]) outbound
                       else outbound);
           (outbound, w0) = put_server_ports ''hysteria2'' m outbound;
           outbound = put_hop_interval m outbound
       in (Some (mput ''tls'' (VMap (BuildAlwaysOnTLS m)) outbound), w0))"

section \<open>TUIC\<close>

text \<open>
  \<open>uuid.FromString\<close> is a third-party parser; the model takes its success as the argument
  \<open>valid_uuid\<close>.
\<close>

definition supportedTUICUDPRelayModes :: "string list" where
  "supportedTUICUDPRelayModes = [''native'', ''quic'']"

definition supportedTUICCongestionControllers :: "string list" where
  "supportedTUICCongestionControllers = [''cubic'', ''new_reno'', ''bbr'']"

definition TranslateTUIC :: "(string \<Rightarrow> bool) \<Rightarrow> gmap \<Rightarrow> gmap option warned" where
  "TranslateTUIC valid_uuid m =
    (if GetStr m ''token'' \<noteq> []
     then (None, [''tuic: TUIC v4 (token authentication) is not supported by sing-box, skipping''])
     else
       let outbound = ApplyCommonFields m [(''type'', VStr ''tuic''), (''tag'', VStr (GetStr m ''name''))];
           uuidValue = GetStr m ''uuid'';
           password = GetStr m ''password'';
           udpRelayMode = GetStr m ''udp-relay-mode'';
           cc = GetStr m ''congestion-controller''
       in
       if uuidValue = [] then (None, [missing ''tuic'' ''uuid''])
       else if \<not> valid_uuid uuidValue then (None, [''tuic: invalid uuid, skipping''])
       else
         let outbound = mput ''uuid'' (VStr uuidValue) outbound in
         if password = [] then (None, [missing ''tuic'' ''password''])
         else
           let outbound = mput ''password'' (VStr password) outbound in
           if udpRelayMode \<noteq> [] \<and> udpRelayMode \<notin> set supportedTUICUDPRelayModes
           then (None, [not_supported ''tuic'' ''udp-relay-mode'' udpRelayMode])
           else
             let outbound = put_str ''udp_relay_mode'' udpRelayMode outbound in
             if cc \<noteq> [] \<and> cc \<notin> set supportedTUICCongestionControllers
             then (None, [not_supported ''tuic'' ''congestion-controller'' cc])
             else
               let outbound = put_str ''congestion_control'' cc outbound;
                   outbound = put_true ''zero_rtt_handshake'' (GetBool m ''reduce-rtt'') outbound;
                   tls = BuildAlwaysOnTLS m;
                   tls = (if \<not> mhas tls ''alpn'' then mput ''alpn'' (VStrs [''h3'']) tls else tls)
               in (Some (mput ''tls'' (VMap tls) outbound), []))"

section \<open>AnyTLS, SOCKS, HTTP\<close>

definition TranslateAnyTLS :: "gmap \<Rightarrow> gmap option warned" where
  "TranslateAnyTLS m =
    (let outbound = ApplyCommonFields m [(''type'', VStr ''anytls''), (''tag'', VStr (GetStr m ''name''))];
         password = GetStr m ''password''
     in
     if password = [] then (None, [missing ''anytls'' ''password''])
     else
       let outbound = mput ''password'' (VStr password) outbound
       in (Some (mput ''tls'' (VMap (BuildAlwaysOnTLS m)) outbound), []))"

definition TranslateSOCKS :: "gmap \<Rightarrow> gmap option warned" where
  "TranslateSOCKS m =
    (let outbound = ApplyCommonFields m
           [(''type'', VStr ''socks''), (''tag'', VStr (GetStr m ''name'')), (''version'', VStr ''5'')];
         outbound = put_str ''username'' (GetStr m ''username'') outbound;
         outbound = put_str ''password'' (GetStr m ''password'') outbound;
         (tls, w) = TranslateTLS m
     in (Some (put_map ''tls'' tls outbound), w))"

definition TranslateHTTP :: "gmap \<Rightarrow> gmap option warned" where
  "TranslateHTTP m =
    (let outbound = ApplyCommonFields m [(''type'', VStr ''http''), (''tag'', VStr (GetStr m ''name''))];
         outbound = put_str ''username'' (GetStr m ''username'') outbound;
         outbound = put_str ''password'' (GetStr m ''password'') outbound;
         outbound = put_map ''headers'' (GetMap m ''headers'') outbound;
         (tls, w) = TranslateTLS m
     in (Some (put_map ''tls'' tls outbound), w))"

section \<open>Unsupported protocols\<close>

definition TranslateUnsupported :: "string \<Rightarrow> gmap \<Rightarrow> gmap option warned" where
  "TranslateUnsupported protoName m =
    (let name = GetStr m ''name'';
         name = (if name \<noteq> [] then '' '' @ [CHR 39] @ name @ [CHR 39] else [])
     in (None, [''protocol '' @ [CHR 39] @ protoName @ [CHR 39] @ name @
                '' is not supported by sing-box, degraded to stub'']))"

section \<open>The interpretations\<close>

lemma put_server_ports_outbound:
  "outbound_of ty m out \<Longrightarrow> outbound_of ty m (fst (put_server_ports proto m out))"
  by (auto simp: put_server_ports_def Let_def reserved_keys_def intro: outbound_of_mput)

lemma put_helpers_outbound [outbound_intros]:
  "outbound_of ty m out \<Longrightarrow> k \<notin> set reserved_keys \<Longrightarrow> outbound_of ty m (put_bandwidth k s out)"
  "outbound_of ty m out \<Longrightarrow> outbound_of ty m (put_hop_interval m' out)"
  by (auto simp: put_bandwidth_def put_hop_interval_def reserved_keys_def intro: outbound_intros)

lemma reserved_keys_simps:
  "list_all (\<lambda>k. k \<notin> set reserved_keys)
     [''uuid'', ''flow'', ''packet_encoding'', ''tls'', ''transport'', ''alter_id'', ''security'', ''global_padding'',
      ''authenticated_length'', ''password'', ''method'', ''plugin'', ''plugin_opts'', ''udp_over_tcp'', ''auth_str'',
      ''up_mbps'', ''down_mbps'', ''obfs'', ''recv_window_conn'', ''recv_window'', ''disable_mtu_discovery'',
      ''network'', ''udp_relay_mode'', ''congestion_control'', ''zero_rtt_handshake'', ''username'', ''headers'']"
  by (simp add: reserved_keys_def)

lemmas fresh_keys = reserved_keys_simps [unfolded list.pred_inject, simplified]

lemma skip_warns: "SkipUnsupportedNetwork m = (True, ws) \<Longrightarrow> ws \<noteq> []"
  by (auto simp: SkipUnsupportedNetwork_def xhttp_warning_def split: if_splits)

lemmas translate_cases = Let_def split_def

interpretation vless: outbound_translator TranslateVLESS "''vless''"
proof
  fix m out ws assume "TranslateVLESS m = (Some out, ws)"
  then show "outbound_of ''vless'' m out"
    by (auto simp: TranslateVLESS_def translate_cases fresh_keys split del: if_split split: if_split_asm option.splits
        intro!: outbound_intros)
next
  fix m ws assume "TranslateVLESS m = (None, ws)"
  then show "ws \<noteq> []"
    using skip_warns[of m] by (cases "SkipUnsupportedNetwork m")
      (auto simp: TranslateVLESS_def translate_cases split: if_splits)
qed

interpretation vmess: outbound_translator TranslateVMess "''vmess''"
proof
  fix m out ws assume "TranslateVMess m = (Some out, ws)"
  then show "outbound_of ''vmess'' m out"
    by (auto simp: TranslateVMess_def translate_cases fresh_keys split del: if_split split: if_split_asm option.splits
        intro!: outbound_intros)
next
  fix m ws assume "TranslateVMess m = (None, ws)"
  then show "ws \<noteq> []"
    using skip_warns[of m] by (cases "SkipUnsupportedNetwork m")
      (auto simp: TranslateVMess_def translate_cases split: if_splits)
qed

interpretation trojan: outbound_translator TranslateTrojan "''trojan''"
proof
  fix m out ws assume "TranslateTrojan m = (Some out, ws)"
  then show "outbound_of ''trojan'' m out"
    by (auto simp: TranslateTrojan_def translate_cases fresh_keys split del: if_split split: if_split_asm option.splits
        intro!: outbound_intros)
next
  fix m ws assume "TranslateTrojan m = (None, ws)"
  then show "ws \<noteq> []"
    using skip_warns[of m] by (cases "SkipUnsupportedNetwork m")
      (auto simp: TranslateTrojan_def translate_cases split: if_splits)
qed

interpretation shadowsocks: outbound_translator TranslateShadowsocks "''shadowsocks''"
proof
  fix m out ws assume "TranslateShadowsocks m = (Some out, ws)"
  then show "outbound_of ''shadowsocks'' m out"
    by (auto simp: TranslateShadowsocks_def translate_cases fresh_keys split del: if_split split: if_split_asm option.splits
        intro!: outbound_intros)
next
  fix m ws assume "TranslateShadowsocks m = (None, ws)"
  then show "ws \<noteq> []"
    by (auto simp: TranslateShadowsocks_def translate_cases split: if_splits)
qed

lemma TranslateHysteria_outbound:
  "\<exists>out ws. TranslateHysteria m = (Some out, ws) \<and> outbound_of ''hysteria'' m out"
  unfolding TranslateHysteria_def Let_def split_def
  by (intro exI conjI, rule refl)
     (intro outbound_intros put_server_ports_outbound; simp only: fresh_keys not_False_eq_True)

interpretation hysteria: outbound_translator TranslateHysteria "''hysteria''"
  using TranslateHysteria_outbound by unfold_locales (metis Pair_inject option.inject option.distinct(1))+

interpretation hysteria2: outbound_translator TranslateHysteria2 "''hysteria2''"
proof
  fix m out ws assume "TranslateHysteria2 m = (Some out, ws)"
  then show "outbound_of ''hysteria2'' m out"
    by (auto simp: TranslateHysteria2_def translate_cases fresh_keys split del: if_split split: if_split_asm option.splits
        intro!: outbound_intros put_server_ports_outbound)
next
  fix m ws assume "TranslateHysteria2 m = (None, ws)"
  then show "ws \<noteq> []"
    by (auto simp: TranslateHysteria2_def translate_cases split: if_splits)
qed

interpretation tuic: outbound_translator "TranslateTUIC valid_uuid" "''tuic''"
proof
  fix m out ws assume "TranslateTUIC valid_uuid m = (Some out, ws)"
  then show "outbound_of ''tuic'' m out"
    by (auto simp: TranslateTUIC_def translate_cases fresh_keys split del: if_split split: if_split_asm option.splits
        intro!: outbound_intros)
next
  fix m ws assume "TranslateTUIC valid_uuid m = (None, ws)"
  then show "ws \<noteq> []"
    by (auto simp: TranslateTUIC_def translate_cases split: if_splits)
qed

interpretation anytls: outbound_translator TranslateAnyTLS "''anytls''"
proof
  fix m out ws assume "TranslateAnyTLS m = (Some out, ws)"
  then show "outbound_of ''anytls'' m out"
    by (auto simp: TranslateAnyTLS_def translate_cases fresh_keys split del: if_split split: if_split_asm option.splits
        intro!: outbound_intros)
next
  fix m ws assume "TranslateAnyTLS m = (None, ws)"
  then show "ws \<noteq> []"
    by (auto simp: TranslateAnyTLS_def translate_cases split: if_splits)
qed

interpretation socks: outbound_translator TranslateSOCKS "''socks''"
proof
  fix m out ws assume "TranslateSOCKS m = (Some out, ws)"
  then show "outbound_of ''socks'' m out"
    by (auto simp: TranslateSOCKS_def translate_cases fresh_keys split del: if_split split: if_split_asm option.splits
        intro!: outbound_intros)
next
  fix m ws assume "TranslateSOCKS m = (None, ws)"
  then show "ws \<noteq> []"
    by (auto simp: TranslateSOCKS_def translate_cases split: if_splits)
qed

interpretation http: outbound_translator TranslateHTTP "''http''"
proof
  fix m out ws assume "TranslateHTTP m = (Some out, ws)"
  then show "outbound_of ''http'' m out"
    by (auto simp: TranslateHTTP_def translate_cases fresh_keys split del: if_split split: if_split_asm option.splits
        intro!: outbound_intros)
next
  fix m ws assume "TranslateHTTP m = (None, ws)"
  then show "ws \<noteq> []"
    by (auto simp: TranslateHTTP_def translate_cases split: if_splits)
qed

text \<open>An unsupported protocol is never translated and never dropped silently.\<close>

lemma TranslateUnsupported_result: "fst (TranslateUnsupported p m) = None" "snd (TranslateUnsupported p m) \<noteq> []"
  by (simp_all add: TranslateUnsupported_def Let_def)

end
