(* ===== verification/Types.thy ===== *)
theory Types
  imports GoValues
begin

text \<open>
  \<open>translator/types_mihomo.go\<close> and \<open>translator/types_singbox.go\<close>: the decoded input, the output
  configuration and the state the pipeline threads through its steps.  A Go slice is a list (nil
  and empty coincide: the code only ranges over them and asks their length), a pointer an option,
  an \<open>int\<close> a HOL \<open>int\<close>, a \<open>uint32\<close> a 32-bit word, and a set of tags held in a
  \<open>map[string]bool\<close> a set.  The \<open>options\<close> argument and \<open>country\<close> are in the state as in the code.
\<close>

section \<open>Input\<close>

record RawFallbackFilter =
  ff_GeoIP :: bool
  ff_GeoIPCode :: string
  ff_IPCIDR :: "string list"
  ff_Domain :: "string list"
  ff_GeoSite :: "string list"

record RawSniffer =
  sn_Enable :: bool
  sn_Parsing :: gval
  sn_Sniff :: gval
  sn_SkipDest :: gval
  sn_Force :: gval
  sn_ForceDns :: gval
  sn_ParsePureIP :: gval

record RawDNS =
  dns_Enable :: bool
  dns_IPv6 :: "bool option"
  dns_UseHosts :: "bool option"
  dns_NameServer :: "string list"
  dns_Fallback :: "string list"
  dns_FallbackFilter :: RawFallbackFilter
  dns_Listen :: string
  dns_EnhancedMode :: string
  dns_FakeIPRange :: string
  dns_FakeIPRange6 :: string
  dns_FakeIPFilter :: "string list"
  dns_FakeIPFilterMode :: string
  dns_DefaultNameserver :: "string list"
  dns_NameServerPolicy :: gmap
  dns_ProxyServerNameserver :: "string list"
  dns_DirectNameserver :: "string list"
  dns_PreferH3 :: bool

record RawProfile =
  prof_StoreSelected :: bool
  prof_StoreFakeIP :: bool

record RawTun =
  tun_Enable :: bool
  tun_Device :: string
  tun_Stack :: string
  tun_DNSHijack :: "string list"
  tun_AutoRoute :: bool
  tun_AutoDetectInterface :: "bool option"
  tun_AutoRedirect :: bool
  tun_MTU :: "32 word"
  tun_Inet4Address :: string
  tun_Inet6Address :: string
  tun_StrictRoute :: bool
  tun_UDPTimeout :: int
  tun_RouteAddress :: "string list"
  tun_RouteExcludeAddress :: "string list"
  tun_IPRoute2TableIndex :: int
  tun_IPRoute2RuleIndex :: int
  tun_IncludeUID :: "int list"
  tun_IncludeUIDRange :: "string list"
  tun_ExcludeUID :: "int list"
  tun_ExcludeUIDRange :: "string list"
  tun_IncludeAndroidUser :: "int list"
  tun_IncludePackage :: "string list"
  tun_ExcludePackage :: "string list"

record RawConfig =
  cfg_Port :: int
  cfg_SocksPort :: int
  cfg_RedirPort :: int
  cfg_TProxyPort :: int
  cfg_MixedPort :: int
  cfg_MixedSystemProxy :: bool
  cfg_Authentication :: "string list"
  cfg_AllowLan :: bool
  cfg_BindAddress :: string
  cfg_Mode :: string
  cfg_LogLevel :: string
  cfg_IPv6 :: bool
  cfg_ExternalController :: string
  cfg_ExternalUI :: string
  cfg_Secret :: string
  cfg_Interface :: string
  cfg_RoutingMark :: int
  cfg_Sniffer :: RawSniffer
  cfg_DNS :: RawDNS
  cfg_Tun :: RawTun
  cfg_Profile :: RawProfile
  cfg_Proxy :: "gmap list"
  cfg_ProxyGroup :: "gmap list"
  cfg_Rule :: "string list"
  cfg_ProxyProvider :: "gmap gomap"
  cfg_RuleProvider :: "gmap gomap"
  cfg_Hosts :: gmap
  cfg_KeepAliveInterval :: int
  cfg_FindProcessMode :: string
  cfg_GlobalFingerprint :: string

text \<open>The zero value of the input structure, from which decoding starts.\<close>

definition empty_dns :: RawDNS where
  "empty_dns = \<lparr>dns_Enable = False, dns_IPv6 = None, dns_UseHosts = None, dns_NameServer = [], dns_Fallback = [],
     dns_FallbackFilter = \<lparr>ff_GeoIP = False, ff_GeoIPCode = [], ff_IPCIDR = [], ff_Domain = [], ff_GeoSite = []\<rparr>,
     dns_Listen = [], dns_EnhancedMode = [], dns_FakeIPRange = [], dns_FakeIPRange6 = [], dns_FakeIPFilter = [],
     dns_FakeIPFilterMode = [], dns_DefaultNameserver = [], dns_NameServerPolicy = [],
     dns_ProxyServerNameserver = [], dns_DirectNameserver = [], dns_PreferH3 = False\<rparr>"

definition empty_tun :: RawTun where
  "empty_tun = \<lparr>tun_Enable = False, tun_Device = [], tun_Stack = [], tun_DNSHijack = [], tun_AutoRoute = False,
     tun_AutoDetectInterface = None, tun_AutoRedirect = False, tun_MTU = 0, tun_Inet4Address = [],
     tun_Inet6Address = [], tun_StrictRoute = False, tun_UDPTimeout = 0, tun_RouteAddress = [],
     tun_RouteExcludeAddress = [], tun_IPRoute2TableIndex = 0, tun_IPRoute2RuleIndex = 0, tun_IncludeUID = [],
     tun_IncludeUIDRange = [], tun_ExcludeUID = [], tun_ExcludeUIDRange = [], tun_IncludeAndroidUser = [],
     tun_IncludePackage = [], tun_ExcludePackage = []\<rparr>"

definition empty_sniffer :: RawSniffer where
  "empty_sniffer = \<lparr>sn_Enable = False, sn_Parsing = VNil, sn_Sniff = VNil, sn_SkipDest = VNil, sn_Force = VNil,
     sn_ForceDns = VNil, sn_ParsePureIP = VNil\<rparr>"

definition empty_config :: RawConfig where
  "empty_config = \<lparr>cfg_Port = 0, cfg_SocksPort = 0, cfg_RedirPort = 0, cfg_TProxyPort = 0, cfg_MixedPort = 0,
     cfg_MixedSystemProxy = False, cfg_Authentication = [], cfg_AllowLan = False, cfg_BindAddress = [],
     cfg_Mode = [], cfg_LogLevel = [], cfg_IPv6 = False, cfg_ExternalController = [], cfg_ExternalUI = [],
     cfg_Secret = [], cfg_Interface = [], cfg_RoutingMark = 0, cfg_Sniffer = empty_sniffer, cfg_DNS = empty_dns,
     cfg_Tun = empty_tun, cfg_Profile = \<lparr>prof_StoreSelected = False, prof_StoreFakeIP = False\<rparr>, cfg_Proxy = [],
     cfg_ProxyGroup = [], cfg_Rule = [], cfg_ProxyProvider = [], cfg_RuleProvider = [], cfg_Hosts = [],
     cfg_KeepAliveInterval = 0, cfg_FindProcessMode = [], cfg_GlobalFingerprint = []\<rparr>"

section \<open>Output\<close>

record singboxRoute =
  rt_Rules :: "gmap list"
  rt_RuleSet :: "gmap list"
  rt_Final :: string
  rt_AutoDetectInterface :: bool
  rt_FindProcess :: bool
  rt_DefaultInterface :: string
  rt_DefaultMark :: "32 word"
  rt_DefaultDomainResolver :: string

record singboxDNS =
  sd_Servers :: "gmap list"
  sd_Rules :: "gmap list"
  sd_Final :: string
  sd_Strategy :: string

record singboxConfig =
  sb_Log :: gmap
  sb_DNS :: "singboxDNS option"
  sb_Inbounds :: "gmap list"
  sb_Outbounds :: "gmap list"
  sb_Route :: singboxRoute
  sb_Experimental :: gmap

definition empty_route :: singboxRoute where
  "empty_route = \<lparr>rt_Rules = [], rt_RuleSet = [], rt_Final = [], rt_AutoDetectInterface = False,
     rt_FindProcess = False, rt_DefaultInterface = [], rt_DefaultMark = 0, rt_DefaultDomainResolver = []\<rparr>"

definition empty_sdns :: singboxDNS where
  "empty_sdns = \<lparr>sd_Servers = [], sd_Rules = [], sd_Final = [], sd_Strategy = []\<rparr>"

definition empty_singbox :: singboxConfig where
  "empty_singbox = \<lparr>sb_Log = [], sb_DNS = None, sb_Inbounds = [], sb_Outbounds = [], sb_Route = empty_route,
     sb_Experimental = []\<rparr>"

section \<open>The state of a translation\<close>

record translation =
  t_config :: singboxConfig
  t_warnings :: "string list"
  t_proxyTags :: "string set"
  t_stubTags :: "string gomap"
  t_invalidHealth :: "string set"
  t_groupTagOrder :: "string list"
  t_groupTags :: "string set"
  t_ruleSetDefs :: "gmap gomap"
  t_echQueryServers :: "string list"
  t_dnsTerminalRules :: "gmap list"
  t_dnsEnabled :: bool
  t_country :: string

definition empty_translation :: translation where
  "empty_translation = \<lparr>t_config = empty_singbox, t_warnings = [], t_proxyTags = {}, t_stubTags = [],
     t_invalidHealth = {}, t_groupTagOrder = [], t_groupTags = {}, t_ruleSetDefs = [], t_echQueryServers = [],
     t_dnsTerminalRules = [], t_dnsEnabled = False, t_country = []\<rparr>"

definition warn :: "string \<Rightarrow> translation \<Rightarrow> translation" where
  "warn msg t = t\<lparr>t_warnings := t_warnings t @ [msg]\<rparr>"

definition warn_all :: "string list \<Rightarrow> translation \<Rightarrow> translation" where
  "warn_all msgs t = t\<lparr>t_warnings := t_warnings t @ msgs\<rparr>"

text \<open>The routes, the rules and the output parts, addressed through the state as the code does.\<close>

definition upd_route :: "(singboxRoute \<Rightarrow> singboxRoute) \<Rightarrow> translation \<Rightarrow> translation" where
  "upd_route f t = t\<lparr>t_config := (t_config t)\<lparr>sb_Route := f (sb_Route (t_config t))\<rparr>\<rparr>"

definition upd_config :: "(singboxConfig \<Rightarrow> singboxConfig) \<Rightarrow> translation \<Rightarrow> translation" where
  "upd_config f t = t\<lparr>t_config := f (t_config t)\<rparr>"

abbreviation t_route :: "translation \<Rightarrow> singboxRoute" where
  "t_route t \<equiv> sb_Route (t_config t)"

abbreviation t_rules :: "translation \<Rightarrow> gmap list" where
  "t_rules t \<equiv> rt_Rules (t_route t)"

definition add_rules :: "gmap list \<Rightarrow> translation \<Rightarrow> translation" where
  "add_rules rs t = upd_route (\<lambda>r. r\<lparr>rt_Rules := rt_Rules r @ rs\<rparr>) t"

text \<open>\<open>firstGroupTag\<close> of \<open>dns.go\<close>, used by several steps.\<close>

definition firstGroupTag :: "translation \<Rightarrow> string" where
  "firstGroupTag t = (case t_groupTagOrder t of [] \<Rightarrow> [] | tag # _ \<Rightarrow> tag)"

section \<open>Frame facts\<close>

lemma warn_frame [simp, frame_simps]:
  "t_config (warn m t) = t_config t" "t_proxyTags (warn m t) = t_proxyTags t"
  "t_stubTags (warn m t) = t_stubTags t" "t_invalidHealth (warn m t) = t_invalidHealth t"
  "t_groupTagOrder (warn m t) = t_groupTagOrder t" "t_groupTags (warn m t) = t_groupTags t"
  "t_ruleSetDefs (warn m t) = t_ruleSetDefs t" "t_echQueryServers (warn m t) = t_echQueryServers t"
  "t_dnsTerminalRules (warn m t) = t_dnsTerminalRules t" "t_dnsEnabled (warn m t) = t_dnsEnabled t"
  "t_country (warn m t) = t_country t" "t_warnings (warn m t) = t_warnings t @ [m]"
  by (simp_all add: warn_def)

lemma warn_all_frame [simp, frame_simps]:
  "t_config (warn_all m t) = t_config t" "t_proxyTags (warn_all m t) = t_proxyTags t"
  "t_stubTags (warn_all m t) = t_stubTags t" "t_invalidHealth (warn_all m t) = t_invalidHealth t"
  "t_groupTagOrder (warn_all m t) = t_groupTagOrder t" "t_groupTags (warn_all m t) = t_groupTags t"
  "t_ruleSetDefs (warn_all m t) = t_ruleSetDefs t" "t_echQueryServers (warn_all m t) = t_echQueryServers t"
  "t_dnsTerminalRules (warn_all m t) = t_dnsTerminalRules t" "t_dnsEnabled (warn_all m t) = t_dnsEnabled t"
  "t_country (warn_all m t) = t_country t" "t_warnings (warn_all m t) = t_warnings t @ m"
  by (simp_all add: warn_all_def)

lemma upd_route_frame [simp, frame_simps]:
  "t_config (upd_route f t) = (t_config t)\<lparr>sb_Route := f (sb_Route (t_config t))\<rparr>"
  "t_proxyTags (upd_route f t) = t_proxyTags t"
  "t_stubTags (upd_route f t) = t_stubTags t" "t_invalidHealth (upd_route f t) = t_invalidHealth t"
  "t_groupTagOrder (upd_route f t) = t_groupTagOrder t" "t_groupTags (upd_route f t) = t_groupTags t"
  "t_ruleSetDefs (upd_route f t) = t_ruleSetDefs t" "t_echQueryServers (upd_route f t) = t_echQueryServers t"
  "t_dnsTerminalRules (upd_route f t) = t_dnsTerminalRules t" "t_dnsEnabled (upd_route f t) = t_dnsEnabled t"
  "t_country (upd_route f t) = t_country t" "t_warnings (upd_route f t) = t_warnings t"
  by (simp_all add: upd_route_def)

lemma upd_config_frame [simp, frame_simps]:
  "t_config (upd_config f t) = f (t_config t)"
  "t_proxyTags (upd_config f t) = t_proxyTags t"
  "t_stubTags (upd_config f t) = t_stubTags t" "t_invalidHealth (upd_config f t) = t_invalidHealth t"
  "t_groupTagOrder (upd_config f t) = t_groupTagOrder t" "t_groupTags (upd_config f t) = t_groupTags t"
  "t_ruleSetDefs (upd_config f t) = t_ruleSetDefs t" "t_echQueryServers (upd_config f t) = t_echQueryServers t"
  "t_dnsTerminalRules (upd_config f t) = t_dnsTerminalRules t" "t_dnsEnabled (upd_config f t) = t_dnsEnabled t"
  "t_country (upd_config f t) = t_country t" "t_warnings (upd_config f t) = t_warnings t"
  by (simp_all add: upd_config_def)

lemma add_rules_frame [simp, frame_simps]:
  "sb_Outbounds (t_config (add_rules rs t)) = sb_Outbounds (t_config t)"
  "sb_DNS (t_config (add_rules rs t)) = sb_DNS (t_config t)"
  "sb_Inbounds (t_config (add_rules rs t)) = sb_Inbounds (t_config t)"
  "t_rules (add_rules rs t) = t_rules t @ rs"
  "rt_Final (t_route (add_rules rs t)) = rt_Final (t_route t)"
  "rt_RuleSet (t_route (add_rules rs t)) = rt_RuleSet (t_route t)"
  "rt_DefaultDomainResolver (t_route (add_rules rs t)) = rt_DefaultDomainResolver (t_route t)"
  "t_proxyTags (add_rules rs t) = t_proxyTags t"
  "t_stubTags (add_rules rs t) = t_stubTags t" "t_invalidHealth (add_rules rs t) = t_invalidHealth t"
  "t_groupTagOrder (add_rules rs t) = t_groupTagOrder t" "t_groupTags (add_rules rs t) = t_groupTags t"
  "t_ruleSetDefs (add_rules rs t) = t_ruleSetDefs t" "t_echQueryServers (add_rules rs t) = t_echQueryServers t"
  "t_dnsTerminalRules (add_rules rs t) = t_dnsTerminalRules t" "t_dnsEnabled (add_rules rs t) = t_dnsEnabled t"
  "t_country (add_rules rs t) = t_country t" "t_warnings (add_rules rs t) = t_warnings t"
  by (simp_all add: add_rules_def)

end
