(* ===== verification/GoNet.thy ===== *)
theory GoNet
  imports GoStrings
begin

text \<open>
  What the translator uses of \<open>net\<close> and \<open>net/netip\<close>: \<open>ParseAddr\<close>, \<open>Addr.String\<close>, \<open>IsLoopback\<close>,
  \<open>IsUnspecified\<close>, \<open>SplitHostPort\<close>, \<open>ParseCIDR\<close> and \<open>IPNet.String\<close>.  An address is its four octets
  or its eight 16-bit groups with a zone.
\<close>

datatype ip_addr = V4 "int list" | V6 "int list" string

section \<open>Parsing addresses\<close>

text \<open>One octet: a non-empty run of digits without a leading zero, at most 255.\<close>

definition parse_octet :: "string \<Rightarrow> int option" where
  "parse_octet s =
    (if s = [] \<or> \<not> list_all is_digit s \<or> (1 < length s \<and> hd s = CHR ''0'') then None
     else let v = digits_val 0 s in if v \<le> 255 then Some v else None)"

fun all_some :: "'a option list \<Rightarrow> 'a list option" where
  "all_some [] = Some []"
| "all_some (None # xs) = None"
| "all_some (Some x # xs) = map_option ((#) x) (all_some xs)"

definition parse_ipv4 :: "string \<Rightarrow> int list option" where
  "parse_ipv4 s =
    (let ps = str_split CHR ''.'' s in
     if length ps = 4 then all_some (map parse_octet ps) else None)"

definition hex_val :: "char \<Rightarrow> int option" where
  "hex_val c =
    (let n = (of_char c :: int) in
     if is_digit c then Some (n - 48)
     else if 97 \<le> n \<and> n \<le> 102 then Some (n - 87)
     else if 65 \<le> n \<and> n \<le> 70 then Some (n - 55)
     else None)"

definition is_hex :: "char \<Rightarrow> bool" where "is_hex c = (hex_val c \<noteq> None)"

fun hex_value :: "int \<Rightarrow> string \<Rightarrow> int" where
  "hex_value acc [] = acc"
| "hex_value acc (c # s) = hex_value (acc * 16 + (case hex_val c of Some d \<Rightarrow> d | None \<Rightarrow> 0)) s"

text \<open>
  The loop of \<open>parseIPv6\<close>: \<open>gs\<close> are the groups read so far, \<open>el\<close> the position of the ellipsis.
  The result is the groups and the ellipsis when the whole text was used.  An embedded IPv4
  address ends the loop.
\<close>

function parse_groups :: "string \<Rightarrow> int list \<Rightarrow> nat option \<Rightarrow> (int list \<times> nat option) option" where
  "parse_groups s gs el =
    (if 8 \<le> length gs then (if s = [] then Some (gs, el) else None)
     else
       let ds = takeWhile is_hex s; rest = dropWhile is_hex s in
       if ds = [] \<or> 4 < length ds then None
       else if rest \<noteq> [] \<and> hd rest = CHR ''.'' then
         (if el = None \<and> length gs \<noteq> 6 then None
          else if 6 < length gs then None
          else case parse_ipv4 s of
                 Some [a, b, c, d] \<Rightarrow> Some (gs @ [a * 256 + b, c * 256 + d], el)
               | _ \<Rightarrow> None)
       else
         let gs = gs @ [hex_value 0 ds] in
         case rest of
           [] \<Rightarrow> Some (gs, el)
         | c # rest' \<Rightarrow>
             if c \<noteq> CHR '':'' \<or> rest' = [] then None
             else if hd rest' = CHR '':'' then
               (if el \<noteq> None then None
                else if tl rest' = [] then Some (gs, Some (length gs))
                else parse_groups (tl rest') gs (Some (length gs)))
             else parse_groups rest' gs el)"
  by pat_completeness auto
termination
  by (relation "measure (\<lambda>(s, gs, el). 8 - length gs)") auto

declare parse_groups.simps [simp del]

definition expand_groups :: "int list \<times> nat option \<Rightarrow> int list option" where
  "expand_groups r =
    (case r of (gs, el) \<Rightarrow>
       if length gs < 8 then
         (case el of
            None \<Rightarrow> None
          | Some i \<Rightarrow> Some (take i gs @ replicate (8 - length gs) 0 @ drop i gs))
       else if el \<noteq> None then None else Some gs)"

definition parse_ipv6 :: "string \<Rightarrow> ip_addr option" where
  "parse_ipv6 s0 =
    (let (s, zone, found) = str_cut s0 ''%'' in
     if found \<and> zone = [] then None
     else if has_prefix s ''::'' then
       (let rest = drop 2 s in
        if rest = [] then Some (V6 (replicate 8 0) zone)
        else case parse_groups rest [] (Some 0) of
               None \<Rightarrow> None
             | Some r \<Rightarrow> map_option (\<lambda>gs. V6 gs zone) (expand_groups r))
     else case parse_groups s [] None of
            None \<Rightarrow> None
          | Some r \<Rightarrow> map_option (\<lambda>gs. V6 gs zone) (expand_groups r))"

text \<open>The first of dot, colon and percent sign decides.\<close>

definition ParseAddr :: "string \<Rightarrow> ip_addr option" where
  "ParseAddr s =
    (case find (\<lambda>c. c = CHR ''.'' \<or> c = CHR '':'' \<or> c = CHR ''%'') s of
       Some c \<Rightarrow> if c = CHR ''.'' then map_option V4 (parse_ipv4 s)
                 else if c = CHR '':'' then parse_ipv6 s
                 else None
     | None \<Rightarrow> None)"

definition isIPAddress :: "string \<Rightarrow> bool" where
  "isIPAddress s = (ParseAddr s \<noteq> None)"

section \<open>Classes of addresses\<close>

definition is_4in6 :: "int list \<Rightarrow> bool" where
  "is_4in6 gs = (take 6 gs = [0, 0, 0, 0, 0, 65535])"

definition v4_of :: "int list \<Rightarrow> int list" where
  "v4_of gs = (let x = gs ! 6; y = gs ! 7 in [x div 256, x mod 256, y div 256, y mod 256])"

fun IsLoopback :: "ip_addr \<Rightarrow> bool" where
  "IsLoopback (V4 os) = (hd os = 127)"
| "IsLoopback (V6 gs z) =
     (if is_4in6 gs then hd (v4_of gs) = 127 else gs = [0, 0, 0, 0, 0, 0, 0, 1])"

fun IsUnspecified :: "ip_addr \<Rightarrow> bool" where
  "IsUnspecified (V4 os) = (os = [0, 0, 0, 0])"
| "IsUnspecified (V6 gs z) = (gs = replicate 8 0 \<and> z = [])"

section \<open>Printing addresses\<close>

definition ipv4_str :: "int list \<Rightarrow> string" where
  "ipv4_str os = str_join ''.'' (map itoa os)"

definition hex_digit :: "int \<Rightarrow> char" where
  "hex_digit d = (if d < 10 then char_of (48 + d) else char_of (87 + d))"

text \<open>A 16-bit group without leading zeros.\<close>

definition hex_str :: "int \<Rightarrow> string" where
  "hex_str n =
    (let ds = [n div 4096 mod 16, n div 256 mod 16, n div 16 mod 16, n mod 16];
         ds' = dropWhile (\<lambda>d. d = 0) ds
     in map hex_digit (if ds' = [] then [0] else ds'))"

text \<open>The first longest run of at least two zero groups: its start and length.\<close>

definition zero_run :: "int list \<Rightarrow> nat \<Rightarrow> nat" where
  "zero_run gs i = length (takeWhile (\<lambda>g. g = 0) (drop i gs))"

definition best_run :: "int list \<Rightarrow> (nat \<times> nat) option" where
  "best_run gs =
    foldl (\<lambda>best i. let l = zero_run gs i in
             if 2 \<le> l \<and> (case best of None \<Rightarrow> True | Some (_, n) \<Rightarrow> n < l) then Some (i, l) else best)
      None [0..<8]"

definition groups_str :: "int list \<Rightarrow> string" where
  "groups_str gs =
    (case best_run gs of
       None \<Rightarrow> str_join '':'' (map hex_str gs)
     | Some (i, l) \<Rightarrow>
         str_join '':'' (map hex_str (take i gs)) @ ''::'' @ str_join '':'' (map hex_str (drop (i + l) gs)))"

definition zone_str :: "string \<Rightarrow> string" where
  "zone_str z = (if z = [] then [] else ''%'' @ z)"

fun addr_str :: "ip_addr \<Rightarrow> string" where
  "addr_str (V4 os) = ipv4_str os"
| "addr_str (V6 gs z) =
     (if is_4in6 gs then ''::ffff:'' @ ipv4_str (v4_of gs) @ zone_str z
      else groups_str gs @ zone_str z)"

section \<open>Host and port\<close>

text \<open>\<open>net.SplitHostPort\<close>; every error is \<open>None\<close>.\<close>

definition SplitHostPort :: "string \<Rightarrow> (string \<times> string) option" where
  "SplitHostPort hp =
    (case last_index hp CHR '':'' of
       None \<Rightarrow> None
     | Some i \<Rightarrow>
         (let port = drop (i + 1) hp in
          if hd hp = CHR ''['' then
            (case str_index hp '']'' of
               None \<Rightarrow> None
             | Some e \<Rightarrow>
                 if e + 1 \<noteq> i then None
                 else if CHR ''['' \<in> set (drop 1 hp) \<or> CHR '']'' \<in> set (drop (e + 1) hp) then None
                 else Some (take (e - 1) (drop 1 hp), port))
          else
            let host = take i hp in
            if CHR '':'' \<in> set host \<or> CHR ''['' \<in> set hp \<or> CHR '']'' \<in> set hp then None
            else Some (host, port)))"

section \<open>Networks\<close>

text \<open>A network is its masked address and prefix length.\<close>

definition mask_octets :: "int \<Rightarrow> int \<Rightarrow> int list \<Rightarrow> int list" where
  "mask_octets w n os =
    (let keep = \<lambda>i. max 0 (min w (n - w * i)) in
     map (\<lambda>(i, x). let k = keep (int i) in x div 2 ^ nat (w - k) * 2 ^ nat (w - k)) (enumerate 0 os))"

definition prefix_length :: "string \<Rightarrow> int option" where
  "prefix_length s =
    (if s = [] \<or> \<not> list_all is_digit s then None
     else let n = digits_val 0 s in if n < 16777215 then Some n else None)"

definition ParseCIDR :: "string \<Rightarrow> (ip_addr \<times> int) option" where
  "ParseCIDR s =
    (let (addr, mask, found) = str_cut s ''/'' in
     if \<not> found then None
     else case (ParseAddr addr, prefix_length mask) of
       (Some (V4 os), Some n) \<Rightarrow> if n \<le> 32 then Some (V4 (mask_octets 8 n os), n) else None
     | (Some (V6 gs z), Some n) \<Rightarrow>
         if z = [] \<and> n \<le> 128 then Some (V6 (mask_octets 16 n gs) [], n) else None
     | _ \<Rightarrow> None)"

text \<open>\<open>To4\<close>, and the text of a network: a mapped network prints as the IPv4 one.\<close>

fun to4 :: "ip_addr \<Rightarrow> int list option" where
  "to4 (V4 os) = Some os"
| "to4 (V6 gs z) = (if is_4in6 gs then Some (v4_of gs) else None)"

fun net_str :: "ip_addr \<times> int \<Rightarrow> string" where
  "net_str (V4 os, n) = ipv4_str os @ ''/'' @ itoa n"
| "net_str (V6 gs z, n) =
     (if is_4in6 gs then ipv4_str (v4_of gs) @ ''/'' @ itoa (n - 96)
      else groups_str gs @ ''/'' @ itoa n)"

section \<open>Lemmas\<close>

lemma all_some_Some: "all_some (map Some xs) = Some xs"
  by (induction xs) simp_all

lemma all_some_length: "all_some xs = Some ys \<Longrightarrow> length ys = length xs"
  by (induction xs arbitrary: ys rule: all_some.induct) auto

lemma parse_ipv4_length: "parse_ipv4 s = Some os \<Longrightarrow> length os = 4"
  by (auto simp: parse_ipv4_def Let_def split: if_splits dest: all_some_length)

lemma dec_str_first_zero:
  "0 \<le> n \<Longrightarrow> hd (dec_str n) = CHR ''0'' \<Longrightarrow> n = 0"
proof (induction n rule: dec_str.induct)
  case (1 n)
  show ?case
  proof (cases "n < 10")
    case True
    then have "hd (dec_str n) = digit_char n" by (subst dec_str.simps) simp
    then have "digit_char n = CHR ''0''" using 1(3) by simp
    then have "digit_val (digit_char n) = 0" by (simp add: digit_val_def)
    then show ?thesis using digit_val_digit_char[OF 1(2) True] by simp
  next
    case False
    then have "hd (dec_str n) = hd (dec_str (n div 10))" by (subst dec_str.simps) simp
    then have "n div 10 = 0" using 1 False by simp
    then show ?thesis using False 1 by simp
  qed
qed

lemma parse_octet_itoa:
  assumes "0 \<le> n" "n \<le> 255" shows "parse_octet (itoa n) = Some n"
proof -
  have z: "1 < length (dec_str n) \<and> hd (dec_str n) = CHR ''0'' \<longrightarrow> False"
  proof
    assume a: "1 < length (dec_str n) \<and> hd (dec_str n) = CHR ''0''"
    then have "n = 0" using dec_str_first_zero[OF assms(1)] by blast
    then have "length (dec_str n) = 1" by (subst dec_str.simps) simp
    with a show False by simp
  qed
  then show ?thesis
    using assms dec_str_digits[of n] by (auto simp: parse_octet_def itoa_nonneg Let_def)
qed

lemma dot_not_in_itoa: "0 \<le> n \<Longrightarrow> CHR ''.'' \<notin> set (itoa n)"
  using char_not_in_dec_str[of n "CHR ''.''"] by (simp add: itoa_nonneg is_digit_def)

text \<open>Printing and parsing an IPv4 address are inverse.\<close>

lemma parse_ipv4_str:
  assumes "length os = 4" "list_all (\<lambda>x. 0 \<le> x \<and> x \<le> 255) os"
  shows "parse_ipv4 (ipv4_str os) = Some os"
proof -
  have "str_split CHR ''.'' (ipv4_str os) = map itoa os"
    unfolding ipv4_str_def
    by (rule str_split_join) (use assms dot_not_in_itoa in \<open>auto simp: list_all_iff\<close>)
  moreover have "map parse_octet (map itoa os) = map Some os"
    using assms(2) parse_octet_itoa by (auto simp: list_all_iff)
  ultimately show ?thesis
    using assms(1) by (simp add: parse_ipv4_def Let_def all_some_Some del: map_map)
qed

end
