(* ===== verification/Proxies.thy ===== *)
theory Proxies
  imports ProxyProtocols Types GoNet
begin

text \<open>
  \<open>translator/proxy.go\<close>: the \<open>proxies\<close> section.  Every named entry yields exactly one outbound with
  the same tag, in order: its translation, or a stub at a dead endpoint when the protocol or the
  entry is unusable.  A stub is recorded with its protocol and excluded from health checks.
\<close>

section \<open>Dispatch on the protocol\<close>

definition unsupported_types :: "string list" where
  "unsupported_types =
    [''wireguard'', ''ssr'', ''snell'', ''ssh'', ''mieru'', ''sudoku'', ''masque'', ''trusttunnel'']"

definition translateOneProxy :: "(string \<Rightarrow> bool) \<Rightarrow> gmap \<Rightarrow> string \<Rightarrow> gmap option warned" where
  "translateOneProxy valid_uuid m0 globalFingerprint =
    (let m = (if globalFingerprint \<noteq> [] \<and> \<not> mhas m0 ''client-fingerprint''
              then mput ''client-fingerprint'' (VStr globalFingerprint) m0 else m0);
         proxyType = mstr m ''type''
     in
     if proxyType = ''vless'' then TranslateVLESS m
     else if proxyType = ''vmess'' then TranslateVMess m
     else if proxyType = ''trojan'' then TranslateTrojan m
     else if proxyType = ''ss'' then TranslateShadowsocks m
     else if proxyType = ''shadowsocks'' then TranslateShadowsocks m
     else if proxyType = ''hysteria2'' then TranslateHysteria2 m
     else if proxyType = ''tuic'' then TranslateTUIC valid_uuid m
     else if proxyType = ''anytls'' then TranslateAnyTLS m
     else if proxyType = ''socks5'' then TranslateSOCKS m
     else if proxyType = ''http'' then TranslateHTTP m
     else if proxyType = ''hysteria'' then TranslateHysteria m
     else if proxyType \<in> set unsupported_types then TranslateUnsupported proxyType m
     else (None, [''unknown proxy type: '' @ proxyType]))"

section \<open>Endpoints\<close>

definition isInvalidHealthCheckEndpoint :: "gmap \<Rightarrow> bool" where
  "isInvalidHealthCheckEndpoint p =
    (let server = trim_space (GetStr p ''server'') in
     if server = [] then False
     else
       let server = (if has_prefix server ''['' \<and> has_suffix server '']''
                     then trim_prefix (trim_suffix server '']'') ''['' else server)
       in
       if equal_fold server ''localhost'' then True
       else if (case ParseAddr server of Some a \<Rightarrow> IsLoopback a \<or> IsUnspecified a | None \<Rightarrow> False) then True
       else let port = GetInt p ''port'' in port \<noteq> 0 \<and> (port < 1 \<or> port > 65535))"

definition markInvalidHealthCheckProxy :: "string \<Rightarrow> translation \<Rightarrow> translation" where
  "markInvalidHealthCheckProxy name t = t\<lparr>t_invalidHealth := insert name (t_invalidHealth t)\<rparr>"

definition hasProxyEndpoint :: "gmap \<Rightarrow> bool" where
  "hasProxyEndpoint p =
    (if GetStr p ''server'' = [] then False
     else GetInt p ''port'' \<noteq> 0 \<or> GetStr p ''ports'' \<noteq> [])"

definition makeStubOutbound :: "string \<Rightarrow> string \<Rightarrow> gmap" where
  "makeStubOutbound name proxyType =
    [(''type'', VStr ''socks''), (''tag'', VStr name), (''version'', VStr ''5''), (''server'', VStr ''127.0.0.1''),
     (''server_port'', VInt 1), (''username'', VStr (''unsupported:'' @ proxyType))]"

section \<open>The loop\<close>

definition add_stub :: "string \<Rightarrow> string \<Rightarrow> translation \<Rightarrow> translation" where
  "add_stub name proxyType t = t\<lparr>t_stubTags := mput name proxyType (t_stubTags t)\<rparr>"

definition add_proxy_tag :: "string \<Rightarrow> translation \<Rightarrow> translation" where
  "add_proxy_tag tag t = t\<lparr>t_proxyTags := insert tag (t_proxyTags t)\<rparr>"

definition endpoint_warning :: "string \<Rightarrow> string" where
  "endpoint_warning name = ''proxy '' @ quoted name @ '': missing server or port, degraded to stub''"

definition translate_entry ::
  "(string \<Rightarrow> bool) \<Rightarrow> string \<Rightarrow> gmap \<Rightarrow> translation \<Rightarrow> gmap list \<times> translation" where
  "translate_entry valid_uuid fp p t =
    (let proxyType = mstr p ''type''; name = mstr p ''name'' in
     if name = [] then ([], t)
     else
       let t = (if isInvalidHealthCheckEndpoint p then markInvalidHealthCheckProxy name t else t) in
       if \<not> hasProxyEndpoint p then
         ([makeStubOutbound name proxyType],
          markInvalidHealthCheckProxy name (add_proxy_tag name (add_stub name proxyType (warn (endpoint_warning name) t))))
       else
         let (translated, warns) = translateOneProxy valid_uuid p fp;
             t = warn_all warns t;
             (outbound, t) =
               (case translated of
                  Some ob \<Rightarrow> (ob, t)
                | None \<Rightarrow> (makeStubOutbound name proxyType,
                           markInvalidHealthCheckProxy name (add_stub name proxyType t)));
             tag = mstr outbound ''tag''
         in if tag = [] then ([], t) else ([outbound], add_proxy_tag tag t))"

definition translateProxies :: "(string \<Rightarrow> bool) \<Rightarrow> RawConfig \<Rightarrow> translation \<Rightarrow> gmap list \<times> translation" where
  "translateProxies valid_uuid cfg t =
    fold_out (translate_entry valid_uuid (cfg_GlobalFingerprint cfg)) (cfg_Proxy cfg) t"

section \<open>Each translation keeps the entry's name\<close>

lemma mstr_GetStr: "mstr p k \<noteq> [] \<Longrightarrow> GetStr p k = mstr p k"
  by (frule mstr_not_Nil_D) (simp add: GetStr_def)

lemma GetStr_mput_other [simp]: "k \<noteq> k' \<Longrightarrow> GetStr (mput k' v m) k = GetStr m k"
  by (simp add: GetStr_def)

definition plain_outbound :: "gmap \<Rightarrow> bool" where
  "plain_outbound ob \<longleftrightarrow> mstr ob ''tag'' \<noteq> [] \<and> map_of ob ''outbounds'' = None \<and> map_of ob ''default'' = None"

lemma outbound_of_plain:
  "outbound_of ty m ob \<Longrightarrow> mstr ob ''tag'' = GetStr m ''name'' \<and> map_of ob ''outbounds'' = None \<and> map_of ob ''default'' = None"
  by (simp add: outbound_of_def mstr_def common_keys_def)

lemma translateOneProxy_outbound:
  assumes "translateOneProxy valid_uuid p fp = (Some ob, ws)"
  shows "\<exists>ty m. outbound_of ty m ob \<and> GetStr m ''name'' = GetStr p ''name''"
proof -
  define m where "m = (if fp \<noteq> [] \<and> \<not> mhas p ''client-fingerprint''
              then mput ''client-fingerprint'' (VStr fp) p else p)"
  have "GetStr m ''name'' = GetStr p ''name''" by (simp add: m_def)
  moreover have "\<exists>ty. outbound_of ty m ob"
    using assms unfolding translateOneProxy_def m_def[symmetric] Let_def
    by (auto split: if_splits dest: vless.translated vmess.translated trojan.translated shadowsocks.translated
        hysteria2.translated tuic.translated anytls.translated socks.translated http.translated
        hysteria.translated simp: TranslateUnsupported_def Let_def)
  ultimately show ?thesis by blast
qed

text \<open>No entry is dropped without a message.\<close>

lemma translateOneProxy_not_silent:
  assumes "translateOneProxy valid_uuid p fp = (None, ws)"
  shows "ws \<noteq> []"
proof -
  define m where "m = (if fp \<noteq> [] \<and> \<not> mhas p ''client-fingerprint''
              then mput ''client-fingerprint'' (VStr fp) p else p)"
  show ?thesis
    using assms unfolding translateOneProxy_def m_def[symmetric] Let_def
    by (auto split: if_splits dest: vless.not_silent vmess.not_silent trojan.not_silent shadowsocks.not_silent
        hysteria2.not_silent tuic.not_silent anytls.not_silent socks.not_silent http.not_silent
        hysteria.not_silent simp: TranslateUnsupported_def Let_def)
qed

lemma translateOneProxy_tag:
  assumes "translateOneProxy valid_uuid p fp = (Some ob, ws)" "mstr p ''name'' \<noteq> []"
  shows "mstr ob ''tag'' = mstr p ''name'' \<and> plain_outbound ob"
proof -
  obtain ty m where "outbound_of ty m ob" "GetStr m ''name'' = GetStr p ''name''"
    using translateOneProxy_outbound[OF assms(1)] by blast
  then show ?thesis
    using outbound_of_plain[of ty m ob] mstr_GetStr[OF assms(2)] assms(2) by (simp add: plain_outbound_def)
qed

lemma stub_tag [simp]: "mstr (makeStubOutbound name ty) ''tag'' = name"
  by (simp add: makeStubOutbound_def)

lemma stub_plain: "name \<noteq> [] \<Longrightarrow> plain_outbound (makeStubOutbound name ty)"
  by (simp add: plain_outbound_def makeStubOutbound_def)

section \<open>Frame\<close>

text \<open>What the proxy step leaves alone: everything but the tags, the stubs and the warnings.\<close>

definition same_but_proxies :: "translation \<Rightarrow> translation \<Rightarrow> bool" where
  "same_but_proxies t t' \<longleftrightarrow>
     t_config t' = t_config t \<and> t_groupTagOrder t' = t_groupTagOrder t \<and> t_groupTags t' = t_groupTags t \<and>
     t_ruleSetDefs t' = t_ruleSetDefs t \<and> t_echQueryServers t' = t_echQueryServers t \<and>
     t_dnsTerminalRules t' = t_dnsTerminalRules t \<and> t_dnsEnabled t' = t_dnsEnabled t \<and> t_country t' = t_country t"

lemma same_but_proxies_refl [simp]: "same_but_proxies t t"
  by (simp add: same_but_proxies_def)

lemma same_but_proxies_updates [simp]:
  "same_but_proxies t (markInvalidHealthCheckProxy n t') = same_but_proxies t t'"
  "same_but_proxies t (add_proxy_tag n t') = same_but_proxies t t'"
  "same_but_proxies t (add_stub n ty t') = same_but_proxies t t'"
  "same_but_proxies t (warn w t') = same_but_proxies t t'"
  "same_but_proxies t (warn_all ws t') = same_but_proxies t t'"
  by (simp_all add: same_but_proxies_def markInvalidHealthCheckProxy_def add_proxy_tag_def add_stub_def)

lemma same_but_proxies_trans: "same_but_proxies t t1 \<Longrightarrow> same_but_proxies t1 t2 \<Longrightarrow> same_but_proxies t t2"
  by (simp add: same_but_proxies_def)

lemma entry_fields [simp]:
  "t_proxyTags (markInvalidHealthCheckProxy n t) = t_proxyTags t"
  "t_stubTags (markInvalidHealthCheckProxy n t) = t_stubTags t"
  "t_invalidHealth (markInvalidHealthCheckProxy n t) = insert n (t_invalidHealth t)"
  "t_proxyTags (add_proxy_tag n t) = insert n (t_proxyTags t)" "t_stubTags (add_proxy_tag n t) = t_stubTags t"
  "t_invalidHealth (add_proxy_tag n t) = t_invalidHealth t"
  "t_proxyTags (add_stub n ty t) = t_proxyTags t" "t_stubTags (add_stub n ty t) = mput n ty (t_stubTags t)"
  "t_invalidHealth (add_stub n ty t) = t_invalidHealth t"
  "t_warnings (add_stub n ty t) = t_warnings t" "t_warnings (add_proxy_tag n t) = t_warnings t"
  "t_warnings (markInvalidHealthCheckProxy n t) = t_warnings t"
  by (simp_all add: markInvalidHealthCheckProxy_def add_proxy_tag_def add_stub_def)

section \<open>The step and the loop\<close>

text \<open>One step: its outputs, the tags it registers, the stubs it records.\<close>

definition entry_step :: "gmap \<Rightarrow> translation \<Rightarrow> gmap list \<Rightarrow> translation \<Rightarrow> bool" where
  "entry_step p t obs t' \<longleftrightarrow>
     map (\<lambda>ob. mstr ob ''tag'') obs = (if mstr p ''name'' = [] then [] else [mstr p ''name'']) \<and>
     list_all plain_outbound obs \<and>
     t_proxyTags t' = t_proxyTags t \<union> set (map (\<lambda>ob. mstr ob ''tag'') obs) \<and>
     (\<forall>n. mhas (t_stubTags t') n \<longrightarrow> mhas (t_stubTags t) n \<or> n \<in> t_invalidHealth t' \<and> n \<in> t_proxyTags t') \<and>
     t_invalidHealth t \<subseteq> t_invalidHealth t' \<and>
     same_but_proxies t t'"

lemma translate_entry_step:
  assumes "translate_entry valid_uuid fp p t = (obs, t')"
  shows "entry_step p t obs t'"
proof (cases "mstr p ''name'' = []")
  case True
  then show ?thesis using assms by (auto simp: translate_entry_def entry_step_def)
next
  case named: False
  define t1 where "t1 = (if isInvalidHealthCheckEndpoint p then markInvalidHealthCheckProxy (mstr p ''name'') t else t)"
  have t1: "t_proxyTags t1 = t_proxyTags t" "t_stubTags t1 = t_stubTags t" "t_invalidHealth t \<subseteq> t_invalidHealth t1"
    "same_but_proxies t t1"
    by (auto simp: t1_def)
  show ?thesis
  proof (cases "hasProxyEndpoint p")
    case False
    with named assms t1 stub_plain[OF named] show ?thesis
      by (auto simp: translate_entry_def Let_def t1_def[symmetric] entry_step_def)
  next
    case True
    obtain tr ws where o: "translateOneProxy valid_uuid p fp = (tr, ws)" by fastforce
    show ?thesis
    proof (cases tr)
      case None
      with named assms t1 o True stub_plain[OF named] show ?thesis
        by (auto simp: translate_entry_def Let_def t1_def[symmetric] entry_step_def)
    next
      case (Some ob)
      with named assms t1 o True translateOneProxy_tag[of valid_uuid p fp ob ws] show ?thesis
        by (auto simp: translate_entry_def Let_def t1_def[symmetric] entry_step_def)
    qed
  qed
qed

definition proxies_done :: "gmap list \<Rightarrow> translation \<Rightarrow> gmap list \<Rightarrow> translation \<Rightarrow> bool" where
  "proxies_done ps t obs t' \<longleftrightarrow>
     map (\<lambda>ob. mstr ob ''tag'') obs = filter (\<lambda>n. n \<noteq> []) (map (\<lambda>p. mstr p ''name'') ps) \<and>
     list_all plain_outbound obs \<and>
     t_proxyTags t' = t_proxyTags t \<union> set (map (\<lambda>ob. mstr ob ''tag'') obs) \<and>
     (\<forall>n. mhas (t_stubTags t') n \<longrightarrow> mhas (t_stubTags t) n \<or> n \<in> t_invalidHealth t' \<and> n \<in> t_proxyTags t') \<and>
     t_invalidHealth t \<subseteq> t_invalidHealth t' \<and>
     same_but_proxies t t'"

lemma translateProxies_done:
  "fold_out (translate_entry valid_uuid fp) ps t = (obs, t') \<Longrightarrow> proxies_done ps t obs t'"
proof (induction ps arbitrary: t obs t')
  case Nil
  then show ?case by (simp add: proxies_done_def)
next
  case (Cons p ps)
  obtain o1 t1 where s: "translate_entry valid_uuid fp p t = (o1, t1)" by fastforce
  obtain o2 t2 where f: "fold_out (translate_entry valid_uuid fp) ps t1 = (o2, t2)" by fastforce
  have e: "obs = o1 @ o2" "t' = t2" using Cons.prems s f by auto
  have S: "entry_step p t o1 t1" by (rule translate_entry_step[OF s])
  have D: "proxies_done ps t1 o2 t2" by (rule Cons.IH[OF f])
  have "same_but_proxies t t2"
    using S D same_but_proxies_trans unfolding entry_step_def proxies_done_def by blast
  moreover have "\<forall>n. mhas (t_stubTags t2) n \<longrightarrow> mhas (t_stubTags t) n \<or> n \<in> t_invalidHealth t2 \<and> n \<in> t_proxyTags t2"
    using S D unfolding entry_step_def proxies_done_def by blast
  moreover have "map (\<lambda>ob. mstr ob ''tag'') (o1 @ o2) =
      filter (\<lambda>n. n \<noteq> []) (map (\<lambda>p. mstr p ''name'') (p # ps))"
    using S D unfolding entry_step_def proxies_done_def by simp
  moreover have "t_proxyTags t2 = t_proxyTags t \<union> set (map (\<lambda>ob. mstr ob ''tag'') (o1 @ o2))"
    using S D unfolding entry_step_def proxies_done_def by (simp only: map_append set_append Un_assoc)
  moreover have "t_invalidHealth t \<subseteq> t_invalidHealth t2" "list_all plain_outbound (o1 @ o2)"
    using S D unfolding entry_step_def proxies_done_def by (simp_all only: list_all_append) blast
  ultimately show ?case unfolding e proxies_done_def by blast
qed

lemma translateProxies_result:
  "translateProxies valid_uuid cfg t = (obs, t') \<Longrightarrow> proxies_done (cfg_Proxy cfg) t obs t'"
  unfolding translateProxies_def by (rule translateProxies_done)

end
