(* ===== verification/ProxyGroups.thy ===== *)
theory ProxyGroups
  imports Proxies
begin

text \<open>
  \<open>translator/group.go\<close>: the \<open>proxy-groups\<close> section.  Members that are not known outbounds are
  filtered out, health-checked groups drop dead members, and a clean-up pass is repeated until it
  drops no group.  The repetition is the locale \<open>fixpoint_loop\<close>: a pass that shortens its list by
  the number it drops can be iterated, and the result is one a last pass leaves complete.  The model's loop
  is an interpretation, which gives the absence of dangling members.
\<close>

section \<open>Group options\<close>

definition maxGroupInterval :: int where "maxGroupInterval = 1800"
definition minGroupIdleTimeout :: int where "minGroupIdleTimeout = 1800"
definition maxTolerance :: int where "maxTolerance = 65535"
definition fallbackTolerance :: int where "fallbackTolerance = 10000"

definition toInt :: "gval option \<Rightarrow> int option" where
  "toInt v = (case v of
     Some (VInt n) \<Rightarrow> Some n
   | Some (VInt64 n) \<Rightarrow> Some n
   | Some (VFloat n _ _) \<Rightarrow> Some n
   | _ \<Rightarrow> None)"

definition group_msg :: "string \<Rightarrow> string \<Rightarrow> string" where
  "group_msg name text = ''proxy-group '' @ quoted name @ text"

definition groupURLDefaults :: "gmap \<Rightarrow> string \<Rightarrow> translation \<Rightarrow> (string \<times> int) \<times> translation" where
  "groupURLDefaults g name t =
    (let url = (if mstr g ''url'' \<noteq> [] then mstr g ''url'' else ''http://www.gstatic.com/generate_204'') in
     case toInt (map_of g ''interval'') of
       Some iv \<Rightarrow>
         if iv > 0 then
           if iv > maxGroupInterval
           then ((url, maxGroupInterval),
                 warn (group_msg name ('': interval '' @ itoa iv @ ''s exceeds '' @ itoa maxGroupInterval @
                   ''s, clamped to '' @ itoa maxGroupInterval @ ''s'')) t)
           else ((url, iv), t)
         else ((url, 180), t)
     | None \<Rightarrow> ((url, 180), t))"

section \<open>The group types\<close>

definition translateSelectGroup :: "string \<Rightarrow> string list \<Rightarrow> gmap" where
  "translateSelectGroup name proxies =
    [(''type'', VStr ''selector''), (''tag'', VStr name), (''outbounds'', VStrs proxies),
     (''default'', VStr (hd proxies)), (''interrupt_exist_connections'', VBool True)]"

definition urltest_base :: "string \<Rightarrow> string list \<Rightarrow> string \<Rightarrow> int \<Rightarrow> gmap" where
  "urltest_base name proxies url interval =
    [(''type'', VStr ''urltest''), (''tag'', VStr name), (''outbounds'', VStrs proxies), (''url'', VStr url),
     (''interval'', VStr (SecondsToDuration interval)),
     (''idle_timeout'', VStr (SecondsToDuration (max (interval * 2) minGroupIdleTimeout))),
     (''interrupt_exist_connections'', VBool True)]"

definition translateURLTestGroup :: "string \<Rightarrow> string list \<Rightarrow> gmap \<Rightarrow> translation \<Rightarrow> gmap \<times> translation" where
  "translateURLTestGroup name proxies g t =
    (let ((url, interval), t) = groupURLDefaults g name t;
         result = urltest_base name proxies url interval
     in (case toInt (map_of g ''tolerance'') of
           Some tol \<Rightarrow> if tol > 0 then mput ''tolerance'' (VInt (min tol maxTolerance)) result else result
         | None \<Rightarrow> result, t))"

definition translateFallbackGroup :: "string \<Rightarrow> string list \<Rightarrow> gmap \<Rightarrow> translation \<Rightarrow> gmap \<times> translation" where
  "translateFallbackGroup name proxies g t =
    (let ((url, interval), t) = groupURLDefaults g name t
     in (mput ''tolerance'' (VInt fallbackTolerance) (urltest_base name proxies url interval), t))"

definition translateLoadBalanceGroup :: "string \<Rightarrow> string list \<Rightarrow> translation \<Rightarrow> gmap \<times> translation" where
  "translateLoadBalanceGroup name proxies t =
    (translateSelectGroup name proxies,
     warn (group_msg name '': load-balance has no sing-box equivalent, degraded to selector'') t)"

section \<open>Members\<close>

definition filterGroupProxies :: "gmap \<Rightarrow> translation \<Rightarrow> string list" where
  "filterGroupProxies g t =
    (let rawProxies = (case map_of g ''proxies'' of Some (VList vs) \<Rightarrow> vs | _ \<Rightarrow> [])
     in filter (\<lambda>name. name \<in> t_proxyTags t \<or> name \<in> t_groupTags t \<or> name = ''DIRECT'') (str_items rawProxies))"

definition filterHealthCheckProxies :: "string list \<Rightarrow> translation \<Rightarrow> string list" where
  "filterHealthCheckProxies proxies t = filter (\<lambda>name. name \<notin> t_invalidHealth t) proxies"

section \<open>One group\<close>

type_synonym group_state = "string set \<times> translation"

definition keep_group :: "string \<Rightarrow> gmap \<times> translation \<Rightarrow> string set \<Rightarrow> gmap list \<times> group_state" where
  "keep_group name r translated = ([fst r], (insert name translated, snd r))"

definition skip_group :: "string \<Rightarrow> translation \<Rightarrow> string set \<Rightarrow> gmap list \<times> group_state" where
  "skip_group msg t translated = ([], (translated, warn msg t))"

definition translate_group :: "gmap \<Rightarrow> group_state \<Rightarrow> gmap list \<times> group_state" where
  "translate_group g st =
    (let (translated, t) = st; name = mstr g ''name''; groupType = mstr g ''type'' in
     if name = [] then skip_group ''proxy-group missing name, skipping'' t translated
     else
       let filtered = filterGroupProxies g t in
       if filtered = [] then
         skip_group (group_msg name '' has no valid proxies after filtering, skipping'') t translated
       else if groupType = ''select'' then keep_group name (translateSelectGroup name filtered, t) translated
       else if groupType = ''url-test'' \<or> groupType = ''fallback'' then
         let filtered = filterHealthCheckProxies filtered t in
         if filtered = [] then
           skip_group (group_msg name '' has no valid health-check proxies after filtering, skipping'') t translated
         else if groupType = ''url-test'' then keep_group name (translateURLTestGroup name filtered g t) translated
         else keep_group name (translateFallbackGroup name filtered g t) translated
       else if groupType = ''load-balance'' then keep_group name (translateLoadBalanceGroup name filtered t) translated
       else if groupType = ''relay'' then
         skip_group (group_msg name '': relay is not supported in sing-box, skipping'') t translated
       else skip_group (group_msg name ('': unknown type '' @ quoted groupType @ '', skipping'')) t translated)"

section \<open>Clean-up\<close>

definition validTags :: "group_state \<Rightarrow> string \<Rightarrow> bool" where
  "validTags st tag = (tag \<in> t_proxyTags (snd st) \<or> tag \<in> fst st \<or> tag = ''DIRECT'')"

definition drop_group_tag :: "string \<Rightarrow> translation \<Rightarrow> translation" where
  "drop_group_tag tag t = t\<lparr>t_groupTags := t_groupTags t - {tag}\<rparr>"

definition cleanup_group :: "(string \<Rightarrow> bool) \<Rightarrow> gmap \<Rightarrow> group_state \<Rightarrow> gmap list \<times> group_state" where
  "cleanup_group valid ob st =
    (let (translated, t) = st; tag = mstr ob ''tag'';
         clean = filter valid (mstrs ob ''outbounds'')
     in if clean = [] then
          ([], (translated - {tag},
                drop_group_tag tag (warn (group_msg tag '' has no valid outbounds after cleanup, dropping'') t)))
        else
          let ob = mput ''outbounds'' (VStrs clean) ob;
              ob = (case map_of ob ''default'' of
                      Some (VStr d) \<Rightarrow> if \<not> valid d then mput ''default'' (VStr (hd clean)) ob else ob
                    | _ \<Rightarrow> ob)
          in ([ob], (translated, t)))"

definition cleanupGroupOutboundsOnce :: "gmap list \<Rightarrow> group_state \<Rightarrow> (gmap list \<times> nat) \<times> group_state" where
  "cleanupGroupOutboundsOnce groups st =
    (let (result, st') = fold_out (cleanup_group (validTags st)) groups st
     in ((result, length groups - length result), st'))"

lemma cleanup_group_length: "length (fst (cleanup_group v ob st)) \<le> 1"
  by (simp add: cleanup_group_def Let_def split: prod.split)

lemma fold_cleanup_length: "length (fst (fold_out (cleanup_group v) groups st)) \<le> length groups"
proof (induction groups arbitrary: st)
  case Nil
  then show ?case by simp
next
  case (Cons ob groups)
  obtain o1 s1 where "cleanup_group v ob st = (o1, s1)" by (rule prod.exhaust)
  with Cons.IH[of s1] cleanup_group_length[of v ob st] show ?case
    by (simp split: prod.split) force
qed

lemma cleanupOnce_length:
  "cleanupGroupOutboundsOnce groups st = ((result, dropped), st') \<Longrightarrow> length result + dropped = length groups"
  using fold_cleanup_length[of "validTags st" groups st]
  by (auto simp: cleanupGroupOutboundsOnce_def Let_def split: prod.splits)

function cleanupGroupOutbounds :: "gmap list \<Rightarrow> group_state \<Rightarrow> gmap list \<times> group_state" where
  "cleanupGroupOutbounds groups st =
    (let r = cleanupGroupOutboundsOnce groups st
     in if snd (fst r) = 0 then (fst (fst r), snd r) else cleanupGroupOutbounds (fst (fst r)) (snd r))"
  by pat_completeness auto
termination
proof (relation "measure (\<lambda>(groups, st). length groups)", simp)
  fix groups st r
  assume r: "r = cleanupGroupOutboundsOnce groups st" and d: "snd (fst r) \<noteq> 0"
  obtain result dropped st' where e: "cleanupGroupOutboundsOnce groups st = ((result, dropped), st')"
    by (metis surj_pair)
  show "((fst (fst r), snd r), (groups, st)) \<in> measure (\<lambda>(groups, st). length groups)"
    using cleanupOnce_length[OF e] d unfolding r e by simp
qed

declare cleanupGroupOutbounds.simps [simp del]

section \<open>All groups\<close>

definition group_names :: "RawConfig \<Rightarrow> string list" where
  "group_names cfg = filter (\<lambda>n. n \<noteq> []) (map (\<lambda>g. mstr g ''name'') (cfg_ProxyGroup cfg))"

definition order_groups :: "string list \<Rightarrow> string set \<Rightarrow> translation \<Rightarrow> translation" where
  "order_groups names translated t =
    t\<lparr>t_groupTagOrder := t_groupTagOrder t @ filter (\<lambda>n. n \<in> translated) names,
      t_groupTags := t_groupTags t - set (filter (\<lambda>n. n \<notin> translated) names)\<rparr>"

definition no_groups_warning :: string where
  "no_groups_warning = ''no proxy groups were translated successfully; route.final will fall back to DIRECT''"

definition translateGroups :: "RawConfig \<Rightarrow> translation \<Rightarrow> gmap list \<times> translation" where
  "translateGroups cfg t =
    (let t = t\<lparr>t_groupTags := t_groupTags t \<union> set (group_names cfg)\<rparr>;
         (groups, st) = fold_out translate_group (cfg_ProxyGroup cfg) ({}, t);
         (groups, (translated, t)) = cleanupGroupOutbounds groups st;
         t = order_groups (group_names cfg) translated t;
         t = (if t_groupTagOrder t = [] \<and> cfg_ProxyGroup cfg \<noteq> [] then warn no_groups_warning t else t)
     in (groups, t))"

section \<open>Default groups\<close>

definition generateDefaultGroups :: "translation \<Rightarrow> gmap list \<times> translation" where
  "generateDefaultGroups t =
    (let allProxies = sorted_list_of_set (t_proxyTags t) in
     if allProxies = [] then ([], t)
     else
       let healthCheckProxies = filterHealthCheckProxies allProxies t;
           (groups, selectorOutbounds, t) =
             (if length healthCheckProxies \<ge> 2
              then let (auto, t) = translateURLTestGroup ''Auto'' healthCheckProxies [] t
                   in ([auto], [''Auto''], t\<lparr>t_groupTags := insert ''Auto'' (t_groupTags t)\<rparr>)
              else ([], [], t));
           proxy = translateSelectGroup ''PROXY'' (selectorOutbounds @ allProxies)
       in (groups @ [proxy],
           t\<lparr>t_groupTags := insert ''PROXY'' (t_groupTags t), t_groupTagOrder := [''PROXY'']\<rparr>))"

section \<open>Iterating a pass to its fixed point\<close>

locale fixpoint_loop =
  fixes pass :: "'x list \<Rightarrow> 's \<Rightarrow> ('x list \<times> nat) \<times> 's"
    and loop :: "'x list \<Rightarrow> 's \<Rightarrow> 'x list \<times> 's"
  assumes pass_shrinks: "pass xs s = ((ys, d), s') \<Longrightarrow> length ys + d = length xs"
    and loop_eq: "loop xs s =
      (if snd (fst (pass xs s)) = 0 then (fst (fst (pass xs s)), snd (pass xs s))
       else loop (fst (fst (pass xs s))) (snd (pass xs s)))"
begin

text \<open>The result is what a pass returns that drops nothing, from a state reached by earlier passes.\<close>

lemma last_pass:
  assumes inv: "I xs s" and keep: "\<And>xs s ys d s'. I xs s \<Longrightarrow> pass xs s = ((ys, d), s') \<Longrightarrow> I ys s'"
  shows "\<exists>xs0 s0. I xs0 s0 \<and> pass xs0 s0 = ((fst (loop xs s), 0), snd (loop xs s))"
  using inv
proof (induction "length xs" arbitrary: xs s rule: less_induct)
  case less
  obtain ys d s' where p: "pass xs s = ((ys, d), s')" by (metis surj_pair)
  show ?case
  proof (cases "d = 0")
    case True
    then have "loop xs s = (ys, s')" using loop_eq[of xs s] p by simp
    then show ?thesis using less.prems p True by auto
  next
    case False
    then have l: "loop xs s = loop ys s'" using loop_eq[of xs s] p by simp
    have "length ys < length xs" using pass_shrinks[OF p] False by simp
    from less.hyps[OF this keep[OF less.prems p]] show ?thesis unfolding l .
  qed
qed

lemma never_longer: "length (fst (loop xs s)) \<le> length xs"
proof -
  have "\<exists>xs0 s0. length xs0 \<le> length xs \<and> pass xs0 s0 = ((fst (loop xs s), 0), snd (loop xs s))"
    using last_pass[of "\<lambda>ys t. length ys \<le> length xs" xs s] pass_shrinks by fastforce
  then obtain xs0 s0 where "length xs0 \<le> length xs" "pass xs0 s0 = ((fst (loop xs s), 0), snd (loop xs s))"
    by blast
  then show ?thesis using pass_shrinks by fastforce
qed

end

interpretation cleanup: fixpoint_loop cleanupGroupOutboundsOnce cleanupGroupOutbounds
proof
  show "cleanupGroupOutboundsOnce xs s = ((ys, d), s') \<Longrightarrow> length ys + d = length xs" for xs s ys d s'
    by (rule cleanupOnce_length)
  show "cleanupGroupOutbounds xs s =
      (if snd (fst (cleanupGroupOutboundsOnce xs s)) = 0
       then (fst (fst (cleanupGroupOutboundsOnce xs s)), snd (cleanupGroupOutboundsOnce xs s))
       else cleanupGroupOutbounds (fst (fst (cleanupGroupOutboundsOnce xs s))) (snd (cleanupGroupOutboundsOnce xs s)))" for xs s
    by (subst cleanupGroupOutbounds.simps) (simp only: Let_def)
qed

section \<open>Invariant of a group\<close>

text \<open>
  A group has a tag, a non-empty member list, its default among the members, and, when it is
  health-checked, no member that is excluded from health checks.
\<close>

definition group_shape :: "string set \<Rightarrow> gmap \<Rightarrow> bool" where
  "group_shape bad ob \<longleftrightarrow>
     mstr ob ''tag'' \<noteq> [] \<and> mstrs ob ''outbounds'' \<noteq> [] \<and>
     map_of ob ''outbounds'' = Some (VStrs (mstrs ob ''outbounds'')) \<and>
     (map_of ob ''default'' = None \<or>
      (\<exists>d\<in>set (mstrs ob ''outbounds''). map_of ob ''default'' = Some (VStr d))) \<and>
     (mstr ob ''type'' = ''urltest'' \<longrightarrow> set (mstrs ob ''outbounds'') \<inter> bad = {})"

definition group_tags :: "gmap list \<Rightarrow> string list" where
  "group_tags groups = map (\<lambda>ob. mstr ob ''tag'') groups"

definition same_but_groups :: "translation \<Rightarrow> translation \<Rightarrow> bool" where
  "same_but_groups t t' \<longleftrightarrow>
     t_config t' = t_config t \<and> t_proxyTags t' = t_proxyTags t \<and> t_stubTags t' = t_stubTags t \<and>
     t_invalidHealth t' = t_invalidHealth t \<and> t_groupTagOrder t' = t_groupTagOrder t \<and>
     t_ruleSetDefs t' = t_ruleSetDefs t \<and> t_echQueryServers t' = t_echQueryServers t \<and>
     t_dnsTerminalRules t' = t_dnsTerminalRules t \<and> t_dnsEnabled t' = t_dnsEnabled t \<and> t_country t' = t_country t"

lemma same_but_groups_refl [simp]: "same_but_groups t t"
  by (simp add: same_but_groups_def)

lemma same_but_groups_warn [simp]: "same_but_groups t (warn w t') = same_but_groups t t'"
  "same_but_groups t (drop_group_tag n t') = same_but_groups t t'"
  by (simp_all add: same_but_groups_def drop_group_tag_def)

lemma same_but_groups_trans: "same_but_groups t t1 \<Longrightarrow> same_but_groups t1 t2 \<Longrightarrow> same_but_groups t t2"
  by (simp add: same_but_groups_def)

lemma groupURLDefaults_cases:
  "\<exists>url n t'. groupURLDefaults g name t = ((url, n), t') \<and> 1 \<le> n \<and> n \<le> maxGroupInterval \<and> same_but_groups t t'"
  by (auto simp: groupURLDefaults_def Let_def maxGroupInterval_def split: option.split)

lemma select_shape: "name \<noteq> [] \<Longrightarrow> proxies \<noteq> [] \<Longrightarrow> group_shape bad (translateSelectGroup name proxies)"
  by (simp add: group_shape_def translateSelectGroup_def)

lemma urltest_shape:
  "name \<noteq> [] \<Longrightarrow> proxies \<noteq> [] \<Longrightarrow> set proxies \<inter> bad = {} \<Longrightarrow> group_shape bad (urltest_base name proxies url n)"
  by (simp add: group_shape_def urltest_base_def)

lemma group_shape_tolerance [simp]: "group_shape bad (mput ''tolerance'' v ob) = group_shape bad ob"
  by (simp add: group_shape_def)

definition group_result :: "string \<Rightarrow> translation \<Rightarrow> gmap \<times> translation \<Rightarrow> bool" where
  "group_result name t r \<longleftrightarrow>
     group_shape (t_invalidHealth t) (fst r) \<and> mstr (fst r) ''tag'' = name \<and> same_but_groups t (snd r)"

lemma translateURLTestGroup_result:
  assumes "name \<noteq> []" "proxies \<noteq> []" "set proxies \<inter> t_invalidHealth t = {}"
  shows "group_result name t (translateURLTestGroup name proxies g t)"
    "group_result name t (translateFallbackGroup name proxies g t)"
proof -
  obtain url n t' where u: "groupURLDefaults g name t = ((url, n), t')" "same_but_groups t t'"
    using groupURLDefaults_cases[of g name t] by blast
  have "mstr (urltest_base name proxies url n) ''tag'' = name" by (simp add: urltest_base_def)
  then show "group_result name t (translateURLTestGroup name proxies g t)"
    "group_result name t (translateFallbackGroup name proxies g t)"
    using u urltest_shape[OF assms, of url n]
    by (auto simp: translateURLTestGroup_def translateFallbackGroup_def group_result_def Let_def split: option.split)
qed

lemma select_results:
  assumes "name \<noteq> []" "proxies \<noteq> []"
  shows "group_result name t (translateSelectGroup name proxies, t)"
    "group_result name t (translateLoadBalanceGroup name proxies t)"
  using select_shape[OF assms]
  by (simp_all add: group_result_def translateLoadBalanceGroup_def translateSelectGroup_def)

lemma health_results:
  assumes "name \<noteq> []" "filterHealthCheckProxies ps t \<noteq> []"
  shows "group_result name t (translateURLTestGroup name (filterHealthCheckProxies ps t) g t)"
    "group_result name t (translateFallbackGroup name (filterHealthCheckProxies ps t) g t)"
  by (rule translateURLTestGroup_result[OF assms]; auto simp: filterHealthCheckProxies_def)+

definition group_step :: "translation \<Rightarrow> string set \<Rightarrow> gmap list \<Rightarrow> group_state \<Rightarrow> bool" where
  "group_step t tr obs st' \<longleftrightarrow>
     list_all (group_shape (t_invalidHealth t)) obs \<and> fst st' = tr \<union> set (group_tags obs) \<and>
     same_but_groups t (snd st')"

lemma keep_group_step: "group_result name t r \<Longrightarrow> keep_group name r tr = (obs, st') \<Longrightarrow> group_step t tr obs st'"
  by (auto simp: group_result_def keep_group_def group_step_def group_tags_def)

lemma skip_group_step: "skip_group msg t tr = (obs, st') \<Longrightarrow> group_step t tr obs st'"
  by (auto simp: skip_group_def group_step_def group_tags_def)

lemma translate_group_step: "translate_group g (tr, t) = (obs, st') \<Longrightarrow> group_step t tr obs st'"
  unfolding translate_group_def Let_def prod.case
  by (simp split: if_splits)
     (auto intro: skip_group_step keep_group_step health_results select_results)

lemma translate_groups_inv:
  "fold_out translate_group gs (tr, t) = (groups, st') \<Longrightarrow> group_step t tr groups st'"
proof (induction gs arbitrary: tr t groups st')
  case Nil
  then show ?case by (auto simp: group_step_def group_tags_def)
next
  case (Cons g gs)
  obtain o1 tr1 t1 where s: "translate_group g (tr, t) = (o1, (tr1, t1))" by (metis surj_pair)
  obtain o2 st2 where f: "fold_out translate_group gs (tr1, t1) = (o2, st2)" by (rule prod.exhaust)
  have e: "groups = o1 @ o2" "st' = st2" using Cons.prems s f by auto
  have S: "group_step t tr o1 (tr1, t1)" by (rule translate_group_step[OF s])
  have D: "group_step t1 tr1 o2 st2" by (rule Cons.IH[OF f])
  have h: "t_invalidHealth t1 = t_invalidHealth t" using S by (simp add: group_step_def same_but_groups_def)
  have "same_but_groups t (snd st2)"
    using S D same_but_groups_trans unfolding group_step_def by auto
  then show ?case
    using S D h unfolding e group_step_def by (simp add: group_tags_def Un_assoc)
qed

section \<open>Invariant of the clean-up\<close>

text \<open>What a pass leaves: shaped groups, with members valid for the pass, and the surviving tags.\<close>

definition pass_result :: "(string \<Rightarrow> bool) \<Rightarrow> gmap list \<Rightarrow> group_state \<Rightarrow> gmap list \<Rightarrow> group_state \<Rightarrow> bool" where
  "pass_result valid groups st res st' \<longleftrightarrow>
     list_all (group_shape (t_invalidHealth (snd st))) res \<and>
     list_all (\<lambda>ob. list_all valid (mstrs ob ''outbounds'')) res \<and>
     fst st' \<subseteq> fst st \<and> fst st' \<inter> set (group_tags groups) \<subseteq> set (group_tags res) \<and>
     (length res = length groups \<longrightarrow> fst st' = fst st \<and> group_tags res = group_tags groups) \<and>
     set (group_tags res) \<subseteq> set (group_tags groups) \<and>
     same_but_groups (snd st) (snd st')"

lemma cleanup_group_pass:
  assumes "group_shape (t_invalidHealth (snd st)) ob" "cleanup_group valid ob st = (res, st')"
  shows "pass_result valid [ob] st res st'"
proof (cases "filter valid (mstrs ob ''outbounds'') = []")
  case True
  with assms show ?thesis
    by (cases st) (auto simp: cleanup_group_def pass_result_def group_tags_def Let_def)
next
  case False
  let ?clean = "filter valid (mstrs ob ''outbounds'')"
  define ob' where "ob' = mput ''outbounds'' (VStrs ?clean) ob"
  define ob'' where "ob'' = (case map_of ob' ''default'' of
      Some (VStr d) \<Rightarrow> if \<not> valid d then mput ''default'' (VStr (hd ?clean)) ob' else ob' | _ \<Rightarrow> ob')"
  have r: "res = [ob'']" "st' = st"
    using assms(2) unfolding ob''_def ob'_def cleanup_group_def Let_def
    by (simp_all only: split_beta False if_False prod.inject) auto
  have d: "map_of ob' ''default'' = map_of ob ''default''" "mstrs ob' ''outbounds'' = ?clean"
    "mstr ob' ''tag'' = mstr ob ''tag''" "mstr ob' ''type'' = mstr ob ''type''"
    "map_of ob' ''outbounds'' = Some (VStrs ?clean)"
    by (simp_all add: ob'_def)
  have h: "hd ?clean \<in> set ?clean" using False by (rule hd_in_set)
  consider "map_of ob ''default'' = None"
    | x where "x \<in> set (mstrs ob ''outbounds'')" "map_of ob ''default'' = Some (VStr x)"
    using assms(1) by (auto simp: group_shape_def)
  then have "group_shape (t_invalidHealth (snd st)) ob'' \<and> mstrs ob'' ''outbounds'' = ?clean \<and>
      mstr ob'' ''tag'' = mstr ob ''tag''"
  proof cases
    case 1
    with d False assms(1) show ?thesis by (auto simp: ob''_def group_shape_def)
  next
    case 2
    with d h False assms(1) show ?thesis by (auto simp: ob''_def group_shape_def)
  qed
  then show ?thesis
    unfolding r by (simp add: pass_result_def group_tags_def list_all_iff)
qed

lemma pass_result_append:
  assumes A: "pass_result valid [ob] st r1 s1" and B: "pass_result valid obs s1 r2 s2"
    and l: "length r1 \<le> 1" "length r2 \<le> length obs"
  shows "pass_result valid (ob # obs) st (r1 @ r2) s2"
proof -
  have tags: "group_tags (r1 @ r2) = group_tags r1 @ group_tags r2"
    "group_tags (ob # obs) = group_tags [ob] @ group_tags obs"
    by (simp_all add: group_tags_def)
  have h: "t_invalidHealth (snd s1) = t_invalidHealth (snd st)"
    using A by (simp add: pass_result_def same_but_groups_def)
  note A' = A [unfolded pass_result_def] and B' = B [unfolded pass_result_def h]
  have "same_but_groups (snd st) (snd s2)"
    using A' B' same_but_groups_trans by blast
  moreover have "fst s2 \<subseteq> fst st" using A' B' by blast
  moreover have "fst s2 \<inter> set (group_tags (ob # obs)) \<subseteq> set (group_tags (r1 @ r2))"
    unfolding tags set_append using A' B' by blast
  moreover have "set (group_tags (r1 @ r2)) \<subseteq> set (group_tags (ob # obs))"
    unfolding tags set_append using A' B' by blast
  moreover have "fst s2 = fst st \<and> group_tags (r1 @ r2) = group_tags (ob # obs)"
    if "length (r1 @ r2) = length (ob # obs)"
  proof -
    have "length r1 = length [ob]" "length r2 = length obs" using that l by auto
    then show ?thesis unfolding tags using A' B' by simp
  qed
  ultimately show ?thesis
    using A' B' unfolding pass_result_def list_all_append by blast
qed

lemma fold_cleanup_pass:
  "list_all (group_shape (t_invalidHealth (snd st))) groups \<Longrightarrow>
   fold_out (cleanup_group valid) groups st = (res, st') \<Longrightarrow> pass_result valid groups st res st'"
proof (induction groups arbitrary: st res st')
  case Nil
  then show ?case by (simp add: pass_result_def)
next
  case (Cons ob groups)
  obtain r1 s1 where s: "cleanup_group valid ob st = (r1, s1)" by (rule prod.exhaust)
  obtain r2 s2 where f: "fold_out (cleanup_group valid) groups s1 = (r2, s2)" by (rule prod.exhaust)
  have e: "res = r1 @ r2" "st' = s2" using Cons.prems s f by auto
  have S: "pass_result valid [ob] st r1 s1"
    using cleanup_group_pass[OF _ s] Cons.prems(1) by simp
  then have "t_invalidHealth (snd s1) = t_invalidHealth (snd st)"
    by (simp add: pass_result_def same_but_groups_def)
  then have D: "pass_result valid groups s1 r2 s2"
    using Cons.IH[OF _ f] Cons.prems(1) by simp
  show ?case
    unfolding e using pass_result_append[OF S D] cleanup_group_length[of valid ob st]
      fold_cleanup_length[of valid groups s1] s f by simp
qed

text \<open>The result of the loop: closed under its own valid tags, with every surviving tag present.\<close>

definition groups_closed :: "translation \<Rightarrow> gmap list \<Rightarrow> group_state \<Rightarrow> bool" where
  "groups_closed t groups st \<longleftrightarrow>
     list_all (group_shape (t_invalidHealth t)) groups \<and>
     list_all (\<lambda>ob. list_all (validTags st) (mstrs ob ''outbounds'')) groups \<and>
     fst st \<subseteq> set (group_tags groups) \<and> same_but_groups t (snd st)"

lemma cleanup_closed:
  assumes "list_all (group_shape (t_invalidHealth t)) groups" "tr \<subseteq> set (group_tags groups)" "same_but_groups t0 t"
  shows "groups_closed t0 (fst (cleanupGroupOutbounds groups (tr, t))) (snd (cleanupGroupOutbounds groups (tr, t)))"
proof -
  define I where "I = (\<lambda>gs (st :: group_state). list_all (group_shape (t_invalidHealth t0)) gs \<and>
      fst st \<subseteq> set (group_tags gs) \<and> same_but_groups t0 (snd st))"
  have h: "t_invalidHealth t = t_invalidHealth t0" using assms(3) by (simp add: same_but_groups_def)
  have start: "I groups (tr, t)" using assms h by (simp add: I_def)
  have pass: "pass_result (validTags st) gs st ys st' \<and> (d = 0 \<longrightarrow> length ys = length gs)"
    if "I gs st" "cleanupGroupOutboundsOnce gs st = ((ys, d), st')" for gs st ys d st'
  proof
    have f: "fold_out (cleanup_group (validTags st)) gs st = (ys, st')"
      using that(2) by (auto simp: cleanupGroupOutboundsOnce_def Let_def split: prod.splits)
    have "t_invalidHealth (snd st) = t_invalidHealth t0"
      using that(1) by (simp add: I_def same_but_groups_def)
    then show "pass_result (validTags st) gs st ys st'"
      using fold_cleanup_pass[OF _ f] that(1) by (simp add: I_def)
    show "d = 0 \<longrightarrow> length ys = length gs" using cleanupOnce_length[OF that(2)] by simp
  qed
  have keep: "I ys st'" if "I gs st" "cleanupGroupOutboundsOnce gs st = ((ys, d), st')" for gs st ys d st'
  proof -
    have P: "pass_result (validTags st) gs st ys st'" using pass[OF that] by blast
    have "t_invalidHealth (snd st) = t_invalidHealth t0" "same_but_groups t0 (snd st')"
      using that(1) P same_but_groups_trans unfolding I_def pass_result_def
      by (simp_all add: same_but_groups_def)
    then show ?thesis using that(1) P unfolding I_def pass_result_def by auto
  qed
  obtain xs0 s0 where l: "I xs0 s0"
    "cleanupGroupOutboundsOnce xs0 s0 = ((fst (cleanupGroupOutbounds groups (tr, t)), 0), snd (cleanupGroupOutbounds groups (tr, t)))"
    using cleanup.last_pass[where I = I, OF start] keep by blast
  let ?ys = "fst (cleanupGroupOutbounds groups (tr, t))" and ?st = "snd (cleanupGroupOutbounds groups (tr, t))"
  have "pass_result (validTags s0) xs0 s0 ?ys ?st" "length ?ys = length xs0" "I ?ys ?st"
    using pass[OF l] keep[OF l] by simp_all
  then have "fst ?st = fst s0" "same_but_groups (snd s0) (snd ?st)"
    "list_all (\<lambda>ob. list_all (validTags s0) (mstrs ob ''outbounds'')) ?ys"
    unfolding pass_result_def by simp_all
  moreover from this have "validTags ?st = validTags s0"
    by (auto simp: validTags_def same_but_groups_def)
  ultimately show ?thesis
    using \<open>I ?ys ?st\<close> by (simp add: groups_closed_def I_def)
qed

section \<open>The results of the two group steps\<close>

definition groups_ok :: "translation \<Rightarrow> gmap list \<Rightarrow> bool" where
  "groups_ok t groups \<longleftrightarrow>
     list_all (group_shape (t_invalidHealth t)) groups \<and>
     list_all (\<lambda>ob. list_all (\<lambda>m. m \<in> t_proxyTags t \<or> m \<in> set (group_tags groups) \<or> m = ''DIRECT'')
                     (mstrs ob ''outbounds'')) groups"

definition same_but_grouping :: "translation \<Rightarrow> translation \<Rightarrow> bool" where
  "same_but_grouping t t' \<longleftrightarrow>
     t_config t' = t_config t \<and> t_proxyTags t' = t_proxyTags t \<and> t_stubTags t' = t_stubTags t \<and>
     t_invalidHealth t' = t_invalidHealth t \<and>
     t_ruleSetDefs t' = t_ruleSetDefs t \<and> t_echQueryServers t' = t_echQueryServers t \<and>
     t_dnsTerminalRules t' = t_dnsTerminalRules t \<and> t_dnsEnabled t' = t_dnsEnabled t \<and> t_country t' = t_country t"

definition groups_done :: "translation \<Rightarrow> gmap list \<Rightarrow> translation \<Rightarrow> bool" where
  "groups_done t groups t' \<longleftrightarrow>
     groups_ok t groups \<and> set (t_groupTagOrder t') \<subseteq> set (t_groupTagOrder t) \<union> set (group_tags groups) \<and>
     same_but_grouping t t'"

lemma translateGroups_done:
  assumes "translateGroups cfg t = (groups, t')"
  shows "groups_done t groups t'"
proof -
  define t0 where "t0 = t\<lparr>t_groupTags := t_groupTags t \<union> set (group_names cfg)\<rparr>"
  obtain gs tr1 t1 where f: "fold_out translate_group (cfg_ProxyGroup cfg) ({}, t0) = (gs, (tr1, t1))"
    by (metis surj_pair)
  obtain gs2 tr2 t2 where c: "cleanupGroupOutbounds gs (tr1, t1) = (gs2, (tr2, t2))" by (metis surj_pair)
  have S: "group_step t0 {} gs (tr1, t1)" by (rule translate_groups_inv[OF f])
  then have h: "t_invalidHealth t1 = t_invalidHealth t0" "same_but_groups t0 t1"
    by (simp_all add: group_step_def same_but_groups_def)
  have C: "groups_closed t0 gs2 (tr2, t2)"
    using cleanup_closed[of t1 gs tr1 t0] S h c by (simp add: group_step_def)
  have g: "groups = gs2" and o: "t_groupTagOrder t' = t_groupTagOrder t2 @ filter (\<lambda>n. n \<in> tr2) (group_names cfg)"
    and w: "same_but_grouping t2 t'"
    using assms f c by (simp_all add: translateGroups_def Let_def t0_def[symmetric] order_groups_def same_but_grouping_def
        split: if_split_asm) (auto simp: same_but_grouping_def)
  have b: "same_but_grouping t t2" "t_groupTagOrder t2 = t_groupTagOrder t"
    using C by (simp_all add: groups_closed_def same_but_groups_def same_but_grouping_def t0_def)
  have "groups_ok t groups"
    using C b unfolding g groups_ok_def groups_closed_def
    by (simp add: list_all_iff validTags_def same_but_groups_def t0_def) blast
  moreover have "same_but_grouping t t'"
    using b w by (simp add: same_but_grouping_def)
  moreover have "set (t_groupTagOrder t') \<subseteq> set (t_groupTagOrder t) \<union> set (group_tags groups)"
    using C b o g by (auto simp: groups_closed_def)
  ultimately show ?thesis by (simp add: groups_done_def)
qed

lemma generateDefaultGroups_done:
  assumes "generateDefaultGroups t = (groups, t')" "finite (t_proxyTags t)" "t_groupTagOrder t = []"
  shows "groups_done t groups t'"
proof (cases "sorted_list_of_set (t_proxyTags t) = []")
  case True
  then show ?thesis
    using assms(1) by (auto simp: generateDefaultGroups_def groups_done_def groups_ok_def same_but_grouping_def)
next
  case ne: False
  let ?all = "sorted_list_of_set (t_proxyTags t)"
  let ?hc = "filterHealthCheckProxies ?all t"
  have all: "set ?all = t_proxyTags t" using assms(2) by simp
  show ?thesis
  proof (cases "length ?hc \<ge> 2")
    case True
    then have hne: "?hc \<noteq> []" by auto
    obtain auto t1 where a: "translateURLTestGroup ''Auto'' ?hc [] t = (auto, t1)" by (rule prod.exhaust)
    have r: "group_result ''Auto'' t (auto, t1)" using health_results(1)[of "''Auto''" ?all t "[]"] hne a by simp
    have m: "mstrs auto ''outbounds'' = ?hc"
      using a by (auto simp: translateURLTestGroup_def Let_def urltest_base_def groupURLDefaults_def toInt_def)
    have p: "group_shape (t_invalidHealth t) (translateSelectGroup ''PROXY'' (''Auto'' # ?all))"
      by (rule select_shape) simp_all
    have g: "groups = [auto, translateSelectGroup ''PROXY'' (''Auto'' # ?all)]"
      "t' = t1\<lparr>t_groupTags := insert ''PROXY'' (insert ''Auto'' (t_groupTags t1)), t_groupTagOrder := [''PROXY'']\<rparr>"
      using assms(1) ne True a by (auto simp: generateDefaultGroups_def Let_def)
    show ?thesis
      using r p m all unfolding g groups_done_def groups_ok_def
      by (auto simp: group_result_def group_tags_def translateSelectGroup_def list_all_iff
          filterHealthCheckProxies_def same_but_groups_def same_but_grouping_def)
  next
    case False
    have p: "group_shape (t_invalidHealth t) (translateSelectGroup ''PROXY'' ?all)"
      using ne by (intro select_shape) simp_all
    have g: "groups = [translateSelectGroup ''PROXY'' ?all]"
      "t' = t\<lparr>t_groupTags := insert ''PROXY'' (t_groupTags t), t_groupTagOrder := [''PROXY'']\<rparr>"
      using assms(1) ne False by (auto simp: generateDefaultGroups_def Let_def)
    show ?thesis
      using p all unfolding g groups_done_def groups_ok_def
      by (auto simp: group_tags_def translateSelectGroup_def list_all_iff same_but_grouping_def)
  qed
qed

text \<open>Without proxies there is no default group, with any proxy there is one.\<close>

lemma generateDefaultGroups_order:
  assumes "generateDefaultGroups t = (groups, t')" "finite (t_proxyTags t)" "t_proxyTags t \<noteq> {}"
  shows "t_groupTagOrder t' = [''PROXY'']"
  using assms by (auto simp: generateDefaultGroups_def Let_def split: prod.splits if_splits)

end
