(* ===== verification/General.thy ===== *)
theory General
  imports Types ProxyCommon
begin

text \<open>
  \<open>translator/general.go\<close>, \<open>translator/experimental.go\<close> and \<open>translator/tun.go\<close>: the inbounds, the
  log, the route defaults, the Clash API and cache settings, and the TUN inbound.  The lemmas bound
  the address the local proxies listen on, and say which inbounds exist.
\<close>

section \<open>General settings\<close>

definition auth_users :: "string list \<Rightarrow> (string \<times> string) list list" where
  "auth_users auth = concat (map (\<lambda>a.
     let (user, pass, ok) = str_cut a '':''
     in if ok then [[(''username'', user), (''password'', pass)]] else []) auth)"

definition applyInboundAuth :: "string list \<Rightarrow> gmap \<Rightarrow> gmap" where
  "applyInboundAuth auth inbound =
    (if auth = [] then inbound
     else let users = auth_users auth
          in if users \<noteq> [] then mput ''users'' (VStrMaps users) inbound else inbound)"

definition mapLogLevel :: "string \<Rightarrow> string" where
  "mapLogLevel level =
    (if level = ''warning'' then ''warn''
     else if level = ''silent'' then ''error''
     else if level = [] then ''info''
     else level)"

definition listen_address :: "RawConfig \<Rightarrow> string" where
  "listen_address cfg =
    (if cfg_AllowLan cfg
     then (if cfg_BindAddress cfg \<noteq> [] \<and> cfg_BindAddress cfg \<noteq> ''*'' then cfg_BindAddress cfg else ''0.0.0.0'')
     else ''127.0.0.1'')"

definition port_inbound :: "string \<Rightarrow> string \<Rightarrow> string \<Rightarrow> int \<Rightarrow> gmap" where
  "port_inbound ty tag listen port =
    [(''type'', VStr ty), (''tag'', VStr tag), (''listen'', VStr listen), (''listen_port'', VInt port)]"

definition general_inbounds :: "RawConfig \<Rightarrow> gmap list" where
  "general_inbounds cfg =
    (let listen = listen_address cfg; auth = applyInboundAuth (cfg_Authentication cfg) in
     (if cfg_MixedPort cfg > 0
      then [auth (put_true ''set_system_proxy'' (cfg_MixedSystemProxy cfg)
              (port_inbound ''mixed'' ''mixed-in'' listen (cfg_MixedPort cfg)))]
      else []) @
     (if cfg_Port cfg > 0 then [auth (port_inbound ''http'' ''http-in'' listen (cfg_Port cfg))] else []) @
     (if cfg_SocksPort cfg > 0 then [auth (port_inbound ''socks'' ''socks-in'' listen (cfg_SocksPort cfg))] else []) @
     (if cfg_RedirPort cfg > 0 then [port_inbound ''redirect'' ''redirect-in'' listen (cfg_RedirPort cfg)] else []) @
     (if cfg_TProxyPort cfg > 0 then [port_inbound ''tproxy'' ''tproxy-in'' listen (cfg_TProxyPort cfg)] else []))"

definition route_defaults :: "RawConfig \<Rightarrow> singboxRoute \<Rightarrow> singboxRoute" where
  "route_defaults cfg route =
    (let route = (if cfg_FindProcessMode cfg = ''always'' \<or> cfg_FindProcessMode cfg = ''strict''
                  then route\<lparr>rt_FindProcess := True\<rparr> else route);
         route = route\<lparr>rt_AutoDetectInterface := True\<rparr>;
         route = (if cfg_Interface cfg \<noteq> [] then route\<lparr>rt_DefaultInterface := cfg_Interface cfg\<rparr> else route)
     in if cfg_RoutingMark cfg > 0
        then route\<lparr>rt_DefaultMark := word_of_int (cfg_RoutingMark cfg)\<rparr> else route)"

definition translateGeneral :: "RawConfig \<Rightarrow> singboxConfig \<Rightarrow> singboxConfig" where
  "translateGeneral cfg result =
    result\<lparr>sb_Inbounds := sb_Inbounds result @ general_inbounds cfg,
           sb_Log := [(''level'', VStr (mapLogLevel (cfg_LogLevel cfg))), (''timestamp'', VBool True)],
           sb_Route := route_defaults cfg (sb_Route result)\<rparr>"

section \<open>Experimental settings\<close>

definition modeMap :: "string \<Rightarrow> string" where
  "modeMap mode =
    (let m = to_lower mode in
     if m = ''rule'' then ''Rule''
     else if m = ''global'' then ''Global''
     else if m = ''direct'' then ''Direct''
     else ''Rule'')"

definition clash_api :: "RawConfig \<Rightarrow> gmap" where
  "clash_api cfg =
    (let c = [(''external_controller'', VStr ''127.0.0.1:9090''), (''secret'', VStr ''''), (''default_mode'', VStr ''Rule'')];
         c = put_str ''external_controller'' (cfg_ExternalController cfg) c;
         c = put_str ''secret'' (cfg_Secret cfg) c;
         c = put_str ''external_ui'' (cfg_ExternalUI cfg) c
     in if cfg_Mode cfg \<noteq> [] then mput ''default_mode'' (VStr (modeMap (cfg_Mode cfg))) c else c)"

definition translateExperimental :: "RawConfig \<Rightarrow> singboxConfig \<Rightarrow> singboxConfig" where
  "translateExperimental cfg result =
    result\<lparr>sb_Experimental :=
      [(''clash_api'', VMap (clash_api cfg)),
       (''cache_file'', VMap [(''enabled'', VBool True), (''path'', VStr ''cache.db''),
          (''store_fakeip'', VBool (prof_StoreFakeIP (cfg_Profile cfg))), (''store_rdrc'', VBool True)])]\<rparr>"

section \<open>TUN\<close>

definition put_slice :: "string \<Rightarrow> string list \<Rightarrow> gmap \<Rightarrow> gmap" where
  "put_slice k xs m = (if xs \<noteq> [] then mput k (VStrs xs) m else m)"

definition put_ints :: "string \<Rightarrow> int list \<Rightarrow> gmap \<Rightarrow> gmap" where
  "put_ints k xs m = (if xs \<noteq> [] then mput k (VInts xs) m else m)"

definition tun_addresses :: "RawConfig \<Rightarrow> string list" where
  "tun_addresses cfg =
    (let tun = cfg_Tun cfg in
     [if tun_Inet4Address tun \<noteq> [] then tun_Inet4Address tun else ''172.18.0.1/30''] @
     (if cfg_IPv6 cfg
      then [if tun_Inet6Address tun \<noteq> [] then tun_Inet6Address tun else ''fdfe:dcba:9876::1/126'']
      else []))"

definition tun_inbound :: "RawConfig \<Rightarrow> gmap" where
  "tun_inbound cfg =
    (let tun = cfg_Tun cfg;
         stack = (if tun_Stack tun = [] then ''mixed'' else tun_Stack tun);
         m = [(''type'', VStr ''tun''), (''tag'', VStr ''tun-in''), (''auto_route'', VBool (tun_AutoRoute tun)),
              (''strict_route'', VBool (tun_StrictRoute tun)), (''stack'', VStr stack)];
         m = mput ''address'' (VStrs (tun_addresses cfg)) m;
         m = put_str ''interface_name'' (tun_Device tun) m;
         m = (if tun_MTU tun > 0 then mput ''mtu'' (VUint32 (tun_MTU tun)) m else m);
         m = put_true ''auto_redirect'' (tun_AutoRedirect tun) m;
         m = (if tun_UDPTimeout tun > 0
              then mput ''udp_timeout'' (VStr (SecondsToDuration (tun_UDPTimeout tun))) m else m);
         m = put_slice ''route_address'' (tun_RouteAddress tun) m;
         m = put_slice ''route_exclude_address'' (tun_RouteExcludeAddress tun) m;
         m = put_pos ''iproute2_table_index'' (tun_IPRoute2TableIndex tun) m;
         m = put_pos ''iproute2_rule_index'' (tun_IPRoute2RuleIndex tun) m;
         m = put_ints ''include_uid'' (tun_IncludeUID tun) m;
         m = put_slice ''include_uid_range'' (tun_IncludeUIDRange tun) m;
         m = put_ints ''exclude_uid'' (tun_ExcludeUID tun) m;
         m = put_slice ''exclude_uid_range'' (tun_ExcludeUIDRange tun) m;
         m = put_ints ''include_android_user'' (tun_IncludeAndroidUser tun) m;
         m = put_slice ''include_package'' (tun_IncludePackage tun) m
     in put_slice ''exclude_package'' (tun_ExcludePackage tun) m)"

definition translateTUN :: "RawConfig \<Rightarrow> translation \<Rightarrow> translation" where
  "translateTUN cfg t =
    (let tun = cfg_Tun cfg in
     if \<not> tun_Enable tun then t
     else
       let t = (case tun_AutoDetectInterface tun of
                  None \<Rightarrow> t
                | Some b \<Rightarrow> upd_route (\<lambda>r. r\<lparr>rt_AutoDetectInterface := b\<rparr>) t)
       in upd_config (\<lambda>c. c\<lparr>sb_Inbounds := sb_Inbounds c @ [tun_inbound cfg]\<rparr>) t)"

section \<open>Lemmas\<close>

lemma put_slice_frame [simp]: "map_of (put_slice k xs m) k' = (if k' = k \<and> xs \<noteq> [] then Some (VStrs xs) else map_of m k')"
  "map_of (put_ints k ys m) k' = (if k' = k \<and> ys \<noteq> [] then Some (VInts ys) else map_of m k')"
  by (simp_all add: put_slice_def put_ints_def)

lemma applyInboundAuth_frame [simp]: "k \<noteq> ''users'' \<Longrightarrow> map_of (applyInboundAuth auth m) k = map_of m k"
  by (simp add: applyInboundAuth_def Let_def)

lemma general_inbounds_listen:
  "list_all (\<lambda>ib. map_of ib ''listen'' = Some (VStr (listen_address cfg))) (general_inbounds cfg)"
  by (simp add: general_inbounds_def Let_def port_inbound_def)

lemma general_inbounds_tags:
  "map (\<lambda>ib. mstr ib ''tag'') (general_inbounds cfg) =
     (if cfg_MixedPort cfg > 0 then [''mixed-in''] else []) @ (if cfg_Port cfg > 0 then [''http-in''] else []) @
     (if cfg_SocksPort cfg > 0 then [''socks-in''] else []) @ (if cfg_RedirPort cfg > 0 then [''redirect-in''] else []) @
     (if cfg_TProxyPort cfg > 0 then [''tproxy-in''] else [])"
  by (simp add: general_inbounds_def Let_def port_inbound_def mstr_def)

lemma translateGeneral_frame [simp, frame_simps]:
  "sb_Outbounds (translateGeneral cfg c) = sb_Outbounds c" "sb_DNS (translateGeneral cfg c) = sb_DNS c"
  "rt_Rules (sb_Route (translateGeneral cfg c)) = rt_Rules (sb_Route c)"
  "rt_Final (sb_Route (translateGeneral cfg c)) = rt_Final (sb_Route c)"
  "rt_RuleSet (sb_Route (translateGeneral cfg c)) = rt_RuleSet (sb_Route c)"
  "rt_DefaultDomainResolver (sb_Route (translateGeneral cfg c)) = rt_DefaultDomainResolver (sb_Route c)"
  by (simp_all add: translateGeneral_def route_defaults_def Let_def)

lemma translateExperimental_frame [simp, frame_simps]:
  "sb_Outbounds (translateExperimental cfg c) = sb_Outbounds c" "sb_DNS (translateExperimental cfg c) = sb_DNS c"
  "sb_Route (translateExperimental cfg c) = sb_Route c" "sb_Inbounds (translateExperimental cfg c) = sb_Inbounds c"
  by (simp_all add: translateExperimental_def)

lemma translateTUN_frame [simp, frame_simps]:
  "sb_Outbounds (t_config (translateTUN cfg t)) = sb_Outbounds (t_config t)"
  "sb_DNS (t_config (translateTUN cfg t)) = sb_DNS (t_config t)"
  "t_rules (translateTUN cfg t) = t_rules t"
  "rt_Final (t_route (translateTUN cfg t)) = rt_Final (t_route t)"
  "rt_RuleSet (t_route (translateTUN cfg t)) = rt_RuleSet (t_route t)"
  "rt_DefaultDomainResolver (t_route (translateTUN cfg t)) = rt_DefaultDomainResolver (t_route t)"
  "t_groupTagOrder (translateTUN cfg t) = t_groupTagOrder t" "t_ruleSetDefs (translateTUN cfg t) = t_ruleSetDefs t"
  "t_proxyTags (translateTUN cfg t) = t_proxyTags t" "t_groupTags (translateTUN cfg t) = t_groupTags t"
  "t_stubTags (translateTUN cfg t) = t_stubTags t" "t_warnings (translateTUN cfg t) = t_warnings t"
  by (simp_all add: translateTUN_def Let_def split: option.split)

end
