(* ===== verification/Country.thy ===== *)
theory Country
  imports GoStrings
begin

text \<open>
  \<open>translator/country.go\<close>: the user's country code.  The package variables \<open>cachedCountry\<close>,
  \<open>cachedCountryFallback\<close> and the \<open>sync.Once\<close> are a state.  The race of the five geolocation
  services is the list of their results in order of arrival, \<open>None\<close> for an error; the HTTP
  requests themselves are outside the model.  Every function is executable on such a list.
\<close>

record geo_cache =
  cachedCountry :: string
  cachedCountryOnce :: bool
  cachedCountryFallback :: bool

definition fresh_cache :: geo_cache where
  "fresh_cache = \<lparr>cachedCountry = [], cachedCountryOnce = False, cachedCountryFallback = False\<rparr>"

definition normalizeCountryCode :: "string \<Rightarrow> string option" where
  "normalizeCountryCode code =
    (let cc = to_upper (trim_space code) in
     if length cc \<noteq> 2 then None
     else if list_all is_upper cc then Some cc else None)"

text \<open>The first arrival without an error and of two bytes.\<close>

definition detectCountryByIP :: "string option list \<Rightarrow> string option" where
  "detectCountryByIP results =
    (case find (\<lambda>r. case r of Some c \<Rightarrow> length c = 2 | None \<Rightarrow> False) results of
       Some r \<Rightarrow> r
     | None \<Rightarrow> None)"

text \<open>The function passed to \<open>cachedCountryOnce.Do\<close>.\<close>

definition detect_once :: "string option list \<Rightarrow> geo_cache \<Rightarrow> geo_cache" where
  "detect_once results g =
    (if cachedCountryOnce g then g
     else (case detectCountryByIP results of
             Some cc \<Rightarrow> if length cc = 2
                        then g\<lparr>cachedCountryOnce := True, cachedCountry := to_upper cc\<rparr>
                        else g\<lparr>cachedCountryOnce := True, cachedCountry := ''CN'', cachedCountryFallback := True\<rparr>
           | None \<Rightarrow> g\<lparr>cachedCountryOnce := True, cachedCountry := ''CN'', cachedCountryFallback := True\<rparr>))"

definition DetectCountry :: "string option list \<Rightarrow> string \<Rightarrow> geo_cache \<Rightarrow> string \<times> geo_cache" where
  "DetectCountry results override g =
    (case normalizeCountryCode override of
       Some cc \<Rightarrow> (cc, g)
     | None \<Rightarrow> let g = detect_once results g in (cachedCountry g, g))"

definition DetectCountryWithFallback ::
  "string option list \<Rightarrow> string \<Rightarrow> geo_cache \<Rightarrow> (string \<times> bool) \<times> geo_cache" where
  "DetectCountryWithFallback results override g =
    (case normalizeCountryCode override of
       Some cc \<Rightarrow> ((cc, False), g)
     | None \<Rightarrow> let (_, g) = DetectCountry results [] g in ((cachedCountry g, cachedCountryFallback g), g))"

section \<open>Lemmas\<close>

lemma normalizeCountryCode_shape:
  "normalizeCountryCode code = Some cc \<Longrightarrow> length cc = 2 \<and> list_all is_upper cc"
  by (auto simp: normalizeCountryCode_def Let_def split: if_splits)

lemma normalize_empty [simp]: "normalizeCountryCode [] = None"
  by (simp add: normalizeCountryCode_def to_upper_def)

text \<open>Once detected, the country never changes, whatever the services answer later.\<close>

lemma detect_once_done [simp]: "cachedCountryOnce (detect_once results g)"
  by (simp add: detect_once_def split: option.split)

lemma detect_once_stable: "detect_once results' (detect_once results g) = detect_once results g"
  using detect_once_done[of results g] by (simp add: detect_once_def[of results'])

lemma detected_length: "detectCountryByIP results = Some cc \<Longrightarrow> length cc = 2"
  by (auto simp: detectCountryByIP_def split: option.splits dest: find_Some_D)

lemma fallback_iff:
  "\<not> cachedCountryOnce g \<Longrightarrow> \<not> cachedCountryFallback g \<Longrightarrow>
   cachedCountryFallback (detect_once results g) \<longleftrightarrow> detectCountryByIP results = None"
  using detected_length[of results] by (auto simp: detect_once_def split: option.splits)

end
