(* ===== verification/DnsServer.thy ===== *)
theory DnsServer
  imports ProxyProtocols Types GoNet
begin

text \<open>
  The first half of \<open>translator/dns.go\<close>: one mihomo nameserver string becomes one server object.
  \<open>extractHostPort\<close> takes a nameserver apart, \<open>schemeToDNSType\<close> chooses the server type and
  \<open>parseDNSServer\<close> builds the object, or \<open>None\<close> with a warning.  The lemmas say what the parts are
  for a well-formed address of each scheme, and what every server object carries.
\<close>

section \<open>Addresses\<close>

definition splitHostPort :: "string \<Rightarrow> string \<times> int" where
  "splitHostPort s =
    (case ParseAddr s of
       Some a \<Rightarrow> (addr_str a, 0)
     | None \<Rightarrow>
         (case (case SplitHostPort s of
                  Some (h, p) \<Rightarrow> (case atoi p of (n, None) \<Rightarrow> Some (h, n) | _ \<Rightarrow> None)
                | None \<Rightarrow> None) of
            Some r \<Rightarrow> r
          | None \<Rightarrow>
              if has_prefix s ''['' \<and> has_suffix (drop 1 s) '']''
              then (case ParseAddr (trim_suffix (drop 1 s) '']'') of
                      Some a \<Rightarrow> (addr_str a, 0)
                    | None \<Rightarrow> (s, 0))
              else (s, 0)))"

type_synonym dns_params = "string gomap"

definition add_param :: "string \<Rightarrow> dns_params \<Rightarrow> dns_params" where
  "add_param part0 params =
    (let part = trim_space part0 in
     if part = [] then params
     else let (key, v, ok) = str_cut part ''=''
          in if ok then mput key v params else mput part [] params)"

definition parse_params :: "string \<Rightarrow> dns_params" where
  "parse_params after = fold add_param (str_split CHR ''&'' after) []"

definition url_schemes :: "string list" where
  "url_schemes = [''https'', ''http'', ''tls'', ''quic'', ''h3'']"

text \<open>The scheme and the text after it.\<close>

definition split_scheme :: "string \<Rightarrow> string \<times> string" where
  "split_scheme s =
    (case find (\<lambda>sc. has_prefix s (sc @ ''://'')) url_schemes of
       Some sc \<Rightarrow> (sc, drop (length sc + 3) s)
     | None \<Rightarrow> ([], s))"

definition default_port :: "string \<Rightarrow> int" where
  "default_port scheme =
    (if scheme \<in> set [''https'', ''http'', ''h3''] then 443
     else if scheme \<in> set [''tls'', ''quic''] then 853
     else 53)"

record dns_url =
  du_host :: string
  du_port :: int
  du_path :: string
  du_scheme :: string
  du_params :: dns_params

definition extractHostPort :: "string \<Rightarrow> dns_url" where
  "extractHostPort rawURL =
    (let (url, after, found) = str_cut rawURL ''#'';
         params = (if found then parse_params after else []);
         (scheme, s) = split_scheme url;
         slashIdx = (if scheme \<in> set [''https'', ''http'', ''h3''] then str_index s ''/'' else None);
         path = (case slashIdx of Some i \<Rightarrow> drop i s | None \<Rightarrow> []);
         s = (case slashIdx of Some i \<Rightarrow> take i s | None \<Rightarrow> s);
         (host, port) = splitHostPort s
     in \<lparr>du_host = host, du_port = (if port = 0 then default_port scheme else port), du_path = path,
         du_scheme = scheme, du_params = params\<rparr>)"

section \<open>Server objects\<close>

definition schemeToDNSType :: "string \<Rightarrow> dns_params \<Rightarrow> string" where
  "schemeToDNSType scheme params =
    (if (case map_of params ''h3'' of Some v \<Rightarrow> v \<noteq> ''false'' | None \<Rightarrow> False) then ''h3''
     else
       let sc = to_lower scheme in
       if sc = ''https'' then ''https''
       else if sc = ''http'' then []
       else if sc = ''tls'' then ''tls''
       else if sc = ''quic'' then ''quic''
       else if sc = ''h3'' then ''h3''
       else ''udp'')"

definition defaultFakeIPRange :: string where
  "defaultFakeIPRange = ''198.18.0.0/15''"

definition fakeip_warning :: string where
  "fakeip_warning = ''nameserver '' @ quoted ''fakeip'' @ '' creates a separate fake-ip pool with the default range '' @
     defaultFakeIPRange @ ''; prefer dns.enhanced-mode: fake-ip with fake-ip-range''"

definition rcode_warning :: "string \<Rightarrow> string" where
  "rcode_warning s = ''nameserver '' @ quoted s @ '' is not supported by sing-box (no rcode server type), skipping''"

definition http_dns_warning :: "string \<Rightarrow> string" where
  "http_dns_warning host = ''DNS server '' @ quoted host @ '': plain HTTP DNS is not supported by sing-box, skipping''"

definition dns_server_object :: "dns_url \<Rightarrow> string \<Rightarrow> string \<Rightarrow> string \<Rightarrow> gmap" where
  "dns_server_object u dnsType tag defaultDetour =
    (let params = du_params u;
         srv = [(''tag'', VStr tag)];
         srv = mput ''type'' (VStr dnsType) srv;
         srv = mput ''server'' (VStr (du_host u)) srv;
         srv = put_pos ''server_port'' (du_port u) srv;
         srv = (if du_path u \<noteq> [] \<and> (dnsType = ''https'' \<or> dnsType = ''h3'')
                then mput ''path'' (VStr (du_path u)) srv else srv);
         srv = put_str ''detour'' defaultDetour srv;
         srv = (if mhas params ''skip-cert-verify'' \<and> (dnsType = ''https'' \<or> dnsType = ''tls'' \<or> dnsType = ''h3'')
                then mput ''tls'' (VMap [(''enabled'', VBool True), (''insecure'', VBool True)]) srv else srv);
         srv = (case map_of params ''ecs'' of Some e \<Rightarrow> mput ''client_subnet'' (VStr e) srv | None \<Rightarrow> srv);
         srv = (if mhas params ''disable-ipv4'' then mput ''strategy'' (VStr ''ipv6_only'') srv else srv)
     in if mhas params ''disable-ipv6'' then mput ''strategy'' (VStr ''ipv4_only'') srv else srv)"

definition parseDNSServer :: "string \<Rightarrow> string \<Rightarrow> string \<Rightarrow> gmap option warned" where
  "parseDNSServer rawURL tag defaultDetour =
    (let s = trim_space rawURL in
     if s = [] then (None, [])
     else if s = ''system'' then (Some [(''type'', VStr ''local''), (''tag'', VStr tag)], [])
     else if s = ''fakeip'' then
       (Some [(''type'', VStr ''fakeip''), (''tag'', VStr tag), (''inet4_range'', VStr defaultFakeIPRange)],
        [fakeip_warning])
     else if has_prefix s ''rcode://'' then (None, [rcode_warning s])
     else if has_prefix s ''dhcp://'' then
       (Some [(''type'', VStr ''dhcp''), (''tag'', VStr tag), (''interface'', VStr (trim_prefix s ''dhcp://''))], [])
     else
       let u = extractHostPort s;
           dnsType = schemeToDNSType (du_scheme u) (du_params u)
       in if dnsType = [] then (None, [http_dns_warning (du_host u)])
          else (Some (dns_server_object u dnsType tag defaultDetour), []))"

section \<open>Fake address ranges\<close>

definition fake_v4_contains :: "ip_addr \<Rightarrow> bool" where
  "fake_v4_contains a = (case to4 a of Some (x # y # _) \<Rightarrow> x = 198 \<and> (y = 18 \<or> y = 19) | _ \<Rightarrow> False)"

definition normalizeFakeIPRange :: "string \<Rightarrow> string" where
  "normalizeFakeIPRange ipRange =
    (case ParseCIDR ipRange of
       None \<Rightarrow> defaultFakeIPRange
     | Some (a, n) \<Rightarrow> if fake_v4_contains a then defaultFakeIPRange else net_str (a, n))"

definition normalizeFakeIPRange6 :: "string \<Rightarrow> string" where
  "normalizeFakeIPRange6 ipRange =
    (case ParseCIDR ipRange of None \<Rightarrow> ipRange | Some net \<Rightarrow> net_str net)"

section \<open>Lists of servers\<close>

definition dns_entry :: "string \<Rightarrow> string \<Rightarrow> nat \<times> string \<Rightarrow> (string \<times> gmap) list warned" where
  "dns_entry prefix detour ins =
    (let tag = prefix @ itoa (int (fst ins)) in
     case parseDNSServer (snd ins) tag detour of
       (Some srv, ws) \<Rightarrow> ([(tag, srv)], ws)
     | (None, ws) \<Rightarrow> ([], ws))"

definition buildDNSServerEntries ::
  "string list \<Rightarrow> string \<Rightarrow> string \<Rightarrow> singboxDNS \<Rightarrow> (string list \<times> singboxDNS) warned" where
  "buildDNSServerEntries servers prefix detour result =
    (let rs = map (dns_entry prefix detour) (enumerate 0 servers);
         entries = concat (map fst rs)
     in ((map fst entries, result\<lparr>sd_Servers := sd_Servers result @ map snd entries\<rparr>),
         concat (map snd rs)))"

section \<open>Lemmas\<close>

text \<open>What every server object carries: its tag, a type, and the detour it was given, if any.\<close>

definition dns_server_ok :: "string \<Rightarrow> string \<Rightarrow> gmap \<Rightarrow> bool" where
  "dns_server_ok tag detour srv \<longleftrightarrow>
     map_of srv ''tag'' = Some (VStr tag) \<and> mstr srv ''type'' \<noteq> [] \<and> mstr srv ''type'' \<noteq> ''hosts'' \<and>
     (map_of srv ''detour'' = None \<or> detour \<noteq> [] \<and> map_of srv ''detour'' = Some (VStr detour)) \<and>
     map_of srv ''domain_resolver'' = None"

definition dns_extra_key :: "string \<Rightarrow> bool" where
  "dns_extra_key k \<longleftrightarrow> k \<notin> set [''tag'', ''type'', ''detour'', ''domain_resolver'']"

lemma dns_server_ok_mput:
  assumes "dns_server_ok tag detour srv" "dns_extra_key k"
  shows "dns_server_ok tag detour (mput k v srv)"
    "dns_server_ok tag detour (if b then mput k v srv else srv)"
    "dns_server_ok tag detour (put_pos k n srv)"
    "dns_server_ok tag detour (case z of Some e \<Rightarrow> mput k (f e) srv | None \<Rightarrow> srv)"
  using assms by (auto simp: dns_server_ok_def dns_extra_key_def put_pos_def split: option.split)

lemma dns_server_ok_detour: "dns_server_ok tag detour srv \<Longrightarrow> dns_server_ok tag detour (put_str ''detour'' detour srv)"
  by (auto simp: dns_server_ok_def put_str_def)

lemma dns_server_ok_base:
  "dnsType \<noteq> [] \<Longrightarrow> dnsType \<noteq> ''hosts'' \<Longrightarrow> dns_server_ok tag detour (mput ''type'' (VStr dnsType) [(''tag'', VStr tag)])"
  by (simp add: dns_server_ok_def)

lemma dns_server_object_ok:
  assumes "dnsType \<noteq> []" "dnsType \<noteq> ''hosts''"
  shows "dns_server_ok tag detour (dns_server_object u dnsType tag detour)"
  unfolding dns_server_object_def Let_def
  by (intro dns_server_ok_mput dns_server_ok_detour dns_server_ok_base[OF assms])
     (simp_all add: dns_extra_key_def)

lemma schemeToDNSType_values:
  "schemeToDNSType scheme params \<in> set [[], ''https'', ''tls'', ''quic'', ''h3'', ''udp'']"
  by (simp add: schemeToDNSType_def Let_def)

lemma parseDNSServer_ok:
  assumes "parseDNSServer raw tag detour = (Some srv, ws)"
  shows "dns_server_ok tag detour srv"
proof -
  have t: "schemeToDNSType sc ps \<noteq> ''hosts''" for sc ps
    using schemeToDNSType_values[of sc ps] by auto
  show ?thesis
    using assms unfolding parseDNSServer_def Let_def
    by (simp split: if_splits) (use t dns_server_object_ok in \<open>auto simp: dns_server_ok_def[of _ _ "_ # _"]\<close>)
qed

lemma parseDNSServer_tag: "parseDNSServer raw tag detour = (Some srv, ws) \<Longrightarrow> mstr srv ''tag'' = tag"
  using parseDNSServer_ok[of raw tag detour srv ws] by (simp add: dns_server_ok_def mstr_def)

lemma dns_entry_ok:
  "dns_entry prefix detour ins = (es, ws) \<Longrightarrow>
   es = [] \<or> (\<exists>srv. es = [(prefix @ itoa (int (fst ins)), srv)] \<and> dns_server_ok (prefix @ itoa (int (fst ins))) detour srv)"
  by (auto simp: dns_entry_def Let_def split: prod.splits option.splits dest: parseDNSServer_ok)

text \<open>The tags returned are the tags of the servers appended, in order.\<close>

lemma buildDNSServerEntries_result:
  assumes "buildDNSServerEntries servers prefix detour result = ((tags, result'), ws)"
  shows "\<exists>new. result' = result\<lparr>sd_Servers := sd_Servers result @ new\<rparr> \<and>
     tags = map (\<lambda>srv. mstr srv ''tag'') new \<and>
     list_all (\<lambda>srv. (\<exists>i. mstr srv ''tag'' = prefix @ itoa (int i)) \<and> dns_server_ok (mstr srv ''tag'') detour srv) new"
proof -
  define rs where "rs = map (dns_entry prefix detour) (enumerate 0 servers)"
  define entries where "entries = concat (map fst rs)"
  have "\<exists>i. e = (prefix @ itoa (int i), snd e) \<and> dns_server_ok (prefix @ itoa (int i)) detour (snd e)"
    if e: "e \<in> set entries" for e
  proof -
    obtain l where l: "l \<in> set (map fst rs)" "e \<in> set l"
      using e unfolding entries_def set_concat by blast
    then obtain ins where "l = fst (dns_entry prefix detour ins)"
      unfolding rs_def set_map by blast
    with l(2) have "e \<in> set (fst (dns_entry prefix detour ins))" by simp
    then show ?thesis
      using dns_entry_ok[of prefix detour ins "fst (dns_entry prefix detour ins)" "snd (dns_entry prefix detour ins)"]
      by auto
  qed
  then have "\<forall>e\<in>set entries. \<exists>i. fst e = prefix @ itoa (int i) \<and> mstr (snd e) ''tag'' = fst e \<and>
      dns_server_ok (fst e) detour (snd e)"
    unfolding dns_server_ok_def by (metis as_str.simps(1) fst_conv mstr_def)
  then have "map fst entries = map (\<lambda>srv. mstr srv ''tag'') (map snd entries) \<and>
      list_all (\<lambda>srv. (\<exists>i. mstr srv ''tag'' = prefix @ itoa (int i)) \<and> dns_server_ok (mstr srv ''tag'') detour srv) (map snd entries)"
    by (auto simp: list_all_iff)
  moreover have "tags = map fst entries" "result' = result\<lparr>sd_Servers := sd_Servers result @ map snd entries\<rparr>"
    using assms by (auto simp: buildDNSServerEntries_def rs_def entries_def Let_def)
  ultimately show ?thesis by blast
qed

end
