(* ===== verification/Rules.thy ===== *)
theory Rules
  imports Types ProxyCommon
begin

text \<open>
  \<open>translator/rule.go\<close> and the routing half of \<open>translator/autoroute.go\<close>: the registry of rule
  sets, the download prefix, and the country-based routing rules that replace the user's rules.
  The registry keeps the first definition of a tag, which is the law \<open>assign_absent\<close> of Go maps.
  The lemmas give the rules in closed form, so their order can be read off, and show that every
  rule set a rule names is registered under its own tag.
\<close>

section \<open>Rule sets\<close>

definition RawGitHubPrefix :: string where
  "RawGitHubPrefix = ''https://raw.githubusercontent.com/''"

definition ProxyURL :: "string \<Rightarrow> string \<Rightarrow> string" where
  "ProxyURL rawURL proxy =
    (let prefix = trim_right CHR ''/'' proxy in
     if prefix \<noteq> [] \<and> has_prefix rawURL RawGitHubPrefix then prefix @ ''/'' @ rawURL else rawURL)"

definition rule_set_def :: "string \<Rightarrow> string \<Rightarrow> gmap" where
  "rule_set_def tag rawURL =
    [(''type'', VStr ''remote''), (''tag'', VStr tag), (''format'', VStr ''binary''), (''url'', VStr rawURL),
     (''download_detour'', VStr ''DIRECT''), (''update_interval'', VStr ''1d'')]"

definition registerRuleSet :: "string \<Rightarrow> string \<Rightarrow> translation \<Rightarrow> translation" where
  "registerRuleSet tag rawURL t =
    (if mhas (t_ruleSetDefs t) tag then t
     else t\<lparr>t_ruleSetDefs := mput tag (rule_set_def tag rawURL) (t_ruleSetDefs t)\<rparr>)"

definition rule_set_url :: "string \<Rightarrow> string \<Rightarrow> string" where
  "rule_set_url geoType name =
    (if geoType = ''geoip''
     then RawGitHubPrefix @ ''SagerNet/sing-geoip/rule-set/geoip-'' @ to_lower name @ ''.srs''
     else RawGitHubPrefix @ ''SagerNet/sing-geosite/rule-set/geosite-'' @ to_lower name @ ''.srs'')"

definition ensureRuleSetDef :: "string \<Rightarrow> string \<Rightarrow> string \<Rightarrow> translation \<Rightarrow> translation" where
  "ensureRuleSetDef tag geoType name t = registerRuleSet tag (rule_set_url geoType name) t"

text \<open>
  The rewriting step of \<open>ApplyRuleSetProxy\<close>, on the decoded document: the \<open>url\<close> of every object in
  \<open>route.rule_set\<close>.  \<open>None\<close> means the input text is returned as it is.
\<close>

definition proxy_rule_set :: "string \<Rightarrow> gval \<Rightarrow> gval" where
  "proxy_rule_set proxy rs =
    (case rs of
       VMap m \<Rightarrow> if mstr m ''url'' \<noteq> [] then VMap (mput ''url'' (VStr (ProxyURL (mstr m ''url'') proxy)) m) else VMap m
     | _ \<Rightarrow> rs)"

definition apply_rule_set_proxy :: "string \<Rightarrow> gmap \<Rightarrow> gmap option" where
  "apply_rule_set_proxy proxy root =
    (if proxy = [] then None
     else case as_map (map_of root ''route'') of
       None \<Rightarrow> None
     | Some route \<Rightarrow>
         (case map_of route ''rule_set'' of
            Some (VList rs) \<Rightarrow>
              Some (mput ''route'' (VMap (mput ''rule_set'' (VList (map (proxy_rule_set proxy) rs)) route)) root)
          | _ \<Rightarrow> None))"

section \<open>Messages\<close>

text \<open>The messages are written in Chinese; these are their UTF-8 bytes.\<close>

definition bytes :: "int list \<Rightarrow> string" where
  "bytes ns = map char_of ns"

definition msg_rules :: string where
  "msg_rules = bytes [32, 230, 157, 161, 32, 114, 117, 108, 101, 115, 32, 230, 156, 170, 231, 191, 187, 232,
     175, 145, 239, 188, 154, 229, 183, 178, 231, 148, 177, 232, 135, 170, 229, 138, 168, 229, 156, 176, 231,
     144, 134, 229, 136, 134, 230, 181, 129, 230, 155, 191, 228, 187, 163]"
definition msg_proxy_providers :: string where
  "msg_proxy_providers = bytes [32, 228, 184, 170, 32, 112, 114, 111, 120, 121, 45, 112, 114, 111, 118, 105,
     100, 101, 114, 115, 32, 230, 156, 170, 231, 191, 187, 232, 175, 145, 239, 188, 154, 228, 184, 141, 230,
     148, 175, 230, 140, 129, 232, 174, 162, 233, 152, 133, 230, 139, 137, 229, 143, 150, 239, 188, 140, 232,
     175, 183, 230, 148, 185, 231, 148, 168, 229, 134, 133, 232, 129, 148, 32, 112, 114, 111, 120, 105, 101,
     115]"
definition msg_rule_providers :: string where
  "msg_rule_providers = bytes [32, 228, 184, 170, 32, 114, 117, 108, 101, 45, 112, 114, 111, 118, 105, 100,
     101, 114, 115, 32, 230, 156, 170, 231, 191, 187, 232, 175, 145, 239, 188, 154, 229, 183, 178, 231, 148,
     177, 232, 135, 170, 229, 138, 168, 229, 156, 176, 231, 144, 134, 229, 136, 134, 230, 181, 129, 230, 155,
     191, 228, 187, 163]"

definition count_warning :: "nat \<Rightarrow> string \<Rightarrow> string list" where
  "count_warning n msg = (if n > 0 then [itoa (int n) @ msg] else [])"

definition warnUnsupportedRouting :: "RawConfig \<Rightarrow> translation \<Rightarrow> translation" where
  "warnUnsupportedRouting cfg t =
    warn_all (count_warning (length (cfg_Rule cfg)) msg_rules @
              count_warning (length (cfg_ProxyProvider cfg)) msg_proxy_providers @
              count_warning (length (cfg_RuleProvider cfg)) msg_rule_providers) t"

section \<open>Routing rules\<close>

definition match_rule :: "string \<Rightarrow> string \<Rightarrow> string \<Rightarrow> gmap" where
  "match_rule key v outbound = [(key, VStrs [v]), (''outbound'', VStr outbound)]"

definition add_rule :: "gmap \<Rightarrow> translation \<Rightarrow> translation" where
  "add_rule r t = add_rules [r] t"

definition cn_direct_names :: "string list" where
  "cn_direct_names = [''microsoft@cn'', ''steam@cn'', ''category-games@cn'', ''onedrive'']"

definition add_cn_direct :: "string \<Rightarrow> translation \<Rightarrow> translation" where
  "add_cn_direct name t =
    (let tag = ''geosite-'' @ name
     in add_rule (match_rule ''rule_set'' tag ''DIRECT'') (ensureRuleSetDef tag ''geosite'' name t))"

definition generateCNRoutes :: "string \<Rightarrow> translation \<Rightarrow> translation" where
  "generateCNRoutes proxyTag t =
    (let t = registerRuleSet ''overseas-ai''
           ''https://raw.githubusercontent.com/viewer12/OverseasAI.list/main/rule/Singbox/OverseasAI/OverseasAI.srs'' t;
         t = add_rule (match_rule ''rule_set'' ''overseas-ai'' proxyTag) t;
         t = fold add_cn_direct cn_direct_names t;
         t = ensureRuleSetDef ''geosite-geolocation-!cn'' ''geosite'' ''geolocation-!cn'' t;
         t = add_rule (match_rule ''rule_set'' ''geosite-geolocation-!cn'' proxyTag) t;
         t = ensureRuleSetDef ''geosite-cn'' ''geosite'' ''cn'' t;
         t = add_rule (match_rule ''rule_set'' ''geosite-cn'' ''DIRECT'') t;
         t = ensureRuleSetDef ''geoip-cn'' ''geoip'' ''cn'' t;
         t = add_rule (match_rule ''rule_set'' ''geoip-cn'' ''DIRECT'') t
     in add_rule (match_rule ''domain_suffix'' ''.cn'' ''DIRECT'') t)"

definition genericCCTLDs :: "string list" where
  "genericCCTLDs =
    [''io'', ''tv'', ''ai'', ''me'', ''cc'', ''sh'', ''gg'', ''je'', ''fm'', ''am'', ''la'', ''ly'', ''to'', ''co'', ''ws'',
     ''tk'', ''cf'', ''ga'', ''gq'', ''ml'']"

definition generateCountryRoutes :: "string \<Rightarrow> translation \<Rightarrow> translation" where
  "generateCountryRoutes cc t =
    (let t = ensureRuleSetDef (''geoip-'' @ cc) ''geoip'' cc t;
         t = add_rule (match_rule ''rule_set'' (''geoip-'' @ cc) ''DIRECT'') t
     in if cc \<notin> set genericCCTLDs then add_rule (match_rule ''domain_suffix'' (''.'' @ cc) ''DIRECT'') t else t)"

definition private_ip_rule :: gmap where
  "private_ip_rule = [(''ip_is_private'', VBool True), (''outbound'', VStr ''DIRECT'')]"

definition translateRules :: "RawConfig \<Rightarrow> translation \<Rightarrow> translation" where
  "translateRules cfg t =
    (let t = warnUnsupportedRouting cfg t;
         proxyTag = (if firstGroupTag t = [] then ''DIRECT'' else firstGroupTag t);
         cc = t_country t;
         t = add_rule private_ip_rule t;
         t = ensureRuleSetDef ''geosite-private'' ''geosite'' ''private'' t;
         t = add_rule (match_rule ''rule_set'' ''geosite-private'' ''DIRECT'') t
     in if cc = ''cn'' then generateCNRoutes proxyTag t else generateCountryRoutes cc t)"

section \<open>The registry\<close>

lemma registerRuleSet_absent:
  "t_ruleSetDefs (registerRuleSet tag url t) = gm.assign_absent tag (rule_set_def tag url) (t_ruleSetDefs t)"
  by (auto simp: registerRuleSet_def gm.assign_absent_def mhas_def split: option.split)

text \<open>Every definition carries its own key as its tag; this is what the references are checked against.\<close>

definition defs_wf :: "gmap gomap \<Rightarrow> bool" where
  "defs_wf defs \<longleftrightarrow> wf_map defs \<and>
     list_all (\<lambda>(tag, def). map_of def ''tag'' = Some (VStr tag) \<and> map_of def ''download_detour'' = Some (VStr ''DIRECT'')) defs"

lemma defs_wf_Nil [simp]: "defs_wf []"
  by (simp add: defs_wf_def)

lemma list_all_mput: "list_all P (m :: 'v gomap) \<Longrightarrow> P (k, v) \<Longrightarrow> list_all P (mput k v m)"
  by (induction k v m rule: mput.induct) auto

lemma registerRuleSet_wf [simp]: "defs_wf (t_ruleSetDefs t) \<Longrightarrow> defs_wf (t_ruleSetDefs (registerRuleSet tag url t))"
  by (auto simp: registerRuleSet_def defs_wf_def rule_set_def_def intro!: list_all_mput)

lemma registerRuleSet_has [simp]:
  "mhas (t_ruleSetDefs (registerRuleSet tag url t)) k \<longleftrightarrow> k = tag \<or> mhas (t_ruleSetDefs t) k"
  by (auto simp: registerRuleSet_def)

lemma registerRuleSet_frame [simp, frame_simps]:
  "t_config (registerRuleSet tag url t) = t_config t" "t_proxyTags (registerRuleSet tag url t) = t_proxyTags t"
  "t_stubTags (registerRuleSet tag url t) = t_stubTags t" "t_invalidHealth (registerRuleSet tag url t) = t_invalidHealth t"
  "t_groupTagOrder (registerRuleSet tag url t) = t_groupTagOrder t" "t_groupTags (registerRuleSet tag url t) = t_groupTags t"
  "t_echQueryServers (registerRuleSet tag url t) = t_echQueryServers t"
  "t_dnsTerminalRules (registerRuleSet tag url t) = t_dnsTerminalRules t"
  "t_dnsEnabled (registerRuleSet tag url t) = t_dnsEnabled t"
  "t_country (registerRuleSet tag url t) = t_country t" "t_warnings (registerRuleSet tag url t) = t_warnings t"
  by (simp_all add: registerRuleSet_def)

section \<open>The steps in closed form\<close>

text \<open>A step that registers rule sets, appends rules and warns.\<close>

definition rule_step :: "string list \<Rightarrow> gmap list \<Rightarrow> translation \<Rightarrow> translation \<Rightarrow> bool" where
  "rule_step tags rules t t' \<longleftrightarrow>
     (\<forall>k. mhas (t_ruleSetDefs t') k \<longleftrightarrow> k \<in> set tags \<or> mhas (t_ruleSetDefs t) k) \<and>
     (defs_wf (t_ruleSetDefs t) \<longrightarrow> defs_wf (t_ruleSetDefs t')) \<and>
     t_rules t' = t_rules t @ rules \<and>
     sb_Outbounds (t_config t') = sb_Outbounds (t_config t) \<and> sb_DNS (t_config t') = sb_DNS (t_config t) \<and>
     sb_Inbounds (t_config t') = sb_Inbounds (t_config t) \<and>
     rt_Final (t_route t') = rt_Final (t_route t) \<and> rt_RuleSet (t_route t') = rt_RuleSet (t_route t) \<and>
     rt_DefaultDomainResolver (t_route t') = rt_DefaultDomainResolver (t_route t) \<and>
     t_groupTagOrder t' = t_groupTagOrder t \<and> t_echQueryServers t' = t_echQueryServers t \<and>
     t_dnsTerminalRules t' = t_dnsTerminalRules t \<and> t_country t' = t_country t \<and> t_proxyTags t' = t_proxyTags t \<and>
     t_stubTags t' = t_stubTags t \<and> t_groupTags t' = t_groupTags t \<and> t_dnsEnabled t' = t_dnsEnabled t"

lemma rule_step_refl: "rule_step [] [] t t"
  by (simp add: rule_step_def)

lemma rule_step_add: "rule_step tags rules t t' \<Longrightarrow> rule_step tags (rules @ [r]) t (add_rule r t')"
  by (simp add: rule_step_def add_rule_def)

lemma rule_step_register:
  "rule_step tags rules t t' \<Longrightarrow> rule_step (tags @ [tag]) rules t (registerRuleSet tag url t')"
  by (auto simp: rule_step_def)

lemma rule_step_ensure:
  "rule_step tags rules t t' \<Longrightarrow> rule_step (tags @ [tag]) rules t (ensureRuleSetDef tag g n t')"
  unfolding ensureRuleSetDef_def by (rule rule_step_register)

lemma rule_step_warn: "rule_step [] [] t (warnUnsupportedRouting cfg t)"
  by (simp add: rule_step_def warnUnsupportedRouting_def)

lemmas rule_steps = rule_step_add rule_step_register rule_step_ensure

text \<open>The rules of each country, as a list.\<close>

definition cn_rules :: "string \<Rightarrow> gmap list" where
  "cn_rules proxyTag =
    [match_rule ''rule_set'' ''overseas-ai'' proxyTag] @
    map (\<lambda>n. match_rule ''rule_set'' (''geosite-'' @ n) ''DIRECT'') cn_direct_names @
    [match_rule ''rule_set'' ''geosite-geolocation-!cn'' proxyTag, match_rule ''rule_set'' ''geosite-cn'' ''DIRECT'',
     match_rule ''rule_set'' ''geoip-cn'' ''DIRECT'', match_rule ''domain_suffix'' ''.cn'' ''DIRECT'']"

definition cn_tags :: "string list" where
  "cn_tags = [''overseas-ai''] @ map (\<lambda>n. ''geosite-'' @ n) cn_direct_names @
     [''geosite-geolocation-!cn'', ''geosite-cn'', ''geoip-cn'']"

definition country_rules :: "string \<Rightarrow> gmap list" where
  "country_rules cc =
    [match_rule ''rule_set'' (''geoip-'' @ cc) ''DIRECT''] @
    (if cc \<notin> set genericCCTLDs then [match_rule ''domain_suffix'' (''.'' @ cc) ''DIRECT''] else [])"

definition auto_rules :: "string \<Rightarrow> string \<Rightarrow> gmap list" where
  "auto_rules cc proxyTag =
    [private_ip_rule, match_rule ''rule_set'' ''geosite-private'' ''DIRECT''] @
    (if cc = ''cn'' then cn_rules proxyTag else country_rules cc)"

definition auto_tags :: "string \<Rightarrow> string list" where
  "auto_tags cc = ''geosite-private'' # (if cc = ''cn'' then cn_tags else [''geoip-'' @ cc])"

lemma generateCNRoutes_step:
  assumes "rule_step tags rules t0 t"
  shows "rule_step (tags @ cn_tags) (rules @ cn_rules proxyTag) t0 (generateCNRoutes proxyTag t)"
proof -
  note s = assms [THEN rule_step_register, THEN rule_step_add]
  have "rule_step (tags @ ''overseas-ai'' # map (\<lambda>n. ''geosite-'' @ n) cn_direct_names)
      (rules @ match_rule ''rule_set'' ''overseas-ai'' proxyTag #
        map (\<lambda>n. match_rule ''rule_set'' (''geosite-'' @ n) ''DIRECT'') cn_direct_names) t0
      (fold add_cn_direct cn_direct_names
        (add_rule (match_rule ''rule_set'' ''overseas-ai'' proxyTag)
          (registerRuleSet ''overseas-ai''
           ''https://raw.githubusercontent.com/viewer12/OverseasAI.list/main/rule/Singbox/OverseasAI/OverseasAI.srs'' t)))"
    (is "rule_step ?tags ?rules t0 ?t")
    using s [THEN rule_step_ensure, THEN rule_step_add, THEN rule_step_ensure, THEN rule_step_add,
        THEN rule_step_ensure, THEN rule_step_add, THEN rule_step_ensure, THEN rule_step_add]
    by (simp only: cn_direct_names_def add_cn_direct_def Let_def fold.simps list.map append_assoc append.simps
        o_apply id_apply)
  from this [THEN rule_step_ensure, THEN rule_step_add, THEN rule_step_ensure, THEN rule_step_add,
      THEN rule_step_ensure, THEN rule_step_add, THEN rule_step_add]
  show ?thesis
    by (simp only: generateCNRoutes_def Let_def cn_tags_def cn_rules_def append_assoc append.simps)
qed

lemma generateCountryRoutes_step:
  assumes "rule_step tags rules t0 t"
  shows "rule_step (tags @ [''geoip-'' @ cc]) (rules @ country_rules cc) t0 (generateCountryRoutes cc t)"
proof (cases "cc \<in> set genericCCTLDs")
  case True
  then show ?thesis
    using assms [THEN rule_step_ensure, THEN rule_step_add]
    by (simp add: generateCountryRoutes_def country_rules_def)
next
  case False
  then show ?thesis
    using assms [THEN rule_step_ensure, THEN rule_step_add, THEN rule_step_add]
    by (simp add: generateCountryRoutes_def country_rules_def)
qed

definition route_tag :: "translation \<Rightarrow> string" where
  "route_tag t = (if firstGroupTag t = [] then ''DIRECT'' else firstGroupTag t)"

lemma translateRules_step:
  "rule_step (auto_tags (t_country t)) (auto_rules (t_country t) (route_tag t)) t (translateRules cfg t)"
proof -
  have f: "firstGroupTag (warnUnsupportedRouting cfg t) = firstGroupTag t" "t_country (warnUnsupportedRouting cfg t) = t_country t"
    by (simp_all add: firstGroupTag_def warnUnsupportedRouting_def)
  note s = rule_step_warn[of t cfg, THEN rule_step_add[where r = private_ip_rule], THEN rule_step_ensure, THEN rule_step_add]
  show ?thesis
  proof (cases "t_country t = ''cn''")
    case True
    show ?thesis
      using s [THEN generateCNRoutes_step]
      by (simp only: translateRules_def Let_def f True auto_rules_def auto_tags_def route_tag_def append.simps
          append_Nil if_True refl)
  next
    case False
    show ?thesis
      using s [THEN generateCountryRoutes_step]
      by (simp only: translateRules_def Let_def f False auto_rules_def auto_tags_def route_tag_def append.simps
          append_Nil if_False)
  qed
qed

section \<open>Consequences\<close>

text \<open>The rule sets a rule names, and the outbound it sends to.\<close>

lemma auto_rules_closed:
  "list_all (\<lambda>r. list_all (\<lambda>tag. tag \<in> set (auto_tags cc)) (mstrs r ''rule_set'') \<and>
                (mstr r ''outbound'' = ''DIRECT'' \<or> mstr r ''outbound'' = proxyTag)) (auto_rules cc proxyTag)"
  by (simp add: auto_rules_def auto_tags_def cn_rules_def cn_tags_def country_rules_def match_rule_def
      private_ip_rule_def cn_direct_names_def)

lemma trim_right_no_slash: "trim_right c s \<noteq> [] \<Longrightarrow> last (trim_right c s) \<noteq> c"
  using hd_dropWhile[of "\<lambda>x. x = c" "rev s"] by (simp add: trim_right_def last_rev)

end
