(* ===== verification/Dns.thy ===== *)
theory Dns
  imports DnsServer Rules
begin

text \<open>
  The second half of \<open>translator/dns.go\<close> and the DNS half of \<open>translator/autoroute.go\<close>:
  \<open>translateDNS\<close> step by step, the searches for a direct, an ECH capable and a fake-ip server, and
  \<open>generateDNSRules\<close> with its fixed order of rules.  The lemmas keep one invariant through all the
  steps: every reference in the DNS module names a server of the module, every detour is the first
  group, and the default resolver exists and is not the system resolver.
\<close>

section \<open>Small steps\<close>

definition addBootstrapDNS :: "singboxDNS \<Rightarrow> string \<times> singboxDNS" where
  "addBootstrapDNS result =
    (''bootstrap-dns'',
     result\<lparr>sd_Servers := sd_Servers result @
       [[(''type'', VStr ''udp''), (''tag'', VStr ''bootstrap-dns''), (''server'', VStr ''223.5.5.5'')]]\<rparr>)"

definition isLocalDNSServer :: "string \<Rightarrow> singboxDNS \<Rightarrow> bool" where
  "isLocalDNSServer tag result =
    (case find (\<lambda>srv. mstr srv ''tag'' = tag) (sd_Servers result) of
       Some srv \<Rightarrow> map_of srv ''type'' = Some (VStr ''local'')
     | None \<Rightarrow> False)"

definition is_udp_server :: "singboxDNS \<Rightarrow> string \<Rightarrow> bool" where
  "is_udp_server result tag =
    list_ex (\<lambda>srv. map_of srv ''tag'' = Some (VStr tag) \<and> map_of srv ''type'' = Some (VStr ''udp'')) (sd_Servers result)"

definition preferUDPServer :: "string list \<Rightarrow> singboxDNS \<Rightarrow> string" where
  "preferUDPServer candidates result =
    (if candidates = [] then []
     else case find (is_udp_server result) candidates of Some tag \<Rightarrow> tag | None \<Rightarrow> hd candidates)"

definition set_resolver :: "string \<Rightarrow> translation \<Rightarrow> translation" where
  "set_resolver tag t = upd_route (\<lambda>r. r\<lparr>rt_DefaultDomainResolver := tag\<rparr>) t"

definition set_dns :: "singboxDNS \<Rightarrow> translation \<Rightarrow> translation" where
  "set_dns d t = upd_config (\<lambda>c. c\<lparr>sb_DNS := Some d\<rparr>) t"

definition set_dnsEnabled :: "bool \<Rightarrow> translation \<Rightarrow> translation" where
  "set_dnsEnabled b t = t\<lparr>t_dnsEnabled := b\<rparr>"

definition add_terminal :: "gmap \<Rightarrow> translation \<Rightarrow> translation" where
  "add_terminal r t = t\<lparr>t_dnsTerminalRules := t_dnsTerminalRules t @ [r]\<rparr>"

definition dns_strategy :: "RawConfig \<Rightarrow> string" where
  "dns_strategy cfg =
    (let v6 = dns_IPv6 (cfg_DNS cfg) in
     if v6 = Some False then ''ipv4_only''
     else if cfg_IPv6 cfg \<or> v6 = Some True then ''prefer_ipv6''
     else ''prefer_ipv4'')"

section \<open>The default resolver\<close>

definition auto_bootstrap_step ::
  "string \<Rightarrow> (string list \<times> singboxDNS) warned \<Rightarrow> (string list \<times> singboxDNS) warned" where
  "auto_bootstrap_step ns acc =
    (let ((tags, result), ws) = acc in
     if length tags \<ge> 2 then acc
     else if isIPAddress (du_host (extractHostPort ns)) then
       let tag = ''def-auto-'' @ itoa (int (length tags)) in
       case parseDNSServer ns tag [] of
         (Some srv, w) \<Rightarrow> ((tags @ [tag], result\<lparr>sd_Servers := sd_Servers result @ [srv]\<rparr>), ws @ w)
       | (None, w) \<Rightarrow> ((tags, result), ws @ w)
     else acc)"

definition no_resolver_warning :: string where
  "no_resolver_warning = ''no default-nameserver configured and no IP-based nameserver found; proxy server domains may not resolve correctly''"

definition choose_resolver ::
  "RawDNS \<Rightarrow> string list \<Rightarrow> singboxDNS \<Rightarrow> translation \<Rightarrow> (string list \<times> singboxDNS) \<times> translation" where
  "choose_resolver dns defaultServerTags result t =
    (if defaultServerTags \<noteq> [] then
       ((defaultServerTags, result), set_resolver (preferUDPServer defaultServerTags result) t)
     else
       let ((tags, result), ws) = fold auto_bootstrap_step (dns_NameServer dns) (([], result), []);
           t = warn_all ws t
       in if tags \<noteq> [] then ((tags, result), set_resolver (preferUDPServer tags result) t)
          else ((tags, result), warn no_resolver_warning t))"

definition circular_warning :: "string \<Rightarrow> string" where
  "circular_warning addr = ''DNS server '' @ quoted addr @
     '' has a domain address but no non-circular domain_resolver is available''"

definition put_resolver :: "string list \<Rightarrow> string \<Rightarrow> gmap \<Rightarrow> gmap" where
  "put_resolver tags srvTag srv =
    (case find (\<lambda>x. x \<noteq> srvTag) tags of
       Some x \<Rightarrow> mput ''domain_resolver'' (VStr x) srv
     | None \<Rightarrow> srv)"

definition resolve_server :: "string list \<Rightarrow> string list \<Rightarrow> gmap \<Rightarrow> gmap warned" where
  "resolve_server domainResolverTags defaultServerTags srv =
    (let serverAddr = mstr srv ''server''; srvTag = mstr srv ''tag'' in
     if serverAddr = [] \<or> isIPAddress serverAddr then (srv, [])
     else
       let srv = put_resolver domainResolverTags srvTag srv;
           srv = (if \<not> mhas srv ''domain_resolver'' then put_resolver defaultServerTags srvTag srv else srv)
       in (srv, if \<not> mhas srv ''domain_resolver'' then [circular_warning serverAddr] else []))"

definition resolve_servers :: "string list \<Rightarrow> string list \<Rightarrow> singboxDNS \<Rightarrow> singboxDNS warned" where
  "resolve_servers domainResolverTags defaultServerTags result =
    (let rs = map (resolve_server domainResolverTags defaultServerTags) (sd_Servers result)
     in (result\<lparr>sd_Servers := map fst rs\<rparr>, concat (map snd rs)))"

section \<open>Fake IP\<close>

definition filter_suffixes :: "string list \<Rightarrow> string list" where
  "filter_suffixes fs = concat (map (\<lambda>f.
     if has_prefix f ''*.'' then [drop 1 f]
     else if str_contains f ''*'' then [''.'' @ trim_prefix f ''*'']
     else []) fs)"

definition filter_domains :: "string list \<Rightarrow> string list" where
  "filter_domains fs = filter (\<lambda>f. \<not> has_prefix f ''*.'' \<and> \<not> str_contains f ''*'') fs"

definition dns_match :: "string \<Rightarrow> string list \<Rightarrow> string \<Rightarrow> gmap list" where
  "dns_match key vals server = (if vals \<noteq> [] then [[(key, VStrs vals), (''server'', VStr server)]] else [])"

definition fakeip_server :: "RawDNS \<Rightarrow> gmap" where
  "fakeip_server dns =
    (let inet4Range = (if dns_FakeIPRange dns \<noteq> [] then normalizeFakeIPRange (dns_FakeIPRange dns) else defaultFakeIPRange);
         srv = [(''type'', VStr ''fakeip''), (''tag'', VStr ''fakeip-dns''), (''inet4_range'', VStr inet4Range)]
     in if dns_FakeIPRange6 dns \<noteq> []
        then mput ''inet6_range'' (VStr (normalizeFakeIPRange6 (dns_FakeIPRange6 dns))) srv else srv)"

definition add_server :: "gmap \<Rightarrow> singboxDNS \<Rightarrow> singboxDNS" where
  "add_server srv d = d\<lparr>sd_Servers := sd_Servers d @ [srv]\<rparr>"

definition add_dns_rules :: "gmap list \<Rightarrow> singboxDNS \<Rightarrow> singboxDNS" where
  "add_dns_rules rs d = d\<lparr>sd_Rules := sd_Rules d @ rs\<rparr>"

definition fakeip_step :: "RawDNS \<Rightarrow> string \<Rightarrow> singboxDNS \<Rightarrow> translation \<Rightarrow> singboxDNS \<times> translation" where
  "fakeip_step dns firstNSTag result t =
    (if dns_EnhancedMode dns \<noteq> ''fake-ip'' then (result, t)
     else
       let result = add_server (fakeip_server dns) result in
       if dns_FakeIPFilter dns = [] \<or> firstNSTag = [] then (result, t)
       else
         let suffixes = filter_suffixes (dns_FakeIPFilter dns); domains = filter_domains (dns_FakeIPFilter dns) in
         if dns_FakeIPFilterMode dns = ''whitelist'' then
           (add_dns_rules (dns_match ''domain_suffix'' suffixes ''fakeip-dns'' @ dns_match ''domain'' domains ''fakeip-dns'') result,
            add_terminal [(''server'', VStr firstNSTag)] t)
         else
           (add_dns_rules (dns_match ''domain_suffix'' suffixes firstNSTag @ dns_match ''domain'' domains firstNSTag) result, t))"

section \<open>Hosts\<close>

definition host_value :: "gval \<Rightarrow> gval option" where
  "host_value v =
    (case v of
       VStr s \<Rightarrow> Some (VStr s)
     | VList vs \<Rightarrow>
         (let ips = str_items vs in
          if length ips = 1 then Some (VStr (hd ips)) else if length ips > 1 then Some (VStrs ips) else None)
     | _ \<Rightarrow> None)"

definition hosts_predefined :: "gmap \<Rightarrow> gmap" where
  "hosts_predefined hosts =
    concat (map (\<lambda>(domain, v). case host_value v of Some x \<Rightarrow> [(domain, x)] | None \<Rightarrow> []) hosts)"

definition hosts_step :: "RawConfig \<Rightarrow> singboxDNS \<Rightarrow> singboxDNS" where
  "hosts_step cfg result =
    (let hosts = cfg_Hosts cfg in
     if hosts \<noteq> [] \<and> (case dns_UseHosts (cfg_DNS cfg) of None \<Rightarrow> True | Some b \<Rightarrow> b) then
       let result = add_server [(''type'', VStr ''hosts''), (''tag'', VStr ''hosts''),
                                (''predefined'', VMap (hosts_predefined hosts))] result
       in add_dns_rules (dns_match ''domain'' (sort (mkeys hosts)) ''hosts'') result
     else result)"

section \<open>translateDNS\<close>

definition dns_final :: "string list \<Rightarrow> string \<Rightarrow> singboxDNS \<Rightarrow> singboxDNS" where
  "dns_final fallbackTags firstNSTag result =
    (if fallbackTags \<noteq> [] then result\<lparr>sd_Final := hd fallbackTags\<rparr>
     else if firstNSTag \<noteq> [] then result\<lparr>sd_Final := firstNSTag\<rparr>
     else result)"

definition prefer_h3 :: "gmap \<Rightarrow> gmap" where
  "prefer_h3 srv = (if map_of srv ''type'' = Some (VStr ''https'') then mput ''type'' (VStr ''h3'') srv else srv)"

definition prefer_h3_step :: "RawDNS \<Rightarrow> singboxDNS \<Rightarrow> singboxDNS" where
  "prefer_h3_step dns result =
    (if dns_PreferH3 dns then result\<lparr>sd_Servers := map prefer_h3 (sd_Servers result)\<rparr> else result)"

definition secure_resolver :: "singboxDNS \<Rightarrow> translation \<Rightarrow> singboxDNS \<times> translation" where
  "secure_resolver result t =
    (let dr = rt_DefaultDomainResolver (t_route t) in
     if dr = [] \<or> isLocalDNSServer dr result
     then let (tag, result) = addBootstrapDNS result in (result, set_resolver tag t)
     else (result, t))"

definition dns_servers_step ::
  "RawDNS \<Rightarrow> string \<Rightarrow> singboxDNS \<Rightarrow> (string list \<times> string list \<times> string list \<times> singboxDNS) warned" where
  "dns_servers_step dns detour result =
    (let ((defaultServerTags, result), w1) = buildDNSServerEntries (dns_DefaultNameserver dns) ''def-'' [] result;
         ((nameserverTags, result), w2) = buildDNSServerEntries (dns_NameServer dns) ''ns-'' detour result;
         ((fallbackTags, result), w3) = buildDNSServerEntries (dns_Fallback dns) ''fb-'' detour result;
         ((_, result), w4) = buildDNSServerEntries (dns_ProxyServerNameserver dns) ''psn-'' [] result
     in ((defaultServerTags, nameserverTags, fallbackTags, result), w1 @ w2 @ w3 @ w4))"

definition translateDNS :: "RawConfig \<Rightarrow> translation \<Rightarrow> translation" where
  "translateDNS cfg t =
    (let dns = cfg_DNS cfg in
     if \<not> dns_Enable dns then
       let (tag, result) = addBootstrapDNS empty_sdns
       in set_dnsEnabled False (set_resolver tag (set_dns (result\<lparr>sd_Final := tag\<rparr>) t))
     else
       let t = set_dnsEnabled True t;
           result = empty_sdns\<lparr>sd_Strategy := dns_strategy cfg\<rparr>;
           ((defaultServerTags, nameserverTags, fallbackTags, result), ws) =
             dns_servers_step dns (firstGroupTag t) result;
           t = warn_all ws t;
           ((defaultServerTags, result), t) = choose_resolver dns defaultServerTags result t;
           domainResolverTags = defaultServerTags;
           (result, ws) = resolve_servers domainResolverTags defaultServerTags result;
           t = warn_all ws t;
           firstNSTag = (case nameserverTags of [] \<Rightarrow> [] | tag # _ \<Rightarrow> tag);
           (result, t) = fakeip_step dns firstNSTag result t;
           result = hosts_step cfg result;
           result = dns_final fallbackTags firstNSTag result;
           result = prefer_h3_step dns result;
           (result, t) = secure_resolver result t
       in set_dns result t)"

section \<open>Searches\<close>

definition direct_server :: "gmap \<Rightarrow> bool" where
  "direct_server srv \<longleftrightarrow>
     mstr srv ''type'' \<notin> set [''fakeip'', ''hosts''] \<and> \<not> mhas srv ''detour'' \<and> mstr srv ''tag'' \<noteq> []"

text \<open>The loop both searches share: the first server of a wanted type, else the first direct one.\<close>

fun search_direct :: "(string \<Rightarrow> bool) \<Rightarrow> string \<Rightarrow> gmap list \<Rightarrow> string" where
  "search_direct wanted fallback [] = fallback"
| "search_direct wanted fallback (srv # srvs) =
     (if \<not> direct_server srv then search_direct wanted fallback srvs
      else if wanted (mstr srv ''type'') then mstr srv ''tag''
      else search_direct wanted (if fallback = [] then mstr srv ''tag'' else fallback) srvs)"

definition encrypted_types :: "string list" where
  "encrypted_types = [''https'', ''tls'', ''quic'', ''h3'']"

definition findFirstDirectDNSTag :: "translation \<Rightarrow> string" where
  "findFirstDirectDNSTag t =
    (case sb_DNS (t_config t) of
       None \<Rightarrow> []
     | Some d \<Rightarrow> search_direct (\<lambda>tp. tp = ''udp'') [] (sd_Servers d))"

definition findFirstECHCapableDNSTag :: "translation \<Rightarrow> string" where
  "findFirstECHCapableDNSTag t =
    (case sb_DNS (t_config t) of
       None \<Rightarrow> []
     | Some d \<Rightarrow> search_direct (\<lambda>tp. tp \<in> set encrypted_types) [] (sd_Servers d))"

definition findFakeIPTag :: "translation \<Rightarrow> string" where
  "findFakeIPTag t =
    (case sb_DNS (t_config t) of
       None \<Rightarrow> []
     | Some d \<Rightarrow>
         (case find (\<lambda>srv. map_of srv ''type'' = Some (VStr ''fakeip'') \<and> mstr srv ''tag'' \<noteq> []) (sd_Servers d) of
            Some srv \<Rightarrow> mstr srv ''tag''
          | None \<Rightarrow> []))"

definition collectECHQueryServers :: "gmap list \<Rightarrow> translation \<Rightarrow> translation" where
  "collectECHQueryServers outbounds t =
    fold (\<lambda>ob t.
      case as_map (map_of ob ''tls'') of
        None \<Rightarrow> t
      | Some tls \<Rightarrow>
          (case as_map (map_of tls ''ech'') of
             None \<Rightarrow> t
           | Some ech \<Rightarrow>
               let qsn = mstr ech ''query_server_name'' in
               if qsn = [] \<or> qsn \<in> set (t_echQueryServers t) then t
               else t\<lparr>t_echQueryServers := t_echQueryServers t @ [qsn]\<rparr>)) outbounds t"

section \<open>generateDNSRules\<close>

definition no_direct_warning :: string where
  "no_direct_warning = ''no direct DNS server found; DNS rules not generated''"

definition set_dns_rules :: "gmap list \<Rightarrow> translation \<Rightarrow> translation" where
  "set_dns_rules rs t = upd_config (\<lambda>c. c\<lparr>sb_DNS := map_option (\<lambda>d. d\<lparr>sd_Rules := rs\<rparr>) (sb_DNS c)\<rparr>) t"

definition ech_rules :: "translation \<Rightarrow> string \<Rightarrow> gmap list" where
  "ech_rules t directTag =
    (if t_echQueryServers t = [] then []
     else let echTag = findFirstECHCapableDNSTag t;
              echTag = (if echTag = [] then directTag else echTag)
          in [[(''domain'', VStrs (t_echQueryServers t)), (''server'', VStr echTag)]])"

definition generateDNSRules :: "translation \<Rightarrow> translation" where
  "generateDNSRules t =
    (let cc = t_country t in
     case sb_DNS (t_config t) of
       None \<Rightarrow> t
     | Some d \<Rightarrow>
         if sd_Servers d = [] then t
         else if \<not> t_dnsEnabled t then t
         else
           let directTag = findFirstDirectDNSTag t;
               fakeipTag = findFakeIPTag t
           in
           if directTag = [] then
             set_dns_rules (sd_Rules d @ t_dnsTerminalRules t) (warn no_direct_warning t)
           else
             let modeRules = [[(''clash_mode'', VStr ''Direct''), (''server'', VStr directTag)]];
                 rules = ech_rules t directTag;
                 geoipTag = ''geoip-'' @ cc;
                 rsTags = [''geosite-private''];
                 t = ensureRuleSetDef ''geosite-private'' ''geosite'' ''private'' t;
                 (rsTags, t) = (if cc = ''cn'' then (rsTags @ [''geosite-cn''], ensureRuleSetDef ''geosite-cn'' ''geosite'' ''cn'' t)
                                else (rsTags, t));
                 t = ensureRuleSetDef geoipTag ''geoip'' cc t;
                 rsTags = rsTags @ [geoipTag];
                 rules = rules @ [[(''rule_set'', VStrs rsTags), (''server'', VStr directTag)]];
                 rules = (if fakeipTag \<noteq> []
                          then rules @ [[(''query_type'', VStrs [''A'', ''AAAA'']), (''server'', VStr fakeipTag)]] else rules)
             in set_dns_rules (modeRules @ sd_Rules d @ rules @ t_dnsTerminalRules t) t)"

definition dns_route_action :: "gmap \<Rightarrow> gmap" where
  "dns_route_action rule =
    (if \<not> mhas rule ''action'' \<and> mhas rule ''server'' then mput ''action'' (VStr ''route'') rule else rule)"

definition addDNSRouteAction :: "translation \<Rightarrow> translation" where
  "addDNSRouteAction t =
    (case sb_DNS (t_config t) of
       None \<Rightarrow> t
     | Some d \<Rightarrow> set_dns_rules (map dns_route_action (sd_Rules d)) t)"

end
