(* ===== verification/DnsInvariant.thy ===== *)
theory DnsInvariant
  imports Dns
begin

text \<open>
  The invariant of the DNS steps of \<open>Dns\<close> and its preservation, step by step, up to the
  result of \<open>translateDNS\<close> and of \<open>generateDNSRules\<close>.
\<close>

section \<open>The invariant\<close>

definition server_ok :: "string \<Rightarrow> gmap \<Rightarrow> bool" where
  "server_ok det srv \<longleftrightarrow>
     mstr srv ''tag'' \<noteq> [] \<and>
     (map_of srv ''detour'' = None \<or> det \<noteq> [] \<and> map_of srv ''detour'' = Some (VStr det))"

definition dns_tags :: "singboxDNS \<Rightarrow> string list" where
  "dns_tags d = map (\<lambda>s. mstr s ''tag'') (sd_Servers d)"

definition dns_rule_ok :: "string set \<Rightarrow> gmap \<Rightarrow> bool" where
  "dns_rule_ok tags r \<longleftrightarrow> mstr r ''server'' \<in> tags \<and> mhas r ''server'' \<and> mstrs r ''rule_set'' = [] \<and> map_of r ''rules'' = None"

definition dns_ok :: "string \<Rightarrow> singboxDNS \<Rightarrow> bool" where
  "dns_ok det d \<longleftrightarrow>
     list_all (server_ok det) (sd_Servers d) \<and>
     list_all (dns_rule_ok (set (dns_tags d))) (sd_Rules d) \<and>
     (sd_Final d = [] \<or> sd_Final d \<in> set (dns_tags d))"

definition no_bootstrap :: "singboxDNS \<Rightarrow> bool" where
  "no_bootstrap d \<longleftrightarrow> ''bootstrap-dns'' \<notin> set (dns_tags d)"

text \<open>What the DNS steps leave alone.\<close>

definition same_but_dns :: "translation \<Rightarrow> translation \<Rightarrow> bool" where
  "same_but_dns t t' \<longleftrightarrow>
     sb_Outbounds (t_config t') = sb_Outbounds (t_config t) \<and> sb_Inbounds (t_config t') = sb_Inbounds (t_config t) \<and>
     t_rules t' = t_rules t \<and> rt_Final (t_route t') = rt_Final (t_route t) \<and>
     rt_RuleSet (t_route t') = rt_RuleSet (t_route t) \<and>
     t_groupTagOrder t' = t_groupTagOrder t \<and> t_ruleSetDefs t' = t_ruleSetDefs t \<and>
     t_echQueryServers t' = t_echQueryServers t \<and> t_country t' = t_country t \<and> t_proxyTags t' = t_proxyTags t \<and>
     t_stubTags t' = t_stubTags t \<and> t_groupTags t' = t_groupTags t"

lemma same_but_dns_refl [simp]: "same_but_dns t t"
  by (simp add: same_but_dns_def)

lemma dns_updates [simp, frame_simps]:
  "same_but_dns t (warn w t') = same_but_dns t t'" "same_but_dns t (warn_all ws t') = same_but_dns t t'"
  "same_but_dns t (set_resolver tag t') = same_but_dns t t'" "same_but_dns t (set_dns d t') = same_but_dns t t'"
  "same_but_dns t (set_dnsEnabled b t') = same_but_dns t t'" "same_but_dns t (add_terminal r t') = same_but_dns t t'"
  "same_but_dns t (set_dns_rules rs t') = same_but_dns t t'"
  by (simp_all add: same_but_dns_def set_resolver_def set_dns_def set_dnsEnabled_def add_terminal_def set_dns_rules_def)

abbreviation t_resolver :: "translation \<Rightarrow> string" where
  "t_resolver t \<equiv> rt_DefaultDomainResolver (t_route t)"

lemma resolver_updates [simp, frame_simps]:
  "t_resolver (set_resolver tag t) = tag" "t_dnsTerminalRules (set_resolver tag t) = t_dnsTerminalRules t"
  "t_dnsEnabled (set_resolver tag t) = t_dnsEnabled t"
  "t_resolver (set_dns d t) = t_resolver t" "t_dnsTerminalRules (set_dns d t) = t_dnsTerminalRules t"
  "t_dnsEnabled (set_dns d t) = t_dnsEnabled t" "sb_DNS (t_config (set_dns d t)) = Some d"
  "t_resolver (set_dnsEnabled b t) = t_resolver t" "t_dnsTerminalRules (set_dnsEnabled b t) = t_dnsTerminalRules t"
  "t_dnsEnabled (set_dnsEnabled b t) = b" "sb_DNS (t_config (set_dnsEnabled b t)) = sb_DNS (t_config t)"
  "sb_DNS (t_config (set_resolver tag t)) = sb_DNS (t_config t)"
  "t_resolver (add_terminal r t) = t_resolver t" "t_dnsTerminalRules (add_terminal r t) = t_dnsTerminalRules t @ [r]"
  "t_dnsEnabled (add_terminal r t) = t_dnsEnabled t"
  by (simp_all add: set_resolver_def set_dns_def set_dnsEnabled_def add_terminal_def)

definition dns_state :: "string \<Rightarrow> translation \<Rightarrow> singboxDNS \<Rightarrow> translation \<Rightarrow> bool" where
  "dns_state det t0 d t \<longleftrightarrow>
     dns_ok det d \<and> no_bootstrap d \<and> list_all (dns_rule_ok (set (dns_tags d))) (t_dnsTerminalRules t) \<and>
     (t_resolver t = [] \<or> t_resolver t \<in> set (dns_tags d)) \<and> same_but_dns t0 t \<and> t_dnsEnabled t"

lemma dns_state_warn [simp]: "dns_state det t0 d (warn w t) = dns_state det t0 d t"
  "dns_state det t0 d (warn_all ws t) = dns_state det t0 d t"
  by (simp_all add: dns_state_def)

section \<open>Adding servers and rules\<close>

lemma dns_rule_ok_mono: "dns_rule_ok A r \<Longrightarrow> A \<subseteq> B \<Longrightarrow> dns_rule_ok B r"
  by (auto simp: dns_rule_ok_def)

lemma dns_rules_mono: "list_all (dns_rule_ok A) rs \<Longrightarrow> A \<subseteq> B \<Longrightarrow> list_all (dns_rule_ok B) rs"
  using dns_rule_ok_mono by (auto simp: list_all_iff)

lemma dns_tags_append: "dns_tags (d\<lparr>sd_Servers := sd_Servers d @ new\<rparr>) = dns_tags d @ map (\<lambda>s. mstr s ''tag'') new"
  by (simp add: dns_tags_def)

lemma dns_state_servers:
  assumes "dns_state det t0 d t" "list_all (server_ok det) new"
    "''bootstrap-dns'' \<notin> set (map (\<lambda>s. mstr s ''tag'') new)"
  shows "dns_state det t0 (d\<lparr>sd_Servers := sd_Servers d @ new\<rparr>) t"
  using assms unfolding dns_state_def dns_ok_def no_bootstrap_def dns_tags_append
  by (auto intro: dns_rules_mono)

lemma dns_state_add_server:
  "dns_state det t0 d t \<Longrightarrow> server_ok det srv \<Longrightarrow> mstr srv ''tag'' \<noteq> ''bootstrap-dns'' \<Longrightarrow>
   dns_state det t0 (add_server srv d) t"
  unfolding add_server_def by (rule dns_state_servers) auto

lemma dns_tags_rules [simp]: "dns_tags (add_dns_rules rs d) = dns_tags d"
  "dns_tags (d\<lparr>sd_Final := f\<rparr>) = dns_tags d" "dns_tags (d\<lparr>sd_Rules := rs\<rparr>) = dns_tags d"
  by (simp_all add: dns_tags_def add_dns_rules_def)

lemma dns_state_add_rules:
  "dns_state det t0 d t \<Longrightarrow> list_all (dns_rule_ok (set (dns_tags d))) rs \<Longrightarrow> dns_state det t0 (add_dns_rules rs d) t"
  by (simp add: dns_state_def dns_ok_def no_bootstrap_def) (simp add: add_dns_rules_def)

lemma dns_match_ok:
  "server \<in> tags \<Longrightarrow> key \<noteq> ''server'' \<Longrightarrow> key \<noteq> ''rule_set'' \<Longrightarrow> key \<noteq> ''rules'' \<Longrightarrow>
   list_all (dns_rule_ok tags) (dns_match key vals server)"
  by (simp add: dns_match_def dns_rule_ok_def)

section \<open>Server lists\<close>

lemma server_prefix: "prefix \<noteq> [] \<Longrightarrow> hd prefix \<noteq> CHR ''b'' \<Longrightarrow> prefix @ itoa i \<noteq> [] \<and> prefix @ itoa i \<noteq> ''bootstrap-dns''"
  by (cases prefix) auto

lemma built_server_ok:
  assumes "dns_server_ok tag detour srv" "tag \<noteq> []" "detour = [] \<or> detour = det"
  shows "server_ok det srv"
  using assms by (auto simp: dns_server_ok_def server_ok_def mstr_def)

lemma build_state:
  assumes "buildDNSServerEntries servers prefix detour d = ((tags, d'), ws)"
    and S: "dns_state det t0 d t" and p: "prefix \<noteq> []" "hd prefix \<noteq> CHR ''b''" and det: "detour = [] \<or> detour = det"
  shows "dns_state det t0 d' t \<and> set tags \<subseteq> set (dns_tags d') \<and> set (dns_tags d) \<subseteq> set (dns_tags d') \<and> [] \<notin> set tags"
proof -
  obtain new where n: "d' = d\<lparr>sd_Servers := sd_Servers d @ new\<rparr>" "tags = map (\<lambda>srv. mstr srv ''tag'') new"
    "list_all (\<lambda>srv. (\<exists>i. mstr srv ''tag'' = prefix @ itoa (int i)) \<and> dns_server_ok (mstr srv ''tag'') detour srv) new"
    using buildDNSServerEntries_result[OF assms(1)] by blast
  have k: "mstr srv ''tag'' \<noteq> [] \<and> mstr srv ''tag'' \<noteq> ''bootstrap-dns'' \<and> server_ok det srv" if s: "srv \<in> set new" for srv
  proof -
    obtain i where "mstr srv ''tag'' = prefix @ itoa (int i)" "dns_server_ok (mstr srv ''tag'') detour srv"
      using n(3) s by (auto simp: list_all_iff)
    then show ?thesis using server_prefix[OF p, of "int i"] built_server_ok[OF _ _ det] by simp
  qed
  have "dns_state det t0 d' t"
    unfolding n(1) by (rule dns_state_servers[OF S]) (use k in \<open>force simp: list_all_iff\<close>)+
  moreover have "set tags \<subseteq> set (dns_tags d')" "set (dns_tags d) \<subseteq> set (dns_tags d')"
    unfolding n by (auto simp: dns_tags_def)
  moreover have "[] \<notin> set tags" unfolding n(2) using k by force
  ultimately show ?thesis by blast
qed

lemma servers_step_state:
  assumes "dns_servers_step dns det d = ((def, ns, fb, d'), ws)" and S: "dns_state det t0 d t"
  shows "dns_state det t0 d' t \<and> set def \<union> set ns \<union> set fb \<subseteq> set (dns_tags d') \<and> [] \<notin> set def \<union> set ns \<union> set fb"
proof -
  obtain d1 w1 where b1: "buildDNSServerEntries (dns_DefaultNameserver dns) ''def-'' [] d = ((def, d1), w1)"
    and b2: "\<exists>d2 w2. buildDNSServerEntries (dns_NameServer dns) ''ns-'' det d1 = ((ns, d2), w2) \<and>
      (\<exists>d3 w3. buildDNSServerEntries (dns_Fallback dns) ''fb-'' det d2 = ((fb, d3), w3) \<and>
       (\<exists>tg w4. buildDNSServerEntries (dns_ProxyServerNameserver dns) ''psn-'' [] d3 = ((tg, d'), w4)))"
    using assms(1) unfolding dns_servers_step_def Let_def by (auto split: prod.splits)
  then obtain d2 w2 d3 w3 tg w4 where b2: "buildDNSServerEntries (dns_NameServer dns) ''ns-'' det d1 = ((ns, d2), w2)"
    and b3: "buildDNSServerEntries (dns_Fallback dns) ''fb-'' det d2 = ((fb, d3), w3)"
    and b4: "buildDNSServerEntries (dns_ProxyServerNameserver dns) ''psn-'' [] d3 = ((tg, d'), w4)" by blast
  have 1: "dns_state det t0 d1 t \<and> set def \<subseteq> set (dns_tags d1) \<and> set (dns_tags d) \<subseteq> set (dns_tags d1) \<and> [] \<notin> set def"
    by (rule build_state[OF b1 S]) simp_all
  then have 2: "dns_state det t0 d2 t \<and> set ns \<subseteq> set (dns_tags d2) \<and> set (dns_tags d1) \<subseteq> set (dns_tags d2) \<and> [] \<notin> set ns"
    by (intro build_state[OF b2]) simp_all
  then have 3: "dns_state det t0 d3 t \<and> set fb \<subseteq> set (dns_tags d3) \<and> set (dns_tags d2) \<subseteq> set (dns_tags d3) \<and> [] \<notin> set fb"
    by (intro build_state[OF b3]) simp_all
  then have 4: "dns_state det t0 d' t \<and> set tg \<subseteq> set (dns_tags d') \<and> set (dns_tags d3) \<subseteq> set (dns_tags d') \<and> [] \<notin> set tg"
    by (intro build_state[OF b4]) simp_all
  show ?thesis using 1 2 3 4 by blast
qed

section \<open>The default resolver\<close>

lemma preferUDPServer_mem: "candidates \<noteq> [] \<Longrightarrow> preferUDPServer candidates d \<in> set candidates"
  by (auto simp: preferUDPServer_def split: option.split dest: find_Some_D)

lemma dns_state_resolver:
  "dns_state det t0 d t \<Longrightarrow> tag \<in> set (dns_tags d) \<Longrightarrow> dns_state det t0 d (set_resolver tag t)"
  by (simp add: dns_state_def)

text \<open>The automatic bootstrap servers: at most two, all present.\<close>

definition auto_inv :: "string \<Rightarrow> translation \<Rightarrow> translation \<Rightarrow> string list \<Rightarrow> (string list \<times> singboxDNS) warned \<Rightarrow> bool" where
  "auto_inv det t0 t old acc \<longleftrightarrow>
     dns_state det t0 (snd (fst acc)) t \<and> set (fst (fst acc)) \<subseteq> set (dns_tags (snd (fst acc))) \<and>
     set old \<subseteq> set (dns_tags (snd (fst acc))) \<and> length (fst (fst acc)) \<le> 2"

lemma auto_step_inv:
  assumes "auto_inv det t0 t old acc" shows "auto_inv det t0 t old (auto_bootstrap_step ns acc)"
proof -
  obtain tags d ws where acc: "acc = ((tags, d), ws)" by (metis surj_pair)
  let ?tag = "''def-auto-'' @ itoa (int (length tags))"
  show ?thesis
  proof (cases "length tags < 2 \<and> isIPAddress (du_host (extractHostPort ns))")
    case False
    then show ?thesis using assms by (auto simp: acc auto_bootstrap_step_def)
  next
    case True
    obtain r w where p: "parseDNSServer ns ?tag [] = (r, w)" by (rule prod.exhaust)
    show ?thesis
    proof (cases r)
      case None
      then show ?thesis using assms True p by (simp add: acc auto_bootstrap_step_def Let_def auto_inv_def)
    next
      case (Some srv)
      have ok: "dns_server_ok ?tag [] srv" using parseDNSServer_ok p Some by blast
      then have t: "mstr srv ''tag'' = ?tag" by (simp add: dns_server_ok_def mstr_def)
      have "dns_state det t0 (d\<lparr>sd_Servers := sd_Servers d @ [srv]\<rparr>) t"
        by (rule dns_state_servers) (use assms built_server_ok[OF ok] t in \<open>auto simp: acc auto_inv_def\<close>)
      then show ?thesis
        using assms True p Some t by (auto simp: acc auto_bootstrap_step_def Let_def auto_inv_def dns_tags_append)
    qed
  qed
qed

lemma auto_fold_inv: "auto_inv det t0 t old acc \<Longrightarrow> auto_inv det t0 t old (fold auto_bootstrap_step nss acc)"
  by (induction nss arbitrary: acc) (auto simp: auto_step_inv)

lemma choose_resolver_state:
  assumes "choose_resolver dns def d t = ((def', d'), t')" "dns_state det t0 d t" "set def \<subseteq> set (dns_tags d)"
  shows "dns_state det t0 d' t' \<and> set (dns_tags d) \<subseteq> set (dns_tags d')"
proof (cases "def = []")
  case False
  have "preferUDPServer def d \<in> set (dns_tags d)" using preferUDPServer_mem[OF False] assms(3) by blast
  then show ?thesis using assms(1,2) False by (auto simp: choose_resolver_def dns_state_resolver)
next
  case True
  obtain tags d1 ws where f: "fold auto_bootstrap_step (dns_NameServer dns) (([], d), []) = ((tags, d1), ws)"
    by (metis surj_pair)
  have "auto_inv det t0 t (dns_tags d) (([], d), [])" using assms(2) by (simp add: auto_inv_def)
  from auto_fold_inv[OF this, of "dns_NameServer dns"]
  have I: "dns_state det t0 d1 t" "set tags \<subseteq> set (dns_tags d1)" "set (dns_tags d) \<subseteq> set (dns_tags d1)"
    by (simp_all add: f auto_inv_def)
  show ?thesis
  proof (cases "tags = []")
    case True
    then show ?thesis using assms(1) \<open>def = []\<close> f I by (auto simp: choose_resolver_def)
  next
    case False
    have "preferUDPServer tags d1 \<in> set (dns_tags d1)" using preferUDPServer_mem[OF False] I(2) by blast
    then show ?thesis
      using assms(1) \<open>def = []\<close> f I False by (auto simp: choose_resolver_def Let_def intro!: dns_state_resolver)
  qed
qed

section \<open>Steps that rewrite servers in place\<close>

definition keeps_server :: "(gmap \<Rightarrow> gmap) \<Rightarrow> bool" where
  "keeps_server f \<longleftrightarrow> (\<forall>s. map_of (f s) ''tag'' = map_of s ''tag'' \<and> map_of (f s) ''detour'' = map_of s ''detour'')"

lemma dns_state_map:
  assumes "dns_state det t0 d t" "keeps_server f"
  shows "dns_state det t0 (d\<lparr>sd_Servers := map f (sd_Servers d)\<rparr>) t"
    "dns_tags (d\<lparr>sd_Servers := map f (sd_Servers d)\<rparr>) = dns_tags d"
proof -
  have f: "mstr (f s) ''tag'' = mstr s ''tag''" "server_ok det (f s) = server_ok det s" for s
    using assms(2) by (simp_all add: keeps_server_def mstr_def server_ok_def)
  show t: "dns_tags (d\<lparr>sd_Servers := map f (sd_Servers d)\<rparr>) = dns_tags d"
    by (simp add: dns_tags_def f)
  show "dns_state det t0 (d\<lparr>sd_Servers := map f (sd_Servers d)\<rparr>) t"
    using assms(1) unfolding dns_state_def dns_ok_def no_bootstrap_def t by (simp add: list_all_iff f)
qed

lemma resolve_server_keeps: "keeps_server (\<lambda>s. fst (resolve_server a b s))"
  by (auto simp: keeps_server_def resolve_server_def Let_def put_resolver_def split: option.split)

lemma prefer_h3_keeps: "keeps_server prefer_h3"
  by (simp add: keeps_server_def prefer_h3_def)

lemma resolve_servers_state:
  assumes "resolve_servers a b d = (d', ws)" "dns_state det t0 d t"
  shows "dns_state det t0 d' t \<and> dns_tags d' = dns_tags d"
  using dns_state_map[OF assms(2) resolve_server_keeps, of a b] assms(1)
  by (auto simp: resolve_servers_def Let_def o_def)

lemma prefer_h3_state:
  assumes "dns_state det t0 d t"
  shows "dns_state det t0 (prefer_h3_step dns d) t" "dns_tags (prefer_h3_step dns d) = dns_tags d"
  using dns_state_map[OF assms prefer_h3_keeps] assms by (simp_all add: prefer_h3_step_def)

section \<open>Fake IP, hosts, final\<close>

lemma fakeip_server_ok: "server_ok det (fakeip_server dns)" "mstr (fakeip_server dns) ''tag'' = ''fakeip-dns''"
  by (simp_all add: server_ok_def fakeip_server_def Let_def)

lemma dns_tags_add_server [simp]: "dns_tags (add_server srv d) = dns_tags d @ [mstr srv ''tag'']"
  by (simp add: dns_tags_def add_server_def)

lemma dns_state_terminal:
  "dns_state det t0 d t \<Longrightarrow> server \<in> set (dns_tags d) \<Longrightarrow> dns_state det t0 d (add_terminal [(''server'', VStr server)] t)"
  by (simp add: dns_state_def dns_rule_ok_def)

lemma fakeip_step_state:
  assumes S: "dns_state det t0 d t" and n: "ns = [] \<or> ns \<in> set (dns_tags d)"
    and r: "fakeip_step dns ns d t = (d', t')"
  shows "dns_state det t0 d' t' \<and> set (dns_tags d) \<subseteq> set (dns_tags d')"
proof (cases "dns_EnhancedMode dns = ''fake-ip''")
  case False
  then show ?thesis using r S by (auto simp: fakeip_step_def)
next
  case True
  define d1 where "d1 = add_server (fakeip_server dns) d"
  have S1: "dns_state det t0 d1 t"
    unfolding d1_def by (rule dns_state_add_server[OF S]) (simp_all add: fakeip_server_ok)
  have f: "''fakeip-dns'' \<in> set (dns_tags d1)" "set (dns_tags d) \<subseteq> set (dns_tags d1)"
    by (auto simp: d1_def fakeip_server_ok)
  show ?thesis
  proof (cases "dns_FakeIPFilter dns = [] \<or> ns = []")
    case True
    then show ?thesis using r S1 f \<open>dns_EnhancedMode dns = ''fake-ip''\<close> by (auto simp: fakeip_step_def d1_def)
  next
    case False
    then have ns: "ns \<in> set (dns_tags d1)" using n f by blast
    have m: "dns_state det t0 (add_dns_rules (dns_match ''domain_suffix'' a s @ dns_match ''domain'' b s) d1) t"
      if "s \<in> set (dns_tags d1)" for a b s
      by (rule dns_state_add_rules[OF S1]) (simp add: dns_match_ok that)
    show ?thesis
      using r False \<open>dns_EnhancedMode dns = ''fake-ip''\<close> m[OF f(1)] m[OF ns] f(2) ns
      by (auto simp: fakeip_step_def Let_def d1_def[symmetric] intro!: dns_state_terminal split: if_split_asm)
  qed
qed

lemma hosts_step_state:
  assumes "dns_state det t0 d t"
  shows "dns_state det t0 (hosts_step cfg d) t \<and> set (dns_tags d) \<subseteq> set (dns_tags (hosts_step cfg d))"
proof -
  define d1 where "d1 = add_server [(''type'', VStr ''hosts''), (''tag'', VStr ''hosts''),
      (''predefined'', VMap (hosts_predefined (cfg_Hosts cfg)))] d"
  have S1: "dns_state det t0 d1 t"
    unfolding d1_def by (rule dns_state_add_server[OF assms]) (simp_all add: server_ok_def)
  have "dns_state det t0 (add_dns_rules (dns_match ''domain'' (sort (mkeys (cfg_Hosts cfg))) ''hosts'') d1) t"
    by (rule dns_state_add_rules[OF S1]) (rule dns_match_ok; simp add: d1_def)
  then show ?thesis
    using assms by (auto simp: hosts_step_def Let_def d1_def[symmetric]) (auto simp: d1_def)
qed

lemma dns_final_state:
  assumes "dns_state det t0 d t" "set fb \<subseteq> set (dns_tags d)" "ns = [] \<or> ns \<in> set (dns_tags d)"
  shows "dns_state det t0 (dns_final fb ns d) t"
proof -
  have "hd fb \<in> set (dns_tags d)" if "fb \<noteq> []" using that assms(2) by (meson hd_in_set subsetD)
  then show ?thesis
    using assms by (auto simp: dns_final_def dns_state_def dns_ok_def no_bootstrap_def)
qed

section \<open>The result of translateDNS\<close>

definition dns_done :: "translation \<Rightarrow> translation \<Rightarrow> bool" where
  "dns_done t0 t \<longleftrightarrow>
     (\<exists>d. sb_DNS (t_config t) = Some d \<and> dns_ok (firstGroupTag t0) d \<and> sd_Servers d \<noteq> [] \<and>
        list_all (dns_rule_ok (set (dns_tags d))) (t_dnsTerminalRules t) \<and>
        t_resolver t \<in> set (dns_tags d) \<and> \<not> isLocalDNSServer (t_resolver t) d) \<and>
     same_but_dns t0 t"

lemma bootstrap_resolver:
  assumes "addBootstrapDNS d = (tag, d')" "no_bootstrap d"
  shows "tag \<in> set (dns_tags d')" "\<not> isLocalDNSServer tag d'"
proof -
  have e: "tag = ''bootstrap-dns''" "sd_Servers d' = sd_Servers d @
       [[(''type'', VStr ''udp''), (''tag'', VStr ''bootstrap-dns''), (''server'', VStr ''223.5.5.5'')]]"
    using assms(1) by (auto simp: addBootstrapDNS_def)
  show "tag \<in> set (dns_tags d')" by (simp add: dns_tags_def e)
  have n: "find (\<lambda>srv. mstr srv ''tag'' = ''bootstrap-dns'') (sd_Servers d) = None"
    using assms(2) by (force simp: no_bootstrap_def dns_tags_def find_None_iff)
  have a: "find P xs = None \<Longrightarrow> find P (xs @ ys) = find P ys" for P :: "gmap \<Rightarrow> bool" and xs ys
    by (induction xs) (auto split: if_splits)
  show "\<not> isLocalDNSServer tag d'"
    unfolding isLocalDNSServer_def e a[OF n] by simp
qed

lemma secure_resolver_done:
  assumes "secure_resolver d t = (d', t')" "dns_state det t0 d t" "det = firstGroupTag t0"
  shows "dns_done t0 (set_dns d' t')"
proof (cases "t_resolver t = [] \<or> isLocalDNSServer (t_resolver t) d")
  case True
  obtain tag d1 where b: "addBootstrapDNS d = (tag, d1)" by (rule prod.exhaust)
  have e: "d' = d1" "t' = set_resolver tag t" using assms(1) True b by (auto simp: secure_resolver_def)
  have d1: "d1 = d\<lparr>sd_Servers := sd_Servers d @
       [[(''type'', VStr ''udp''), (''tag'', VStr ''bootstrap-dns''), (''server'', VStr ''223.5.5.5'')]]\<rparr>"
    using b by (auto simp: addBootstrapDNS_def)
  have sub: "set (dns_tags d) \<subseteq> set (dns_tags d1)" by (auto simp: d1 dns_tags_append)
  have "dns_ok det d1 \<and> list_all (dns_rule_ok (set (dns_tags d1))) (t_dnsTerminalRules t) \<and> sd_Servers d1 \<noteq> []"
    using assms(2) dns_rules_mono[OF _ sub] sub unfolding dns_state_def dns_ok_def
    by (auto simp: d1 server_ok_def)
  then show ?thesis
    using bootstrap_resolver[OF b] assms(2,3) unfolding e dns_done_def dns_state_def
    by simp
next
  case False
  then have e: "d' = d" "t' = t" using assms(1) by (auto simp: secure_resolver_def)
  have "sd_Servers d \<noteq> []" using assms(2) False by (auto simp: dns_state_def dns_tags_def)
  then show ?thesis
    using assms(2,3) False unfolding e dns_done_def dns_state_def by simp
qed

lemma translateDNS_done:
  assumes "t_dnsTerminalRules t = []" "t_resolver t = []"
  shows "dns_done t (translateDNS cfg t)"
proof (cases "dns_Enable (cfg_DNS cfg)")
  case False
  then show ?thesis
    using assms by (simp add: translateDNS_def Let_def addBootstrapDNS_def dns_done_def empty_sdns_def dns_ok_def
        dns_tags_def server_ok_def isLocalDNSServer_def)
next
  case True
  let ?dns = "cfg_DNS cfg" and ?det = "firstGroupTag t"
  define t1 where "t1 = set_dnsEnabled True t"
  define d1 where "d1 = empty_sdns\<lparr>sd_Strategy := dns_strategy cfg\<rparr>"
  have S1: "dns_state ?det t d1 t1"
    using assms by (simp add: dns_state_def t1_def d1_def empty_sdns_def dns_ok_def no_bootstrap_def dns_tags_def)
  obtain def ns fb d2 w2 where b: "dns_servers_step ?dns ?det d1 = ((def, ns, fb, d2), w2)" by (metis surj_pair)
  note S2 = servers_step_state[OF b S1]
  obtain def' d3 t3 where c: "choose_resolver ?dns def d2 (warn_all w2 t1) = ((def', d3), t3)" by (metis surj_pair)
  have S3: "dns_state ?det t d3 t3 \<and> set (dns_tags d2) \<subseteq> set (dns_tags d3)"
    by (rule choose_resolver_state[OF c]) (use S2 in auto)
  obtain d4 w4 where r: "resolve_servers def' def' d3 = (d4, w4)" by (rule prod.exhaust)
  have S4: "dns_state ?det t d4 (warn_all w4 t3) \<and> dns_tags d4 = dns_tags d3"
    by (rule resolve_servers_state[OF r]) (use S3 in simp)
  define ns1 where "ns1 = (case ns of [] \<Rightarrow> [] | tag # _ \<Rightarrow> tag)"
  have ns1: "ns1 = [] \<or> ns1 \<in> set (dns_tags d4)" using S2 S3 S4 by (auto simp: ns1_def split: list.split)
  obtain d5 t5 where f: "fakeip_step ?dns ns1 d4 (warn_all w4 t3) = (d5, t5)" by (rule prod.exhaust)
  have S5: "dns_state ?det t d5 t5 \<and> set (dns_tags d4) \<subseteq> set (dns_tags d5)"
    by (rule fakeip_step_state[OF _ ns1 f]) (use S4 in simp)
  then have S6: "dns_state ?det t (hosts_step cfg d5) t5 \<and> set (dns_tags d5) \<subseteq> set (dns_tags (hosts_step cfg d5))"
    by (intro hosts_step_state) simp
  have sub: "set (dns_tags d4) \<subseteq> set (dns_tags (hosts_step cfg d5))" "set (dns_tags d2) \<subseteq> set (dns_tags d4)"
    using S3 S4 S5 S6 by (meson order_trans, simp)
  have "set fb \<subseteq> set (dns_tags d2)" using S2 by simp
  with sub have fb: "set fb \<subseteq> set (dns_tags (hosts_step cfg d5))" by (meson order_trans)
  have ns2: "ns1 = [] \<or> ns1 \<in> set (dns_tags (hosts_step cfg d5))" using ns1 sub(1) by (meson subsetD)
  have S7: "dns_state ?det t (dns_final fb ns1 (hosts_step cfg d5)) t5"
    by (rule dns_final_state[OF S6[THEN conjunct1] fb ns2])
  obtain d8 t8 where s: "secure_resolver (prefer_h3_step ?dns (dns_final fb ns1 (hosts_step cfg d5))) t5 = (d8, t8)"
    by (rule prod.exhaust)
  have "dns_done t (set_dns d8 t8)"
    by (rule secure_resolver_done[OF s prefer_h3_state(1)[OF S7]]) simp
  moreover have "translateDNS cfg t = set_dns d8 t8"
    using True b c r f s by (simp add: translateDNS_def Let_def t1_def firstGroupTag_def ns1_def d1_def set_dnsEnabled_def)
  ultimately show ?thesis by simp
qed

end
