(* ===== verification/DnsRules.thy ===== *)
theory DnsRules
  imports DnsInvariant
begin

text \<open>
  What \<open>generateDNSRules\<close> and \<open>addDNSRouteAction\<close> do: the server searches characterised, the rule
  list in closed form, and the references of the finished DNS module.
\<close>

section \<open>The searches\<close>

text \<open>The loop is "the first wanted direct server, else the fallback, else the first direct one".\<close>

lemma search_direct_spec:
  "search_direct wanted fb srvs =
     (case find (\<lambda>s. direct_server s \<and> wanted (mstr s ''type'')) srvs of
        Some s \<Rightarrow> mstr s ''tag''
      | None \<Rightarrow> if fb \<noteq> [] then fb
                else (case find direct_server srvs of Some s \<Rightarrow> mstr s ''tag'' | None \<Rightarrow> []))"
proof (induction srvs arbitrary: fb)
  case Nil
  then show ?case by simp
next
  case (Cons s srvs)
  then show ?case
  proof (cases "direct_server s")
    case True
    then have "mstr s ''tag'' \<noteq> []" by (simp add: direct_server_def)
    with True show ?thesis by (simp add: Cons.IH split: option.split)
  next
    case False
    then show ?thesis by (simp add: Cons.IH cong: option.case_cong if_cong)
  qed
qed

lemma search_direct_mem:
  "search_direct wanted [] srvs \<noteq> [] \<Longrightarrow>
   \<exists>s\<in>set srvs. direct_server s \<and> mstr s ''tag'' = search_direct wanted [] srvs"
  by (auto simp: search_direct_spec split: option.splits if_splits dest: find_Some_D)

lemma search_direct_Nil_iff: "search_direct wanted [] srvs = [] \<longleftrightarrow> \<not> list_ex direct_server srvs"
proof -
  have "direct_server s \<Longrightarrow> mstr s ''tag'' \<noteq> []" for s by (simp add: direct_server_def)
  then show ?thesis
    by (auto simp: search_direct_spec find_None_iff list_ex_iff split: option.splits dest: find_Some_D)
qed

lemma findFirst_mem:
  assumes "sb_DNS (t_config t) = Some d"
  shows "findFirstDirectDNSTag t \<noteq> [] \<Longrightarrow> findFirstDirectDNSTag t \<in> set (dns_tags d)"
    "findFirstECHCapableDNSTag t \<noteq> [] \<Longrightarrow> findFirstECHCapableDNSTag t \<in> set (dns_tags d)"
    "findFakeIPTag t \<noteq> [] \<Longrightarrow> findFakeIPTag t \<in> set (dns_tags d)"
proof -
  show "findFirstDirectDNSTag t \<noteq> [] \<Longrightarrow> findFirstDirectDNSTag t \<in> set (dns_tags d)"
    using search_direct_mem[of "\<lambda>tp. tp = ''udp''" "sd_Servers d"] assms
    by (force simp: findFirstDirectDNSTag_def dns_tags_def)
  show "findFirstECHCapableDNSTag t \<noteq> [] \<Longrightarrow> findFirstECHCapableDNSTag t \<in> set (dns_tags d)"
    using search_direct_mem[of "\<lambda>tp. tp \<in> set encrypted_types" "sd_Servers d"] assms
    by (force simp: findFirstECHCapableDNSTag_def dns_tags_def)
  show "findFakeIPTag t \<noteq> [] \<Longrightarrow> findFakeIPTag t \<in> set (dns_tags d)"
    using assms by (force simp: findFakeIPTag_def dns_tags_def split: option.splits dest: find_Some_D)
qed

text \<open>Both searches succeed on the same servers: on those with any direct one.\<close>

lemma ech_search_total:
  assumes "sb_DNS (t_config t) = Some d" "findFirstDirectDNSTag t \<noteq> []"
  shows "findFirstECHCapableDNSTag t \<noteq> []"
  using assms by (simp add: findFirstDirectDNSTag_def findFirstECHCapableDNSTag_def search_direct_Nil_iff)

section \<open>The rule list\<close>

definition geo_dns_tags :: "string \<Rightarrow> string list" where
  "geo_dns_tags cc = ''geosite-private'' # (if cc = ''cn'' then [''geosite-cn''] else []) @ [''geoip-'' @ cc]"

definition server_rule :: "string \<Rightarrow> string list \<Rightarrow> string \<Rightarrow> gmap" where
  "server_rule key vals server = [(key, VStrs vals), (''server'', VStr server)]"

definition generated_dns_rules :: "translation \<Rightarrow> singboxDNS \<Rightarrow> gmap list" where
  "generated_dns_rules t d =
    (let directTag = findFirstDirectDNSTag t; fakeipTag = findFakeIPTag t in
     [[(''clash_mode'', VStr ''Direct''), (''server'', VStr directTag)]] @ sd_Rules d @ ech_rules t directTag @
     [server_rule ''rule_set'' (geo_dns_tags (t_country t)) directTag] @
     (if fakeipTag \<noteq> [] then [server_rule ''query_type'' [''A'', ''AAAA''] fakeipTag] else []) @ t_dnsTerminalRules t)"

lemma ensure_frame [simp, frame_simps]:
  "t_config (ensureRuleSetDef tag g n t) = t_config t" "t_proxyTags (ensureRuleSetDef tag g n t) = t_proxyTags t"
  "t_stubTags (ensureRuleSetDef tag g n t) = t_stubTags t" "t_groupTagOrder (ensureRuleSetDef tag g n t) = t_groupTagOrder t"
  "t_groupTags (ensureRuleSetDef tag g n t) = t_groupTags t"
  "t_echQueryServers (ensureRuleSetDef tag g n t) = t_echQueryServers t"
  "t_dnsTerminalRules (ensureRuleSetDef tag g n t) = t_dnsTerminalRules t"
  "t_dnsEnabled (ensureRuleSetDef tag g n t) = t_dnsEnabled t" "t_country (ensureRuleSetDef tag g n t) = t_country t"
  "t_warnings (ensureRuleSetDef tag g n t) = t_warnings t"
  by (simp_all add: ensureRuleSetDef_def)

lemma ensure_has [simp]:
  "mhas (t_ruleSetDefs (ensureRuleSetDef tag g n t)) k \<longleftrightarrow> k = tag \<or> mhas (t_ruleSetDefs t) k"
  "defs_wf (t_ruleSetDefs t) \<Longrightarrow> defs_wf (t_ruleSetDefs (ensureRuleSetDef tag g n t))"
  by (simp_all add: ensureRuleSetDef_def)

lemma set_dns_rules_frame [simp, frame_simps]:
  "sb_DNS (t_config (set_dns_rules rs t)) = map_option (\<lambda>d. d\<lparr>sd_Rules := rs\<rparr>) (sb_DNS (t_config t))"
  "sb_Route (t_config (set_dns_rules rs t)) = sb_Route (t_config t)"
  "sb_Outbounds (t_config (set_dns_rules rs t)) = sb_Outbounds (t_config t)"
  "t_ruleSetDefs (set_dns_rules rs t) = t_ruleSetDefs t" "t_groupTagOrder (set_dns_rules rs t) = t_groupTagOrder t"
  "t_proxyTags (set_dns_rules rs t) = t_proxyTags t" "t_stubTags (set_dns_rules rs t) = t_stubTags t"
  by (simp_all add: set_dns_rules_def)

text \<open>The case in which the rules are generated, with the order of the five parts.\<close>

lemma generateDNSRules_rules:
  assumes "sb_DNS (t_config t) = Some d" "sd_Servers d \<noteq> []" "t_dnsEnabled t" "findFirstDirectDNSTag t \<noteq> []"
  shows "sb_DNS (t_config (generateDNSRules t)) = Some (d\<lparr>sd_Rules := generated_dns_rules t d\<rparr>)"
  using assms by (simp add: generateDNSRules_def Let_def generated_dns_rules_def geo_dns_tags_def server_rule_def)

definition same_but_dns_rules :: "translation \<Rightarrow> translation \<Rightarrow> bool" where
  "same_but_dns_rules t t' \<longleftrightarrow>
     sb_Outbounds (t_config t') = sb_Outbounds (t_config t) \<and> sb_Route (t_config t') = sb_Route (t_config t) \<and>
     t_groupTagOrder t' = t_groupTagOrder t \<and> t_proxyTags t' = t_proxyTags t \<and> t_stubTags t' = t_stubTags t \<and>
     (\<forall>k. mhas (t_ruleSetDefs t) k \<longrightarrow> mhas (t_ruleSetDefs t') k) \<and>
     (defs_wf (t_ruleSetDefs t) \<longrightarrow> defs_wf (t_ruleSetDefs t'))"

definition dns_ref_ok :: "gmap gomap \<Rightarrow> string set \<Rightarrow> gmap \<Rightarrow> bool" where
  "dns_ref_ok defs tags r \<longleftrightarrow>
     mstr r ''server'' \<in> tags \<and> mhas r ''server'' \<and> list_all (mhas defs) (mstrs r ''rule_set'') \<and> map_of r ''rules'' = None"

lemma dns_rule_ref: "dns_rule_ok tags r \<Longrightarrow> dns_ref_ok defs tags r"
  by (simp add: dns_rule_ok_def dns_ref_ok_def)

lemma dns_rules_ref: "list_all (dns_rule_ok tags) rs \<Longrightarrow> list_all (dns_ref_ok defs tags) rs"
  using dns_rule_ref by (auto simp: list_all_iff)

text \<open>The DNS module after the rules are generated.\<close>

definition dns_module :: "string \<Rightarrow> gmap gomap \<Rightarrow> translation \<Rightarrow> singboxDNS \<Rightarrow> bool" where
  "dns_module det defs t d \<longleftrightarrow>
     sb_DNS (t_config t) = Some d \<and> list_all (server_ok det) (sd_Servers d) \<and>
     list_all (dns_ref_ok defs (set (dns_tags d))) (sd_Rules d) \<and>
     (sd_Final d = [] \<or> sd_Final d \<in> set (dns_tags d)) \<and>
     t_resolver t \<in> set (dns_tags d) \<and> \<not> isLocalDNSServer (t_resolver t) d"

lemma isLocal_rules [simp]: "isLocalDNSServer tag (d\<lparr>sd_Rules := rs\<rparr>) = isLocalDNSServer tag d"
  by (simp add: isLocalDNSServer_def)

lemma ech_rules_ok:
  assumes "sb_DNS (t_config t) = Some d" "findFirstDirectDNSTag t \<noteq> []"
  shows "list_all (dns_ref_ok defs (set (dns_tags d))) (ech_rules t (findFirstDirectDNSTag t))"
  using findFirst_mem(2)[OF assms(1) ech_search_total[OF assms]] ech_search_total[OF assms]
  by (simp add: ech_rules_def Let_def dns_ref_ok_def)

lemma generateDNSRules_done:
  assumes "dns_done t0 t"
  shows "same_but_dns_rules t (generateDNSRules t) \<and>
    (\<exists>d. dns_module (firstGroupTag t0) (t_ruleSetDefs (generateDNSRules t)) (generateDNSRules t) d)"
proof -
  obtain d where d: "sb_DNS (t_config t) = Some d" "dns_ok (firstGroupTag t0) d" "sd_Servers d \<noteq> []"
    "list_all (dns_rule_ok (set (dns_tags d))) (t_dnsTerminalRules t)"
    "t_resolver t \<in> set (dns_tags d)" "\<not> isLocalDNSServer (t_resolver t) d"
    using assms by (auto simp: dns_done_def)
  consider "\<not> t_dnsEnabled t" | "t_dnsEnabled t" "findFirstDirectDNSTag t = []"
    | "t_dnsEnabled t" "findFirstDirectDNSTag t \<noteq> []" by blast
  then show ?thesis
  proof cases
    case 1
    then have e: "generateDNSRules t = t" using d by (simp add: generateDNSRules_def)
    have "dns_module (firstGroupTag t0) (t_ruleSetDefs t) t d"
      using d dns_rules_ref by (simp add: dns_module_def dns_ok_def)
    then show ?thesis unfolding e same_but_dns_rules_def by blast
  next
    case 2
    then have e: "generateDNSRules t = set_dns_rules (sd_Rules d @ t_dnsTerminalRules t) (warn no_direct_warning t)"
      using d by (simp add: generateDNSRules_def Let_def)
    have "dns_module (firstGroupTag t0) (t_ruleSetDefs t) (generateDNSRules t) (d\<lparr>sd_Rules := sd_Rules d @ t_dnsTerminalRules t\<rparr>)"
      using d dns_rules_ref unfolding e by (simp add: dns_module_def dns_ok_def)
    then show ?thesis unfolding e same_but_dns_rules_def by auto
  next
    case 3
    let ?t = "generateDNSRules t" and ?rs = "generated_dns_rules t d"
    have tags: "mhas (t_ruleSetDefs ?t) k \<longleftrightarrow> k \<in> set (geo_dns_tags (t_country t)) \<or> mhas (t_ruleSetDefs t) k" for k
      using d 3 by (auto simp: generateDNSRules_def Let_def geo_dns_tags_def)
    have wf: "defs_wf (t_ruleSetDefs t) \<longrightarrow> defs_wf (t_ruleSetDefs ?t)"
      using d 3 by (simp add: generateDNSRules_def Let_def)
    have fr: "sb_Outbounds (t_config ?t) = sb_Outbounds (t_config t)" "sb_Route (t_config ?t) = sb_Route (t_config t)"
      "t_groupTagOrder ?t = t_groupTagOrder t" "t_proxyTags ?t = t_proxyTags t" "t_stubTags ?t = t_stubTags t"
      using d 3 by (simp_all add: generateDNSRules_def Let_def)
    note direct = findFirst_mem(1)[OF d(1) 3(2)] and fake = findFirst_mem(3)[OF d(1)]
    have rs: "list_all (dns_ref_ok (t_ruleSetDefs ?t) (set (dns_tags d))) ?rs"
      unfolding generated_dns_rules_def Let_def
      using direct fake ech_rules_ok[OF d(1) 3(2)] d dns_rules_ref tags
      by (auto simp: dns_ok_def dns_ref_ok_def[of _ _ "_ # _"] server_rule_def list_all_iff)
    have "dns_module (firstGroupTag t0) (t_ruleSetDefs ?t) ?t (d\<lparr>sd_Rules := ?rs\<rparr>)"
      unfolding dns_module_def
      using generateDNSRules_rules[OF d(1,3) 3] d rs fr by (simp add: dns_ok_def)
    moreover have "same_but_dns_rules t ?t"
      unfolding same_but_dns_rules_def using fr tags wf by simp
    ultimately show ?thesis by blast
  qed
qed

section \<open>Route actions\<close>

lemma dns_route_action_ref [simp]: "dns_ref_ok defs tags (dns_route_action r) = dns_ref_ok defs tags r"
  by (simp add: dns_ref_ok_def dns_route_action_def)

lemma addDNSRouteAction_module:
  assumes "dns_module det defs t d"
  shows "dns_module det defs (addDNSRouteAction t) (d\<lparr>sd_Rules := map dns_route_action (sd_Rules d)\<rparr>) \<and>
    same_but_dns_rules t (addDNSRouteAction t) \<and> t_ruleSetDefs (addDNSRouteAction t) = t_ruleSetDefs t"
  using assms by (auto simp: dns_module_def addDNSRouteAction_def same_but_dns_rules_def list.pred_map o_def)

text \<open>After it every rule with a server has an action.\<close>

lemma dns_route_action_has: "mhas r ''server'' \<Longrightarrow> mhas (dns_route_action r) ''action''"
  by (simp add: dns_route_action_def)

end
