(* ===== verification/Assemble.thy ===== *)
theory Assemble
  imports DnsRules
begin

text \<open>
  \<open>translator/assemble.go\<close>: the built-in outbound, the rule actions and mode conditions, the rules
  every configuration starts with, the final outbound, the rule-set definitions in the order of
  their tags, and the removal of rules that refer to undefined rule sets.
\<close>

section \<open>Rule rewriting\<close>

definition convertRejectActions :: "gmap \<Rightarrow> gmap" where
  "convertRejectActions rule =
    (if mstr rule ''outbound'' = ''REJECT''
     then mput ''action'' (VStr ''reject'') (mdel ''outbound'' rule) else rule)"

definition addRouteAction :: "gmap \<Rightarrow> gmap" where
  "addRouteAction rule =
    (if \<not> mhas rule ''action'' \<and> mhas rule ''outbound'' then mput ''action'' (VStr ''route'') rule else rule)"

definition addClashModeCondition :: "gmap \<Rightarrow> gmap" where
  "addClashModeCondition rule =
    (if \<not> mhas rule ''outbound'' then rule
     else if mhas rule ''clash_mode'' then rule
     else if mstr rule ''type'' = ''logical'' then
       (if mstr rule ''mode'' = ''and''
        then mput ''rules'' (VMaps (mmaps rule ''rules'' @ [[(''clash_mode'', VStr ''Rule'')]])) rule
        else rule)
     else mput ''clash_mode'' (VStr ''Rule'') rule)"

definition map_rules :: "(gmap \<Rightarrow> gmap) \<Rightarrow> translation \<Rightarrow> translation" where
  "map_rules f t = upd_route (\<lambda>r. r\<lparr>rt_Rules := map f (rt_Rules r)\<rparr>) t"

section \<open>Orphans\<close>

definition orphan_warning :: "string list \<Rightarrow> string" where
  "orphan_warning tags = ''dropped rule referencing undefined rule_set: '' @ str_join '', '' tags"

definition orphan_sub_warning :: "string list \<Rightarrow> string" where
  "orphan_sub_warning tags = ''dropped logical sub-rule referencing undefined rule_set: '' @ str_join '', '' tags"

definition filter_orphan :: "(string list \<Rightarrow> string) \<Rightarrow> (string \<Rightarrow> bool) \<Rightarrow> gmap \<Rightarrow> gmap list warned" where
  "filter_orphan msg defined rule =
    (let rsTags = mstrs rule ''rule_set'' in
     if rsTags = [] then ([rule], [])
     else let valid = filter defined rsTags
          in if valid \<noteq> [] then ([mput ''rule_set'' (VStrs valid) rule], []) else ([], [msg rsTags]))"

definition collect_warned :: "('a \<Rightarrow> 'b list warned) \<Rightarrow> 'a list \<Rightarrow> 'b list warned" where
  "collect_warned f xs = (concat (map (\<lambda>x. fst (f x)) xs), concat (map (\<lambda>x. snd (f x)) xs))"

definition filterOrphanSubRules :: "(string \<Rightarrow> bool) \<Rightarrow> gmap list \<Rightarrow> gmap list warned" where
  "filterOrphanSubRules defined subRules = collect_warned (filter_orphan orphan_sub_warning defined) subRules"

definition filterOrphanRules :: "(string \<Rightarrow> bool) \<Rightarrow> gmap list \<Rightarrow> gmap list warned" where
  "filterOrphanRules defined rules = collect_warned (\<lambda>rule.
     let subRules = mmaps rule ''rules'';
         (rule, w1) = (if subRules \<noteq> []
                       then let (sub, w) = filterOrphanSubRules defined subRules
                            in (mput ''rules'' (VMaps sub) rule, w)
                       else (rule, []));
         (out, w2) = filter_orphan orphan_warning defined rule
     in (out, w1 @ w2)) rules"

definition definedTags :: "gmap gomap \<Rightarrow> string \<Rightarrow> bool" where
  "definedTags defs tag = list_ex (\<lambda>(_, def). map_of def ''tag'' = Some (VStr tag)) defs"

definition set_rules :: "gmap list \<Rightarrow> translation \<Rightarrow> translation" where
  "set_rules rs t = upd_route (\<lambda>r. r\<lparr>rt_Rules := rs\<rparr>) t"

definition removeOrphanRuleSetRules :: "translation \<Rightarrow> translation" where
  "removeOrphanRuleSetRules t =
    (let defined = definedTags (t_ruleSetDefs t);
         (rules, w1) = filterOrphanRules defined (t_rules t);
         t = warn_all w1 (set_rules rules t)
     in case sb_DNS (t_config t) of
          None \<Rightarrow> t
        | Some d \<Rightarrow> let (drules, w2) = filterOrphanRules defined (sd_Rules d)
                    in warn_all w2 (set_dns_rules drules t))"

section \<open>assemble\<close>

definition direct_outbound :: gmap where
  "direct_outbound = [(''type'', VStr ''direct''), (''tag'', VStr ''DIRECT'')]"

definition mode_rule :: "string \<Rightarrow> string \<Rightarrow> gmap" where
  "mode_rule mode outbound =
    [(''clash_mode'', VStr mode), (''outbound'', VStr outbound), (''action'', VStr ''route'')]"

definition default_rules :: "string \<Rightarrow> gmap list" where
  "default_rules tag =
    [[(''action'', VStr ''sniff'')], [(''protocol'', VStr ''dns''), (''action'', VStr ''hijack-dns'')]] @
    (if tag \<noteq> [] then [mode_rule ''Direct'' ''DIRECT'', mode_rule ''Global'' tag] else [])"

definition final_outbound :: "translation \<Rightarrow> string" where
  "final_outbound t =
    (if rt_Final (t_route t) = [] then (if firstGroupTag t \<noteq> [] then firstGroupTag t else ''DIRECT'')
     else rt_Final (t_route t))"

definition with_detour :: "gmap \<Rightarrow> gmap" where
  "with_detour def = (if \<not> mhas def ''download_detour'' then mput ''download_detour'' (VStr ''DIRECT'') def else def)"

definition sorted_defs :: "gmap gomap \<Rightarrow> gmap list" where
  "sorted_defs defs = map (\<lambda>tag. with_detour (case map_of defs tag of Some def \<Rightarrow> def | None \<Rightarrow> [])) (sort (mkeys defs))"

definition assemble_parts :: "translation \<Rightarrow> translation" where
  "assemble_parts t =
    (let t = upd_config (\<lambda>c. c\<lparr>sb_Outbounds := direct_outbound # sb_Outbounds c\<rparr>) t;
         t = map_rules convertRejectActions t;
         t = map_rules addRouteAction t;
         t = map_rules addClashModeCondition t;
         t = upd_route (\<lambda>r. r\<lparr>rt_Rules := default_rules (firstGroupTag t) @ rt_Rules r\<rparr>) t;
         t = upd_route (\<lambda>r. r\<lparr>rt_Final := final_outbound t\<rparr>) t
     in upd_route (\<lambda>r. r\<lparr>rt_RuleSet := rt_RuleSet r @ sorted_defs (t_ruleSetDefs t)\<rparr>) t)"

definition assemble :: "translation \<Rightarrow> translation" where
  "assemble t = removeOrphanRuleSetRules (assemble_parts t)"

section \<open>Lemmas\<close>

lemma definedTags_mhas: "defs_wf defs \<Longrightarrow> definedTags defs tag \<longleftrightarrow> mhas defs tag"
  by (force simp: definedTags_def defs_wf_def list_ex_iff list_all_iff mhas_iff_key mkeys_def)

text \<open>A rule whose rule sets are defined, and which has no sub-rules, is kept as it is.\<close>

lemma mput_same: "map_of m k = Some v \<Longrightarrow> mput k v m = m"
  by (induction m) (auto split: if_splits)

lemma mstrs_map_of: "mstrs m k \<noteq> [] \<Longrightarrow> map_of m k = Some (VStrs (mstrs m k))"
  by (cases "map_of m k" rule: as_strs.cases) (auto simp: mstrs_def)

lemma filter_orphan_defined:
  assumes "list_all defined (mstrs rule ''rule_set'')"
  shows "filter_orphan msg defined rule = ([rule], [])"
proof (cases "mstrs rule ''rule_set'' = []")
  case True
  then show ?thesis by (simp add: filter_orphan_def)
next
  case False
  have "filter defined (mstrs rule ''rule_set'') = mstrs rule ''rule_set''"
    using assms by (auto simp: list_all_iff filter_id_conv)
  with False show ?thesis by (simp add: filter_orphan_def Let_def mput_same mstrs_map_of)
qed

lemma collect_warned_id: "(\<And>x. x \<in> set xs \<Longrightarrow> f x = ([x], [])) \<Longrightarrow> collect_warned f xs = (xs, [])"
  by (induction xs) (auto simp: collect_warned_def)

lemma filterOrphanRules_defined:
  assumes "list_all (\<lambda>r. list_all defined (mstrs r ''rule_set'') \<and> map_of r ''rules'' = None) rules"
  shows "filterOrphanRules defined rules = (rules, [])"
  unfolding filterOrphanRules_def
proof (rule collect_warned_id)
  fix rule assume "rule \<in> set rules"
  then have "list_all defined (mstrs rule ''rule_set'')" "mmaps rule ''rules'' = []"
    using assms by (auto simp: list_all_iff mmaps_def)
  then show "(let subRules = mmaps rule ''rules'';
         (rule, w1) = (if subRules \<noteq> []
                       then let (sub, w) = filterOrphanSubRules defined subRules
                            in (mput ''rules'' (VMaps sub) rule, w)
                       else (rule, []));
         (out, w2) = filter_orphan orphan_warning defined rule
     in (out, w1 @ w2)) = ([rule], [])"
    by (simp add: filter_orphan_defined)
qed

text \<open>In general a surviving rule refers to defined rule sets only.\<close>

lemma filter_orphan_result:
  "filter_orphan msg defined rule = (out, ws) \<Longrightarrow> r \<in> set out \<Longrightarrow> list_all defined (mstrs r ''rule_set'')"
  by (auto simp: filter_orphan_def Let_def list_all_iff split: if_splits)

lemma filterOrphanRules_result:
  "r \<in> set (fst (filterOrphanRules defined rules)) \<Longrightarrow> list_all defined (mstrs r ''rule_set'')"
  unfolding filterOrphanRules_def collect_warned_def
  by (auto simp: Let_def split_def dest!: filter_orphan_result[OF prod.collapse[symmetric]])

section \<open>The rules after assembly\<close>

definition finish_rule :: "gmap \<Rightarrow> gmap" where
  "finish_rule r = addClashModeCondition (addRouteAction (convertRejectActions r))"

text \<open>A routing rule as the translator generates them: one known outbound, nothing else of note.\<close>

definition simple_rule :: "string set \<Rightarrow> gmap \<Rightarrow> bool" where
  "simple_rule outs r \<longleftrightarrow>
     (\<exists>ob\<in>outs. ob \<noteq> ''REJECT'' \<and> map_of r ''outbound'' = Some (VStr ob)) \<and>
     map_of r ''type'' = None \<and> map_of r ''action'' = None \<and> map_of r ''clash_mode'' = None \<and> map_of r ''rules'' = None"

lemma finish_simple_rule:
  assumes "simple_rule outs r"
  shows "finish_rule r = mput ''clash_mode'' (VStr ''Rule'') (mput ''action'' (VStr ''route'') r)"
  using assms by (auto simp: simple_rule_def finish_rule_def addClashModeCondition_def addRouteAction_def
      convertRejectActions_def mhas_def mstr_def)

lemma map_rules_frame [simp, frame_simps]:
  "t_config (map_rules f t) = (t_config t)\<lparr>sb_Route := (t_route t)\<lparr>rt_Rules := map f (t_rules t)\<rparr>\<rparr>"
  "t_proxyTags (map_rules f t) = t_proxyTags t" "t_stubTags (map_rules f t) = t_stubTags t"
  "t_groupTagOrder (map_rules f t) = t_groupTagOrder t" "t_ruleSetDefs (map_rules f t) = t_ruleSetDefs t"
  "t_warnings (map_rules f t) = t_warnings t"
  by (simp_all add: map_rules_def)

lemma assemble_parts_fields:
  "t_rules (assemble_parts t) = default_rules (firstGroupTag t) @ map finish_rule (t_rules t)"
  "sb_DNS (t_config (assemble_parts t)) = sb_DNS (t_config t)"
  "rt_Final (t_route (assemble_parts t)) = final_outbound t"
  "rt_RuleSet (t_route (assemble_parts t)) = rt_RuleSet (t_route t) @ sorted_defs (t_ruleSetDefs t)"
  "t_warnings (assemble_parts t) = t_warnings t"
  "t_proxyTags (assemble_parts t) = t_proxyTags t" "t_stubTags (assemble_parts t) = t_stubTags t"
  "t_groupTagOrder (assemble_parts t) = t_groupTagOrder t" "t_ruleSetDefs (assemble_parts t) = t_ruleSetDefs t"
  "sb_Outbounds (t_config (assemble_parts t)) = direct_outbound # sb_Outbounds (t_config t)"
  "t_resolver (assemble_parts t) = t_resolver t"
  by (simp_all add: assemble_parts_def Let_def finish_rule_def firstGroupTag_def final_outbound_def)

lemma set_rules_frame [simp, frame_simps]:
  "t_config (set_rules rs t) = (t_config t)\<lparr>sb_Route := (t_route t)\<lparr>rt_Rules := rs\<rparr>\<rparr>"
  "t_proxyTags (set_rules rs t) = t_proxyTags t" "t_stubTags (set_rules rs t) = t_stubTags t"
  "t_groupTagOrder (set_rules rs t) = t_groupTagOrder t" "t_ruleSetDefs (set_rules rs t) = t_ruleSetDefs t"
  "t_warnings (set_rules rs t) = t_warnings t" "t_warnings (set_dns_rules rs t) = t_warnings t"
  by (simp_all add: set_rules_def set_dns_rules_def)

lemma removeOrphan_frame:
  "t_proxyTags (removeOrphanRuleSetRules t) = t_proxyTags t" "t_stubTags (removeOrphanRuleSetRules t) = t_stubTags t"
  "t_groupTagOrder (removeOrphanRuleSetRules t) = t_groupTagOrder t"
  "t_ruleSetDefs (removeOrphanRuleSetRules t) = t_ruleSetDefs t"
  "sb_Outbounds (t_config (removeOrphanRuleSetRules t)) = sb_Outbounds (t_config t)"
  "t_resolver (removeOrphanRuleSetRules t) = t_resolver t"
  "rt_Final (t_route (removeOrphanRuleSetRules t)) = rt_Final (t_route t)"
  "rt_RuleSet (t_route (removeOrphanRuleSetRules t)) = rt_RuleSet (t_route t)"
  by (simp_all add: removeOrphanRuleSetRules_def Let_def split: option.split prod.split)

lemma assemble_frame:
  "t_proxyTags (assemble t) = t_proxyTags t" "t_stubTags (assemble t) = t_stubTags t"
  "t_groupTagOrder (assemble t) = t_groupTagOrder t" "t_ruleSetDefs (assemble t) = t_ruleSetDefs t"
  "sb_Outbounds (t_config (assemble t)) = direct_outbound # sb_Outbounds (t_config t)"
  "t_resolver (assemble t) = t_resolver t"
  "rt_Final (t_route (assemble t)) = final_outbound t"
  "rt_RuleSet (t_route (assemble t)) = rt_RuleSet (t_route t) @ sorted_defs (t_ruleSetDefs t)"
  by (simp_all add: assemble_def removeOrphan_frame assemble_parts_fields)

lemma default_rules_plain:
  "list_all (\<lambda>r. mstrs r ''rule_set'' = [] \<and> map_of r ''rules'' = None \<and> mhas r ''action'') (default_rules tag)"
  by (simp add: default_rules_def mode_rule_def)

lemma finish_simple_fields:
  assumes "simple_rule outs r"
  shows "mstrs (finish_rule r) ''rule_set'' = mstrs r ''rule_set''" "map_of (finish_rule r) ''rules'' = None"
    "mstr (finish_rule r) ''outbound'' = mstr r ''outbound''" "map_of (finish_rule r) ''action'' = Some (VStr ''route'')"
    "map_of (finish_rule r) ''clash_mode'' = Some (VStr ''Rule'')"
  using assms unfolding finish_simple_rule[OF assms] by (simp_all add: simple_rule_def mstr_def)

text \<open>
  On the rules the translator generates, assembly drops nothing: the default rules come first, then
  the finished rules in their order; the DNS rules stay.
\<close>

definition plain_rule :: "gmap gomap \<Rightarrow> gmap \<Rightarrow> bool" where
  "plain_rule defs r \<longleftrightarrow>
     map_of r ''type'' = None \<and> map_of r ''rules'' = None \<and> list_all (mhas defs) (mstrs r ''rule_set'')"

lemma mstrs_mdel [simp]: "mstrs (mdel k m) k' = (if k' = k then [] else mstrs m k')"
  by (simp add: mstrs_def)

lemma mstr_mdel [simp]: "mstr (mdel k m) k' = (if k' = k then [] else mstr m k')"
  by (simp add: mstr_def)

lemma finish_plain_rule:
  assumes "plain_rule defs r"
  shows "plain_rule defs (finish_rule r)"
    "mstr (finish_rule r) ''outbound'' = (if mstr r ''outbound'' = ''REJECT'' then [] else mstr r ''outbound'')"
  using assms by (auto simp: plain_rule_def finish_rule_def addClashModeCondition_def addRouteAction_def
      convertRejectActions_def mstr_def)

definition rules_ready :: "translation \<Rightarrow> bool" where
  "rules_ready t \<longleftrightarrow> list_all (plain_rule (t_ruleSetDefs t)) (t_rules t) \<and> defs_wf (t_ruleSetDefs t)"

lemma assemble_result:
  assumes R: "rules_ready t" and D: "dns_module det (t_ruleSetDefs t) t d"
  shows "t_rules (assemble t) = default_rules (firstGroupTag t) @ map finish_rule (t_rules t)"
    "sb_DNS (t_config (assemble t)) = Some d"
    "t_warnings (assemble t) = t_warnings t"
proof -
  let ?defined = "definedTags (t_ruleSetDefs t)"
  have def: "?defined tag = mhas (t_ruleSetDefs t) tag" for tag
    using R definedTags_mhas by (simp add: rules_ready_def)
  let ?rules = "default_rules (firstGroupTag t) @ map finish_rule (t_rules t)"
  have "list_all (\<lambda>r. list_all ?defined (mstrs r ''rule_set'') \<and> map_of r ''rules'' = None) ?rules"
    using R default_rules_plain[of "firstGroupTag t"] finish_plain_rule(1)[of "t_ruleSetDefs t"]
    unfolding rules_ready_def list_all_iff plain_rule_def def by auto
  then have f: "filterOrphanRules ?defined ?rules = (?rules, [])" by (rule filterOrphanRules_defined)
  have "list_all (\<lambda>r. list_all ?defined (mstrs r ''rule_set'') \<and> map_of r ''rules'' = None) (sd_Rules d)"
    using D by (auto simp: dns_module_def dns_ref_ok_def list_all_iff def)
  then have g: "filterOrphanRules ?defined (sd_Rules d) = (sd_Rules d, [])" by (rule filterOrphanRules_defined)
  have dns: "sb_DNS (t_config t) = Some d" using D by (simp add: dns_module_def)
  show "t_rules (assemble t) = ?rules" "sb_DNS (t_config (assemble t)) = Some d"
    "t_warnings (assemble t) = t_warnings t"
    unfolding assemble_def removeOrphanRuleSetRules_def
    by (simp_all add: assemble_parts_fields f g dns)
qed

end
