(* ===== verification/Validate.thy ===== *)
theory Validate
  imports Types
begin

text \<open>
  \<open>translator/validation.go\<close>: the referential integrity of the output.  Each error message of the
  code is a constructor of \<open>validate_error\<close>, with the tags it prints.  The theorem of this theory is
  that the checks decide exactly the closedness of the references.
\<close>

datatype validate_error =
    DuplicateDirect
  | DuplicateTag string
  | BadMembers string
  | MissingMember string string
  | MissingFinal string
  | MissingDetour string string
  | MissingServer string
  | MissingDNSFinal string

section \<open>The checks\<close>

fun collect_tags :: "string list \<Rightarrow> string set \<Rightarrow> bool \<Rightarrow> validate_error + string set" where
  "collect_tags [] tagSet directSeen = Inr tagSet"
| "collect_tags (tag # tags) tagSet directSeen =
     (if tag = [] then collect_tags tags tagSet directSeen
      else if tag = ''DIRECT'' then
        (if directSeen then Inl DuplicateDirect else collect_tags tags tagSet True)
      else if tag \<in> tagSet then Inl (DuplicateTag tag)
      else collect_tags tags (insert tag tagSet) directSeen)"

definition outbound_tags :: "gmap list \<Rightarrow> string list" where
  "outbound_tags obs = map (\<lambda>ob. mstr ob ''tag'') obs"

definition collectOutboundTags :: "translation \<Rightarrow> validate_error + string set" where
  "collectOutboundTags t = collect_tags (outbound_tags (sb_Outbounds (t_config t))) {''DIRECT''} False"

fun strict_strings :: "gval list \<Rightarrow> string list option" where
  "strict_strings [] = Some []"
| "strict_strings (VStr s # vs) = map_option ((#) s) (strict_strings vs)"
| "strict_strings (_ # vs) = None"

definition outboundMembers :: "gval \<Rightarrow> string list option" where
  "outboundMembers raw =
    (case raw of
       VStrs ss \<Rightarrow> Some ss
     | VList vs \<Rightarrow> strict_strings vs
     | _ \<Rightarrow> None)"

definition check_group :: "string set \<Rightarrow> gmap \<Rightarrow> validate_error option" where
  "check_group tagSet ob =
    (case map_of ob ''outbounds'' of
       None \<Rightarrow> None
     | Some raw \<Rightarrow>
         (case outboundMembers raw of
            None \<Rightarrow> Some (BadMembers (mstr ob ''tag''))
          | Some members \<Rightarrow>
              map_option (MissingMember (mstr ob ''tag'')) (find (\<lambda>m. m \<notin> tagSet) members)))"

fun first_error :: "('a \<Rightarrow> 'e option) \<Rightarrow> 'a list \<Rightarrow> 'e option" where
  "first_error f [] = None"
| "first_error f (x # xs) = (case f x of Some e \<Rightarrow> Some e | None \<Rightarrow> first_error f xs)"

definition validateGroupMembers :: "translation \<Rightarrow> string set \<Rightarrow> validate_error option" where
  "validateGroupMembers t tagSet = first_error (check_group tagSet) (sb_Outbounds (t_config t))"

definition rule_warning :: "string \<Rightarrow> string" where
  "rule_warning outbound = ''rule references non-existent outbound: '' @ outbound"

definition validateRouteRules :: "string set \<Rightarrow> translation \<Rightarrow> translation" where
  "validateRouteRules tagSet t =
    warn_all (concat (map (\<lambda>rule.
      let outbound = mstr rule ''outbound'' in
      if outbound \<noteq> [] \<and> outbound \<notin> tagSet then [rule_warning outbound] else []) (t_rules t))) t"

definition server_tags :: "singboxDNS \<Rightarrow> string set" where
  "server_tags d = set (filter (\<lambda>tag. tag \<noteq> []) (map (\<lambda>srv. mstr srv ''tag'') (sd_Servers d)))"

definition validateDNSReferences :: "translation \<Rightarrow> string set \<Rightarrow> validate_error option" where
  "validateDNSReferences t tagSet =
    (case sb_DNS (t_config t) of
       None \<Rightarrow> None
     | Some d \<Rightarrow>
         (case first_error (\<lambda>srv. let detour = mstr srv ''detour'' in
             if detour \<noteq> [] \<and> detour \<notin> tagSet then Some (MissingDetour (mstr srv ''tag'') detour) else None) (sd_Servers d) of
            Some e \<Rightarrow> Some e
          | None \<Rightarrow>
              (case first_error (\<lambda>rule. let server = mstr rule ''server'' in
                 if server \<noteq> [] \<and> server \<notin> server_tags d then Some (MissingServer server) else None) (sd_Rules d) of
                 Some e \<Rightarrow> Some e
               | None \<Rightarrow>
                   if sd_Final d \<noteq> [] \<and> sd_Final d \<notin> server_tags d then Some (MissingDNSFinal (sd_Final d)) else None)))"

definition validate :: "translation \<Rightarrow> validate_error option \<times> translation" where
  "validate t =
    (case collectOutboundTags t of
       Inl e \<Rightarrow> (Some e, t)
     | Inr tagSet \<Rightarrow>
         (case validateGroupMembers t tagSet of
            Some e \<Rightarrow> (Some e, t)
          | None \<Rightarrow>
              let t = validateRouteRules tagSet t;
                  final = rt_Final (t_route t)
              in if final \<noteq> [] \<and> final \<notin> tagSet then (Some (MissingFinal final), t)
                 else (validateDNSReferences t tagSet, t)))"

section \<open>What the tag check decides\<close>

definition named_tags :: "translation \<Rightarrow> string list" where
  "named_tags t = filter (\<lambda>tag. tag \<noteq> []) (outbound_tags (sb_Outbounds (t_config t)))"

lemma collect_tags_Inr:
  "''DIRECT'' \<in> S \<Longrightarrow>
   collect_tags tags S seen = Inr S' \<Longrightarrow>
     S' = S \<union> set (filter (\<lambda>tag. tag \<noteq> []) tags) \<and>
     distinct (filter (\<lambda>tag. tag \<noteq> []) tags) \<and>
     set (filter (\<lambda>tag. tag \<noteq> []) tags) \<inter> (S - {''DIRECT''}) = {} \<and>
     (seen \<longrightarrow> ''DIRECT'' \<notin> set tags)"
proof (induction tags S seen arbitrary: S' rule: collect_tags.induct)
  case (2 tag tags S seen)
  consider "tag = []" | "tag = ''DIRECT''" | "tag \<noteq> []" "tag \<noteq> ''DIRECT''" by blast
  then show ?case
  proof cases
    case 1
    then show ?thesis using 2 by auto
  next
    case 2
    then have "\<not> seen" using "2.prems"(2) by auto
    then show ?thesis using "2.IH"(2)[of S'] "2.prems" 2 by auto
  next
    case 3
    then have n: "tag \<notin> S" "collect_tags tags (insert tag S) seen = Inr S'" using "2.prems"(2) by (auto split: if_splits)
    have "S' = insert tag S \<union> set (filter (\<lambda>tag. tag \<noteq> []) tags) \<and>
       distinct (filter (\<lambda>tag. tag \<noteq> []) tags) \<and>
       set (filter (\<lambda>tag. tag \<noteq> []) tags) \<inter> (insert tag S - {''DIRECT''}) = {} \<and>
       (seen \<longrightarrow> ''DIRECT'' \<notin> set tags)"
      by (rule "2.IH"(3)) (use 3 n "2.prems" in auto)
    then show ?thesis using 3 n by auto
  qed
qed auto

lemma collect_tags_distinct:
  "''DIRECT'' \<in> S \<Longrightarrow> distinct (filter (\<lambda>tag. tag \<noteq> []) tags) \<Longrightarrow>
   set (filter (\<lambda>tag. tag \<noteq> []) tags) \<inter> (S - {''DIRECT''}) = {} \<Longrightarrow> (seen \<longrightarrow> ''DIRECT'' \<notin> set tags) \<Longrightarrow>
   \<exists>S'. collect_tags tags S seen = Inr S'"
proof (induction tags arbitrary: S seen)
  case (Cons tag tags)
  consider "tag = []" | "tag = ''DIRECT''" | "tag \<noteq> []" "tag \<noteq> ''DIRECT''" by blast
  then show ?case
  proof cases
    case 1
    then show ?thesis using Cons.IH[of S seen] Cons.prems by simp
  next
    case 2
    then show ?thesis using Cons.IH[of S True] Cons.prems by auto
  next
    case 3
    then have "tag \<notin> S" using Cons.prems by auto
    moreover have "\<exists>S'. collect_tags tags (insert tag S) seen = Inr S'"
      by (rule Cons.IH) (use 3 Cons.prems in auto)
    ultimately show ?thesis using 3 by simp
  qed
qed simp

lemma collectOutboundTags_iff:
  "collectOutboundTags t = Inr S \<longleftrightarrow> distinct (named_tags t) \<and> S = insert ''DIRECT'' (set (named_tags t))"
proof -
  let ?ts = "outbound_tags (sb_Outbounds (t_config t))"
  have "\<exists>S'. collect_tags ?ts {''DIRECT''} False = Inr S'" if "distinct (named_tags t)"
    using collect_tags_distinct[of "{''DIRECT''}" ?ts False] that by (simp add: named_tags_def)
  then show ?thesis
    using collect_tags_Inr[of "{''DIRECT''}" ?ts False] unfolding collectOutboundTags_def named_tags_def by fastforce
qed

section \<open>Closedness\<close>

lemma first_error_None: "first_error f xs = None \<longleftrightarrow> list_all (\<lambda>x. f x = None) xs"
  by (induction xs) (auto split: option.splits)

definition known_outbounds :: "translation \<Rightarrow> string set" where
  "known_outbounds t = insert ''DIRECT'' (set (named_tags t))"

definition members_closed :: "string set \<Rightarrow> gmap \<Rightarrow> bool" where
  "members_closed known ob \<longleftrightarrow>
     (case map_of ob ''outbounds'' of
        None \<Rightarrow> True
      | Some raw \<Rightarrow> (case outboundMembers raw of Some ms \<Rightarrow> set ms \<subseteq> known | None \<Rightarrow> False))"

definition dns_closed :: "string set \<Rightarrow> singboxDNS \<Rightarrow> bool" where
  "dns_closed known d \<longleftrightarrow>
     list_all (\<lambda>srv. mstr srv ''detour'' = [] \<or> mstr srv ''detour'' \<in> known) (sd_Servers d) \<and>
     list_all (\<lambda>r. mstr r ''server'' = [] \<or> mstr r ''server'' \<in> server_tags d) (sd_Rules d) \<and>
     (sd_Final d = [] \<or> sd_Final d \<in> server_tags d)"

text \<open>What a start of the consumer needs: unique tags and no dangling hard reference.\<close>

definition references_closed :: "translation \<Rightarrow> bool" where
  "references_closed t \<longleftrightarrow>
     distinct (named_tags t) \<and> list_all (members_closed (known_outbounds t)) (sb_Outbounds (t_config t)) \<and>
     (rt_Final (t_route t) = [] \<or> rt_Final (t_route t) \<in> known_outbounds t) \<and>
     (case sb_DNS (t_config t) of None \<Rightarrow> True | Some d \<Rightarrow> dns_closed (known_outbounds t) d)"

lemma check_group_None: "check_group known ob = None \<longleftrightarrow> members_closed known ob"
  by (auto simp: check_group_def members_closed_def find_None_iff split: option.splits)

lemma or_else_None: "(case x of None \<Rightarrow> y | Some e \<Rightarrow> Some e) = None \<longleftrightarrow> x = None \<and> y = None"
  by (simp split: option.split)

lemma validateDNS_None:
  "validateDNSReferences t known = None \<longleftrightarrow> (case sb_DNS (t_config t) of None \<Rightarrow> True | Some d \<Rightarrow> dns_closed known d)"
  by (cases "sb_DNS (t_config t)")
     (auto simp: validateDNSReferences_def dns_closed_def or_else_None first_error_None list_all_iff Let_def)

lemma validateRouteRules_frame [simp, frame_simps]:
  "t_config (validateRouteRules S t) = t_config t" "t_stubTags (validateRouteRules S t) = t_stubTags t"
  by (simp_all add: validateRouteRules_def)

lemma validateDNS_frame [simp]: "validateDNSReferences (validateRouteRules S t) known = validateDNSReferences t known"
  by (simp add: validateDNSReferences_def)

lemma validate_config [simp]: "t_config (snd (validate t)) = t_config t" "t_stubTags (snd (validate t)) = t_stubTags t"
  by (simp_all add: validate_def Let_def split: sum.split option.split)

lemma validate_decides: "fst (validate t) = None \<longleftrightarrow> references_closed t"
proof (cases "collectOutboundTags t")
  case (Inl e)
  then have "\<not> distinct (named_tags t)"
    using collectOutboundTags_iff[of t "insert ''DIRECT'' (set (named_tags t))"] by auto
  with Inl show ?thesis by (simp add: validate_def references_closed_def)
next
  case (Inr S)
  then have S: "distinct (named_tags t)" "S = known_outbounds t"
    using collectOutboundTags_iff[of t S] by (auto simp: known_outbounds_def)
  have g: "validateGroupMembers t S = None \<longleftrightarrow> list_all (members_closed S) (sb_Outbounds (t_config t))"
    by (simp add: validateGroupMembers_def first_error_None check_group_None)
  show ?thesis
  proof (cases "validateGroupMembers t S")
    case None
    then show ?thesis
      using Inr S g by (simp add: validate_def Let_def references_closed_def validateDNS_None)
  next
    case (Some e)
    then show ?thesis
      using Inr S g by (simp add: validate_def references_closed_def)
  qed
qed

text \<open>Warnings only: a dangling rule never fails the translation.\<close>

lemma validate_warns:
  "snd (validate t) = t \<or> (\<exists>S. snd (validate t) = validateRouteRules S t)"
  by (auto simp: validate_def Let_def split: sum.split option.split)

end
