(* ===== verification/Pipeline.thy ===== *)
theory Pipeline
  imports ProxyGroups General Country Assemble Validate
begin

text \<open>
  \<open>translateFromConfig\<close> of \<open>translator/translator.go\<close>: the ten steps in their order, threading the
  translation state.  The serialisation of the result to JSON is not modelled: the result is the
  output structure itself, with the warnings and the stub tags of \<open>Meta\<close>.  The lemmas carry the
  invariants of the steps to the end: every reference of the result resolves, so the only error
  the final validation can report is a duplicate tag.
\<close>

section \<open>The steps\<close>

definition pick_country :: "string option list \<Rightarrow> string option \<Rightarrow> geo_cache \<Rightarrow> string \<times> geo_cache" where
  "pick_country geo opts g =
    (let (country, g) = DetectCountry geo [] g
     in case opts of
          None \<Rightarrow> (country, g)
        | Some c \<Rightarrow> DetectCountry geo c g)"

definition start_translation :: "RawConfig \<Rightarrow> string \<Rightarrow> translation" where
  "start_translation cfg country =
    upd_config (translateGeneral cfg) (empty_translation\<lparr>t_country := to_lower country\<rparr>)"

definition translate_outbounds :: "(string \<Rightarrow> bool) \<Rightarrow> RawConfig \<Rightarrow> translation \<Rightarrow> translation" where
  "translate_outbounds valid_uuid cfg t =
    (let (proxyOutbounds, t) = translateProxies valid_uuid cfg t;
         t = collectECHQueryServers proxyOutbounds t;
         (groupOutbounds, t) = translateGroups cfg t;
         (groupOutbounds, t) = (if t_groupTagOrder t = [] then generateDefaultGroups t else (groupOutbounds, t))
     in upd_config (\<lambda>c. c\<lparr>sb_Outbounds := sb_Outbounds c @ proxyOutbounds @ groupOutbounds\<rparr>) t)"

definition translate_steps :: "(string \<Rightarrow> bool) \<Rightarrow> RawConfig \<Rightarrow> string \<Rightarrow> translation" where
  "translate_steps valid_uuid cfg country =
    (let t = start_translation cfg country;
         t = translate_outbounds valid_uuid cfg t;
         t = translateRules cfg t;
         t = translateDNS cfg t;
         t = generateDNSRules t;
         t = addDNSRouteAction t;
         t = translateTUN cfg t;
         t = upd_config (translateExperimental cfg) t
     in assemble t)"

definition translateFromConfig ::
  "(string \<Rightarrow> bool) \<Rightarrow> string option list \<Rightarrow> RawConfig \<Rightarrow> string option \<Rightarrow> geo_cache \<Rightarrow>
   (validate_error option \<times> translation) \<times> geo_cache" where
  "translateFromConfig valid_uuid geo cfg opts g =
    (let (country, g) = pick_country geo opts g
     in (validate (translate_steps valid_uuid cfg country), g))"

section \<open>The outbounds\<close>

lemma collectECH_frame:
  "collectECHQueryServers obs t = t\<lparr>t_echQueryServers := t_echQueryServers (collectECHQueryServers obs t)\<rparr>"
proof (induction obs arbitrary: t)
  case Nil
  then show ?case by (simp add: collectECHQueryServers_def)
next
  case (Cons ob obs)
  have step: "\<exists>q. collectECHQueryServers (ob # obs) t = collectECHQueryServers obs (t\<lparr>t_echQueryServers := q\<rparr>)"
    unfolding collectECHQueryServers_def fold_simps o_apply
    by (cases "as_map (map_of ob ''tls'')") (auto split: option.split simp: Let_def intro: exI[of _ "t_echQueryServers t"])
  then obtain q where q: "collectECHQueryServers (ob # obs) t = collectECHQueryServers obs (t\<lparr>t_echQueryServers := q\<rparr>)" ..
  show ?case unfolding q by (subst Cons.IH) simp
qed

text \<open>The outbounds are the proxies, then the groups; the groups are closed over both.\<close>

definition outbounds_ready :: "translation \<Rightarrow> bool" where
  "outbounds_ready t \<longleftrightarrow>
     (\<exists>obs groups bad. sb_Outbounds (t_config t) = obs @ groups \<and> list_all plain_outbound obs \<and>
        list_all (group_shape bad) groups \<and>
        list_all (\<lambda>ob. list_all (\<lambda>m. m \<in> set (outbound_tags (obs @ groups)) \<or> m = ''DIRECT'') (mstrs ob ''outbounds'')) groups \<and>
        set (t_groupTagOrder t) \<subseteq> set (outbound_tags groups))"

text \<open>The other parts of the state at that point.\<close>

definition rest_initial :: "translation \<Rightarrow> bool" where
  "rest_initial t \<longleftrightarrow>
     t_rules t = [] \<and> sb_DNS (t_config t) = None \<and> rt_Final (t_route t) = [] \<and> rt_RuleSet (t_route t) = [] \<and>
     t_resolver t = [] \<and> t_ruleSetDefs t = [] \<and> t_dnsTerminalRules t = []"

lemma start_initial:
  "rest_initial (start_translation cfg country)" "sb_Outbounds (t_config (start_translation cfg country)) = []"
  "t_proxyTags (start_translation cfg country) = {}" "t_groupTagOrder (start_translation cfg country) = []"
  "t_country (start_translation cfg country) = to_lower country" "t_stubTags (start_translation cfg country) = []"
  by (simp_all add: start_translation_def rest_initial_def empty_translation_def empty_singbox_def empty_route_def)

lemma group_tags_outbound_tags: "group_tags gs = outbound_tags gs"
  by (simp add: group_tags_def outbound_tags_def)

lemma groups_ok_cong:
  "t_invalidHealth t' = t_invalidHealth t \<Longrightarrow> t_proxyTags t' = t_proxyTags t \<Longrightarrow> groups_ok t' gs = groups_ok t gs"
  by (simp add: groups_ok_def)

lemma groups_ok_closed:
  assumes "groups_ok t gs" "t_proxyTags t = set (outbound_tags obs)"
  shows "list_all (\<lambda>ob. list_all (\<lambda>m. m \<in> set (outbound_tags (obs @ gs)) \<or> m = ''DIRECT'') (mstrs ob ''outbounds'')) gs"
proof -
  have "outbound_tags (obs @ gs) = outbound_tags obs @ outbound_tags gs" by (simp add: outbound_tags_def)
  then show ?thesis using assms by (simp add: groups_ok_def group_tags_outbound_tags)
qed

lemma translate_outbounds_ready:
  assumes I: "rest_initial t" "sb_Outbounds (t_config t) = []" "t_proxyTags t = {}" "t_groupTagOrder t = []"
  shows "outbounds_ready (translate_outbounds valid_uuid cfg t) \<and> rest_initial (translate_outbounds valid_uuid cfg t) \<and>
    t_country (translate_outbounds valid_uuid cfg t) = t_country t"
proof -
  obtain obs t1 where p: "translateProxies valid_uuid cfg t = (obs, t1)" by (rule prod.exhaust)
  have P: "proxies_done (cfg_Proxy cfg) t obs t1" by (rule translateProxies_result[OF p])
  then have "t_proxyTags t1 = t_proxyTags t \<union> set (map (\<lambda>ob. mstr ob ''tag'') obs)"
    unfolding proxies_done_def by blast
  then have "t_proxyTags t1 = set (outbound_tags obs)"
    by (simp only: I(3) outbound_tags_def Un_empty_left)
  moreover have "list_all plain_outbound obs" "same_but_proxies t t1"
    using P unfolding proxies_done_def by blast+
  ultimately have P1: "list_all plain_outbound obs" "t_proxyTags t1 = set (outbound_tags obs)" "same_but_proxies t t1"
    by blast+
  define t2 where "t2 = collectECHQueryServers obs t1"
  have t2: "t2 = t1\<lparr>t_echQueryServers := t_echQueryServers t2\<rparr>" unfolding t2_def by (rule collectECH_frame)
  obtain gs t3 where g: "translateGroups cfg t2 = (gs, t3)" by (rule prod.exhaust)
  have G: "groups_done t2 gs t3" by (rule translateGroups_done[OF g])
  have f2: "t_config t2 = t_config t1" "t_ruleSetDefs t2 = t_ruleSetDefs t1" "t_country t2 = t_country t1"
    "t_dnsTerminalRules t2 = t_dnsTerminalRules t1" "t_groupTagOrder t2 = t_groupTagOrder t1" "t_proxyTags t2 = t_proxyTags t1"
    by (subst t2, simp)+
  have o2: "t_groupTagOrder t2 = []" "t_proxyTags t2 = set (outbound_tags obs)"
    using P1 I(4) f2 by (simp_all add: same_but_proxies_def)
  obtain gs' t4 where d: "(if t_groupTagOrder t3 = [] then generateDefaultGroups t3 else (gs, t3)) = (gs', t4)"
    by (rule prod.exhaust)
  have D: "groups_ok t2 gs' \<and> set (t_groupTagOrder t4) \<subseteq> set (outbound_tags gs') \<and> same_but_grouping t2 t4"
  proof (cases "t_groupTagOrder t3 = []")
    case False
    then show ?thesis using d G o2 by (auto simp: groups_done_def group_tags_outbound_tags)
  next
    case True
    have "finite (t_proxyTags t3)" using G o2(2) by (simp add: groups_done_def same_but_grouping_def)
    moreover have "generateDefaultGroups t3 = (gs', t4)" using d True by simp
    ultimately have "groups_done t3 gs' t4" using True by (intro generateDefaultGroups_done)
    then show ?thesis
      using G True groups_ok_cong[of t3 t2 gs']
      by (simp add: groups_done_def group_tags_outbound_tags same_but_grouping_def)
  qed
  have e: "translate_outbounds valid_uuid cfg t =
      upd_config (\<lambda>c. c\<lparr>sb_Outbounds := sb_Outbounds c @ obs @ gs'\<rparr>) t4" (is "?t = _")
    using p g d by (simp add: translate_outbounds_def t2_def)
  have c4: "t_config t4 = t_config t" "t_proxyTags t4 = set (outbound_tags obs)" "t_invalidHealth t4 = t_invalidHealth t2"
    "t_ruleSetDefs t4 = t_ruleSetDefs t" "t_dnsTerminalRules t4 = t_dnsTerminalRules t" "t_country t4 = t_country t"
    using D P1(3) o2(2) f2 unfolding same_but_grouping_def same_but_proxies_def by simp_all
  have "outbounds_ready ?t"
    unfolding outbounds_ready_def e
    using P1 D c4 I(2) groups_ok_closed[of t2 gs' obs] o2(2)
    by (intro exI[of _ obs] exI[of _ gs'] exI[of _ "t_invalidHealth t2"]) (simp add: groups_ok_def)
  moreover have "rest_initial ?t" "t_country ?t = t_country t"
    unfolding e using I(1) c4 by (simp_all add: rest_initial_def)
  ultimately show ?thesis by blast
qed

section \<open>The rest of the pipeline\<close>

lemma outbounds_ready_cong:
  "sb_Outbounds (t_config t') = sb_Outbounds (t_config t) \<Longrightarrow> t_groupTagOrder t' = t_groupTagOrder t \<Longrightarrow>
   outbounds_ready t' = outbounds_ready t"
  by (simp add: outbounds_ready_def)

lemma auto_rules_plain:
  assumes "\<And>k. k \<in> set (auto_tags cc) \<Longrightarrow> mhas defs k"
  shows "list_all (plain_rule defs) (auto_rules cc proxyTag)"
proof -
  have "list_all (\<lambda>r. map_of r ''type'' = None \<and> map_of r ''rules'' = None) (auto_rules cc proxyTag)"
    by (simp add: auto_rules_def cn_rules_def country_rules_def match_rule_def private_ip_rule_def cn_direct_names_def)
  then show ?thesis
    using auto_rules_closed[of cc proxyTag] assms by (auto simp: plain_rule_def list_all_iff)
qed

text \<open>The state in front of the assembly.\<close>

definition before_assembly :: "string \<Rightarrow> string \<Rightarrow> translation \<Rightarrow> singboxDNS \<Rightarrow> bool" where
  "before_assembly cc tag t d \<longleftrightarrow>
     outbounds_ready t \<and> firstGroupTag t = tag \<and> t_rules t = auto_rules cc (route_tag t) \<and> rules_ready t \<and>
     dns_module tag (t_ruleSetDefs t) t d \<and> list_all (\<lambda>r. mhas r ''action'') (sd_Rules d) \<and>
     rt_Final (t_route t) = [] \<and> rt_RuleSet (t_route t) = []"

definition front_steps :: "(string \<Rightarrow> bool) \<Rightarrow> RawConfig \<Rightarrow> string \<Rightarrow> translation" where
  "front_steps valid_uuid cfg country =
     upd_config (translateExperimental cfg) (translateTUN cfg (addDNSRouteAction (generateDNSRules
       (translateDNS cfg (translateRules cfg (translate_outbounds valid_uuid cfg (start_translation cfg country)))))))"

lemma translate_steps_front: "translate_steps valid_uuid cfg country = assemble (front_steps valid_uuid cfg country)"
  by (simp add: translate_steps_def front_steps_def Let_def)

lemma dns_module_cong:
  "sb_DNS (t_config t') = sb_DNS (t_config t) \<Longrightarrow> t_resolver t' = t_resolver t \<Longrightarrow>
   dns_module det defs t' d = dns_module det defs t d"
  by (simp add: dns_module_def)

lemma front_steps_ready:
  "\<exists>d. before_assembly (to_lower country) (firstGroupTag (front_steps valid_uuid cfg country)) (front_steps valid_uuid cfg country) d"
proof -
  define t0 where "t0 = start_translation cfg country"
  define t1 where "t1 = translate_outbounds valid_uuid cfg t0"
  define t2 where "t2 = translateRules cfg t1"
  define t3 where "t3 = translateDNS cfg t2"
  define t4 where "t4 = generateDNSRules t3"
  define t5 where "t5 = addDNSRouteAction t4"
  define t6 where "t6 = translateTUN cfg t5"
  define t7 where "t7 = upd_config (translateExperimental cfg) t6"
  have I1: "outbounds_ready t1" "rest_initial t1" "t_country t1 = to_lower country"
    using translate_outbounds_ready[of t0 valid_uuid cfg] start_initial[of cfg country] by (simp_all add: t0_def t1_def)
  have R: "rule_step (auto_tags (to_lower country)) (auto_rules (to_lower country) (route_tag t1)) t1 t2"
    using translateRules_step[of t1 cfg] I1(3) by (simp add: t2_def)
  have i2: "t_dnsTerminalRules t2 = []" "t_resolver t2 = []" "rt_Final (t_route t2) = []" "rt_RuleSet (t_route t2) = []"
    "t_rules t2 = auto_rules (to_lower country) (route_tag t1)" "t_groupTagOrder t2 = t_groupTagOrder t1"
    "sb_Outbounds (t_config t2) = sb_Outbounds (t_config t1)" "defs_wf (t_ruleSetDefs t2)"
    "\<And>k. k \<in> set (auto_tags (to_lower country)) \<Longrightarrow> mhas (t_ruleSetDefs t2) k"
    using R I1(2) unfolding rule_step_def rest_initial_def by simp_all
  have D3: "dns_done t2 t3" unfolding t3_def by (rule translateDNS_done[OF i2(1,2)])
  then have f3: "same_but_dns t2 t3" by (simp add: dns_done_def)
  obtain d4 where M4: "dns_module (firstGroupTag t2) (t_ruleSetDefs t4) t4 d4" and f4: "same_but_dns_rules t3 t4"
    using generateDNSRules_done[OF D3] unfolding t4_def by blast
  define d5 where "d5 = d4\<lparr>sd_Rules := map dns_route_action (sd_Rules d4)\<rparr>"
  have M5: "dns_module (firstGroupTag t2) (t_ruleSetDefs t4) t5 d5" and f5: "same_but_dns_rules t4 t5" "t_ruleSetDefs t5 = t_ruleSetDefs t4"
    using addDNSRouteAction_module[OF M4] unfolding t5_def d5_def by blast+
  have act: "list_all (\<lambda>r. mhas r ''action'') (sd_Rules d5)"
    using M4 dns_route_action_has by (auto simp: d5_def dns_module_def dns_ref_ok_def list_all_iff)
  have f7: "sb_DNS (t_config t7) = sb_DNS (t_config t5)" "t_resolver t7 = t_resolver t5" "t_rules t7 = t_rules t5"
    "rt_Final (t_route t7) = rt_Final (t_route t5)" "rt_RuleSet (t_route t7) = rt_RuleSet (t_route t5)"
    "t_ruleSetDefs t7 = t_ruleSetDefs t5" "t_groupTagOrder t7 = t_groupTagOrder t5"
    "sb_Outbounds (t_config t7) = sb_Outbounds (t_config t5)"
    by (simp_all add: t7_def t6_def)
  have g: "t_groupTagOrder t7 = t_groupTagOrder t1" "sb_Outbounds (t_config t7) = sb_Outbounds (t_config t1)"
    "t_rules t7 = t_rules t2" "rt_Final (t_route t7) = []" "rt_RuleSet (t_route t7) = []"
    using f3 f4 f5(1) f7 i2 unfolding same_but_dns_def same_but_dns_rules_def by simp_all
  have tags: "firstGroupTag t7 = firstGroupTag t2" "route_tag t7 = route_tag t1"
    using g(1) i2(6) by (simp_all add: route_tag_def firstGroupTag_def)
  have defs: "\<And>k. k \<in> set (auto_tags (to_lower country)) \<Longrightarrow> mhas (t_ruleSetDefs t7) k" "defs_wf (t_ruleSetDefs t7)"
    using i2(8,9) f3 f4 f5 f7(6) unfolding same_but_dns_def same_but_dns_rules_def by simp_all
  have "rules_ready t7"
    unfolding rules_ready_def g(3) i2(5) using auto_rules_plain[of "to_lower country", OF defs(1)] defs(2) by blast
  moreover have "dns_module (firstGroupTag t7) (t_ruleSetDefs t7) t7 d5"
    using M5 dns_module_cong[of t7 t5] f7 f5(2) tags by simp
  moreover have "outbounds_ready t7" using I1(1) outbounds_ready_cong[of t7 t1] g by simp
  ultimately have "before_assembly (to_lower country) (firstGroupTag t7) t7 d5"
    unfolding before_assembly_def using g act i2(5) tags(2) by simp
  then show ?thesis
    unfolding t7_def t6_def t5_def t4_def t3_def t2_def t1_def t0_def front_steps_def[symmetric] by blast
qed

section \<open>The result\<close>

lemma distinct_members:
  assumes "outbounds_ready t"
  shows "list_all (members_closed (insert ''DIRECT'' (set (filter (\<lambda>tag. tag \<noteq> []) (outbound_tags (sb_Outbounds (t_config t)))))))
    (direct_outbound # sb_Outbounds (t_config t))"
    "set (t_groupTagOrder t) \<subseteq> set (filter (\<lambda>tag. tag \<noteq> []) (outbound_tags (sb_Outbounds (t_config t))))"
proof -
  obtain obs groups bad where o: "sb_Outbounds (t_config t) = obs @ groups" "list_all plain_outbound obs"
    "list_all (group_shape bad) groups"
    "list_all (\<lambda>ob. list_all (\<lambda>m. m \<in> set (outbound_tags (obs @ groups)) \<or> m = ''DIRECT'') (mstrs ob ''outbounds'')) groups"
    "set (t_groupTagOrder t) \<subseteq> set (outbound_tags groups)"
    using assms unfolding outbounds_ready_def by blast
  have ne: "[] \<notin> set (outbound_tags (obs @ groups))"
    using o(2,3) by (auto simp: outbound_tags_def list_all_iff plain_outbound_def group_shape_def)
  then have f: "filter (\<lambda>tag. tag \<noteq> []) (outbound_tags (obs @ groups)) = outbound_tags (obs @ groups)"
    by (metis (mono_tags, lifting) filter_True)
  show "list_all (members_closed (insert ''DIRECT'' (set (filter (\<lambda>tag. tag \<noteq> []) (outbound_tags (sb_Outbounds (t_config t)))))))
    (direct_outbound # sb_Outbounds (t_config t))"
  proof -
    let ?K = "insert ''DIRECT'' (set (outbound_tags (obs @ groups)))"
    have "members_closed ?K ob" if "ob \<in> set obs" for ob
      using o(2) that by (auto simp: list_all_iff members_closed_def plain_outbound_def)
    moreover have "members_closed ?K ob" if g: "ob \<in> set groups" for ob
    proof -
      have "set (mstrs ob ''outbounds'') \<subseteq> ?K" using o(4) g unfolding list_all_iff by blast
      moreover have "map_of ob ''outbounds'' = Some (VStrs (mstrs ob ''outbounds''))"
        using o(3) g unfolding list_all_iff group_shape_def by blast
      ultimately show ?thesis by (simp add: members_closed_def outboundMembers_def)
    qed
    moreover have "members_closed ?K direct_outbound" by (simp add: members_closed_def direct_outbound_def)
    ultimately show ?thesis unfolding o(1) f by (auto simp: list_all_iff)
  qed
  show "set (t_groupTagOrder t) \<subseteq> set (filter (\<lambda>tag. tag \<noteq> []) (outbound_tags (sb_Outbounds (t_config t))))"
    unfolding o(1) f using o(5) by (auto simp: outbound_tags_def)
qed

lemma firstGroupTag_mem: "firstGroupTag t \<noteq> [] \<Longrightarrow> firstGroupTag t \<in> set (t_groupTagOrder t)"
  by (auto simp: firstGroupTag_def split: list.splits)

lemma dns_module_closed:
  assumes "dns_module det defs t d" "det = [] \<or> det \<in> known"
  shows "dns_closed known d"
proof -
  have ne: "[] \<notin> set (dns_tags d)" using assms(1) by (auto simp: dns_module_def dns_tags_def server_ok_def list_all_iff)
  then have s: "server_tags d = set (dns_tags d)"
    unfolding server_tags_def dns_tags_def[symmetric] by (metis (mono_tags, lifting) filter_True)
  have "list_all (\<lambda>srv. mstr srv ''detour'' = [] \<or> mstr srv ''detour'' \<in> known) (sd_Servers d)"
    using assms by (auto simp: dns_module_def server_ok_def list_all_iff mstr_def)
  then show ?thesis
    using assms(1) unfolding dns_closed_def s by (auto simp: dns_module_def dns_ref_ok_def list_all_iff)
qed

lemma known_outbounds_assemble:
  "known_outbounds (assemble t) = insert ''DIRECT'' (set (filter (\<lambda>tag. tag \<noteq> []) (outbound_tags (sb_Outbounds (t_config t)))))"
proof -
  have "named_tags (assemble t) = ''DIRECT'' # filter (\<lambda>tag. tag \<noteq> []) (outbound_tags (sb_Outbounds (t_config t)))"
    by (simp add: named_tags_def assemble_frame outbound_tags_def direct_outbound_def)
  then show ?thesis by (simp only: known_outbounds_def list.set insert_absorb2)
qed

lemma translate_steps_closed:
  "references_closed (translate_steps valid_uuid cfg country) \<longleftrightarrow>
   distinct (named_tags (translate_steps valid_uuid cfg country))"
proof -
  let ?t = "front_steps valid_uuid cfg country"
  obtain d where B: "before_assembly (to_lower country) (firstGroupTag ?t) ?t d" using front_steps_ready by blast
  have M: "dns_module (firstGroupTag ?t) (t_ruleSetDefs ?t) ?t d" and R: "rules_ready ?t" and O: "outbounds_ready ?t"
    and F: "rt_Final (t_route ?t) = []"
    using B by (simp_all add: before_assembly_def)
  let ?tags = "filter (\<lambda>tag. tag \<noteq> []) (outbound_tags (sb_Outbounds (t_config ?t)))"
  note k = known_outbounds_assemble[of ?t]
  have g: "firstGroupTag ?t = [] \<or> firstGroupTag ?t \<in> insert ''DIRECT'' (set ?tags)"
    using firstGroupTag_mem[of ?t] distinct_members(2)[OF O] by blast
  have "list_all (members_closed (known_outbounds (assemble ?t))) (sb_Outbounds (t_config (assemble ?t)))"
    unfolding k assemble_frame by (rule distinct_members(1)[OF O])
  moreover have "rt_Final (t_route (assemble ?t)) \<in> known_outbounds (assemble ?t)"
    unfolding k assemble_frame final_outbound_def using F g by auto
  moreover have "dns_closed (known_outbounds (assemble ?t)) d"
    unfolding k by (rule dns_module_closed[OF M g])
  ultimately show ?thesis
    unfolding translate_steps_front references_closed_def assemble_result(2)[OF R M] by simp
qed

text \<open>The routing part: the rules in closed form, the rule sets in the order of their tags.\<close>

lemma firstGroupTag_assemble [simp]: "firstGroupTag (assemble t) = firstGroupTag t"
  by (simp add: firstGroupTag_def assemble_frame)

lemma route_tag_assemble [simp]: "route_tag (assemble t) = route_tag t"
  by (simp add: route_tag_def)

lemma translate_steps_rules:
  "t_rules (translate_steps valid_uuid cfg country) =
     default_rules (firstGroupTag (translate_steps valid_uuid cfg country)) @
     map finish_rule (auto_rules (to_lower country) (route_tag (translate_steps valid_uuid cfg country)))"
proof -
  let ?t = "front_steps valid_uuid cfg country"
  obtain d where B: "before_assembly (to_lower country) (firstGroupTag ?t) ?t d" using front_steps_ready by blast
  then have "t_rules (assemble ?t) = default_rules (firstGroupTag ?t) @ map finish_rule (t_rules ?t)"
    by (intro assemble_result(1)) (auto simp: before_assembly_def)
  then show ?thesis
    using B unfolding translate_steps_front by (simp add: before_assembly_def)
qed

lemma sorted_defs_tags:
  assumes "defs_wf defs"
  shows "map (\<lambda>d. mstr d ''tag'') (sorted_defs defs) = sort (mkeys defs)"
    "list_all (\<lambda>d. map_of d ''download_detour'' = Some (VStr ''DIRECT'')) (sorted_defs defs)"
proof -
  have d: "\<exists>def. map_of defs tag = Some def \<and> map_of def ''tag'' = Some (VStr tag) \<and>
      map_of def ''download_detour'' = Some (VStr ''DIRECT'')" if g: "tag \<in> set (mkeys defs)" for tag
  proof -
    have "map_of defs tag \<noteq> None" using g by (simp add: mhas_iff_key[symmetric] mhas_def)
    then obtain def where m: "map_of defs tag = Some def" by blast
    then have "(tag, def) \<in> set defs" by (rule map_of_SomeD)
    then show ?thesis using assms m by (auto simp: defs_wf_def list_all_iff)
  qed
  have "map (\<lambda>d. mstr d ''tag'') (sorted_defs defs) = map (\<lambda>tag. tag) (sort (mkeys defs))"
    unfolding sorted_defs_def map_map
    by (rule map_cong[OF refl]) (use d in \<open>force simp: with_detour_def mhas_def mstr_def\<close>)
  then show "map (\<lambda>d. mstr d ''tag'') (sorted_defs defs) = sort (mkeys defs)" by simp
  show "list_all (\<lambda>d. map_of d ''download_detour'' = Some (VStr ''DIRECT'')) (sorted_defs defs)"
    unfolding sorted_defs_def list.pred_map o_def list_all_iff
    using d by (force simp: with_detour_def mhas_def)
qed

lemma translate_steps_rule_sets:
  "\<exists>defs. defs_wf defs \<and> rt_RuleSet (t_route (translate_steps valid_uuid cfg country)) = sorted_defs defs \<and>
     list_all (\<lambda>r. list_all (mhas defs) (mstrs r ''rule_set'')) (t_rules (translate_steps valid_uuid cfg country)) \<and>
     (\<exists>d. sb_DNS (t_config (translate_steps valid_uuid cfg country)) = Some d \<and>
        list_all (\<lambda>r. list_all (mhas defs) (mstrs r ''rule_set'') \<and> mhas r ''action'') (sd_Rules d) \<and>
        t_resolver (translate_steps valid_uuid cfg country) \<in> set (dns_tags d) \<and>
        \<not> isLocalDNSServer (t_resolver (translate_steps valid_uuid cfg country)) d)"
proof -
  let ?t = "front_steps valid_uuid cfg country"
  obtain d where B: "before_assembly (to_lower country) (firstGroupTag ?t) ?t d" using front_steps_ready by blast
  have M: "dns_module (firstGroupTag ?t) (t_ruleSetDefs ?t) ?t d" and R: "rules_ready ?t" and E: "rt_RuleSet (t_route ?t) = []"
    and A: "list_all (\<lambda>r. mhas r ''action'') (sd_Rules d)"
    using B by (simp_all add: before_assembly_def)
  have "list_all (\<lambda>r. list_all (mhas (t_ruleSetDefs ?t)) (mstrs r ''rule_set'')) (t_rules (assemble ?t))"
  proof -
    have "list_all (mhas (t_ruleSetDefs ?t)) (mstrs (finish_rule r) ''rule_set'')" if r: "r \<in> set (t_rules ?t)" for r
    proof -
      have "plain_rule (t_ruleSetDefs ?t) r" using R r unfolding rules_ready_def list_all_iff by blast
      from finish_plain_rule(1)[OF this] show ?thesis unfolding plain_rule_def by blast
    qed
    moreover have "list_all (mhas (t_ruleSetDefs ?t)) (mstrs r ''rule_set'')" if r: "r \<in> set (default_rules tag)" for r tag
    proof -
      have "mstrs r ''rule_set'' = []" using default_rules_plain[of tag] r unfolding list_all_iff by blast
      then show ?thesis by simp
    qed
    ultimately show ?thesis
      unfolding assemble_result(1)[OF R M] list_all_append list.pred_map o_def by (simp only: list_all_iff) blast
  qed
  moreover have "rt_RuleSet (t_route (assemble ?t)) = sorted_defs (t_ruleSetDefs ?t)"
    unfolding assemble_frame E by simp
  moreover have "list_all (\<lambda>r. list_all (mhas (t_ruleSetDefs ?t)) (mstrs r ''rule_set'') \<and> mhas r ''action'') (sd_Rules d)"
    using M A by (auto simp: dns_module_def dns_ref_ok_def list_all_iff)
  ultimately show ?thesis
    unfolding translate_steps_front using R M assemble_result(2)[OF R M]
    by (intro exI[of _ "t_ruleSetDefs ?t"]) (simp add: rules_ready_def dns_module_def assemble_frame)
qed

lemma translate_steps_rule_outbounds:
  "list_all (\<lambda>r. mstr r ''outbound'' = [] \<or> mstr r ''outbound'' \<in> known_outbounds (translate_steps valid_uuid cfg country))
     (t_rules (translate_steps valid_uuid cfg country))"
proof -
  let ?f = "front_steps valid_uuid cfg country" and ?t = "translate_steps valid_uuid cfg country"
  obtain d where B: "before_assembly (to_lower country) (firstGroupTag ?f) ?f d" using front_steps_ready by blast
  then have O: "outbounds_ready ?f" by (simp add: before_assembly_def)
  have k: "known_outbounds ?t = insert ''DIRECT'' (set (filter (\<lambda>tag. tag \<noteq> []) (outbound_tags (sb_Outbounds (t_config ?f)))))"
    unfolding translate_steps_front by (rule known_outbounds_assemble)
  have g: "firstGroupTag ?t \<in> known_outbounds ?t" if "firstGroupTag ?t \<noteq> []"
  proof -
    have f: "firstGroupTag ?t = firstGroupTag ?f" by (simp only: translate_steps_front firstGroupTag_assemble)
    then have "firstGroupTag ?f \<in> set (t_groupTagOrder ?f)" using firstGroupTag_mem[of ?f] that by simp
    then show ?thesis unfolding k f by (rule insertI2[OF subsetD[OF distinct_members(2)[OF O]]])
  qed
  have D: "''DIRECT'' \<in> known_outbounds ?t" by (simp add: known_outbounds_def)
  then have r: "route_tag ?t \<in> known_outbounds ?t" using g by (simp add: route_tag_def)
  have plain: "list_all (plain_rule (t_ruleSetDefs ?f)) (auto_rules (to_lower country) (route_tag ?t))"
    using B unfolding before_assembly_def rules_ready_def translate_steps_front route_tag_assemble by metis
  have "mstr (finish_rule q) ''outbound'' = [] \<or> mstr (finish_rule q) ''outbound'' \<in> known_outbounds ?t"
    if q: "q \<in> set (auto_rules (to_lower country) (route_tag ?t))" for q
  proof -
    have "plain_rule (t_ruleSetDefs ?f) q" using plain q unfolding list_all_iff by blast
    moreover have "mstr q ''outbound'' = ''DIRECT'' \<or> mstr q ''outbound'' = route_tag ?t"
      using auto_rules_closed[of "to_lower country" "route_tag ?t"] q unfolding list_all_iff by blast
    ultimately show ?thesis using finish_plain_rule(2) r D by metis
  qed
  moreover have "mstr q ''outbound'' = [] \<or> mstr q ''outbound'' \<in> known_outbounds ?t"
    if "q \<in> set (default_rules (firstGroupTag ?t))" for q
    using that g D by (cases "firstGroupTag ?t = []") (auto simp: default_rules_def mode_rule_def)
  ultimately show ?thesis
    unfolding list_all_iff using translate_steps_rules[of valid_uuid cfg country] by auto
qed

text \<open>So the validation never changes the state: no rule is reported as dangling.\<close>

lemma validate_translate_steps:
  "snd (validate (translate_steps valid_uuid cfg country)) = translate_steps valid_uuid cfg country"
proof (cases "collectOutboundTags (translate_steps valid_uuid cfg country)")
  case (Inl e)
  then show ?thesis by (simp add: validate_def)
next
  case (Inr S)
  let ?t = "translate_steps valid_uuid cfg country"
  have "S = known_outbounds ?t" using Inr collectOutboundTags_iff[of ?t S] by (simp add: known_outbounds_def)
  then have "concat (map (\<lambda>rule. let outbound = mstr rule ''outbound'' in
      if outbound \<noteq> [] \<and> outbound \<notin> S then [rule_warning outbound] else []) (t_rules ?t)) = []"
    using translate_steps_rule_outbounds[of valid_uuid cfg country] by (auto simp: list_all_iff Let_def)
  then have "validateRouteRules S ?t = ?t"
    by (simp add: validateRouteRules_def warn_all_def)
  then show ?thesis using Inr by (simp add: validate_def Let_def split: option.split)
qed

end
