(* ===== verification/Service.thy ===== *)
theory Service
  imports GoValues
begin

text \<open>
  The life cycle of \<open>core/service.go\<close> as a step relation.  The service is a shared record; every caller is
  a thread with a program counter, and one step is one access to the shared state (an atomic load, a
  compare-and-swap, a pointer swap, a mutex operation) or one call of the host's event callback.  Steps of
  different threads interleave freely, so a callback that calls back into the service is covered as well.
  What happens inside the kernel library (parsing a configuration, starting an instance) is a choice of the
  step; an instance is the number of its creation.
\<close>

section \<open>The shared state\<close>

datatype State = StateCreated | StateInitialized | StateStarting | StateRunning | StateDestroyed

fun State_String :: "State \<Rightarrow> string" where
  "State_String StateCreated = ''created''"
| "State_String StateInitialized = ''initialized''"
| "State_String StateStarting = ''starting''"
| "State_String StateRunning = ''running''"
| "State_String StateDestroyed = ''destroyed''"

text \<open>The running instance: its number, the configuration it was started with and its stubs.\<close>

record runningState =
  instance_id :: nat
  currentConfig :: string
  rs_stubTags :: "string gomap"

text \<open>What \<open>translateConfig\<close> returns: the JSON text and the stubs.\<close>

type_synonym start_config = "string \<times> string gomap"

text \<open>What a call returns: \<open>nil\<close> or one of the errors of the code.\<close>

datatype result =
    Return_nil
  | Init_invalid_state State
  | Init_failed
  | Translate_failed
  | Start_invalid_state State
  | Start_failed
  | Close_failed

text \<open>
  What follows a stop: the caller of \<open>Stop\<close> returns (with the error of closing the instance), the caller of
  \<open>Destroy\<close> returns, \<open>StartWithContent\<close> goes on.
\<close>

datatype after_stop = ThenReturn | ThenEnd | ThenStart start_config

datatype pc =
    Idle
  | InitBody | InitEmit
  | StartLock start_config nat | StartCheck start_config nat
  | StartCas start_config | StartEmit start_config | StartWork start_config
  | StartFail | StartFailEmit
  | StartStore runningState | StartRun runningState | StartRunEmit runningState
  | StartDrop | StartClose runningState
  | SubServer runningState | SubLock runningState | SubCancel runningState
  | SubCheck runningState | SubStore runningState | SubUnlock
  | StartUnlock result
  | StopLoad after_stop | StopCas after_stop State | StopEmit after_stop | StopSwap after_stop
  | UnsubLock after_stop "runningState option" | UnsubCancel after_stop "runningState option"
  | StopClose after_stop runningState
  | DestroyLoad | DestroyCas State | DestroyEmit | DestroyHealth | DestroySwap

text \<open>
  The shared record: \<open>running\<close>, \<open>subCancel\<close> (the instance whose events are subscribed) and
  \<open>healthCancel\<close> are the atomic pointers, \<open>startMu\<close> and \<open>hooksMu\<close> the mutexes with their holder.  The last
  four fields record what happened: how many instances were started, which were closed, the state
  notifications and the results of the calls.
\<close>

record service =
  state :: State
  running :: "runningState option"
  subCancel :: "nat option"
  healthCancel :: bool
  startMu :: "nat option"
  hooksMu :: "nat option"
  startSeq :: nat
  opened :: nat
  closed :: "nat list"
  notified :: "State list"
  results :: "(nat \<times> result) list"
  thread :: "nat \<Rightarrow> pc"

definition NewService :: service where
  "NewService = \<lparr>state = StateCreated, running = None, subCancel = None, healthCancel = False, startMu = None,
     hooksMu = None, startSeq = 0, opened = 0, closed = [], notified = [], results = [], thread = (\<lambda>_. Idle)\<rparr>"

text \<open>The calls a thread can make, and the choices of the library at the steps that depend on it.\<close>

datatype call =
    CallInit | CallStart "start_config option" | CallStop | CallDestroy
  | Proceed | InitFails | InitWatchdog | StartFails | NoClashServer | CloseFails

section \<open>The steps\<close>

definition goto :: "nat \<Rightarrow> pc \<Rightarrow> service \<Rightarrow> service" where
  "goto i p s = s\<lparr>thread := (thread s)(i := p)\<rparr>"

definition return_to :: "nat \<Rightarrow> result \<Rightarrow> service \<Rightarrow> service" where
  "return_to i r s = goto i Idle (s\<lparr>results := results s @ [(i, r)]\<rparr>)"

definition emitState :: "State \<Rightarrow> service \<Rightarrow> service" where
  "emitState st s = s\<lparr>notified := notified s @ [st]\<rparr>"

text \<open>\<open>state.CompareAndSwap\<close>, continuing at \<open>yes\<close> or at \<open>no\<close>.\<close>

definition casState :: "nat \<Rightarrow> State \<Rightarrow> State \<Rightarrow> pc \<Rightarrow> service \<Rightarrow> service \<Rightarrow> service" where
  "casState i old new yes no s = (if state s = old then goto i yes (s\<lparr>state := new\<rparr>) else no)"

definition closeInstance :: "runningState \<Rightarrow> service \<Rightarrow> service" where
  "closeInstance rs s = s\<lparr>closed := closed s @ [instance_id rs]\<rparr>"

fun after_stop_step :: "nat \<Rightarrow> after_stop \<Rightarrow> service \<Rightarrow> service" where
  "after_stop_step i ThenReturn s = return_to i Return_nil s"
| "after_stop_step i ThenEnd s = return_to i Return_nil s"
| "after_stop_step i (ThenStart cfg) s = goto i (StartCas cfg) s"

text \<open>A new call of an idle thread: its first access to the shared state.\<close>

fun call_step :: "nat \<Rightarrow> call \<Rightarrow> service \<Rightarrow> service option" where
  "call_step i CallInit s =
     Some (casState i StateCreated StateInitialized InitBody (return_to i (Init_invalid_state (state s)) s) s)"
| "call_step i (CallStart None) s = Some (return_to i Translate_failed s)"
| "call_step i (CallStart (Some cfg)) s =
     Some (goto i (StartLock cfg (startSeq s + 1)) (s\<lparr>startSeq := startSeq s + 1\<rparr>))"
| "call_step i CallStop s = Some (goto i (StopLoad ThenReturn) s)"
| "call_step i CallDestroy s = Some (goto i DestroyLoad s)"
| "call_step i _ s = None"

text \<open>\<open>InitContext\<close> after its compare-and-swap: a failure stores the old state back.\<close>

definition init_step :: "nat \<Rightarrow> call \<Rightarrow> service \<Rightarrow> service" where
  "init_step i c s =
    (if c = InitFails then return_to i Init_failed (s\<lparr>state := StateCreated\<rparr>)
     else if c = InitWatchdog then goto i InitEmit (s\<lparr>healthCancel := True\<rparr>)
     else goto i InitEmit s)"

text \<open>\<open>Stop\<close>, the shared end of \<open>Stop\<close> and \<open>Destroy\<close>, and \<open>Destroy\<close>.\<close>

definition stop_load :: "nat \<Rightarrow> after_stop \<Rightarrow> service \<Rightarrow> service" where
  "stop_load i k s =
    (if state s = StateRunning \<or> state s = StateStarting then goto i (StopCas k (state s)) s
     else after_stop_step i k s)"

definition unsubscribeHooks_lock :: "nat \<Rightarrow> after_stop \<Rightarrow> runningState option \<Rightarrow> service \<Rightarrow> service option" where
  "unsubscribeHooks_lock i k old s =
    (if hooksMu s = None then Some (goto i (UnsubCancel k old) (s\<lparr>hooksMu := Some i\<rparr>)) else None)"

definition unsubscribeHooks_cancel :: "nat \<Rightarrow> after_stop \<Rightarrow> runningState option \<Rightarrow> service \<Rightarrow> service" where
  "unsubscribeHooks_cancel i k old s =
    (let s = s\<lparr>subCancel := None, hooksMu := None\<rparr>
     in case old of None \<Rightarrow> after_stop_step i k s | Some rs \<Rightarrow> goto i (StopClose k rs) s)"

definition stop_close :: "nat \<Rightarrow> call \<Rightarrow> after_stop \<Rightarrow> runningState \<Rightarrow> service \<Rightarrow> service" where
  "stop_close i c k rs s =
    (let s = closeInstance rs s
     in if c = CloseFails \<and> k = ThenReturn then return_to i Close_failed s else after_stop_step i k s)"

definition destroy_load :: "nat \<Rightarrow> service \<Rightarrow> service" where
  "destroy_load i s =
    (if state s = StateDestroyed then return_to i Return_nil s else goto i (DestroyCas (state s)) s)"

text \<open>\<open>subscribeHooks\<close>: the check of the generation happens inside the critical section.\<close>

definition subscribe_server :: "nat \<Rightarrow> call \<Rightarrow> runningState \<Rightarrow> service \<Rightarrow> service" where
  "subscribe_server i c rs s =
    (if c = NoClashServer \<or> running s = None then goto i (StartUnlock Return_nil) s else goto i (SubLock rs) s)"

definition subscribe_lock :: "nat \<Rightarrow> runningState \<Rightarrow> service \<Rightarrow> service option" where
  "subscribe_lock i rs s =
    (if hooksMu s = None then Some (goto i (SubCancel rs) (s\<lparr>hooksMu := Some i\<rparr>)) else None)"

definition subscribe_check :: "nat \<Rightarrow> runningState \<Rightarrow> service \<Rightarrow> service" where
  "subscribe_check i rs s =
    (if map_option instance_id (running s) \<noteq> Some (instance_id rs) then goto i SubUnlock s
     else goto i (SubStore rs) s)"

text \<open>\<open>StartWithContent\<close> after it took its number, and \<open>startWithJSON\<close>.\<close>

definition start_lock :: "nat \<Rightarrow> start_config \<Rightarrow> nat \<Rightarrow> service \<Rightarrow> service option" where
  "start_lock i cfg q s =
    (if startMu s = None then Some (goto i (StartCheck cfg q) (s\<lparr>startMu := Some i\<rparr>)) else None)"

definition start_check :: "nat \<Rightarrow> start_config \<Rightarrow> nat \<Rightarrow> service \<Rightarrow> service" where
  "start_check i cfg q s =
    (if startSeq s \<noteq> q then goto i (StartUnlock Return_nil) s else goto i (StopLoad (ThenStart cfg)) s)"

definition start_work :: "nat \<Rightarrow> call \<Rightarrow> start_config \<Rightarrow> service \<Rightarrow> service" where
  "start_work i c cfg s =
    (if c = StartFails then goto i StartFail s
     else goto i (StartStore \<lparr>instance_id = opened s, currentConfig = fst cfg, rs_stubTags = snd cfg\<rparr>)
            (s\<lparr>opened := opened s + 1\<rparr>))"

definition start_drop :: "nat \<Rightarrow> service \<Rightarrow> service" where
  "start_drop i s =
    (case running s of
       None \<Rightarrow> goto i (StartUnlock Return_nil) s
     | Some rs \<Rightarrow> goto i (StartClose rs) (s\<lparr>running := None\<rparr>))"

text \<open>The next step of a thread; a thread that waits for a mutex has none.\<close>

definition service_step :: "nat \<Rightarrow> call \<Rightarrow> service \<Rightarrow> service option" where
  "service_step i c s =
    (case thread s i of
       Idle \<Rightarrow> call_step i c s
     | InitBody \<Rightarrow> Some (init_step i c s)
     | InitEmit \<Rightarrow> Some (return_to i Return_nil (emitState StateInitialized s))
     | StartLock cfg q \<Rightarrow> start_lock i cfg q s
     | StartCheck cfg q \<Rightarrow> Some (start_check i cfg q s)
     | StartCas cfg \<Rightarrow>
         Some (casState i StateInitialized StateStarting (StartEmit cfg)
           (goto i (StartUnlock (Start_invalid_state (state s))) s) s)
     | StartEmit cfg \<Rightarrow> Some (goto i (StartWork cfg) (emitState StateStarting s))
     | StartWork cfg \<Rightarrow> Some (start_work i c cfg s)
     | StartFail \<Rightarrow>
         Some (casState i StateStarting StateInitialized StartFailEmit (goto i (StartUnlock Start_failed) s) s)
     | StartFailEmit \<Rightarrow> Some (goto i (StartUnlock Start_failed) (emitState StateInitialized s))
     | StartStore rs \<Rightarrow> Some (goto i (StartRun rs) (s\<lparr>running := Some rs\<rparr>))
     | StartRun rs \<Rightarrow> Some (casState i StateStarting StateRunning (StartRunEmit rs) (goto i StartDrop s) s)
     | StartRunEmit rs \<Rightarrow> Some (goto i (SubServer rs) (emitState StateRunning s))
     | StartDrop \<Rightarrow> Some (start_drop i s)
     | StartClose rs \<Rightarrow> Some (goto i (StartUnlock Return_nil) (closeInstance rs s))
     | SubServer rs \<Rightarrow> Some (subscribe_server i c rs s)
     | SubLock rs \<Rightarrow> subscribe_lock i rs s
     | SubCancel rs \<Rightarrow> Some (goto i (SubCheck rs) (s\<lparr>subCancel := None\<rparr>))
     | SubCheck rs \<Rightarrow> Some (subscribe_check i rs s)
     | SubStore rs \<Rightarrow> Some (goto i SubUnlock (s\<lparr>subCancel := Some (instance_id rs)\<rparr>))
     | SubUnlock \<Rightarrow> Some (goto i (StartUnlock Return_nil) (s\<lparr>hooksMu := None\<rparr>))
     | StartUnlock r \<Rightarrow> Some (return_to i r (s\<lparr>startMu := None\<rparr>))
     | StopLoad k \<Rightarrow> Some (stop_load i k s)
     | StopCas k st \<Rightarrow> Some (casState i st StateInitialized (StopEmit k) (goto i (StopLoad k) s) s)
     | StopEmit k \<Rightarrow> Some (goto i (StopSwap k) (emitState StateInitialized s))
     | StopSwap k \<Rightarrow> Some (goto i (UnsubLock k (running s)) (s\<lparr>running := None\<rparr>))
     | UnsubLock k old \<Rightarrow> unsubscribeHooks_lock i k old s
     | UnsubCancel k old \<Rightarrow> Some (unsubscribeHooks_cancel i k old s)
     | StopClose k rs \<Rightarrow> Some (stop_close i c k rs s)
     | DestroyLoad \<Rightarrow> Some (destroy_load i s)
     | DestroyCas st \<Rightarrow> Some (casState i st StateDestroyed DestroyEmit (goto i DestroyLoad s) s)
     | DestroyEmit \<Rightarrow> Some (goto i DestroyHealth (emitState StateDestroyed s))
     | DestroyHealth \<Rightarrow> Some (goto i DestroySwap (s\<lparr>healthCancel := False\<rparr>))
     | DestroySwap \<Rightarrow> Some (goto i (UnsubLock ThenEnd (running s)) (s\<lparr>running := None\<rparr>)))"

text \<open>
  Everything that can happen when the choices are restricted to \<open>P\<close>.
\<close>

inductive reachable :: "(call \<Rightarrow> bool) \<Rightarrow> service \<Rightarrow> bool" for P where
  start: "reachable P NewService"
| step: "reachable P s \<Longrightarrow> P c \<Longrightarrow> service_step i c s = Some s' \<Longrightarrow> reachable P s'"

end
