(* ===== verification/GoJson.thy ===== *)
theory GoJson
  imports GoNet
begin

text \<open>
  The part of \<open>encoding/json\<close> the program uses: the syntax of JSON texts, and decoding into string, integer
  and boolean fields of a struct or into \<open>any\<close>.  A parsed text keeps number literals as text and object
  members in order with their duplicates; decoding takes the last of them.
\<close>

datatype json =
    JNull
  | JBool bool
  | JNum string
  | JStr string
  | JList "json list"
  | JObj "(string \<times> json) list"

section \<open>Strings\<close>

definition byte :: "char \<Rightarrow> int" where "byte c = of_char c"

definition cont_byte :: "int \<Rightarrow> int \<Rightarrow> char \<Rightarrow> bool" where
  "cont_byte lo hi c \<longleftrightarrow> lo \<le> byte c \<and> byte c \<le> hi"

text \<open>The length of the valid UTF-8 encoding a text starts with; 0 when there is none.\<close>

definition rune_len :: "string \<Rightarrow> nat" where
  "rune_len s =
    (case s of
       [] \<Rightarrow> 0
     | c # rest \<Rightarrow>
         let b = byte c;
             cont = (\<lambda>k lo hi. k < length rest \<and> cont_byte lo hi (rest ! k))
         in if b < 128 then 1
            else if 194 \<le> b \<and> b \<le> 223 then (if cont 0 128 191 then 2 else 0)
            else if 224 \<le> b \<and> b \<le> 239 then
              (if cont 0 (if b = 224 then 160 else 128) (if b = 237 then 159 else 191) \<and> cont 1 128 191 then 3 else 0)
            else if 240 \<le> b \<and> b \<le> 244 then
              (if cont 0 (if b = 240 then 144 else 128) (if b = 244 then 143 else 191) \<and> cont 1 128 191 \<and> cont 2 128 191
               then 4 else 0)
            else 0)"

definition utf8 :: "int \<Rightarrow> string" where
  "utf8 r =
    (let ch = (\<lambda>n. char_of (nat n)) in
     if r < 128 then [ch r]
     else if r < 2048 then [ch (192 + r div 64), ch (128 + r mod 64)]
     else if r < 65536 then [ch (224 + r div 4096), ch (128 + r div 64 mod 64), ch (128 + r mod 64)]
     else [ch (240 + r div 262144), ch (128 + r div 4096 mod 64), ch (128 + r div 64 mod 64), ch (128 + r mod 64)])"

definition replacement :: string where "replacement = [CHR 239, CHR 191, CHR 189]"

definition hex4 :: "string \<Rightarrow> int option" where
  "hex4 s = (if length s \<ge> 4 \<and> list_all is_hex (take 4 s) then Some (hex_value 0 (take 4 s)) else None)"

definition simple_escape :: "char \<Rightarrow> char option" where
  "simple_escape c =
    map_of [(CHR 34, CHR 34), (CHR 92, CHR 92), (CHR ''/'', CHR ''/''), (CHR ''b'', CHR 8), (CHR ''f'', CHR 12),
            (CHR ''n'', CHR 10), (CHR ''r'', CHR 13), (CHR ''t'', CHR 9)] c"

text \<open>
  The characters up to the closing quote, and the rest.  Invalid UTF-8 and unpaired surrogates become
  U+FFFD; a control character, a bad escape or a missing quote is an error.
\<close>

function (sequential) string_body :: "string \<Rightarrow> (string \<times> string) option" where
  "string_body [] = None"
| "string_body (c # s) =
     (if c = CHR 34 then Some ([], s)
      else if byte c < 32 then None
      else if c = CHR 92 then
        (case s of
           [] \<Rightarrow> None
         | e # s1 \<Rightarrow>
             if e = CHR ''u'' then
               (case hex4 s1 of
                  None \<Rightarrow> None
                | Some h \<Rightarrow>
                    let s2 = drop 4 s1;
                        low = (if take 2 s2 = [CHR 92, CHR ''u''] then hex4 (drop 2 s2) else None)
                    in if 55296 \<le> h \<and> h < 56320 then
                         (case low of
                            Some l \<Rightarrow>
                              if 56320 \<le> l \<and> l < 57344 then
                                map_option (apfst (\<lambda>r. utf8 (65536 + (h - 55296) * 1024 + (l - 56320)) @ r)) (string_body (drop 6 s2))
                              else map_option (apfst (\<lambda>r. replacement @ r)) (string_body s2)
                          | None \<Rightarrow> map_option (apfst (\<lambda>r. replacement @ r)) (string_body s2))
                       else map_option (apfst (\<lambda>r. (if 56320 \<le> h \<and> h < 57344 then replacement else utf8 h) @ r)) (string_body s2))
             else (case simple_escape e of
                     None \<Rightarrow> None
                   | Some x \<Rightarrow> map_option (apfst (\<lambda>r. x # r)) (string_body s1)))
      else
        (let n = rune_len (c # s) in
         if n = 0 then map_option (apfst (\<lambda>r. replacement @ r)) (string_body s)
         else map_option (apfst (\<lambda>r. take n (c # s) @ r)) (string_body (drop n (c # s)))))"
  by pat_completeness auto
termination by (relation "measure length") (auto split: if_splits)

section \<open>Numbers\<close>

text \<open>A number literal: the text of it and the rest.\<close>

definition digits1 :: "string \<Rightarrow> (string \<times> string) option" where
  "digits1 s = (let ds = takeWhile is_digit s in if ds = [] then None else Some (ds, dropWhile is_digit s))"

definition number_int :: "string \<Rightarrow> (string \<times> string) option" where
  "number_int s =
    (case s of
       [] \<Rightarrow> None
     | c # rest \<Rightarrow> if c = CHR ''0'' then Some (''0'', rest) else digits1 s)"

definition number_frac :: "string \<Rightarrow> (string \<times> string) option" where
  "number_frac s =
    (case s of
       c # rest \<Rightarrow> if c = CHR ''.'' then map_option (apfst (\<lambda>ds. c # ds)) (digits1 rest) else Some ([], s)
     | [] \<Rightarrow> Some ([], s))"

definition number_exp :: "string \<Rightarrow> (string \<times> string) option" where
  "number_exp s =
    (case s of
       c # rest \<Rightarrow>
         if c = CHR ''e'' \<or> c = CHR ''E'' then
           (case rest of
              d # rest' \<Rightarrow>
                if d = CHR ''+'' \<or> d = CHR ''-'' then map_option (apfst (\<lambda>ds. c # d # ds)) (digits1 rest')
                else map_option (apfst (\<lambda>ds. c # ds)) (digits1 rest)
            | [] \<Rightarrow> None)
         else Some ([], s)
     | [] \<Rightarrow> Some ([], s))"

definition number_literal :: "string \<Rightarrow> (string \<times> string) option" where
  "number_literal s =
    (let (sign, s1) = (if has_prefix s ''-'' then (''-'', drop 1 s) else ([], s)) in
     case number_int s1 of
       None \<Rightarrow> None
     | Some (i, s2) \<Rightarrow>
         (case number_frac s2 of
            None \<Rightarrow> None
          | Some (f, s3) \<Rightarrow>
              (case number_exp s3 of None \<Rightarrow> None | Some (e, s4) \<Rightarrow> Some (sign @ i @ f @ e, s4))))"

section \<open>Values\<close>

definition json_space :: "char \<Rightarrow> bool" where
  "json_space c \<longleftrightarrow> c \<in> set [CHR 32, CHR 9, CHR 10, CHR 13]"

definition skip_space :: "string \<Rightarrow> string" where "skip_space s = dropWhile json_space s"

text \<open>
  The parser; \<open>n\<close> is fuel (more than the length of the text is never needed), \<open>d\<close> the nesting that is still
  allowed (the library stops at 10000).
\<close>

fun json_value :: "nat \<Rightarrow> int \<Rightarrow> string \<Rightarrow> (json \<times> string) option"
and json_list :: "nat \<Rightarrow> int \<Rightarrow> string \<Rightarrow> (json list \<times> string) option"
and json_members :: "nat \<Rightarrow> int \<Rightarrow> string \<Rightarrow> ((string \<times> json) list \<times> string) option" where
  "json_value 0 d s = None"
| "json_value (Suc n) d s =
     (case skip_space s of
        [] \<Rightarrow> None
      | c # s1 \<Rightarrow>
          if c = CHR 34 then map_option (apfst JStr) (string_body s1)
          else if c = CHR ''{'' then
            (if d \<le> 0 then None
             else if has_prefix (skip_space s1) ''}'' then Some (JObj [], drop 1 (skip_space s1))
             else map_option (apfst JObj) (json_members n (d - 1) s1))
          else if c = CHR ''['' then
            (if d \<le> 0 then None
             else if has_prefix (skip_space s1) '']'' then Some (JList [], drop 1 (skip_space s1))
             else map_option (apfst JList) (json_list n (d - 1) s1))
          else if has_prefix (c # s1) ''null'' then Some (JNull, drop 3 s1)
          else if has_prefix (c # s1) ''true'' then Some (JBool True, drop 3 s1)
          else if has_prefix (c # s1) ''false'' then Some (JBool False, drop 4 s1)
          else map_option (apfst JNum) (number_literal (c # s1)))"
| "json_list 0 d s = None"
| "json_list (Suc n) d s =
     (case json_value n d s of
        None \<Rightarrow> None
      | Some (v, s1) \<Rightarrow>
          (case skip_space s1 of
             [] \<Rightarrow> None
           | c # s2 \<Rightarrow>
               if c = CHR '','' then map_option (apfst (\<lambda>vs. v # vs)) (json_list n d s2)
               else if c = CHR '']'' then Some ([v], s2) else None))"
| "json_members 0 d s = None"
| "json_members (Suc n) d s =
     (case skip_space s of
        [] \<Rightarrow> None
      | q # s1 \<Rightarrow>
          if q \<noteq> CHR 34 then None
          else (case string_body s1 of
                  None \<Rightarrow> None
                | Some (k, s2) \<Rightarrow>
                    if \<not> has_prefix (skip_space s2) '':'' then None
                    else (case json_value n d (drop 1 (skip_space s2)) of
                            None \<Rightarrow> None
                          | Some (v, s3) \<Rightarrow>
                              (case skip_space s3 of
                                 [] \<Rightarrow> None
                               | c # s4 \<Rightarrow>
                                   if c = CHR '','' then map_option (apfst (\<lambda>ms. (k, v) # ms)) (json_members n d s4)
                                   else if c = CHR ''}'' then Some ([(k, v)], s4) else None))))"

definition json_parse :: "string \<Rightarrow> json option" where
  "json_parse s =
    (case json_value (2 * length s + 2) 10000 s of
       Some (v, rest) \<Rightarrow> if skip_space rest = [] then Some v else None
     | None \<Rightarrow> None)"

section \<open>Numbers as \<open>float64\<close>\<close>

text \<open>The value of a number literal as sign, digits and decimal exponent.\<close>

definition literal_parts :: "string \<Rightarrow> bool \<times> int \<times> int" where
  "literal_parts s =
    (let neg = has_prefix s ''-''; s = (if neg then drop 1 s else s);
         i = takeWhile is_digit s; s = dropWhile is_digit s;
         f = (if has_prefix s ''.'' then takeWhile is_digit (drop 1 s) else []);
         s = (if has_prefix s ''.'' then dropWhile is_digit (drop 1 s) else s);
         e = (if s = [] then 0
              else let t = drop 1 s in
                   if has_prefix t ''-'' then - digits_val 0 (drop 1 t)
                   else digits_val 0 (if has_prefix t ''+'' then drop 1 t else t))
     in (neg, digits_val 0 (i @ f), e - int (length f)))"

definition ratio :: "int \<Rightarrow> int \<Rightarrow> int \<times> int" where
  "ratio d e = (if 0 \<le> e then (d * 10 ^ nat e, 1) else (d, 10 ^ nat (- e)))"

fun bit_length :: "nat \<Rightarrow> int \<Rightarrow> int" where
  "bit_length 0 x = 0"
| "bit_length (Suc n) x = (if x \<le> 0 then 0 else 1 + bit_length n (x div 2))"

text \<open>The quotient rounded to the nearest integer, to the even one when two are as near.\<close>

definition round_even :: "int \<Rightarrow> int \<Rightarrow> int" where
  "round_even a b =
    (let q = a div b; r = a mod b in if 2 * r > b \<or> 2 * r = b \<and> q mod 2 = 1 then q + 1 else q)"

text \<open>
  The integer part of the \<open>float64\<close> nearest to \<open>a / b\<close>: the quotient is scaled to 53 bits, rounded and
  scaled back.  The bound on the bits of a text of length \<open>n\<close> is the fuel of \<open>bit_length\<close>.
\<close>

definition float_trunc :: "nat \<Rightarrow> int \<Rightarrow> int \<Rightarrow> int" where
  "float_trunc n a b =
    (if a \<le> 0 then 0
     else
       let k0 = bit_length n a - bit_length n b - 53;
           k = (if (if 0 \<le> k0 + 53 then b * 2 ^ nat (k0 + 53) \<le> a else b \<le> a * 2 ^ nat (- (k0 + 53))) then k0 + 1 else k0)
       in if 0 \<le> k then round_even a (b * 2 ^ nat k) * 2 ^ nat k
          else round_even (a * 2 ^ nat (- k)) b div 2 ^ nat (- k))"

text \<open>
  \<open>strconv.ParseFloat\<close> fails when the rounded value is out of range; \<open>int(f)\<close> of a float that does not fit
  64 bits is the smallest integer (the result of the conversion instruction of amd64).
\<close>

definition float_limit :: int where "float_limit = 2 ^ 1024 - 2 ^ 970"

definition number_finite :: "string \<Rightarrow> bool" where
  "number_finite s = (case literal_parts s of (neg, d, e) \<Rightarrow> (case ratio d e of (a, b) \<Rightarrow> a < float_limit * b))"

definition number_to_int :: "string \<Rightarrow> int" where
  "number_to_int s =
    (case literal_parts s of
       (neg, d, e) \<Rightarrow>
         (case ratio d e of
            (a, b) \<Rightarrow>
              let v = float_trunc (4 * (length s + nat \<bar>e\<bar>) + 4) a b; v = (if neg then - v else v)
              in if min_int64 \<le> v \<and> v \<le> max_int64 then v else min_int64))"

fun json_finite :: "json \<Rightarrow> bool" where
  "json_finite (JNum s) = number_finite s"
| "json_finite (JList vs) = list_all json_finite vs"
| "json_finite (JObj ms) = list_all (\<lambda>(k, v). json_finite v) ms"
| "json_finite _ = True"

section \<open>Decoding\<close>

text \<open>\<open>m[k]\<close> of an object decoded into \<open>map[string]any\<close>: the last member with the key.\<close>

definition member :: "(string \<times> json) list \<Rightarrow> string \<Rightarrow> json option" where
  "member ms k = map_of (rev ms) k"

definition member_str :: "(string \<times> json) list \<Rightarrow> string \<Rightarrow> string" where
  "member_str ms k = (case member ms k of Some (JStr s) \<Rightarrow> s | _ \<Rightarrow> [])"

text \<open>
  Decoding into one field of a struct: keys match without case, \<open>null\<close> leaves the field alone, and a value
  of another type is an error (\<open>None\<close>).  The whole struct is decoded field by field.
\<close>

definition json_field :: "(json \<Rightarrow> 'a option) \<Rightarrow> string \<Rightarrow> 'a \<Rightarrow> json \<Rightarrow> 'a option" where
  "json_field dec name zero j =
    (case j of
       JObj ms \<Rightarrow>
         fold (\<lambda>(k, v) acc.
           if \<not> equal_fold k name \<or> v = JNull then acc
           else (case dec v of None \<Rightarrow> None | Some x \<Rightarrow> map_option (\<lambda>_. x) acc)) ms (Some zero)
     | JNull \<Rightarrow> Some zero
     | _ \<Rightarrow> None)"

definition dec_string :: "json \<Rightarrow> string option" where
  "dec_string j = (case j of JStr s \<Rightarrow> Some s | _ \<Rightarrow> None)"

definition dec_bool :: "json \<Rightarrow> bool option" where
  "dec_bool j = (case j of JBool b \<Rightarrow> Some b | _ \<Rightarrow> None)"

text \<open>An integer field of range \<open>lo\<close> to \<open>hi\<close> takes integer literals only.\<close>

definition dec_int :: "int \<Rightarrow> int \<Rightarrow> json \<Rightarrow> int option" where
  "dec_int lo hi j =
    (case j of
       JNum s \<Rightarrow>
         (let neg = has_prefix s ''-''; ds = (if neg then drop 1 s else s)
          in if ds = [] \<or> \<not> list_all is_digit ds then None
             else let v = (if neg then - digits_val 0 ds else digits_val 0 ds)
                  in if lo \<le> v \<and> v \<le> hi then Some v else None)
     | _ \<Rightarrow> None)"

definition dec_int64 :: "json \<Rightarrow> int option" where "dec_int64 = dec_int min_int64 max_int64"
definition dec_int32 :: "json \<Rightarrow> int option" where "dec_int32 = dec_int (-2147483648) 2147483647"

text \<open>A slice takes the elements one by one; a \<open>null\<close> element of a slice of strings is the empty string.\<close>

definition dec_list :: "(json \<Rightarrow> 'a option) \<Rightarrow> json \<Rightarrow> 'a list option" where
  "dec_list dec j = (case j of JList vs \<Rightarrow> all_some (map dec vs) | _ \<Rightarrow> None)"

definition dec_strings :: "json \<Rightarrow> string list option" where
  "dec_strings = dec_list (\<lambda>v. if v = JNull then Some [] else dec_string v)"

text \<open>
  A field whose value depends on the old one, and that also sees \<open>null\<close>: a raw message, a pointer, or a struct
  that is decoded in place.
\<close>

definition object_field :: "('a \<Rightarrow> json \<Rightarrow> 'a option) \<Rightarrow> string \<Rightarrow> 'a \<Rightarrow> json \<Rightarrow> 'a option" where
  "object_field set_to name zero j =
    (case j of
       JObj ms \<Rightarrow>
         fold (\<lambda>(k, v) acc. if equal_fold k name then (case acc of None \<Rightarrow> None | Some a \<Rightarrow> set_to a v) else acc)
           ms (Some zero)
     | JNull \<Rightarrow> Some zero
     | _ \<Rightarrow> None)"

end
