(* ===== verification/Query.thy ===== *)
theory Query
  imports Service GoJson
begin

text \<open>
  \<open>core/query.go\<close>: queries and control of a running instance.  The instance belongs to the kernel library;
  \<open>kernel_view\<close> is what the code reads from it, and the parameters are what it calls.  Results are JSON
  values; the encoder that turns them into text is the library's.
\<close>

section \<open>What the code sees of an instance\<close>

text \<open>A group: its selected member, its members, and whether it is a selector.\<close>

record group_view =
  gv_Now :: string
  gv_All :: "string list"

record outbound_view =
  ov_Tag :: string
  ov_Type :: string
  ov_Group :: "group_view option"

record conn_view =
  cv_ID :: string
  cv_Network :: string
  cv_Source :: string
  cv_Destination :: string
  cv_Domain :: string
  cv_Fqdn :: string
  cv_Outbound :: string
  cv_Rule :: "string option"
  cv_Upload :: int
  cv_Download :: int
  cv_Start :: string

record clash_view =
  cl_Modes :: "string list"
  cl_Mode :: string
  cl_History :: "(string \<times> int) list"
  cl_Connections :: "conn_view list"
  cl_Up :: int
  cl_Down :: int
  cl_SnapshotConnections :: nat
  cl_Memory :: int

record kernel_view =
  kv_Outbounds :: "outbound_view list"
  kv_Rules :: "(string \<times> string \<times> string) list"
  kv_Clash :: "clash_view option"
  kv_Cache :: "(string \<times> bool) list option"
  kv_FakeIP :: "string list"
  kv_DnsCache :: "string list option"
  kv_NetworkResets :: nat
  kv_StartedAt :: int

text \<open>
  \<open>kv_Cache\<close> is the cache file's expansion table and \<open>kv_FakeIP\<close> its addresses, \<open>kv_DnsCache\<close> what the DNS router
  has cached (\<open>None\<close> when there is no router), and \<open>kv_NetworkResets\<close> counts the calls of the router's
  \<open>ResetNetwork\<close>; \<open>kv_StartedAt\<close> is \<open>startedAt\<close> of the running state.  \<open>ov_Type\<close> is \<open>selector\<close> exactly for the outbounds that are a \<open>*group.Selector\<close>.

  \<open>Outbound(tag)\<close> of the outbound manager:
\<close>

definition find_outbound :: "kernel_view \<Rightarrow> string \<Rightarrow> outbound_view option" where
  "find_outbound kv tag = find (\<lambda>ob. ov_Tag ob = tag) (kv_Outbounds kv)"

text \<open>Encoding helpers: numbers, and the members that \<open>omitempty\<close> leaves out.\<close>

definition jint :: "int \<Rightarrow> json" where "jint n = JNum (itoa n)"

definition omit :: "bool \<Rightarrow> string \<Rightarrow> json \<Rightarrow> (string \<times> json) list" where
  "omit skip k v = (if skip then [] else [(k, v)])"

text \<open>A nil slice is encoded as \<open>null\<close>, an empty one as an empty array.\<close>

definition nil_slice :: "json list \<Rightarrow> json" where
  "nil_slice vs = (if vs = [] then JNull else JList vs)"

section \<open>Queries\<close>

text \<open>The running state and the view of its instance; \<open>None\<close> when nothing runs.\<close>

type_synonym running_view = "(runningState \<times> kernel_view) option"

definition clashServer :: "running_view \<Rightarrow> clash_view option" where
  "clashServer r = (case r of None \<Rightarrow> None | Some (rs, kv) \<Rightarrow> kv_Clash kv)"

definition group_item :: "runningState \<Rightarrow> kernel_view \<Rightarrow> string \<Rightarrow> json" where
  "group_item rs kv tag =
    (let ty = (case find_outbound kv tag of Some ob \<Rightarrow> ov_Type ob | None \<Rightarrow> []);
         ty = (case map_of (rs_stubTags rs) tag of Some orig \<Rightarrow> ''unsupported:'' @ orig | None \<Rightarrow> ty);
         delay = (case kv_Clash kv of
                    None \<Rightarrow> 0
                  | Some cl \<Rightarrow> (case map_of (cl_History cl) tag of None \<Rightarrow> 0 | Some d \<Rightarrow> d))
     in JObj ([(''tag'', JStr tag), (''type'', JStr ty)] @ omit (delay = 0) ''delay'' (jint delay)))"

definition group_object :: "runningState \<Rightarrow> kernel_view \<Rightarrow> outbound_view \<Rightarrow> group_view \<Rightarrow> json" where
  "group_object rs kv ob g =
    (let expand = (case kv_Cache kv of
                     None \<Rightarrow> False
                   | Some cache \<Rightarrow> (case map_of cache (ov_Tag ob) of None \<Rightarrow> False | Some e \<Rightarrow> e))
     in JObj ([(''tag'', JStr (ov_Tag ob)), (''type'', JStr (ov_Type ob)),
               (''selectable'', JBool (ov_Type ob = ''selector'')), (''selected'', JStr (gv_Now g))] @
              omit (\<not> expand) ''expand'' (JBool True) @
              omit (gv_All g = []) ''items'' (JList (map (group_item rs kv) (gv_All g)))))"

definition QueryProxies :: "running_view \<Rightarrow> json" where
  "QueryProxies r =
    (case r of
       None \<Rightarrow> JList []
     | Some (rs, kv) \<Rightarrow>
         nil_slice (List.map_filter (\<lambda>ob. map_option (group_object rs kv ob) (ov_Group ob)) (kv_Outbounds kv)))"

definition stats_json :: "int \<Rightarrow> int \<Rightarrow> nat \<Rightarrow> int \<Rightarrow> int \<Rightarrow> json" where
  "stats_json up down conns mem started =
    JObj [(''up'', jint up), (''down'', jint down), (''connections'', jint (int conns)), (''memory'', jint mem),
          (''started_at'', jint started)]"

definition zeroStatsJSON :: json where "zeroStatsJSON = stats_json 0 0 0 0 0"

definition QueryStats :: "running_view \<Rightarrow> json" where
  "QueryStats r =
    (case r of
       None \<Rightarrow> zeroStatsJSON
     | Some (rs, kv) \<Rightarrow>
         (case kv_Clash kv of
            None \<Rightarrow> zeroStatsJSON
          | Some cl \<Rightarrow> stats_json (cl_Up cl) (cl_Down cl) (cl_SnapshotConnections cl) (cl_Memory cl) (kv_StartedAt kv)))"

text \<open>\<open>trackerToEntry\<close> with the event code the caller sets.\<close>

definition trackerToEntry :: "int \<Rightarrow> conn_view \<Rightarrow> json" where
  "trackerToEntry event c =
    (let domain = (if cv_Domain c = [] then cv_Fqdn c else cv_Domain c);
         rule = (case cv_Rule c of None \<Rightarrow> [] | Some r \<Rightarrow> r)
     in JObj ([(''event'', jint event), (''id'', JStr (cv_ID c)), (''network'', JStr (cv_Network c)),
               (''source'', JStr (cv_Source c)), (''destination'', JStr (cv_Destination c))] @
              omit (domain = []) ''domain'' (JStr domain) @ [(''outbound'', JStr (cv_Outbound c))] @
              omit (rule = []) ''rule'' (JStr rule) @
              [(''upload'', jint (cv_Upload c)), (''download'', jint (cv_Download c)), (''start'', JStr (cv_Start c))]))"

definition QueryConnections :: "running_view \<Rightarrow> json" where
  "QueryConnections r =
    (case clashServer r of
       None \<Rightarrow> JList []
     | Some cl \<Rightarrow> JList (map (trackerToEntry 0) (cl_Connections cl)))"

definition mode_json :: "string list \<Rightarrow> string \<Rightarrow> json" where
  "mode_json modes current = JObj [(''modes'', JList (map JStr modes)), (''current_mode'', JStr current)]"

definition QueryMode :: "running_view \<Rightarrow> json" where
  "QueryMode r =
    (case clashServer r of
       None \<Rightarrow> mode_json [''Rule'', ''Global'', ''Direct''] ''Rule''
     | Some cl \<Rightarrow> mode_json (cl_Modes cl) (cl_Mode cl))"

definition QueryRules :: "running_view \<Rightarrow> json" where
  "QueryRules r =
    (let rules = (case r of None \<Rightarrow> [] | Some (rs, kv) \<Rightarrow> kv_Rules kv)
     in JObj [(''rules'', JList (map (\<lambda>(ty, payload, proxy).
          JObj [(''type'', JStr ty), (''payload'', JStr payload), (''proxy'', JStr proxy)]) rules))])"

section \<open>Delay tests\<close>

text \<open>
  \<open>url_test tag\<close> is the delay the library measures before the deadline (16 bits), or \<open>None\<close>.  For a group,
  \<open>ready tag\<close> says whether the test of the member got a slot before the deadline of the batch.
\<close>

definition URLTest :: "(string \<Rightarrow> 16 word option) \<Rightarrow> running_view \<Rightarrow> string \<Rightarrow> int" where
  "URLTest url_test r tag =
    (case r of
       None \<Rightarrow> -1
     | Some (rs, kv) \<Rightarrow>
         (case find_outbound kv tag of
            None \<Rightarrow> -1
          | Some ob \<Rightarrow> (case url_test tag of None \<Rightarrow> -1 | Some d \<Rightarrow> uint d)))"

definition member_delay :: "(string \<Rightarrow> 16 word option) \<Rightarrow> (string \<Rightarrow> bool) \<Rightarrow> kernel_view \<Rightarrow> string \<Rightarrow> int" where
  "member_delay url_test ready kv tag =
    (if \<not> ready tag then -1
     else (case find_outbound kv tag of
             None \<Rightarrow> -1
           | Some ob \<Rightarrow> (case url_test tag of None \<Rightarrow> -1 | Some d \<Rightarrow> uint d)))"

definition TestGroupDelay ::
  "(string \<Rightarrow> 16 word option) \<Rightarrow> (string \<Rightarrow> bool) \<Rightarrow> running_view \<Rightarrow> string \<Rightarrow> int gomap" where
  "TestGroupDelay url_test ready r groupTag =
    (case r of
       None \<Rightarrow> []
     | Some (rs, kv) \<Rightarrow>
         (case find_outbound kv groupTag of
            None \<Rightarrow> []
          | Some ob \<Rightarrow>
              (case ov_Group ob of
                 None \<Rightarrow> []
               | Some g \<Rightarrow> fold (\<lambda>tag. mput tag (member_delay url_test ready kv tag)) (gv_All g) [])))"

section \<open>Control\<close>

datatype control_error =
    Not_running
  | No_clash_api
  | No_cache_file
  | No_dns_router
  | Group_not_found string
  | Not_selectable string
  | Member_not_found string string
  | Invalid_connection string
  | Connection_not_found string
  | Library_error string

text \<open>Selecting changes the group in place when the member belongs to it.\<close>

definition select_member :: "string \<Rightarrow> string \<Rightarrow> outbound_view \<Rightarrow> outbound_view" where
  "select_member groupTag tag ob =
    (if ov_Tag ob = groupTag then ob\<lparr>ov_Group := map_option (\<lambda>g. g\<lparr>gv_Now := tag\<rparr>) (ov_Group ob)\<rparr> else ob)"

definition SelectOutbound :: "string \<Rightarrow> string \<Rightarrow> running_view \<Rightarrow> control_error option \<times> running_view" where
  "SelectOutbound groupTag tag r =
    (case r of
       None \<Rightarrow> (Some Not_running, r)
     | Some (rs, kv) \<Rightarrow>
         (case find_outbound kv groupTag of
            None \<Rightarrow> (Some (Group_not_found groupTag), r)
          | Some ob \<Rightarrow>
              (case ov_Group ob of
                 None \<Rightarrow> (Some (Not_selectable groupTag), r)
               | Some g \<Rightarrow>
                   if ov_Type ob \<noteq> ''selector'' then (Some (Not_selectable groupTag), r)
                   else if tag \<notin> set (gv_All g) then (Some (Member_not_found tag groupTag), r)
                   else (None, Some (rs, kv\<lparr>kv_Outbounds := map (select_member groupTag tag) (kv_Outbounds kv)\<rparr>)))))"

definition upd_clash :: "(clash_view \<Rightarrow> clash_view) \<Rightarrow> running_view \<Rightarrow> running_view" where
  "upd_clash f r = map_option (\<lambda>(rs, kv). (rs, kv\<lparr>kv_Clash := map_option f (kv_Clash kv)\<rparr>)) r"

text \<open>\<open>SetMode\<close> hands the text to the server, which keeps its mode when it does not know the new one (\<open>accept\<close>).\<close>

definition SetMode :: "(string \<Rightarrow> string list \<Rightarrow> string option) \<Rightarrow> string \<Rightarrow> running_view \<Rightarrow> control_error option \<times> running_view" where
  "SetMode accept mode r =
    (case clashServer r of
       None \<Rightarrow> (Some No_clash_api, r)
     | Some cl \<Rightarrow>
         (None, upd_clash (\<lambda>cl. case accept mode (cl_Modes cl) of None \<Rightarrow> cl | Some m \<Rightarrow> cl\<lparr>cl_Mode := m\<rparr>) r))"

text \<open>\<open>ResetNetwork\<close> does nothing when nothing runs.\<close>

definition upd_view :: "(kernel_view \<Rightarrow> kernel_view) \<Rightarrow> running_view \<Rightarrow> running_view" where
  "upd_view f r = map_option (\<lambda>(rs, kv). (rs, f kv)) r"

definition ResetNetwork :: "running_view \<Rightarrow> running_view" where
  "ResetNetwork r = upd_view (\<lambda>kv. kv\<lparr>kv_NetworkResets := kv_NetworkResets kv + 1\<rparr>) r"

text \<open>
  The UUID parser (third party) is \<open>parse_uuid\<close>, \<open>None\<close> for a text it refuses and for the nil UUID.
  \<open>close_conn\<close> is what \<open>Connection(id)\<close> and \<open>Close\<close> of the traffic manager do for an id: the tracker may be
  gone, closed, already closed (\<open>net.ErrClosed\<close>) or fail.
\<close>

datatype close_result = Gone | Closed | Already_closed string | Close_failed string

definition CloseConnection ::
  "(string \<Rightarrow> string option) \<Rightarrow> (string \<Rightarrow> close_result) \<Rightarrow> string \<Rightarrow> running_view \<Rightarrow> control_error option" where
  "CloseConnection parse_uuid close_conn connID r =
    (case clashServer r of
       None \<Rightarrow> Some No_clash_api
     | Some cl \<Rightarrow>
         (case parse_uuid connID of
            None \<Rightarrow> Some (Invalid_connection connID)
          | Some uid \<Rightarrow>
              (case close_conn uid of
                 Gone \<Rightarrow> Some (Connection_not_found connID)
               | Closed \<Rightarrow> None
               | Already_closed e \<Rightarrow> Some (Library_error e)
               | Close_failed e \<Rightarrow> Some (Library_error e))))"

text \<open>The first connection that fails to close ends the loop; the statistics are reset only after the loop.\<close>

fun close_all :: "(string \<Rightarrow> close_result) \<Rightarrow> conn_view list \<Rightarrow> control_error option" where
  "close_all close_conn [] = None"
| "close_all close_conn (c # cs) =
     (case close_conn (cv_ID c) of
        Close_failed e \<Rightarrow> Some (Library_error (''close connection '' @ cv_ID c @ '': '' @ e))
      | _ \<Rightarrow> close_all close_conn cs)"

definition CloseConnections ::
  "(string \<Rightarrow> close_result) \<Rightarrow> running_view \<Rightarrow> control_error option \<times> running_view" where
  "CloseConnections close_conn r =
    (case clashServer r of
       None \<Rightarrow> (Some No_clash_api, r)
     | Some cl \<Rightarrow>
         (case close_all close_conn (cl_Connections cl) of
            Some e \<Rightarrow> (Some e, r)
          | None \<Rightarrow> (None, ResetNetwork (upd_clash (\<lambda>cl. cl\<lparr>cl_Up := 0, cl_Down := 0\<rparr>) r))))"

text \<open>
  Operations on the cache file and the DNS router.  \<open>failure\<close> is the error the cache file's store returns, if
  any; then the table is as it was.
\<close>

definition SetGroupExpand :: "string option \<Rightarrow> string \<Rightarrow> bool \<Rightarrow> running_view \<Rightarrow> control_error option \<times> running_view" where
  "SetGroupExpand failure groupTag expand r =
    (case r of
       None \<Rightarrow> (Some Not_running, r)
     | Some (rs, kv) \<Rightarrow>
         (case kv_Cache kv of
            None \<Rightarrow> (Some No_cache_file, r)
          | Some cache \<Rightarrow>
              (case failure of
                 Some e \<Rightarrow> (Some (Library_error e), r)
               | None \<Rightarrow> (None, Some (rs, kv\<lparr>kv_Cache := Some (mput groupTag expand cache)\<rparr>)))))"

definition FlushFakeIP :: "string option \<Rightarrow> running_view \<Rightarrow> control_error option \<times> running_view" where
  "FlushFakeIP failure r =
    (case r of
       None \<Rightarrow> (Some Not_running, r)
     | Some (rs, kv) \<Rightarrow>
         if kv_Cache kv = None then (Some No_cache_file, r)
         else
           (case failure of
              Some e \<Rightarrow> (Some (Library_error e), r)
            | None \<Rightarrow> (None, Some (rs, kv\<lparr>kv_FakeIP := []\<rparr>))))"

definition FlushDNSCache :: "running_view \<Rightarrow> control_error option \<times> running_view" where
  "FlushDNSCache r =
    (case r of
       None \<Rightarrow> (Some Not_running, r)
     | Some (rs, kv) \<Rightarrow>
         (case kv_DnsCache kv of
            None \<Rightarrow> (Some No_dns_router, r)
          | Some cached \<Rightarrow> (None, Some (rs, kv\<lparr>kv_DnsCache := Some []\<rparr>))))"

section \<open>Lemmas\<close>

lemma QueryProxies_null: "kv_Outbounds kv = [] \<Longrightarrow> QueryProxies (Some (rs, kv)) = JNull"
  by (simp add: QueryProxies_def nil_slice_def List.map_filter_simps)

lemma fold_mput_value: "map_of (fold (\<lambda>t. mput t (f t)) ts m) k = (if k \<in> set ts then Some (f k) else map_of m k)"
  by (induction ts arbitrary: m) auto

lemma TestGroupDelay_members:
  "map_of (TestGroupDelay url_test ready (Some (rs, kv)) groupTag) tag =
     (case find_outbound kv groupTag of
        None \<Rightarrow> None
      | Some ob \<Rightarrow>
          (case ov_Group ob of
             None \<Rightarrow> None
           | Some g \<Rightarrow> if tag \<in> set (gv_All g) then Some (member_delay url_test ready kv tag) else None))"
  by (simp add: TestGroupDelay_def fold_mput_value split: option.split)

lemma select_then_selected:
  assumes "fst (SelectOutbound groupTag tag (Some (rs, kv))) = None"
  shows "\<exists>kv' ob g. snd (SelectOutbound groupTag tag (Some (rs, kv))) = Some (rs, kv') \<and>
    find_outbound kv' groupTag = Some ob \<and> ov_Group ob = Some g \<and> gv_Now g = tag \<and> tag \<in> set (gv_All g)"
proof -
  obtain ob g where ob: "find_outbound kv groupTag = Some ob" "ov_Group ob = Some g" "tag \<in> set (gv_All g)"
    and s: "snd (SelectOutbound groupTag tag (Some (rs, kv))) =
      Some (rs, kv\<lparr>kv_Outbounds := map (select_member groupTag tag) (kv_Outbounds kv)\<rparr>)"
    using assms by (auto simp: SelectOutbound_def split: option.splits if_splits)
  have "find (\<lambda>ob. ov_Tag ob = groupTag) (map (select_member groupTag tag) obs) =
      map_option (select_member groupTag tag) (find (\<lambda>ob. ov_Tag ob = groupTag) obs)" for obs
    by (induction obs) (auto simp: select_member_def)
  then have "find_outbound (kv\<lparr>kv_Outbounds := map (select_member groupTag tag) (kv_Outbounds kv)\<rparr>) groupTag =
      Some (select_member groupTag tag ob)"
    using ob(1) by (simp add: find_outbound_def)
  moreover have "ov_Tag ob = groupTag" using ob(1) by (auto simp: find_outbound_def find_Some_iff)
  ultimately show ?thesis using s ob(2,3) by (auto simp: select_member_def)
qed

end
