(* ===== verification/ServiceInv.thy ===== *)
theory ServiceInv
  imports Service
begin

text \<open>
  Invariants of the service under every interleaving.  For each of them a lemma describes the effect of one
  step on the thread that takes it; the invariants then follow from these descriptions, because a step
  changes the program counter of its own thread only.
\<close>

section \<open>The effect of a step\<close>

named_theorems service_defs
lemmas [service_defs] = service_step_def goto_def return_to_def emitState_def casState_def closeInstance_def
  init_step_def stop_load_def unsubscribeHooks_lock_def unsubscribeHooks_cancel_def destroy_load_def
  subscribe_server_def subscribe_lock_def subscribe_check_def start_lock_def start_check_def start_work_def
  start_drop_def stop_close_def Let_def

lemma after_stop_fields [simp]:
  "thread (after_stop_step i k s) = (thread s)(i := (case k of ThenReturn \<Rightarrow> Idle | ThenEnd \<Rightarrow> Idle | ThenStart cfg \<Rightarrow> StartCas cfg))"
  "state (after_stop_step i k s) = state s" "running (after_stop_step i k s) = running s"
  "subCancel (after_stop_step i k s) = subCancel s" "startMu (after_stop_step i k s) = startMu s"
  "hooksMu (after_stop_step i k s) = hooksMu s" "opened (after_stop_step i k s) = opened s"
  "closed (after_stop_step i k s) = closed s" "notified (after_stop_step i k s) = notified s"
  by (cases k; simp add: return_to_def goto_def)+

lemma call_step_cases:
  assumes "call_step i c s = Some s'"
  obtains "c = CallInit"
      "s' = casState i StateCreated StateInitialized InitBody (return_to i (Init_invalid_state (state s)) s) s"
  | "c = CallStart None" "s' = return_to i Translate_failed s"
  | cfg where "c = CallStart (Some cfg)" "s' = goto i (StartLock cfg (startSeq s + 1)) (s\<lparr>startSeq := startSeq s + 1\<rparr>)"
  | "c = CallStop" "s' = goto i (StopLoad ThenReturn) s"
  | "c = CallDestroy" "s' = goto i DestroyLoad s"
  using assms by (cases "(i, c, s)" rule: call_step.cases) auto

text \<open>Which threads are inside the two critical sections.\<close>

definition holds_startMu :: "pc \<Rightarrow> bool" where
  "holds_startMu p =
    (case p of
       StartCheck _ _ \<Rightarrow> True | StartCas _ \<Rightarrow> True | StartEmit _ \<Rightarrow> True | StartWork _ \<Rightarrow> True
     | StartFail \<Rightarrow> True | StartFailEmit \<Rightarrow> True | StartStore _ \<Rightarrow> True | StartRun _ \<Rightarrow> True
     | StartRunEmit _ \<Rightarrow> True | StartDrop \<Rightarrow> True | StartClose _ \<Rightarrow> True | SubServer _ \<Rightarrow> True
     | SubLock _ \<Rightarrow> True | SubCancel _ \<Rightarrow> True | SubCheck _ \<Rightarrow> True | SubStore _ \<Rightarrow> True
     | SubUnlock \<Rightarrow> True | StartUnlock _ \<Rightarrow> True
     | StopLoad k \<Rightarrow> k \<noteq> ThenReturn \<and> k \<noteq> ThenEnd | StopCas k _ \<Rightarrow> k \<noteq> ThenReturn \<and> k \<noteq> ThenEnd | StopEmit k \<Rightarrow> k \<noteq> ThenReturn \<and> k \<noteq> ThenEnd
     | StopSwap k \<Rightarrow> k \<noteq> ThenReturn \<and> k \<noteq> ThenEnd | UnsubLock k _ \<Rightarrow> k \<noteq> ThenReturn \<and> k \<noteq> ThenEnd | UnsubCancel k _ \<Rightarrow> k \<noteq> ThenReturn \<and> k \<noteq> ThenEnd
     | StopClose k _ \<Rightarrow> k \<noteq> ThenReturn \<and> k \<noteq> ThenEnd
     | _ \<Rightarrow> False)"

definition holds_hooksMu :: "pc \<Rightarrow> bool" where
  "holds_hooksMu p =
    (case p of
       UnsubCancel _ _ \<Rightarrow> True | SubCancel _ \<Rightarrow> True | SubCheck _ \<Rightarrow> True | SubStore _ \<Rightarrow> True
     | SubUnlock \<Rightarrow> True | _ \<Rightarrow> False)"

text \<open>The threads that have announced a stop, before and after they took the instance away.\<close>

definition before_swap :: "pc \<Rightarrow> bool" where
  "before_swap p =
    (case p of StopEmit _ \<Rightarrow> True | StopSwap _ \<Rightarrow> True | DestroyEmit \<Rightarrow> True | DestroyHealth \<Rightarrow> True
     | DestroySwap \<Rightarrow> True | _ \<Rightarrow> False)"

definition stopping :: "pc \<Rightarrow> bool" where
  "stopping p = (before_swap p \<or> (case p of UnsubLock _ _ \<Rightarrow> True | UnsubCancel _ _ \<Rightarrow> True | _ \<Rightarrow> False))"

text \<open>The phases of a start: before its instance runs, with the instance stored, after it runs.\<close>

definition starting :: "pc \<Rightarrow> bool" where
  "starting p =
    (case p of StartEmit _ \<Rightarrow> True | StartWork _ \<Rightarrow> True | StartStore _ \<Rightarrow> True | StartRun _ \<Rightarrow> True
     | StartDrop \<Rightarrow> True | _ \<Rightarrow> False)"

definition storing :: "pc \<Rightarrow> bool" where
  "storing p = (case p of StartRun _ \<Rightarrow> True | StartDrop \<Rightarrow> True | _ \<Rightarrow> False)"

definition started :: "pc \<Rightarrow> bool" where
  "started p =
    (case p of StartRunEmit _ \<Rightarrow> True | SubServer _ \<Rightarrow> True | SubLock _ \<Rightarrow> True | SubCancel _ \<Rightarrow> True
     | SubCheck _ \<Rightarrow> True | _ \<Rightarrow> False)"

text \<open>The instance a thread has to dispose of.\<close>

definition owned :: "pc \<Rightarrow> nat option" where
  "owned p =
    (case p of StartStore rs \<Rightarrow> Some (instance_id rs) | StartClose rs \<Rightarrow> Some (instance_id rs)
     | UnsubLock _ old \<Rightarrow> map_option instance_id old | UnsubCancel _ old \<Rightarrow> map_option instance_id old
     | StopClose _ rs \<Rightarrow> Some (instance_id rs) | _ \<Rightarrow> None)"

lemma step_others: "service_step i c s = Some s' \<Longrightarrow> j \<noteq> i \<Longrightarrow> thread s' j = thread s j"
  by (cases "thread s i"; simp add: service_defs split: if_split_asm option.split_asm; (elim call_step_cases)?;
      (hypsubst_thin)?; simp add: service_defs  split: after_stop.split if_split option.split)

lemma startMu_step:
  "service_step i c s = Some s' \<Longrightarrow>
     startMu s' = startMu s \<and> holds_startMu (thread s' i) = holds_startMu (thread s i) \<or>
     startMu s = None \<and> startMu s' = Some i \<and> holds_startMu (thread s' i) \<or>
     startMu s' = None \<and> holds_startMu (thread s i) \<and> \<not> holds_startMu (thread s' i)"
  by (cases "thread s i"; simp add: service_defs split: if_split_asm option.split_asm; (elim call_step_cases)?;
      (hypsubst_thin)?; simp add: service_defs holds_startMu_def split: after_stop.split if_split option.split)

lemma hooksMu_step:
  "service_step i c s = Some s' \<Longrightarrow>
     hooksMu s' = hooksMu s \<and> holds_hooksMu (thread s' i) = holds_hooksMu (thread s i) \<or>
     hooksMu s = None \<and> hooksMu s' = Some i \<and> holds_hooksMu (thread s' i) \<or>
     hooksMu s' = None \<and> holds_hooksMu (thread s i) \<and> \<not> holds_hooksMu (thread s' i)"
  by (cases "thread s i"; simp add: service_defs split: if_split_asm option.split_asm; (elim call_step_cases)?;
      (hypsubst_thin)?; simp add: service_defs holds_hooksMu_def split: after_stop.split if_split option.split)

text \<open>Instances change hands one at a time.\<close>

lemma owned_step:
  "service_step i c s = Some s' \<Longrightarrow>
     owned (thread s' i) = owned (thread s i) \<and> running s' = running s \<and> closed s' = closed s \<and> opened s' = opened s \<or>
     owned (thread s i) = None \<and> owned (thread s' i) = Some (opened s) \<and> opened s' = opened s + 1 \<and>
       running s' = running s \<and> closed s' = closed s \<or>
     owned (thread s' i) = None \<and> owned (thread s i) = map_option instance_id (running s') \<and> running s' \<noteq> None \<and>
       closed s' = closed s \<and> opened s' = opened s \<or>
     owned (thread s i) = None \<and> owned (thread s' i) = map_option instance_id (running s) \<and> running s' = None \<and>
       closed s' = closed s \<and> opened s' = opened s \<or>
     (\<exists>g. owned (thread s i) = Some g \<and> closed s' = closed s @ [g]) \<and> owned (thread s' i) = None \<and>
       running s' = running s \<and> opened s' = opened s"
  by (cases "thread s i"; simp add: service_defs split: if_split_asm option.split_asm; (elim call_step_cases)?;
      (hypsubst_thin)?; simp add: service_defs owned_def split: after_stop.split if_split option.split)

lemma starting_step:
  "service_step i c s = Some s' \<Longrightarrow>
     (starting (thread s' i) \<longrightarrow> starting (thread s i) \<and> state s' = state s \<or> state s' = StateStarting) \<and>
     (state s' = StateRunning \<longrightarrow> state s = StateRunning \<or> starting (thread s i) \<and> \<not> starting (thread s' i))"
  by (cases "thread s i"; simp add: service_defs split: if_split_asm option.split_asm; (elim call_step_cases)?;
      (hypsubst_thin)?; simp add: service_defs starting_def split: after_stop.split if_split option.split)

lemma running_step:
  "service_step i c s = Some s' \<Longrightarrow> c \<noteq> InitFails \<Longrightarrow>
     running s' = None \<or>
     before_swap (thread s' i) \<and> running s' = running s \<or>
     storing (thread s' i) \<and> holds_startMu (thread s' i) \<or>
     running s' = running s \<and> state s' = StateRunning \<and> \<not> before_swap (thread s i) \<or>
     running s' = running s \<and> state s' = state s \<and> \<not> before_swap (thread s i) \<and> \<not> storing (thread s i) \<or>
     running s' = running s \<and> state s \<noteq> StateRunning \<and> \<not> before_swap (thread s i) \<and> \<not> storing (thread s i)"
  by (cases "thread s i"; simp add: service_defs split: if_split_asm option.split_asm; (elim call_step_cases)?;
      (hypsubst_thin)?; simp add: service_defs before_swap_def storing_def holds_startMu_def split: after_stop.split if_split option.split)

lemma stopping_step:
  "service_step i c s = Some s' \<Longrightarrow> c \<noteq> InitFails \<Longrightarrow> \<not> holds_hooksMu (thread s i) \<Longrightarrow>
     stopping (thread s' i) \<or> holds_startMu (thread s i) \<or>
     \<not> stopping (thread s i) \<and> running s' = running s \<and> (state s' = state s \<or> state s \<noteq> StateRunning)"
  by (cases "thread s i"; simp add: service_defs split: if_split_asm option.split_asm; (elim call_step_cases)?;
      (hypsubst_thin)?; simp add: service_defs before_swap_def stopping_def holds_startMu_def holds_hooksMu_def split: after_stop.split if_split option.split)

lemma subCancel_step:
  "service_step i c s = Some s' \<Longrightarrow> c \<noteq> InitFails \<Longrightarrow>
     subCancel s' = None \<or> stopping (thread s' i) \<and> subCancel s' = subCancel s \<or>
     (\<exists>rs. thread s i = SubStore rs \<and> subCancel s' = Some (instance_id rs) \<and> state s' = state s \<and> running s' = running s) \<or>
     subCancel s' = subCancel s \<and> \<not> stopping (thread s i) \<and>
       (state s' = state s \<and> running s' = running s \<or> state s \<noteq> StateRunning \<or> starting (thread s i))"
  by (cases "thread s i"; simp add: service_defs split: if_split_asm option.split_asm; (elim call_step_cases)?;
      (hypsubst_thin)?; simp add: service_defs before_swap_def stopping_def starting_def split: after_stop.split if_split option.split)

lemma SubStore_step:
  "service_step i c s = Some s' \<Longrightarrow> thread s' i = SubStore rs \<Longrightarrow>
     thread s i = SubCheck rs \<and> map_option instance_id (running s) = Some (instance_id rs) \<and>
     state s' = state s \<and> running s' = running s"
  by (cases "thread s i"; simp add: service_defs split: if_split_asm option.split_asm; (elim call_step_cases)?;
      (hypsubst_thin)?; simp add: service_defs  split: after_stop.split_asm if_split_asm option.split_asm)

lemma started_step:
  "service_step i c s = Some s' \<Longrightarrow> started (thread s' i) \<Longrightarrow>
     started (thread s i) \<and> state s' = state s \<and> running s' = running s \<or> state s' = StateRunning"
  by (cases "thread s i"; simp add: service_defs split: if_split_asm option.split_asm; (elim call_step_cases)?;
      (hypsubst_thin)?; simp add: service_defs started_def split: after_stop.split_asm if_split_asm option.split_asm)

lemma cas_step:
  "service_step i c s = Some s' \<Longrightarrow> thread s' i = StopCas k st \<Longrightarrow> st = StateRunning \<or> st = StateStarting"
  by (cases "thread s i"; simp add: service_defs split: if_split_asm option.split_asm; (elim call_step_cases)?;
      (hypsubst_thin)?; simp add: service_defs  split: after_stop.split_asm if_split_asm option.split_asm)

section \<open>Mutual exclusion\<close>

definition mutexes :: "service \<Rightarrow> bool" where
  "mutexes s \<longleftrightarrow>
     (\<forall>i. holds_startMu (thread s i) \<longleftrightarrow> startMu s = Some i) \<and>
     (\<forall>i. holds_hooksMu (thread s i) \<longleftrightarrow> hooksMu s = Some i)"

lemma mutexes_new: "mutexes NewService"
  by (simp add: mutexes_def NewService_def holds_startMu_def holds_hooksMu_def)

lemma mutexes_step:
  assumes "service_step i c s = Some s'" and "mutexes s"
  shows "mutexes s'"
proof -
  have "holds_startMu (thread s' j) \<longleftrightarrow> startMu s' = Some j" for j
    using startMu_step[OF assms(1)] step_others[OF assms(1)] assms(2) unfolding mutexes_def
    by (cases "j = i") (metis option.inject option.distinct(1))+
  moreover have "holds_hooksMu (thread s' j) \<longleftrightarrow> hooksMu s' = Some j" for j
    using hooksMu_step[OF assms(1)] step_others[OF assms(1)] assms(2) unfolding mutexes_def
    by (cases "j = i") (metis option.inject option.distinct(1))+
  ultimately show ?thesis unfolding mutexes_def by blast
qed

lemma mutexes_reachable: "reachable P s \<Longrightarrow> mutexes s"
  by (induction rule: reachable.induct) (auto intro: mutexes_new mutexes_step)

lemma startMu_unique: "mutexes s \<Longrightarrow> holds_startMu (thread s i) \<Longrightarrow> holds_startMu (thread s j) \<Longrightarrow> i = j"
  unfolding mutexes_def by (metis option.inject)

lemma hooksMu_unique: "mutexes s \<Longrightarrow> holds_hooksMu (thread s i) \<Longrightarrow> holds_hooksMu (thread s j) \<Longrightarrow> i = j"
  unfolding mutexes_def by (metis option.inject)

section \<open>Every instance has one owner\<close>

definition ownership :: "service \<Rightarrow> bool" where
  "ownership s \<longleftrightarrow>
     (\<forall>i g. owned (thread s i) = Some g \<longrightarrow> g < opened s \<and> g \<notin> set (closed s) \<and>
        map_option instance_id (running s) \<noteq> Some g \<and> (\<forall>j. j \<noteq> i \<longrightarrow> owned (thread s j) \<noteq> Some g)) \<and>
     (\<forall>g. map_option instance_id (running s) = Some g \<longrightarrow> g < opened s \<and> g \<notin> set (closed s)) \<and>
     distinct (closed s) \<and> (\<forall>g \<in> set (closed s). g < opened s)"

lemma ownership_new: "ownership NewService"
  by (simp add: ownership_def NewService_def owned_def)

lemma ownership_step:
  assumes st: "service_step i c s = Some s'" and inv: "ownership s"
  shows "ownership s'"
proof -
  note o = step_others[OF st]
  have I: "owned (thread s j) = Some g \<Longrightarrow> g < opened s" "owned (thread s j) = Some g \<Longrightarrow> g \<notin> set (closed s)"
    "owned (thread s j) = Some g \<Longrightarrow> map_option instance_id (running s) \<noteq> Some g"
    "owned (thread s j) = Some g \<Longrightarrow> k \<noteq> j \<Longrightarrow> owned (thread s k) \<noteq> Some g"
    "running s = Some rs \<Longrightarrow> instance_id rs < opened s" "running s = Some rs \<Longrightarrow> instance_id rs \<notin> set (closed s)"
    "distinct (closed s)" "g \<in> set (closed s) \<Longrightarrow> g < opened s" for j k g rs
    using inv unfolding ownership_def by auto
  from owned_step[OF st] consider
    (same) "owned (thread s' i) = owned (thread s i)" "running s' = running s" "closed s' = closed s" "opened s' = opened s"
  | (opens) "owned (thread s i) = None" "owned (thread s' i) = Some (opened s)" "opened s' = opened s + 1"
      "running s' = running s" "closed s' = closed s"
  | (puts) "owned (thread s' i) = None" "owned (thread s i) = map_option instance_id (running s')" "running s' \<noteq> None"
      "closed s' = closed s" "opened s' = opened s"
  | (takes) "owned (thread s i) = None" "owned (thread s' i) = map_option instance_id (running s)" "running s' = None"
      "closed s' = closed s" "opened s' = opened s"
  | (closes) g where "owned (thread s i) = Some g" "closed s' = closed s @ [g]" "owned (thread s' i) = None"
      "running s' = running s" "opened s' = opened s"
    by (elim disjE exE conjE) blast+
  then show ?thesis
  proof cases
    case same
    then have "owned (thread s' j) = owned (thread s j)" for j using o by (cases "j = i") auto
    then show ?thesis using inv same unfolding ownership_def by simp
  next
    case opens
    have "owned (thread s' j) = (if j = i then Some (opened s) else owned (thread s j))" for j using o opens by auto
    note w = this
    have "owned (thread s' j) = Some g \<Longrightarrow> g < opened s'" "owned (thread s' j) = Some g \<Longrightarrow> g \<notin> set (closed s')"
      "owned (thread s' j) = Some g \<Longrightarrow> map_option instance_id (running s') \<noteq> Some g" for j g
      using I(1-3)[of j g] I(5)[of "the (running s)"] I(8)[of g] unfolding w opens(3-5) by (auto split: if_splits)
    moreover have "owned (thread s' j) = Some g \<Longrightarrow> k \<noteq> j \<Longrightarrow> owned (thread s' k) \<noteq> Some g" for j k g
      using I(1)[of j g] I(1)[of k g] I(4)[of j g k] unfolding w by (auto split: if_splits)
    moreover have "map_option instance_id (running s') = Some g \<Longrightarrow> g < opened s' \<and> g \<notin> set (closed s')" for g
      using I(5,6) unfolding opens(3-5) by (auto intro: less_SucI)
    moreover have "g \<in> set (closed s') \<Longrightarrow> g < opened s'" for g
      using I(8)[of g] unfolding opens(3-5) by simp
    ultimately show ?thesis using I(7) opens(5) unfolding ownership_def by metis
  next
    case puts
    have "owned (thread s' j) = (if j = i then None else owned (thread s j))" for j using o puts by auto
    then show ?thesis using inv puts unfolding ownership_def by (auto split: if_splits)
  next
    case takes
    have "owned (thread s' j) = (if j = i then map_option instance_id (running s) else owned (thread s j))" for j
      using o takes by auto
    then show ?thesis using inv takes unfolding ownership_def by (auto split: if_splits)
  next
    case closes
    have "owned (thread s' j) = (if j = i then None else owned (thread s j))" for j using o closes by auto
    then show ?thesis using inv closes unfolding ownership_def by (auto split: if_splits)
  qed
qed

lemma ownership_reachable: "reachable P s \<Longrightarrow> ownership s"
  by (induction rule: reachable.induct) (auto intro: ownership_new ownership_step)

section \<open>The state and the running instance\<close>

text \<open>
  Without failing initialisations.  A start that has not yet announced its instance finds the service not
  running; the running instance belongs to a running service unless a thread is about to take it away or
  has just stored it; and the subscription belongs to the running instance unless a thread is about to
  cancel it.
\<close>

definition no_init_failure :: "call \<Rightarrow> bool" where
  "no_init_failure c \<longleftrightarrow> c \<noteq> InitFails"

definition lifecycle :: "service \<Rightarrow> bool" where
  "lifecycle s \<longleftrightarrow>
     (\<forall>i. starting (thread s i) \<longrightarrow> state s \<noteq> StateRunning) \<and>
     (running s \<noteq> None \<longrightarrow>
        state s = StateRunning \<or> (\<exists>j. before_swap (thread s j)) \<or> (\<exists>j. storing (thread s j))) \<and>
     (\<forall>i. started (thread s i) \<longrightarrow>
        state s = StateRunning \<or> running s = None \<or> (\<exists>j. before_swap (thread s j)))"

definition subscribed :: "service \<Rightarrow> bool" where
  "subscribed s \<longleftrightarrow>
     (\<forall>i rs. thread s i = SubStore rs \<longrightarrow>
        (state s = StateRunning \<and> map_option instance_id (running s) = Some (instance_id rs)) \<or>
        (\<exists>j. stopping (thread s j))) \<and>
     (\<forall>g. subCancel s = Some g \<longrightarrow>
        (state s = StateRunning \<and> map_option instance_id (running s) = Some g) \<or> (\<exists>j. stopping (thread s j)))"

lemma starting_holds: "starting p \<Longrightarrow> holds_startMu p"
  and storing_starting: "storing p \<Longrightarrow> starting p"
  and started_holds: "started p \<Longrightarrow> holds_startMu p"
  and before_swap_stopping: "before_swap p \<Longrightarrow> stopping p"
  by (cases p; simp add: starting_def storing_def started_def holds_startMu_def stopping_def)+

lemma not_both: "started p \<Longrightarrow> \<not> starting p"
  by (cases p; simp add: starting_def started_def)

lemma idle_phases [simp]:
  "\<not> starting Idle" "\<not> started Idle" "\<not> before_swap Idle" "\<not> storing Idle" "\<not> stopping Idle"
  by (simp_all add: starting_def started_def before_swap_def storing_def stopping_def)

lemma lifecycle_new: "lifecycle NewService"
  by (simp add: lifecycle_def NewService_def)

text \<open>A thread that is still before its swap stays so when another thread moves.\<close>

lemma kept: "service_step i c s = Some s' \<Longrightarrow> \<exists>j. Q (thread s j) \<Longrightarrow> Q (thread s' i) \<or> \<not> Q (thread s i) \<Longrightarrow>
    \<exists>j. Q (thread s' j)"
  using step_others by metis

lemma lifecycle_step:
  assumes st: "service_step i c s = Some s'" and c: "no_init_failure c" and m: "mutexes s" and inv: "lifecycle s"
  shows "lifecycle s'"
proof -
  note o = step_others[OF st]
  have nf: "c \<noteq> InitFails" using c by (simp add: no_init_failure_def)
  have m': "mutexes s'" by (rule mutexes_step[OF st m])
  have L1: "\<And>j. starting (thread s j) \<Longrightarrow> state s \<noteq> StateRunning" using inv unfolding lifecycle_def by blast
  have 1: "state s' \<noteq> StateRunning" if g: "starting (thread s' j)" for j
  proof (cases "j = i")
    case True
    then show ?thesis using starting_step[OF st] L1[of i] g by auto
  next
    case False
    then have j: "starting (thread s j)" using o g by simp
    then have "\<not> starting (thread s i)"
      using startMu_unique[OF m starting_holds starting_holds] False by blast
    then show ?thesis using starting_step[OF st] L1[OF j] by blast
  qed
  from running_step[OF st nf] consider
    (none) "running s' = None"
  | (announced) "before_swap (thread s' i)" "running s' = running s"
  | (stored) "storing (thread s' i)" "holds_startMu (thread s' i)"
  | (runs) "running s' = running s" "state s' = StateRunning"
  | (same) "running s' = running s" "state s' = state s" "\<not> before_swap (thread s i)" "\<not> storing (thread s i)"
  | (other) "running s' = running s" "state s \<noteq> StateRunning" "\<not> before_swap (thread s i)" "\<not> storing (thread s i)"
    by (elim disjE conjE) blast+
  note cases = this
  have L2: "running s \<noteq> None \<Longrightarrow> state s = StateRunning \<or> (\<exists>j. before_swap (thread s j)) \<or> (\<exists>j. storing (thread s j))"
    using inv unfolding lifecycle_def by blast
  have 2: "state s' = StateRunning \<or> (\<exists>j. before_swap (thread s' j)) \<or> (\<exists>j. storing (thread s' j))" if r: "running s' \<noteq> None"
    using cases
  proof cases
    case same
    then show ?thesis using L2 r kept[OF st, of before_swap] kept[OF st, of storing] by metis
  next
    case other
    then show ?thesis using L2 r kept[OF st, of before_swap] kept[OF st, of storing] by metis
  qed (use r in blast)+
  have L3: "\<And>j. started (thread s j) \<Longrightarrow>
      state s = StateRunning \<or> running s = None \<or> (\<exists>k. before_swap (thread s k))"
    using inv unfolding lifecycle_def by blast
  have 3: "state s' = StateRunning \<or> running s' = None \<or> (\<exists>k. before_swap (thread s' k))" if g: "started (thread s' j)" for j
  proof (cases "started (thread s j)")
    case True
    show ?thesis using cases
    proof cases
      case stored
      then have "j = i" using startMu_unique[OF m'] started_holds[OF g] by blast
      then show ?thesis using stored g not_both storing_starting by blast
    next
      case same
      then show ?thesis using L3[OF True] kept[OF st, of before_swap] by metis
    next
      case other
      then show ?thesis using L3[OF True] kept[OF st, of before_swap] by metis
    qed blast+
  next
    case False
    then have "j = i" using o g by metis
    then show ?thesis using started_step[OF st] g False by blast
  qed
  show ?thesis unfolding lifecycle_def using 1 2 3 by blast
qed

lemma subscribed_new: "subscribed NewService"
  by (simp add: subscribed_def NewService_def)

lemma subscribed_step:
  assumes st: "service_step i c s = Some s'" and c: "no_init_failure c" and m: "mutexes s" and l: "lifecycle s"
    and inv: "subscribed s"
  shows "subscribed s'"
proof -
  note o = step_others[OF st]
  have nf: "c \<noteq> InitFails" using c by (simp add: no_init_failure_def)
  have S1: "\<And>j rs. thread s j = SubStore rs \<Longrightarrow>
      state s = StateRunning \<and> map_option instance_id (running s) = Some (instance_id rs) \<or> (\<exists>j. stopping (thread s j))"
    and S2: "\<And>g. subCancel s = Some g \<Longrightarrow>
      state s = StateRunning \<and> map_option instance_id (running s) = Some g \<or> (\<exists>j. stopping (thread s j))"
    using inv unfolding subscribed_def by blast+
  have 1: "state s' = StateRunning \<and> map_option instance_id (running s') = Some (instance_id rs) \<or> (\<exists>j. stopping (thread s' j))"
    if g: "thread s' j = SubStore rs" for j rs
  proof (cases "j = i")
    case True
    then have p: "thread s i = SubCheck rs" "map_option instance_id (running s) = Some (instance_id rs)"
      "state s' = state s" "running s' = running s"
      using SubStore_step[OF st] g by blast+
    have "started (thread s i)" by (simp add: p(1) started_def)
    then have "state s = StateRunning \<or> (\<exists>j. before_swap (thread s j))"
      using l p(2) unfolding lifecycle_def by (metis option.distinct(1) option.map(1))
    moreover have "\<not> stopping (thread s i)" by (simp add: p(1) stopping_def before_swap_def)
    ultimately show ?thesis
      using p(2-4) kept[OF st, of stopping] before_swap_stopping by metis
  next
    case False
    then have j: "thread s j = SubStore rs" using o g by simp
    then have "holds_hooksMu (thread s j)" "holds_startMu (thread s j)"
      by (simp_all add: holds_hooksMu_def holds_startMu_def)
    then have "\<not> holds_hooksMu (thread s i)" "\<not> holds_startMu (thread s i)"
      using hooksMu_unique[OF m] startMu_unique[OF m] False by blast+
    then show ?thesis
      using stopping_step[OF st nf] S1[OF j] kept[OF st, of stopping] by metis
  qed
  have 2: "state s' = StateRunning \<and> map_option instance_id (running s') = Some g \<or> (\<exists>j. stopping (thread s' j))"
    if g: "subCancel s' = Some g" for g
    using subCancel_step[OF st nf]
  proof (elim disjE exE conjE)
    fix rs assume p: "thread s i = SubStore rs" "subCancel s' = Some (instance_id rs)" "state s' = state s" "running s' = running s"
    have "\<not> stopping (thread s i)" by (simp add: p(1) stopping_def before_swap_def)
    then show ?thesis using S1[OF p(1)] p g kept[OF st, of stopping] by auto
  next
    assume "subCancel s' = subCancel s" "\<not> stopping (thread s i)" "state s' = state s" "running s' = running s"
    then show ?thesis using S2 g kept[OF st, of stopping] by metis
  next
    assume "subCancel s' = subCancel s" "\<not> stopping (thread s i)" "state s \<noteq> StateRunning"
    then show ?thesis using S2 g kept[OF st, of stopping] by metis
  next
    assume "subCancel s' = subCancel s" "\<not> stopping (thread s i)" "starting (thread s i)"
    then show ?thesis using S2 g l kept[OF st, of stopping] unfolding lifecycle_def by metis
  qed (use g in auto)
  show ?thesis unfolding subscribed_def using 1 2 by blast
qed

lemma lifecycle_reachable: "reachable no_init_failure s \<Longrightarrow> lifecycle s \<and> subscribed s"
  by (induction rule: reachable.induct)
    (auto intro: lifecycle_new subscribed_new lifecycle_step subscribed_step mutexes_reachable)

section \<open>No deadlock, and the end of the life\<close>

text \<open>A thread inside a call can only be blocked by a mutex.\<close>

lemma blocked:
  assumes "service_step i Proceed s = None" and "thread s i \<noteq> Idle"
  shows "(\<exists>cfg q. thread s i = StartLock cfg q) \<and> startMu s \<noteq> None \<or>
    (\<exists>k old. thread s i = UnsubLock k old) \<and> hooksMu s \<noteq> None \<or> (\<exists>rs. thread s i = SubLock rs) \<and> hooksMu s \<noteq> None"
  using assms by (cases "thread s i"; simp add: service_step_def start_lock_def unsubscribeHooks_lock_def
      subscribe_lock_def split: if_split_asm)

lemma no_deadlock:
  assumes m: "mutexes s" and busy: "thread s i \<noteq> Idle"
  shows "\<exists>j s'. thread s j \<noteq> Idle \<and> service_step j Proceed s = Some s'"
proof (cases "hooksMu s")
  case (Some h)
  then have h: "holds_hooksMu (thread s h)" using m by (simp add: mutexes_def)
  then have n: "thread s h \<noteq> Idle" by (auto simp: holds_hooksMu_def)
  have "service_step h Proceed s \<noteq> None"
  proof
    assume "service_step h Proceed s = None"
    from blocked[OF this n] h show False by (auto simp: holds_hooksMu_def)
  qed
  then show ?thesis using n by blast
next
  case None
  show ?thesis
  proof (cases "startMu s")
    case (Some h)
    then have h: "holds_startMu (thread s h)" using m by (simp add: mutexes_def)
    then have n: "thread s h \<noteq> Idle" by (auto simp: holds_startMu_def)
    have "service_step h Proceed s \<noteq> None"
    proof
      assume "service_step h Proceed s = None"
      from blocked[OF this n] h None show False by (auto simp: holds_startMu_def)
    qed
    then show ?thesis using n by blast
  next
    case None': None
    have "service_step i Proceed s \<noteq> None" using blocked[of i s] busy None None' by auto
    then show ?thesis using busy by blast
  qed
qed

definition stop_cas_ok :: "service \<Rightarrow> bool" where
  "stop_cas_ok s \<longleftrightarrow> (\<forall>i k st. thread s i = StopCas k st \<longrightarrow> st = StateRunning \<or> st = StateStarting)"

lemma stop_cas_ok_reachable: "reachable P s \<Longrightarrow> stop_cas_ok s"
proof (induction rule: reachable.induct)
  case start
  then show ?case by (simp add: stop_cas_ok_def NewService_def)
next
  case (step s c i s')
  then show ?case unfolding stop_cas_ok_def using cas_step step_others by metis
qed

lemma state_step:
  "service_step i c s = Some s' \<Longrightarrow>
     state s' = state s \<or> c = InitFails \<and> thread s i = InitBody \<or>
     (state s, state s') \<in> {(StateCreated, StateInitialized), (StateInitialized, StateStarting),
        (StateStarting, StateInitialized), (StateStarting, StateRunning)} \<or>
     (\<exists>k. thread s i = StopCas k (state s)) \<and> state s' = StateInitialized \<or> state s' = StateDestroyed"
  by (cases "thread s i"; simp add: service_defs split: if_split_asm option.split_asm; (elim call_step_cases)?;
      (hypsubst_thin)?; simp add: service_defs split: after_stop.split if_split option.split)

text \<open>The transitions of the state: a stop only leaves \<open>Running\<close> and \<open>Starting\<close>, and \<open>Destroyed\<close> is never left.\<close>

definition state_transitions :: "(State \<times> State) set" where
  "state_transitions =
     {(StateCreated, StateInitialized), (StateInitialized, StateStarting), (StateStarting, StateInitialized),
      (StateStarting, StateRunning), (StateRunning, StateInitialized), (StateCreated, StateDestroyed),
      (StateInitialized, StateDestroyed), (StateStarting, StateDestroyed), (StateRunning, StateDestroyed)}"

lemma state_transition:
  assumes "service_step i c s = Some s'" and "no_init_failure c" and "stop_cas_ok s"
  shows "state s' = state s \<or> (state s, state s') \<in> state_transitions"
  using state_step[OF assms(1)] assms(2,3) unfolding no_init_failure_def stop_cas_ok_def state_transitions_def
  by (cases "state s") auto

end
