(* ===== verification/ServiceSeq.thy ===== *)
theory ServiceSeq
  imports ServiceInv
begin

text \<open>
  One caller at a time: calls that run to their end without interference refine an abstract kernel with
  four states.  This is the contract the host relies on; the schedules at the end show where overlapping
  calls break it.
\<close>

section \<open>Running a call to its end\<close>

fun finish :: "nat \<Rightarrow> nat \<Rightarrow> call \<Rightarrow> service \<Rightarrow> service" where
  "finish 0 i c s = s"
| "finish (Suc n) i c s =
     (if thread s i = Idle then s
      else (case service_step i c s of None \<Rightarrow> s | Some s' \<Rightarrow> finish n i c s'))"

text \<open>
  \<open>perform i call c s\<close>: thread \<open>i\<close> makes the call, and \<open>c\<close> is what the library answers.  No call takes more
  than 24 steps when nobody interferes; the fuel is 30.
\<close>

definition perform :: "nat \<Rightarrow> call \<Rightarrow> call \<Rightarrow> service \<Rightarrow> service" where
  "perform i call c s = (case service_step i call s of None \<Rightarrow> s | Some s' \<Rightarrow> finish 30 i c s')"

section \<open>The abstract kernel\<close>

datatype kernel = Fresh | Stopped | Serving string | Gone

fun kernel_state :: "kernel \<Rightarrow> State" where
  "kernel_state Fresh = StateCreated"
| "kernel_state Stopped = StateInitialized"
| "kernel_state (Serving cfg) = StateRunning"
| "kernel_state Gone = StateDestroyed"

definition init_kernel :: "call \<Rightarrow> kernel \<Rightarrow> kernel \<times> result" where
  "init_kernel c k =
    (if k \<noteq> Fresh then (k, Init_invalid_state (kernel_state k))
     else if c = InitFails then (Fresh, Init_failed) else (Stopped, Return_nil))"

definition start_kernel :: "call \<Rightarrow> start_config option \<Rightarrow> kernel \<Rightarrow> kernel \<times> result" where
  "start_kernel c cfg k =
    (case cfg of
       None \<Rightarrow> (k, Translate_failed)
     | Some (json, stubs) \<Rightarrow>
         if k = Fresh \<or> k = Gone then (k, Start_invalid_state (kernel_state k))
         else if c = StartFails then (Stopped, Start_failed)
         else (Serving json, Return_nil))"

definition stop_kernel :: "kernel \<Rightarrow> kernel" where
  "stop_kernel k = (case k of Serving _ \<Rightarrow> Stopped | _ \<Rightarrow> k)"

definition stop_result :: "call \<Rightarrow> kernel \<Rightarrow> result" where
  "stop_result c k = (case k of Serving _ \<Rightarrow> if c = CloseFails then Close_failed else Return_nil | _ \<Rightarrow> Return_nil)"

fun kernel_call :: "call \<Rightarrow> call \<Rightarrow> kernel \<Rightarrow> kernel \<times> result" where
  "kernel_call CallInit c k = init_kernel c k"
| "kernel_call (CallStart cfg) c k = start_kernel c cfg k"
| "kernel_call CallStop c k = (stop_kernel k, stop_result c k)"
| "kernel_call CallDestroy c k = (Gone, Return_nil)"
| "kernel_call _ c k = (k, Return_nil)"

text \<open>The service between calls, and what it stands for.\<close>

definition kernel_of :: "service \<Rightarrow> kernel" where
  "kernel_of s =
    (case state s of
       StateCreated \<Rightarrow> Fresh
     | StateDestroyed \<Rightarrow> Gone
     | _ \<Rightarrow> (case running s of None \<Rightarrow> Stopped | Some rs \<Rightarrow> Serving (currentConfig rs)))"

definition quiet :: "service \<Rightarrow> bool" where
  "quiet s \<longleftrightarrow>
     thread s = (\<lambda>_. Idle) \<and> startMu s = None \<and> hooksMu s = None \<and>
     (case running s of
        None \<Rightarrow> state s \<noteq> StateRunning \<and> state s \<noteq> StateStarting \<and> subCancel s = None \<and>
          length (closed s) = opened s
      | Some rs \<Rightarrow> state s = StateRunning \<and> subCancel s \<in> {None, Some (instance_id rs)} \<and>
          length (closed s) + 1 = opened s)"

lemma quiet_new: "quiet NewService"
  by (simp add: quiet_def NewService_def)

lemma fun_upd_idle [simp]: "((\<lambda>_. Idle)(i := p, i := Idle)) = (\<lambda>_. Idle)" "(\<lambda>_. Idle)(i := Idle) = (\<lambda>_. Idle)"
  by auto

definition refines :: "nat \<Rightarrow> call \<Rightarrow> call \<Rightarrow> service \<Rightarrow> bool" where
  "refines i call c s \<longleftrightarrow>
     quiet (perform i call c s) \<and>
     kernel_of (perform i call c s) = fst (kernel_call call c (kernel_of s)) \<and>
     results (perform i call c s) = results s @ [(i, snd (kernel_call call c (kernel_of s)))]"

lemmas [service_defs] = refines_def perform_def quiet_def kernel_of_def numeral_eq_Suc

lemma perform_init: "quiet s \<Longrightarrow> refines i CallInit c s"
  by (cases "state s"; cases "running s"; cases c) (simp_all add: service_defs init_kernel_def)

lemma perform_stop: "quiet s \<Longrightarrow> refines i CallStop c s"
  by (cases "state s"; cases "running s"; cases "c = CloseFails") (simp_all add: service_defs stop_kernel_def stop_result_def)

lemma perform_destroy: "quiet s \<Longrightarrow> refines i CallDestroy c s"
  by (cases "state s"; cases "running s") (simp_all add: service_defs)

lemma perform_start_none: "quiet s \<Longrightarrow> refines i (CallStart None) c s"
  by (cases "state s"; cases "running s") (simp_all add: service_defs start_kernel_def)

lemma perform_start: "quiet s \<Longrightarrow> refines i (CallStart (Some cfg)) c s"
  by (cases "state s"; cases "running s"; cases "c = StartFails"; cases "c = NoClashServer"; cases cfg)
    (simp_all add: service_defs start_kernel_def)

definition is_call :: "call \<Rightarrow> bool" where
  "is_call c = (case c of CallInit \<Rightarrow> True | CallStart _ \<Rightarrow> True | CallStop \<Rightarrow> True | CallDestroy \<Rightarrow> True | _ \<Rightarrow> False)"

lemma perform_refines: "quiet s \<Longrightarrow> is_call call \<Longrightarrow> refines i call c s"
proof -
  have "quiet s \<Longrightarrow> refines i (CallStart cfg) c s" for cfg
    using perform_start_none perform_start by (cases cfg) blast+
  then show "quiet s \<Longrightarrow> is_call call \<Longrightarrow> refines i call c s"
    using perform_init perform_stop perform_destroy by (cases call) (auto simp: is_call_def)
qed

section \<open>Sequences of calls\<close>

definition performs :: "(nat \<times> call \<times> call) list \<Rightarrow> service \<Rightarrow> service" where
  "performs cs s = fold (\<lambda>(i, call, c) s. perform i call c s) cs s"

fun kernel_run :: "(nat \<times> call \<times> call) list \<Rightarrow> kernel \<Rightarrow> kernel \<times> (nat \<times> result) list" where
  "kernel_run [] k = (k, [])"
| "kernel_run ((i, call, c) # cs) k =
     (let (k, r) = kernel_call call c k; (k, rs) = kernel_run cs k
      in (k, (if is_call call then [(i, r)] else []) @ rs))"

lemma perform_no_call: "quiet s \<Longrightarrow> \<not> is_call call \<Longrightarrow> perform i call c s = s \<and> kernel_call call c k = (k, Return_nil)"
  by (cases call) (auto simp: is_call_def perform_def service_step_def quiet_def)

lemma performs_refines:
  "quiet s \<Longrightarrow>
     quiet (performs cs s) \<and> kernel_of (performs cs s) = fst (kernel_run cs (kernel_of s)) \<and>
     results (performs cs s) = results s @ snd (kernel_run cs (kernel_of s))"
proof (induction cs arbitrary: s)
  case Nil
  then show ?case by (simp add: performs_def)
next
  case (Cons a cs)
  obtain i call c where a: "a = (i, call, c)" by (rule prod_cases3)
  have p: "performs (a # cs) s = performs cs (perform i call c s)" by (simp add: performs_def a)
  show ?case
  proof (cases "is_call call")
    case True
    then have r: "refines i call c s" using Cons.prems by (rule perform_refines[rotated])
    then have "quiet (perform i call c s)" by (simp add: refines_def)
    from Cons.IH[OF this] r show ?thesis unfolding p by (simp add: refines_def a True split: prod.split)
  next
    case False
    note n = perform_no_call[OF Cons.prems this]
    have "perform i call c s = s" using n by blast
    then show ?thesis using Cons.IH[OF Cons.prems] n[of i c "kernel_of s"] False unfolding p by (simp add: a split: prod.split)
  qed
qed

section \<open>Schedules\<close>

text \<open>An interleaving is a list of threads, each with the choice of its step.\<close>

fun run_steps :: "(nat \<times> call) list \<Rightarrow> service \<Rightarrow> service option" where
  "run_steps [] s = Some s"
| "run_steps ((i, c) # rest) s =
     (case service_step i c s of None \<Rightarrow> None | Some s' \<Rightarrow> run_steps rest s')"

lemma run_steps_reachable:
  "run_steps acts s = Some s' \<Longrightarrow> list_all (\<lambda>(i, c). P c) acts \<Longrightarrow> reachable P s \<Longrightarrow> reachable P s'"
  by (induction acts s rule: run_steps.induct) (auto split: option.splits intro: reachable.step)

lemma run_steps_others: "run_steps acts s = Some s' \<Longrightarrow> j \<notin> fst ` set acts \<Longrightarrow> thread s' j = thread s j"
  by (induction acts s rule: run_steps.induct) (auto split: option.splits simp: step_others)

definition well_behaved :: "(nat \<times> call) list \<Rightarrow> (nat \<times> call) list" where
  "well_behaved acts = filter (\<lambda>(i, c). no_init_failure c) acts"

lemma well_behaved_reachable: "run_steps (well_behaved acts) NewService = Some s \<Longrightarrow> reachable no_init_failure s"
  by (rule run_steps_reachable) (auto simp: well_behaved_def list_all_iff intro: reachable.start)

lemma any_reachable: "run_steps acts NewService = Some s \<Longrightarrow> reachable (\<lambda>_. True) s"
  by (rule run_steps_reachable) (auto simp: list_all_iff intro: reachable.start)

text \<open>
  Thread 0 initialises the service and starts a first configuration; thread 1 calls \<open>Stop\<close> and is in the
  state callback of its compare-and-swap when thread 0 starts a second configuration; then thread 1 goes on.
\<close>

definition overlapping_stop :: "(nat \<times> call) list" where
  "overlapping_stop =
     (0, CallInit) # replicate 2 (0, Proceed) @
     (0, CallStart (Some (''A'', []))) # replicate 16 (0, Proceed) @
     (1, CallStop) # replicate 2 (1, Proceed) @
     (0, CallStart (Some (''B'', []))) # replicate 16 (0, Proceed) @
     replicate 5 (1, Proceed)"

text \<open>Thread 1 destroys the service while thread 0 is inside an initialisation that then fails.\<close>

definition failing_init :: "(nat \<times> call) list" where
  "failing_init = (0, CallInit) # (1, CallDestroy) # replicate 7 (1, Proceed) @ [(0, InitFails)]"

lemma overlapping_stop_run:
  "case run_steps overlapping_stop NewService of
     None \<Rightarrow> False
   | Some s \<Rightarrow> thread s 0 = Idle \<and> thread s 1 = Idle \<and> state s = StateRunning \<and> running s = None \<and>
       opened s = 2 \<and> closed s = [1] \<and> map snd (results s) = [Return_nil, Return_nil, Return_nil, Return_nil]"
  by code_simp

lemma failing_init_run:
  "case run_steps failing_init NewService of
     None \<Rightarrow> False
   | Some s \<Rightarrow> thread s 0 = Idle \<and> thread s 1 = Idle \<and> state s = StateCreated \<and>
       results s = [(1, Return_nil), (0, Init_failed)] \<and> notified s = [StateDestroyed]"
  by code_simp

end
