(* ===== verification/Watchdog.thy ===== *)
theory Watchdog
  imports ServiceSeq "HOL-Library.Word"
begin

text \<open>
  \<open>core/watchdog.go\<close>: the configuration of the health watchdog, its probing loop and the node it probes.
  Durations are nanoseconds in 64-bit words, as \<open>time.Duration\<close>; the loop is a function of the outcomes of
  its \<open>select\<close>: a cancelled context, or a tick with the time of the tick, the result of the probe and the
  time read after a restart.  The outbounds of the running instance belong to the kernel library: a lookup
  function is the parameter.
\<close>

section \<open>Configuration\<close>

record HealthCheckConfig =
  hc_Enabled :: bool
  hc_Interval :: "64 word"
  hc_Timeout :: "64 word"
  hc_FailThreshold :: "64 word"
  hc_Cooldown :: "64 word"

record healthConfig =
  interval :: "64 word"
  timeout :: "64 word"
  failThreshold :: "64 word"
  cooldown :: "64 word"

definition default_health :: healthConfig where
  "default_health = \<lparr>interval = 60000000000, timeout = 10000000000, failThreshold = 3, cooldown = 300000000000\<rparr>"

definition positive :: "64 word \<Rightarrow> bool" where "positive w \<longleftrightarrow> 0 < sint w"

text \<open>\<open>time.Duration(ms) * time.Millisecond\<close>, with the multiplication of 64-bit words.\<close>

definition milliseconds :: "64 word \<Rightarrow> 64 word" where "milliseconds w = w * 1000000"

definition normalizeHealthConfig :: "HealthCheckConfig option \<Rightarrow> healthConfig" where
  "normalizeHealthConfig cfg =
    (case cfg of
       None \<Rightarrow> default_health
     | Some h \<Rightarrow>
         let c = default_health;
             c = (if positive (hc_Interval h) then c\<lparr>interval := milliseconds (hc_Interval h)\<rparr> else c);
             c = (if positive (hc_Timeout h) then c\<lparr>timeout := milliseconds (hc_Timeout h)\<rparr> else c);
             c = (if positive (hc_FailThreshold h) then c\<lparr>failThreshold := hc_FailThreshold h\<rparr> else c)
         in if positive (hc_Cooldown h) then c\<lparr>cooldown := milliseconds (hc_Cooldown h)\<rparr> else c)"

section \<open>The loop\<close>

text \<open>A tick: its time, the result of the probe, and the time after a restart.\<close>

datatype select_outcome = Ctx_done | Tick int bool int

datatype watchdog_action = On_fail int | Restart int int

text \<open>The local variables: the failures in a row and the end of the cooldown (none at first).\<close>

type_synonym watchdog_state = "int \<times> int option"

definition watchdog_tick ::
  "healthConfig \<Rightarrow> int \<Rightarrow> bool \<Rightarrow> int \<Rightarrow> watchdog_state \<Rightarrow> watchdog_state \<times> watchdog_action list" where
  "watchdog_tick c now healthy after st =
    (case st of
       (fails, cooldownUntil) \<Rightarrow>
         if (case cooldownUntil of None \<Rightarrow> False | Some u \<Rightarrow> now < u) then ((fails, cooldownUntil), [])
         else if healthy then ((0, cooldownUntil), [])
         else
           let fails = fails + 1 in
           if sint (failThreshold c) \<le> fails
           then ((0, Some (after + sint (cooldown c))), [On_fail fails, Restart now after])
           else ((fails, cooldownUntil), [On_fail fails]))"

fun watchdog_loop :: "healthConfig \<Rightarrow> select_outcome list \<Rightarrow> watchdog_state \<Rightarrow> watchdog_action list" where
  "watchdog_loop c [] st = []"
| "watchdog_loop c (Ctx_done # evs) st = []"
| "watchdog_loop c (Tick now healthy after # evs) st =
     (case watchdog_tick c now healthy after st of (st', acts) \<Rightarrow> acts @ watchdog_loop c evs st')"

text \<open>\<open>time.NewTicker\<close> panics when the interval is not positive; otherwise the loop runs.\<close>

definition watchdog_run :: "healthConfig \<Rightarrow> select_outcome list \<Rightarrow> watchdog_action list option" where
  "watchdog_run c evs = (if positive (interval c) then Some (watchdog_loop c evs (0, None)) else None)"

section \<open>The probed node\<close>

text \<open>An outbound of the kernel: its type and tag, and the selected member when it is a group.\<close>

record outbound =
  ob_Type :: string
  ob_Tag :: string
  ob_Now :: "string option"

definition no_proxy :: "string \<Rightarrow> bool" where
  "no_proxy ty \<longleftrightarrow> ty \<in> set [''direct'', ''block'', ''dns'']"

fun proxy_node :: "(string \<Rightarrow> outbound option) \<Rightarrow> nat \<Rightarrow> string set \<Rightarrow> outbound option \<Rightarrow> outbound option" where
  "proxy_node lookup 0 seen out = None"
| "proxy_node lookup (Suc n) seen out =
     (case out of
        None \<Rightarrow> None
      | Some ob \<Rightarrow>
          if no_proxy (ob_Type ob) then None
          else (case ob_Now ob of
                  None \<Rightarrow> Some ob
                | Some next \<Rightarrow>
                    if ob_Tag ob \<in> seen \<or> next = [] \<or> next = ob_Tag ob then None
                    else (case lookup next of
                            None \<Rightarrow> None
                          | Some ob' \<Rightarrow> proxy_node lookup n (insert (ob_Tag ob) seen) (Some ob'))))"

definition maxProxyDepth :: nat where "maxProxyDepth = 16"

definition currentProxyNode :: "(string \<Rightarrow> outbound option) \<Rightarrow> outbound option \<Rightarrow> outbound option" where
  "currentProxyNode lookup default_ob = proxy_node lookup maxProxyDepth {} default_ob"

text \<open>
  \<open>healthProbe\<close>: a service that is not running, or that uses no proxy, counts as healthy; otherwise the URL
  test of the library decides (\<open>url_test\<close>, true when it succeeds).
\<close>

definition healthProbe ::
  "(string \<Rightarrow> outbound option) \<Rightarrow> outbound option \<Rightarrow> (outbound \<Rightarrow> bool) \<Rightarrow> service \<Rightarrow> bool" where
  "healthProbe lookup default_ob url_test s =
    (if state s \<noteq> StateRunning \<or> running s = None then True
     else (case currentProxyNode lookup default_ob of None \<Rightarrow> True | Some ob \<Rightarrow> url_test ob))"

text \<open>\<open>restartForHealth\<close>: the call it makes, with the configuration the translator returns for the current one.\<close>

definition restartForHealth ::
  "(string \<Rightarrow> start_config option) \<Rightarrow> nat \<Rightarrow> call \<Rightarrow> service \<Rightarrow> service" where
  "restartForHealth translateConfig i c s =
    (case running s of
       None \<Rightarrow> s
     | Some rs \<Rightarrow> perform i (CallStart (translateConfig (currentConfig rs))) c s)"

section \<open>Lemmas\<close>

lemma normalize_threshold: "0 < sint (failThreshold (normalizeHealthConfig cfg))"
  by (auto simp: normalizeHealthConfig_def default_health_def positive_def Let_def split: option.split)

lemma sint_milliseconds:
  assumes "0 < sint w" "sint w \<le> 9223372036854"
  shows "sint (milliseconds w) = sint w * 1000000"
proof -
  have "milliseconds w = word_of_int (sint w * 1000000)"
    by (simp add: milliseconds_def)
  moreover have "sint (word_of_int (sint w * 1000000) :: 64 word) = sint w * 1000000"
    unfolding sint_sbintrunc' using assms by (intro signed_take_bit_int_eq_self) simp_all
  ultimately show ?thesis by simp
qed

text \<open>The failures in a row stay below the threshold.\<close>

lemma watchdog_tick_fails:
  "watchdog_tick c now h a (f, u) = ((f', u'), acts) \<Longrightarrow> 0 < sint (failThreshold c) \<Longrightarrow>
     0 \<le> f \<Longrightarrow> f < sint (failThreshold c) \<Longrightarrow> 0 \<le> f' \<and> f' < sint (failThreshold c)"
  by (auto simp: watchdog_tick_def Let_def split: if_splits option.splits)

definition restart_times :: "watchdog_action list \<Rightarrow> (int \<times> int) list" where
  "restart_times acts = List.map_filter (\<lambda>a. case a of Restart now after \<Rightarrow> Some (now, after) | On_fail _ \<Rightarrow> None) acts"

lemma restart_times_simps [simp]:
  "restart_times [] = []" "restart_times (On_fail n # acts) = restart_times acts"
  "restart_times (Restart now after # acts) = (now, after) # restart_times acts"
  by (simp_all add: restart_times_def List.map_filter_simps)

lemma restart_times_append [simp]: "restart_times (xs @ ys) = restart_times xs @ restart_times ys"
  by (simp add: restart_times_def map_filter_def)

text \<open>A restart is never closer to the previous one than the cooldown.\<close>

definition spaced :: "healthConfig \<Rightarrow> int option \<Rightarrow> (int \<times> int) list \<Rightarrow> bool" where
  "spaced c u rs \<longleftrightarrow>
     (case rs of [] \<Rightarrow> True | (now, after) # _ \<Rightarrow> (case u of None \<Rightarrow> True | Some t \<Rightarrow> t \<le> now)) \<and>
     successively (\<lambda>r r'. snd r + sint (cooldown c) \<le> fst r') rs"

lemma watchdog_loop_spaced: "spaced c u (restart_times (watchdog_loop c evs (f, u)))"
proof (induction c evs "(f, u)" arbitrary: f u rule: watchdog_loop.induct)
  case (3 c now healthy after evs)
  obtain f' u' acts where t: "watchdog_tick c now healthy after (f, u) = ((f', u'), acts)"
    by (metis surj_pair)
  have IH: "spaced c u' (restart_times (watchdog_loop c evs (f', u')))"
    using 3 t by metis
  show ?case
  proof (cases "\<exists>n. acts = [On_fail n, Restart now after]")
    case True
    then have "u' = Some (after + sint (cooldown c))" "case u of None \<Rightarrow> True | Some x \<Rightarrow> x \<le> now"
      "restart_times acts = [(now, after)]"
      using t by (auto simp: watchdog_tick_def Let_def split: if_splits option.splits)
    then show ?thesis
      using IH t by (auto simp: spaced_def successively_Cons split: list.splits option.splits)
  next
    case False
    then have "u' = u" "restart_times acts = []"
      using t by (auto simp: watchdog_tick_def Let_def split: if_splits option.splits)
    then show ?thesis using IH t by simp
  qed
qed (simp_all add: spaced_def)

text \<open>The nodes the selections lead to.\<close>

inductive selects :: "(string \<Rightarrow> outbound option) \<Rightarrow> outbound \<Rightarrow> outbound \<Rightarrow> bool" for lookup where
  here: "selects lookup ob ob"
| member: "ob_Now ob = Some next \<Longrightarrow> lookup next = Some ob' \<Longrightarrow> selects lookup ob' leaf \<Longrightarrow> selects lookup ob leaf"

lemma proxy_node_sound:
  "proxy_node lookup n seen (Some ob) = Some leaf \<Longrightarrow>
     selects lookup ob leaf \<and> ob_Now leaf = None \<and> \<not> no_proxy (ob_Type leaf)"
  by (induction lookup n seen "Some ob" arbitrary: ob rule: proxy_node.induct)
    (auto split: if_splits option.splits intro: selects.intros)

text \<open>
  A chain of selections: the outbounds from the default one to the node in use, every one but the last a
  group that selects the next.
\<close>

fun selection_chain :: "(string \<Rightarrow> outbound option) \<Rightarrow> outbound list \<Rightarrow> bool" where
  "selection_chain lookup [] = False"
| "selection_chain lookup [ob] = (ob_Now ob = None \<and> \<not> no_proxy (ob_Type ob))"
| "selection_chain lookup (ob # ob' # obs) =
     (\<not> no_proxy (ob_Type ob) \<and> ob_Now ob = Some (ob_Tag ob') \<and> ob_Tag ob' \<noteq> [] \<and>
      lookup (ob_Tag ob') = Some ob' \<and> selection_chain lookup (ob' # obs))"

lemma proxy_node_complete:
  "selection_chain lookup obs \<Longrightarrow> distinct (map ob_Tag obs) \<Longrightarrow> set (map ob_Tag obs) \<inter> seen = {} \<Longrightarrow>
     length obs \<le> n \<Longrightarrow> proxy_node lookup n seen (Some (hd obs)) = Some (last obs)"
proof (induction lookup obs arbitrary: n seen rule: selection_chain.induct)
  case (2 lookup ob)
  then show ?case by (cases n) auto
next
  case (3 lookup ob ob' obs)
  then obtain m where n: "n = Suc m" by (cases n) auto
  have "proxy_node lookup m (insert (ob_Tag ob) seen) (Some (hd (ob' # obs))) = Some (last (ob' # obs))"
    using "3.prems" n by (intro "3.IH") auto
  then show ?case using "3.prems" n by auto
qed simp

end
