(* ===== verification/GoUrl.thy ===== *)
theory GoUrl
  imports GoNet
begin

text \<open>
  \<open>net/url\<close> as the link parsers use it: \<open>Parse\<close> on a text that starts with a scheme and two slashes,
  \<open>Hostname\<close>, \<open>Port\<close>, \<open>User.Username\<close>, \<open>Query().Get\<close> and \<open>QueryUnescape\<close>.  The rules for colons and
  brackets in a host are those of Go 1.26: at most one colon outside brackets, and brackets only around an
  IPv6 address at the start.
\<close>

section \<open>Percent encoding\<close>

datatype escape_mode = QueryComponent | PathText | HostText | ZoneText | UserText

definition is_alnum :: "char \<Rightarrow> bool" where
  "is_alnum c \<longleftrightarrow> is_digit c \<or> is_upper c \<or> is_lower c"

definition host_char :: "char \<Rightarrow> bool" where
  "host_char c \<longleftrightarrow> is_alnum c \<or> c \<in> set (''!$&()*+,;=:[]<>-_.~'' @ [CHR 39, CHR 34])"

definition is_host :: "escape_mode \<Rightarrow> bool" where
  "is_host m \<longleftrightarrow> m = HostText \<or> m = ZoneText"

text \<open>The byte a percent sequence stands for, when the mode allows it.\<close>

definition percent_byte :: "escape_mode \<Rightarrow> char \<Rightarrow> char \<Rightarrow> char option" where
  "percent_byte m a b =
    (case (hex_val a, hex_val b) of
       (Some h, Some l) \<Rightarrow>
         let c = char_of (nat (16 * h + l)) in
         if m = HostText \<and> h < 8 \<and> c \<noteq> CHR ''%'' then None
         else if m = ZoneText \<and> c \<noteq> CHR ''%'' \<and> c \<noteq> CHR '' '' \<and> \<not> host_char c then None
         else Some c
     | _ \<Rightarrow> None)"

fun unescape :: "escape_mode \<Rightarrow> string \<Rightarrow> string option" where
  "unescape m [] = Some []"
| "unescape m (c # s) =
     (if c = CHR ''%'' then
        (case s of
           a # b # rest \<Rightarrow>
             (case percent_byte m a b of
                None \<Rightarrow> None
              | Some x \<Rightarrow> map_option (\<lambda>r. x # r) (unescape m rest))
         | _ \<Rightarrow> None)
      else if is_host m \<and> (of_char c :: int) < 128 \<and> \<not> host_char c then None
      else map_option (\<lambda>r. (if c = CHR ''+'' \<and> m = QueryComponent then CHR '' '' else c) # r) (unescape m s))"

definition QueryUnescape :: "string \<Rightarrow> string option" where
  "QueryUnescape s = unescape QueryComponent s"

section \<open>The authority\<close>

definition validOptionalPort :: "string \<Rightarrow> bool" where
  "validOptionalPort p = (case p of [] \<Rightarrow> True | c # ds \<Rightarrow> c = CHR '':'' \<and> list_all is_digit ds)"

definition validUserinfo :: "string \<Rightarrow> bool" where
  "validUserinfo s = list_all (\<lambda>c. is_alnum c \<or> c \<in> set (''-._:~!$&()*+,;=%@'' @ [CHR 39])) s"

definition bracket_host :: "string \<Rightarrow> string option" where
  "bracket_host name =
    (case (case str_index name ''%25'' of
             None \<Rightarrow> unescape HostText name
           | Some i \<Rightarrow>
               (case (unescape HostText (take i name), unescape ZoneText (drop i name)) of
                  (Some a, Some z) \<Rightarrow> Some (a @ z)
                | _ \<Rightarrow> None)) of
       None \<Rightarrow> None
     | Some h \<Rightarrow> (case ParseAddr h of Some (V6 gs z) \<Rightarrow> Some h | _ \<Rightarrow> None))"

definition parseHost :: "string \<Rightarrow> string option" where
  "parseHost host =
    (if CHR ''['' \<in> set host then
       (if last_index host CHR ''['' \<noteq> Some 0 then None
        else (case last_index host CHR '']'' of
                None \<Rightarrow> None
              | Some j \<Rightarrow>
                  let port = drop (j + 1) host in
                  if \<not> validOptionalPort port then None
                  else map_option (\<lambda>h. ''['' @ h @ '']'' @ port) (bracket_host (take (j - 1) (drop 1 host)))))
     else
       (case str_index host '':'' of
          Some i \<Rightarrow>
            if last_index host CHR '':'' \<noteq> Some i \<or> \<not> validOptionalPort (drop i host) then None
            else unescape HostText host
        | None \<Rightarrow> unescape HostText host))"

text \<open>The user name (empty without user information, as \<open>User.Username\<close> of a nil pointer) and the host.\<close>

definition parseAuthority :: "string \<Rightarrow> (string \<times> string) option" where
  "parseAuthority a =
    (case last_index a CHR ''@'' of
       None \<Rightarrow> map_option (\<lambda>h. ([], h)) (parseHost a)
     | Some i \<Rightarrow>
         (case parseHost (drop (i + 1) a) of
            None \<Rightarrow> None
          | Some h \<Rightarrow>
              let info = take i a in
              if \<not> validUserinfo info then None
              else (case str_cut info '':'' of
                      (user, pass, found) \<Rightarrow>
                        (case (unescape UserText user, unescape UserText pass) of
                           (Some u, Some p) \<Rightarrow> Some (u, h)
                         | _ \<Rightarrow> None))))"

section \<open>Whole texts\<close>

record url =
  url_Username :: string
  url_Host :: string
  url_RawQuery :: string

definition control_byte :: "char \<Rightarrow> bool" where
  "control_byte c \<longleftrightarrow> (of_char c :: int) < 32 \<or> c = CHR 127"

text \<open>\<open>url.Parse(scheme + "://" + body)\<close> for a lower-case scheme and a body without \<open>#\<close>.\<close>

definition parse_after_scheme :: "string \<Rightarrow> url option" where
  "parse_after_scheme body =
    (if list_ex control_byte body then None
     else
       let (rest, query, _) = str_cut body ''?'';
           (authority, path) = (case str_index rest ''/'' of None \<Rightarrow> (rest, []) | Some i \<Rightarrow> (take i rest, drop i rest))
       in case parseAuthority authority of
            None \<Rightarrow> None
          | Some (user, host) \<Rightarrow>
              if unescape PathText path = None then None
              else Some \<lparr>url_Username = user, url_Host = host, url_RawQuery = query\<rparr>)"

text \<open>\<open>u.Hostname()\<close> and \<open>u.Port()\<close>.\<close>

definition split_url_host :: "string \<Rightarrow> string \<times> string" where
  "split_url_host hp =
    (let (host, port) =
       (case last_index hp CHR '':'' of
          None \<Rightarrow> (hp, [])
        | Some i \<Rightarrow> if validOptionalPort (drop i hp) then (take i hp, drop (i + 1) hp) else (hp, []))
     in (if has_prefix host ''['' \<and> has_suffix host '']'' then take (length host - 2) (drop 1 host) else host, port))"

definition Hostname :: "url \<Rightarrow> string" where "Hostname u = fst (split_url_host (url_Host u))"
definition Port :: "url \<Rightarrow> string" where "Port u = snd (split_url_host (url_Host u))"

text \<open>\<open>u.Query().Get(key)\<close>: the first value of the key among the well-formed pairs.\<close>

definition query_pair :: "string \<Rightarrow> (string \<times> string) option" where
  "query_pair part =
    (if part = [] \<or> CHR '';'' \<in> set part then None
     else case str_cut part ''='' of
            (k, v, _) \<Rightarrow> (case (QueryUnescape k, QueryUnescape v) of (Some k, Some v) \<Rightarrow> Some (k, v) | _ \<Rightarrow> None))"

definition query_get :: "url \<Rightarrow> string \<Rightarrow> string" where
  "query_get u key =
    (case map_of (List.map_filter query_pair (str_split CHR ''&'' (url_RawQuery u))) key of
       Some v \<Rightarrow> v
     | None \<Rightarrow> [])"

end
