(* ===== verification/Input.thy ===== *)
theory Input
  imports GoUrl GoJson GoBase64 Pipeline
begin

text \<open>
  \<open>translator/input.go\<close> and \<open>translator/detect.go\<close>: recognising base64 subscriptions, JSON configurations
  and lists of proxy links, and parsing the links; and \<open>ConvertWithMeta\<close> of \<open>translator/translator.go\<close>.
  Decoding YAML is the library's: a parameter from texts to configurations.
\<close>

section \<open>Recognising the input\<close>

definition all_encodings :: "base64_encoding list" where
  "all_encodings = [StdEncoding, RawStdEncoding, URLEncoding, RawURLEncoding]"

definition looksLikeSubscription :: "string \<Rightarrow> bool" where
  "looksLikeSubscription data =
    (let trimmed = trim_space data in
     if trimmed = [] then False
     else if str_contains trimmed ''://'' then True
     else if has_prefix trimmed ''{'' \<and> json_parse trimmed \<noteq> None then True
     else str_contains trimmed ''proxies:'')"

fun first_subscription :: "string \<Rightarrow> base64_encoding list \<Rightarrow> string option" where
  "first_subscription s [] = None"
| "first_subscription s (enc # encs) =
     (case base64_decode enc s of
        None \<Rightarrow> first_subscription s encs
      | Some decoded \<Rightarrow> if looksLikeSubscription decoded then Some decoded else first_subscription s encs)"

definition decodeBase64Input :: "string \<Rightarrow> string option" where
  "decodeBase64Input data =
    (let trimmed = trim_space data in if trimmed = [] then None else first_subscription trimmed all_encodings)"

definition isProxyURIList :: "string \<Rightarrow> bool" where
  "isProxyURIList data =
    (let trimmed = trim_space data in
     trimmed \<noteq> [] \<and>
     list_all (\<lambda>line. trim_space line = [] \<or> str_contains (trim_space line) ''://'') (str_split CHR 10 trimmed))"

datatype Format = FormatJSON | FormatYAML

definition DetectFormat :: "string \<Rightarrow> Format" where
  "DetectFormat data =
    (case json_parse data of
       Some (JObj ms) \<Rightarrow> if json_finite (JObj ms) then FormatJSON else FormatYAML
     | _ \<Rightarrow> FormatYAML)"

section \<open>Links\<close>

fun first_decoding :: "string \<Rightarrow> base64_encoding list \<Rightarrow> string option" where
  "first_decoding s [] = None"
| "first_decoding s (enc # encs) =
     (case base64_decode enc s of None \<Rightarrow> first_decoding s encs | Some d \<Rightarrow> Some d)"

definition base64Decode :: "string \<Rightarrow> string option" where
  "base64Decode s = first_decoding s all_encodings"

definition strToInt :: "json option \<Rightarrow> int" where
  "strToInt v =
    (case v of
       Some (JNum n) \<Rightarrow> number_to_int n
     | Some (JStr s) \<Rightarrow> fst (atoi s)
     | _ \<Rightarrow> 0)"

definition strOr :: "json option \<Rightarrow> string \<Rightarrow> string" where
  "strOr v d = (case v of Some (JStr s) \<Rightarrow> if s \<noteq> [] then s else d | _ \<Rightarrow> d)"

definition before_query :: "string \<Rightarrow> string" where
  "before_query s = hd (str_split CHR ''?'' s)"

text \<open>The credentials and the address of a shadowsocks link, in its two forms.\<close>

definition ss_parts :: "string \<Rightarrow> (string \<times> string) option" where
  "ss_parts body =
    (case str_index body ''@'' of
       Some i \<Rightarrow>
         map_option (\<lambda>dec. (dec, before_query (drop (i + 1) body))) (base64Decode (take i body))
     | None \<Rightarrow>
         (case base64Decode (before_query body) of
            None \<Rightarrow> None
          | Some dec \<Rightarrow>
              map_option (\<lambda>i. (take i dec, drop (i + 1) dec)) (last_index dec CHR ''@'')))"

definition parseSS :: "string \<Rightarrow> string \<Rightarrow> gmap option" where
  "parseSS body name =
    (case ss_parts body of
       None \<Rightarrow> None
     | Some (decoded, authority) \<Rightarrow>
         (case SplitHostPort authority of
            None \<Rightarrow> None
          | Some (host, port) \<Rightarrow>
              (case str_index decoded '':'' of
                 None \<Rightarrow> None
               | Some i \<Rightarrow>
                   Some [(''name'', VStr name), (''type'', VStr ''ss''), (''server'', VStr host),
                         (''port'', VInt (strToInt (Some (JStr port)))), (''cipher'', VStr (take i decoded)),
                         (''password'', VStr (drop (i + 1) decoded))])))"

definition vmess_object :: "string \<Rightarrow> (string \<times> json) list option" where
  "vmess_object dec =
    (case json_parse dec of
       Some (JObj ms) \<Rightarrow> if json_finite (JObj ms) then Some ms else None
     | Some JNull \<Rightarrow> Some []
     | _ \<Rightarrow> None)"

definition parseVmess :: "string \<Rightarrow> string \<Rightarrow> gmap option" where
  "parseVmess body name =
    (case base64Decode body of
       None \<Rightarrow> None
     | Some dec \<Rightarrow>
         (case vmess_object dec of
            None \<Rightarrow> None
          | Some raw \<Rightarrow>
              let server = member_str raw ''add''; id = member_str raw ''id''; ps = member_str raw ''ps'' in
              if server = [] \<or> id = [] then None
              else
                Some [(''name'', VStr (if ps \<noteq> [] then ps else name)), (''type'', VStr ''vmess''),
                      (''server'', VStr server), (''port'', VInt (strToInt (member raw ''port''))),
                      (''uuid'', VStr id), (''alterId'', VInt (strToInt (member raw ''aid''))),
                      (''cipher'', VStr (strOr (member raw ''scy'') ''auto''))]))"

definition port_number :: "url \<Rightarrow> int" where
  "port_number u = strToInt (Some (JStr (Port u)))"

definition parseVless :: "string \<Rightarrow> string \<Rightarrow> gmap option" where
  "parseVless body name =
    (case parse_after_scheme body of
       None \<Rightarrow> None
     | Some u \<Rightarrow>
         let security = query_get u ''security'';
             p = [(''name'', VStr name), (''type'', VStr ''vless''), (''server'', VStr (Hostname u)),
                  (''port'', VInt (port_number u)), (''udp'', VBool True),
                  (''tls'', VBool (security = ''tls'' \<or> security = ''reality''))];
             p = put_str ''flow'' (query_get u ''flow'') p;
             p = put_str ''servername'' (query_get u ''sni'') p
         in Some (put_str ''network'' (query_get u ''type'') p))"

definition parseTrojan :: "string \<Rightarrow> string \<Rightarrow> gmap option" where
  "parseTrojan body name =
    map_option (\<lambda>u. [(''name'', VStr name), (''type'', VStr ''trojan''), (''server'', VStr (Hostname u)),
                     (''port'', VInt (port_number u)), (''password'', VStr (url_Username u))])
      (parse_after_scheme body)"

definition parseHysteria2 :: "string \<Rightarrow> string \<Rightarrow> gmap option" where
  "parseHysteria2 body name =
    (case parse_after_scheme body of
       None \<Rightarrow> None
     | Some u \<Rightarrow>
         if Hostname u = [] then None
         else
           let p = [(''name'', VStr name), (''type'', VStr ''hysteria2''), (''server'', VStr (Hostname u)),
                    (''port'', VInt 443), (''password'', VStr (url_Username u))];
               port = port_number u;
               p = (if port \<noteq> 0 then mput ''port'' (VInt port) p else p);
               p = put_str ''sni'' (query_get u ''sni'') p;
               p = (if query_get u ''insecure'' = ''1'' then mput ''skip-cert-verify'' (VBool True) p else p);
               p = put_str ''obfs'' (query_get u ''obfs'') p
           in Some (put_str ''obfs-password'' (query_get u ''obfs-password'') p))"

text \<open>The name after the first \<open>#\<close>, when it decodes to a non-empty text, and what stands before it.\<close>

definition link_name :: "string \<Rightarrow> string \<times> string" where
  "link_name rest =
    (case str_index rest ''#'' of
       None \<Rightarrow> (''proxy'', rest)
     | Some i \<Rightarrow>
         ((case QueryUnescape (drop (i + 1) rest) of
             Some d \<Rightarrow> if d \<noteq> [] then d else ''proxy''
           | None \<Rightarrow> ''proxy''), take i rest))"

definition parseProxyURI :: "string \<Rightarrow> gmap option" where
  "parseProxyURI uri =
    (case str_index uri ''://'' of
       None \<Rightarrow> None
     | Some e \<Rightarrow>
         let scheme = to_lower (take e uri); (name, body) = link_name (drop (e + 3) uri) in
         if scheme = ''ss'' then parseSS body name
         else if scheme = ''vmess'' then parseVmess body name
         else if scheme = ''vless'' then parseVless body name
         else if scheme = ''trojan'' then parseTrojan body name
         else if scheme = ''hysteria2'' \<or> scheme = ''hy2'' then parseHysteria2 body name
         else None)"

section \<open>Configurations from links\<close>

definition uri_dns :: RawDNS where
  "uri_dns = empty_dns\<lparr>dns_Enable := True, dns_EnhancedMode := ''redir-host'', dns_FakeIPRange := ''198.18.0.1/16'',
     dns_DefaultNameserver := [''114.114.114.114'', ''223.5.5.5'', ''8.8.8.8'', ''1.0.0.1''],
     dns_NameServer := [''https://doh.pub/dns-query'', ''tls://223.5.5.5:853''],
     dns_FallbackFilter := \<lparr>ff_GeoIP = True, ff_GeoIPCode = ''CN'', ff_IPCIDR = [], ff_Domain = [], ff_GeoSite = []\<rparr>,
     dns_FakeIPFilter := [''dns.msftnsci.com'', ''www.msftnsci.com'', ''www.msftconnecttest.com''],
     dns_FakeIPFilterMode := ''blacklist''\<rparr>"

definition uri_lines :: "string \<Rightarrow> string list" where
  "uri_lines data = filter (\<lambda>l. l \<noteq> []) (map trim_space (str_split CHR 10 data))"

definition buildRawConfigFromURIs :: "string \<Rightarrow> RawConfig option" where
  "buildRawConfigFromURIs data =
    (let proxies = List.map_filter parseProxyURI (uri_lines data) in
     if proxies = [] then None
     else Some (empty_config\<lparr>cfg_BindAddress := ''*'', cfg_Mode := ''rule'', cfg_LogLevel := ''info'', cfg_IPv6 := True,
                  cfg_FindProcessMode := ''strict'', cfg_DNS := uri_dns, cfg_Proxy := proxies\<rparr>))"

section \<open>The conversion\<close>

datatype conversion =
    Passed_through string
  | No_proxies
  | Bad_yaml
  | Translated "validate_error option" translation

definition ConvertWithMeta ::
  "(string \<Rightarrow> bool) \<Rightarrow> (string \<Rightarrow> RawConfig option) \<Rightarrow> string option list \<Rightarrow> string \<Rightarrow> string option \<Rightarrow> geo_cache \<Rightarrow>
   conversion \<times> geo_cache" where
  "ConvertWithMeta valid_uuid yaml geo data opts g =
    (let data = (case decodeBase64Input data of Some d \<Rightarrow> d | None \<Rightarrow> data);
         translate = (\<lambda>cfg. case translateFromConfig valid_uuid geo cfg opts g of
                        ((err, t), g') \<Rightarrow> (Translated err t, g'))
     in if DetectFormat data = FormatJSON then (Passed_through data, g)
        else if isProxyURIList data then
          (case buildRawConfigFromURIs data of None \<Rightarrow> (No_proxies, g) | Some cfg \<Rightarrow> translate cfg)
        else (case yaml data of None \<Rightarrow> (Bad_yaml, g) | Some cfg \<Rightarrow> translate cfg))"

end
