(* ===== verification/InputLemmas.thy ===== *)
theory InputLemmas
  imports Input
begin

text \<open>
  What the parsed links contain, and the round trips of shadowsocks links and of base64 subscriptions.
\<close>

section \<open>Base64 texts\<close>

definition base64_char :: "char \<Rightarrow> bool" where
  "base64_char c \<longleftrightarrow> c \<in> set (CHR ''='' # std_alphabet)"

lemma letter_base64: "0 \<le> i \<Longrightarrow> i < 64 \<Longrightarrow> base64_char (letter i)"
proof -
  assume "0 \<le> i" "i < 64"
  then have "nat i < length std_alphabet" by (simp add: std_alphabet_def)
  then show ?thesis by (simp add: base64_char_def letter_def)
qed

lemma quantum_base64:
  "base64_char (letter (of_char a div 4))"
  "base64_char (letter (of_char a mod 4 * 16 + of_char b div 16))"
  "base64_char (letter (of_char b mod 16 * 4 + of_char c div 64))"
  "base64_char (letter (of_char c mod 64))"
  by (rule letter_base64; rule quantum_ranges)+

lemmas tail_base64 = quantum_base64(2)[of _ "CHR 0x00", unfolded of_char_zero, simplified]
  quantum_base64(3)[of _ "CHR 0x00", unfolded of_char_zero, simplified]

lemma padding_base64: "base64_char (CHR ''='')"
  by (simp add: base64_char_def)

lemma base64_encode_chars: "list_all base64_char (base64_encode s)"
proof (induction s rule: base64_encode.induct)
  case (4 a b c rest)
  then show ?case
    by (simp only: base64_encode.simps Let_def list.pred_inject quantum_base64 simp_thms)
qed (simp_all add: Let_def quantum_base64 tail_base64 padding_base64 del: of_char_mod_256)

lemma base64_chars_graphic: "list_all (\<lambda>c. graphic c \<and> c \<notin> set ''@#?:'') (CHR ''='' # std_alphabet)"
  by code_simp

lemma base64_char_graphic: "base64_char c \<Longrightarrow> graphic c \<and> c \<notin> set ''@#?:''"
  using base64_chars_graphic by (auto simp: base64_char_def list_all_iff)

lemma base64_encode_Nil_iff: "base64_encode s = [] \<longleftrightarrow> s = []"
  by (cases s rule: base64_encode.cases) (simp_all add: Let_def)

lemma base64_encode_no_char: "c \<in> set ''@#?:'' \<Longrightarrow> c \<notin> set (base64_encode s)"
  using base64_encode_chars[of s] base64_char_graphic unfolding list_all_iff by blast

lemma trim_base64: "trim_space (base64_encode s) = base64_encode s"
proof (cases "s = []")
  case False
  then have n: "base64_encode s \<noteq> []" by (simp add: base64_encode_Nil_iff)
  then have "graphic (hd (base64_encode s))" "graphic (last (base64_encode s))"
    using base64_encode_chars[of s] base64_char_graphic by (auto simp: list_all_iff)
  with n show ?thesis by (rule trim_space_id)
qed simp

lemma base64Decode_encode: "base64Decode (base64_encode s) = Some s"
  by (simp add: base64Decode_def all_encodings_def base64_roundtrip)

lemma decodeBase64Input_encode: "looksLikeSubscription s \<Longrightarrow> decodeBase64Input (base64_encode s) = Some s"
proof -
  assume l: "looksLikeSubscription s"
  then have "s \<noteq> []" by (auto simp: looksLikeSubscription_def)
  then show ?thesis
    using l by (simp add: decodeBase64Input_def trim_base64 base64_encode_Nil_iff all_encodings_def base64_roundtrip)
qed

section \<open>Shadowsocks links\<close>

lemma unescape_plain: "list_all (\<lambda>c. c \<notin> set ''%+'') s \<Longrightarrow> unescape QueryComponent s = Some s"
  by (induction s) (auto simp: is_host_def)

lemma last_index_char: "c \<notin> set b \<Longrightarrow> last_index (a @ c # b) c = Some (length a)"
proof -
  assume "c \<notin> set b"
  then have "takeWhile (\<lambda>x. x \<noteq> c) (rev b @ c # rev a) = rev b"
    by (subst takeWhile_append2) auto
  then show ?thesis by (simp add: last_index_def)
qed

lemma before_query_plain: "CHR ''?'' \<notin> set s \<Longrightarrow> before_query s = s"
  by (simp add: before_query_def str_split_single)

lemma link_name_at:
  "CHR ''#'' \<notin> set a \<Longrightarrow> name \<noteq> [] \<Longrightarrow> list_all (\<lambda>c. c \<notin> set ''%+'') name \<Longrightarrow>
     link_name (a @ CHR ''#'' # name) = (name, a)"
  by (simp add: link_name_def str_index_char QueryUnescape_def unescape_plain)

definition plain_host :: "string \<Rightarrow> bool" where
  "plain_host h \<longleftrightarrow> list_all (\<lambda>c. c \<notin> set ''#?:[]'') h"

lemma SplitHostPort_plain: "plain_host h \<Longrightarrow> 0 \<le> n \<Longrightarrow> SplitHostPort (h @ CHR '':'' # dec_str n) = Some (h, dec_str n)"
proof -
  assume h: "plain_host h" and n: "0 \<le> n"
  have d: "CHR '':'' \<notin> set (dec_str n)" "CHR ''['' \<notin> set (dec_str n)" "CHR '']'' \<notin> set (dec_str n)"
    by (simp_all add: char_not_in_dec_str[OF n] is_digit_def)
  have "hd (h @ CHR '':'' # dec_str n) \<noteq> CHR ''[''"
    using h by (cases h) (auto simp: plain_host_def)
  then show ?thesis
    using h d by (auto simp: SplitHostPort_def last_index_char plain_host_def list_all_iff)
qed

definition ss_link :: "string \<Rightarrow> string \<Rightarrow> string \<Rightarrow> int \<Rightarrow> string \<Rightarrow> string" where
  "ss_link method password host port name =
     ''ss://'' @ base64_encode (method @ CHR '':'' # password) @ CHR ''@'' # host @ CHR '':'' # dec_str port @ CHR ''#'' # name"

lemma parse_ss_link:
  assumes m: "CHR '':'' \<notin> set method" and h: "plain_host host" and p: "0 \<le> port" "port \<le> max_int64"
    and n: "name \<noteq> []" "list_all (\<lambda>c. c \<notin> set ''%+'') name"
  shows "parseProxyURI (ss_link method password host port name) =
     Some [(''name'', VStr name), (''type'', VStr ''ss''), (''server'', VStr host), (''port'', VInt port),
           (''cipher'', VStr method), (''password'', VStr password)]"
proof -
  let ?b = "base64_encode (method @ CHR '':'' # password)"
  let ?a = "host @ CHR '':'' # dec_str port"
  have d: "CHR ''#'' \<notin> set (dec_str port)" "CHR ''?'' \<notin> set (dec_str port)"
    by (simp_all add: char_not_in_dec_str[OF p(1)] is_digit_def)
  have a: "CHR ''#'' \<notin> set (?b @ CHR ''@'' # ?a)" "CHR ''?'' \<notin> set ?a"
    using h d base64_encode_no_char[of "CHR ''#''"] by (auto simp: plain_host_def list_all_iff)
  have i: "str_index (ss_link method password host port name) ''://'' = Some 2"
    by (simp add: ss_link_def)
  have r: "drop 5 (ss_link method password host port name) = (?b @ CHR ''@'' # ?a) @ CHR ''#'' # name"
    "take 2 (ss_link method password host port name) = ''ss''"
    by (simp_all add: ss_link_def)
  have scheme: "to_lower ''ss'' = ''ss''" by code_simp
  have "link_name ((?b @ CHR ''@'' # ?a) @ CHR ''#'' # name) = (name, ?b @ CHR ''@'' # ?a)"
    by (rule link_name_at[OF a(1) n])
  then have "parseProxyURI (ss_link method password host port name) = parseSS (?b @ CHR ''@'' # ?a) name"
    using i r scheme by (simp add: parseProxyURI_def)
  moreover have "ss_parts (?b @ CHR ''@'' # ?a) = Some (method @ CHR '':'' # password, ?a)"
    using a(2) base64_encode_no_char[of "CHR ''@''" "method @ CHR '':'' # password"]
    by (simp add: ss_parts_def str_index_char base64Decode_encode before_query_plain)
  ultimately show ?thesis
    using m h p by (simp add: parseSS_def SplitHostPort_plain str_index_char strToInt_def atoi_dec_str)
qed

section \<open>What links do not carry\<close>

lemma parseVless_fields:
  "parseVless body name = Some p \<Longrightarrow> mstr p ''type'' = ''vless'' \<and> map_of p ''uuid'' = None"
  by (auto simp: parseVless_def Let_def mstr_def put_str_def split: option.splits)

lemma vless_link_untranslated: "parseVless body name = Some p \<Longrightarrow> fst (translateOneProxy valid_uuid p fp) = None"
  using parseVless_fields[of body name p]
  by (auto simp: translateOneProxy_def TranslateVLESS_def Let_def mstr_def GetStr_def SkipUnsupportedNetwork_def)

lemma parseVmess_fields:
  "parseVmess body name = Some p \<Longrightarrow>
     \<exists>n server port uuid aid cipher.
       p = [(''name'', VStr n), (''type'', VStr ''vmess''), (''server'', VStr server), (''port'', VInt port),
            (''uuid'', VStr uuid), (''alterId'', VInt aid), (''cipher'', VStr cipher)]"
  by (auto simp: parseVmess_def Let_def split: option.splits if_splits)

lemma parseVmess_plain:
  assumes "parseVmess body name = Some p"
  shows "mstr p ''type'' = ''vmess''" "\<not> tls_configured p" "TranslateTransport p = None" "GetMap p ''smux'' = None"
proof -
  obtain n server port uuid aid cipher where p:
    "p = [(''name'', VStr n), (''type'', VStr ''vmess''), (''server'', VStr server), (''port'', VInt port),
          (''uuid'', VStr uuid), (''alterId'', VInt aid), (''cipher'', VStr cipher)]"
    using parseVmess_fields[OF assms] by blast
  show "mstr p ''type'' = ''vmess''" by (simp add: p mstr_def)
  show "\<not> tls_configured p" by (simp add: p tls_configured_def GetBool_def GetMap_def GetStr_def GetStrSlice_def)
  show "TranslateTransport p = None" by (simp add: p TranslateTransport_def GetStr_def)
  show "GetMap p ''smux'' = None" by (simp add: p GetMap_def)
qed

lemma vmess_link_plain:
  assumes "parseVmess body name = Some p"
  shows "case fst (translateOneProxy valid_uuid p []) of
     None \<Rightarrow> True | Some ob \<Rightarrow> map_of ob ''tls'' = None \<and> map_of ob ''transport'' = None"
proof -
  note f = parseVmess_plain[OF assms]
  have t: "TranslateTLS p = (None, [])" using f(2) by (simp add: TranslateTLS_def)
  have "translateOneProxy valid_uuid p [] = TranslateVMess p" by (simp add: translateOneProxy_def f(1))
  then show ?thesis
    by (simp add: TranslateVMess_def Let_def t f(3,4) applyMultiplex_def split: prod.split)
qed

end
