(* ===== verification/ServiceConfig.thy ===== *)
theory ServiceConfig
  imports Watchdog InputLemmas
begin

text \<open>
  How the service turns a text into what it starts (\<open>translateConfig\<close>, \<open>extractStubTagsFromJSON\<close> of
  \<open>core/service.go\<close>).  A stub made by the translator carries its original protocol in its user name, so that
  the list of stubs can be read back from a saved configuration.  The encoder of the JSON library is a
  parameter where a text is written.
\<close>

section \<open>Values as JSON\<close>

primrec to_json :: "gval \<Rightarrow> json" where
  "to_json VNil = JNull"
| "to_json (VStr s) = JStr s"
| "to_json (VInt i) = JNum (itoa i)"
| "to_json (VInt64 i) = JNum (itoa i)"
| "to_json (VUint32 w) = JNum (itoa (uint w))"
| "to_json (VFloat n plain v) = JNum plain"
| "to_json (VBool b) = JBool b"
| "to_json (VStrs ss) = JList (map JStr ss)"
| "to_json (VInts is) = JList (map (\<lambda>i. JNum (itoa i)) is)"
| "to_json (VList vs) = JList (map to_json vs)"
| "to_json (VMap m) = JObj (map (map_prod id to_json) m)"
| "to_json (VStrMap m) = JObj (map (map_prod id JStr) m)"
| "to_json (VMaps ms) = JList (map JObj (map (map (map_prod id to_json)) ms))"
| "to_json (VStrMaps ms) = JList (map (\<lambda>m. JObj (map (map_prod id JStr) m)) ms)"
| "to_json (VOther s) = JStr s"

definition outbounds_json :: "gmap list \<Rightarrow> json" where
  "outbounds_json obs = JObj [(''outbounds'', to_json (VMaps obs))]"

section \<open>Reading the stubs back\<close>

record rawOutbound =
  raw_Type :: string
  raw_Tag :: string
  raw_Server :: string
  raw_ServerPort :: int
  raw_Username :: string

definition dec_rawOutbound :: "json \<Rightarrow> rawOutbound option" where
  "dec_rawOutbound j =
    (case (json_field dec_string ''type'' [] j, json_field dec_string ''tag'' [] j,
           json_field dec_string ''server'' [] j, json_field dec_int64 ''server_port'' 0 j,
           json_field dec_string ''username'' [] j) of
       (Some ty, Some tag, Some server, Some port, Some user) \<Rightarrow>
         Some \<lparr>raw_Type = ty, raw_Tag = tag, raw_Server = server, raw_ServerPort = port, raw_Username = user\<rparr>
     | _ \<Rightarrow> None)"

definition is_stub :: "rawOutbound \<Rightarrow> bool" where
  "is_stub ob \<longleftrightarrow>
     raw_Type ob = ''socks'' \<and> raw_Server ob = ''127.0.0.1'' \<and> raw_ServerPort ob = 1 \<and>
     has_prefix (raw_Username ob) ''unsupported:''"

definition add_stub_tag :: "rawOutbound \<Rightarrow> string gomap \<Rightarrow> string gomap" where
  "add_stub_tag ob tags =
    (if is_stub ob then mput (raw_Tag ob) (trim_prefix (raw_Username ob) ''unsupported:'') tags else tags)"

definition extract_stub_tags :: "json \<Rightarrow> string gomap" where
  "extract_stub_tags j =
    (case json_field (dec_list dec_rawOutbound) ''outbounds'' [] j of
       None \<Rightarrow> []
     | Some obs \<Rightarrow> fold add_stub_tag obs [])"

definition extractStubTagsFromJSON :: "string \<Rightarrow> string gomap" where
  "extractStubTagsFromJSON content =
    (case json_parse content of None \<Rightarrow> [] | Some j \<Rightarrow> extract_stub_tags j)"

section \<open>The configuration to start\<close>

text \<open>
  \<open>encode\<close> writes a translated configuration, \<open>proxied\<close> is \<open>ApplyRuleSetProxy\<close> on texts (it parses, rewrites
  with \<open>apply_rule_set_proxy\<close> and encodes again).
\<close>

definition translateConfig ::
  "(string \<Rightarrow> bool) \<Rightarrow> (string \<Rightarrow> RawConfig option) \<Rightarrow> (translation \<Rightarrow> string) \<Rightarrow> (string \<Rightarrow> string \<Rightarrow> string option) \<Rightarrow>
   string option list \<Rightarrow> geo_cache \<Rightarrow> string \<Rightarrow> string \<Rightarrow> start_config option" where
  "translateConfig valid_uuid yaml encode proxied geo g data ruleSetProxy =
    (case (case fst (ConvertWithMeta valid_uuid yaml geo data None g) of
             Passed_through s \<Rightarrow> Some (s, [])
           | Translated None t \<Rightarrow> Some (encode t, t_stubTags t)
           | _ \<Rightarrow> None) of
       None \<Rightarrow> None
     | Some (result, stubTags) \<Rightarrow>
         (case (if ruleSetProxy = [] then Some result else proxied result ruleSetProxy) of
            None \<Rightarrow> None
          | Some result \<Rightarrow>
              Some (result, if stubTags = [] then extractStubTagsFromJSON result else stubTags)))"

section \<open>A JSON configuration passes through\<close>

lemma sextet_alphabet: "sextet e c = Some n \<Longrightarrow> c \<in> set (alphabet e)"
proof -
  have "index_from k xs c = Some n \<Longrightarrow> c \<in> set xs" for k xs
    by (induction xs arbitrary: k) (auto split: if_splits)
  then show "sextet e c = Some n \<Longrightarrow> c \<in> set (alphabet e)" by (simp add: sextet_def)
qed

lemma decode_quanta_chars:
  "decode_quanta e s = Some d \<Longrightarrow> c \<in> set s \<Longrightarrow> c \<in> set (alphabet e) \<or> c = CHR ''=''"
  by (induction e s arbitrary: d rule: decode_quanta.induct)
    (auto split: option.splits if_splits dest: sextet_alphabet)

lemma base64_decode_chars:
  "base64_decode e s = Some d \<Longrightarrow> c \<in> set s \<Longrightarrow> c \<in> set (alphabet e) \<or> c \<in> {CHR ''='', CHR 10, CHR 13}"
  using decode_quanta_chars[of e "filter (\<lambda>c. c \<noteq> CHR 10 \<and> c \<noteq> CHR 13) s" d c]
  by (auto simp: base64_decode_def)

lemma strip_any_keeps: "list_all (\<lambda>p. c \<notin> set p) ps \<Longrightarrow> c \<in> set s \<Longrightarrow> c \<in> set (strip_any ps s)"
proof (induction ps s rule: strip_any.induct)
  case (2 ps x s)
  show ?case
  proof (cases "find (\<lambda>p. p \<noteq> [] \<and> has_prefix (x # s) p) ps")
    case None
    then show ?thesis using 2(3) by simp
  next
    case (Some p)
    then have p: "p \<noteq> []" "take (length p) (x # s) = p" "p \<in> set ps"
      by (auto simp: find_Some_iff has_prefix_def)
    have "drop (length p - 1) s = drop (length p) (x # s)" using p(1) by (cases p) simp_all
    moreover have "c \<in> set (drop (length p) (x # s))"
      using 2(2,3) p(2,3) append_take_drop_id[of "length p" "x # s"]
      by (metis Un_iff list_all_iff set_append)
    ultimately show ?thesis using "2.IH"[OF Some 2(2)] Some by simp
  qed
qed simp

lemma trim_space_keeps_brace: "CHR ''{'' \<in> set s \<Longrightarrow> CHR ''{'' \<in> set (trim_space s)"
proof -
  have "list_all (\<lambda>p. CHR ''{'' \<notin> set p) go_spaces" "list_all (\<lambda>p. CHR ''{'' \<notin> set p) (map rev go_spaces)"
    by (simp_all add: go_spaces_def)
  then show "CHR ''{'' \<in> set s \<Longrightarrow> CHR ''{'' \<in> set (trim_space s)"
    by (auto simp: trim_space_def intro!: strip_any_keeps)
qed

lemma json_object_brace: "json_parse s = Some (JObj ms) \<Longrightarrow> CHR ''{'' \<in> set s"
proof -
  assume "json_parse s = Some (JObj ms)"
  then obtain rest where "json_value (Suc (2 * length s + 1)) 10000 s = Some (JObj ms, rest)"
    by (auto simp: json_parse_def split: option.splits if_splits)
  then have "\<exists>s1. skip_space s = CHR ''{'' # s1"
    by (auto simp: map_option_case split: list.splits if_splits option.splits)
  then show ?thesis by (auto simp: skip_space_def dest!: arg_cong[of _ _ set] dest: set_dropWhileD)
qed

lemma json_object_not_base64: "json_parse s = Some (JObj ms) \<Longrightarrow> decodeBase64Input s = None"
proof -
  assume "json_parse s = Some (JObj ms)"
  then have b: "CHR ''{'' \<in> set (trim_space s)" by (intro trim_space_keeps_brace json_object_brace)
  have "base64_decode e (trim_space s) = None" if "e \<in> set all_encodings" for e
  proof (rule ccontr)
    assume "base64_decode e (trim_space s) \<noteq> None"
    then have "CHR ''{'' \<in> set (alphabet e)" using base64_decode_chars b by fastforce
    then show False
      using that by (auto simp: all_encodings_def StdEncoding_def RawStdEncoding_def URLEncoding_def
          RawURLEncoding_def std_alphabet_def url_alphabet_def)
  qed
  then show ?thesis by (simp add: decodeBase64Input_def Let_def all_encodings_def)
qed

lemma convert_json: "DetectFormat s = FormatJSON \<Longrightarrow> ConvertWithMeta valid_uuid yaml geo s opts g = (Passed_through s, g)"
  using json_object_not_base64[of s]
  by (auto simp: ConvertWithMeta_def Let_def DetectFormat_def split: option.splits json.splits if_splits)

lemma translateConfig_json:
  "DetectFormat s = FormatJSON \<Longrightarrow>
     translateConfig valid_uuid yaml encode proxied geo g s [] = Some (s, extractStubTagsFromJSON s)"
  by (simp add: translateConfig_def convert_json)

section \<open>Stubs survive\<close>

lemma stub_key_matches [simp]:
  "equal_fold ''type'' ''type''" "\<not> equal_fold ''tag'' ''type''"
  "\<not> equal_fold ''version'' ''type''" "\<not> equal_fold ''server'' ''type''"
  "\<not> equal_fold ''server_port'' ''type''" "\<not> equal_fold ''username'' ''type''"
  "\<not> equal_fold ''type'' ''tag''" "equal_fold ''tag'' ''tag''"
  "\<not> equal_fold ''version'' ''tag''" "\<not> equal_fold ''server'' ''tag''"
  "\<not> equal_fold ''server_port'' ''tag''" "\<not> equal_fold ''username'' ''tag''"
  "\<not> equal_fold ''type'' ''server''" "\<not> equal_fold ''tag'' ''server''"
  "\<not> equal_fold ''version'' ''server''" "equal_fold ''server'' ''server''"
  "\<not> equal_fold ''server_port'' ''server''" "\<not> equal_fold ''username'' ''server''"
  "\<not> equal_fold ''type'' ''server_port''" "\<not> equal_fold ''tag'' ''server_port''"
  "\<not> equal_fold ''version'' ''server_port''" "\<not> equal_fold ''server'' ''server_port''"
  "equal_fold ''server_port'' ''server_port''" "\<not> equal_fold ''username'' ''server_port''"
  "\<not> equal_fold ''type'' ''username''" "\<not> equal_fold ''tag'' ''username''"
  "\<not> equal_fold ''version'' ''username''" "\<not> equal_fold ''server'' ''username''"
  "\<not> equal_fold ''server_port'' ''username''" "equal_fold ''username'' ''username''"
  by code_simp+

lemma dec_stub:
  "dec_rawOutbound (to_json (VMap (makeStubOutbound n ty))) =
     Some \<lparr>raw_Type = ''socks'', raw_Tag = n, raw_Server = ''127.0.0.1'', raw_ServerPort = 1,
        raw_Username = ''unsupported:'' @ ty\<rparr>"
proof -
  have one: "dec_int64 (JNum (itoa 1)) = Some 1" by code_simp
  show ?thesis by (simp add: dec_rawOutbound_def json_field_def makeStubOutbound_def dec_string_def one)
qed

lemma add_stub_tags:
  "distinct (map raw_Tag obs) \<Longrightarrow> ob \<in> set obs \<Longrightarrow> is_stub ob \<Longrightarrow>
     map_of (fold add_stub_tag obs tags) (raw_Tag ob) = Some (trim_prefix (raw_Username ob) ''unsupported:'')"
proof (induction obs arbitrary: tags)
  case (Cons x obs)
  have frame: "raw_Tag ob \<notin> raw_Tag ` set obs \<Longrightarrow> map_of (fold add_stub_tag obs tags') (raw_Tag ob) = map_of tags' (raw_Tag ob)" for tags'
    by (induction obs arbitrary: tags') (auto simp: add_stub_tag_def)
  show ?case
  proof (cases "x = ob")
    case True
    then have "add_stub_tag x tags = mput (raw_Tag ob) (trim_prefix (raw_Username ob) ''unsupported:'') tags"
      using Cons.prems by (simp add: add_stub_tag_def)
    then show ?thesis using Cons.prems frame True by simp
  next
    case False
    then show ?thesis using Cons.prems Cons.IH by simp
  qed
qed simp

lemma all_some_member: "all_some (map f xs) = Some ys \<Longrightarrow> x \<in> set xs \<Longrightarrow> \<exists>y \<in> set ys. f x = Some y"
proof (induction xs arbitrary: ys)
  case (Cons a xs)
  then show ?case by (cases "f a") auto
qed simp

lemma extract_outbounds:
  assumes "all_some (map (\<lambda>ob. dec_rawOutbound (to_json (VMap ob))) obs) = Some raws" and "distinct (map raw_Tag raws)"
    and "makeStubOutbound n ty \<in> set obs"
  shows "map_of (extract_stub_tags (outbounds_json obs)) n = Some ty"
proof -
  let ?raw = "\<lparr>raw_Type = ''socks'', raw_Tag = n, raw_Server = ''127.0.0.1'', raw_ServerPort = 1,
        raw_Username = ''unsupported:'' @ ty\<rparr>"
  have r: "?raw \<in> set raws" using all_some_member[OF assms(1,3)] dec_stub by auto
  have k: "equal_fold ''outbounds'' ''outbounds''" by (simp add: equal_fold_def)
  have "extract_stub_tags (outbounds_json obs) = fold add_stub_tag raws []"
    using assms(1) by (simp add: extract_stub_tags_def outbounds_json_def json_field_def k dec_list_def o_def)
  then show ?thesis
    using add_stub_tags[OF assms(2) r] has_prefix_append[of "''unsupported:''" ty] trim_prefix_append[of "''unsupported:''" ty]
    by (simp only: is_stub_def rawOutbound.simps simp_thms)
qed

definition stubs_in :: "gmap list \<Rightarrow> translation \<Rightarrow> translation \<Rightarrow> bool" where
  "stubs_in obs t t' \<longleftrightarrow>
     (\<forall>n ty. map_of (t_stubTags t') n = Some ty \<longrightarrow>
        map_of (t_stubTags t) n = Some ty \<or> makeStubOutbound n ty \<in> set obs)"

lemma translate_entry_stubs: "translate_entry valid_uuid fp p t = (obs, t') \<Longrightarrow> stubs_in obs t t'"
  by (auto simp: translate_entry_def Let_def stubs_in_def add_stub_def add_proxy_tag_def markInvalidHealthCheckProxy_def
      makeStubOutbound_def mstr_def split: if_splits option.splits prod.splits)

lemma translateProxies_stubs: "translateProxies valid_uuid cfg t = (obs, t') \<Longrightarrow> stubs_in obs t t'"
proof -
  have "fold_out (translate_entry valid_uuid fp) ps t = (obs, t') \<Longrightarrow> stubs_in obs t t'" for fp ps
  proof (induction ps arbitrary: t obs)
    case Nil
    then show ?case by (simp add: stubs_in_def)
  next
    case (Cons p ps)
    obtain o1 t1 o2 where "translate_entry valid_uuid fp p t = (o1, t1)"
      "fold_out (translate_entry valid_uuid fp) ps t1 = (o2, t')" "obs = o1 @ o2"
      using Cons.prems by (auto split: prod.splits)
    then show ?case using translate_entry_stubs Cons.IH unfolding stubs_in_def by (metis Un_iff set_append)
  qed
  then show "translateProxies valid_uuid cfg t = (obs, t') \<Longrightarrow> stubs_in obs t t'"
    unfolding translateProxies_def by blast
qed

end
