(* ===== verification/Ipc.thy ===== *)
theory Ipc
  imports Query ServiceConfig
begin

text \<open>
  The JSON-RPC interface: \<open>ipc/types.go\<close>, \<open>ipc/handler.go\<close> and the accept loop of \<open>ipc/server.go\<close>.  What
  the handler calls of the service is the record \<open>core_api\<close> over a state; the contract a client of it relies
  on is the locale \<open>core_backend\<close> in \<open>IpcCore\<close>.  A raw JSON parameter or result is its parsed value, and
  an error is the value its text is made from.
\<close>

section \<open>Messages\<close>

record JSONRPCRequest =
  jr_JSONRPC :: string
  jr_Method :: string
  jr_Params :: "json option"
  jr_ID :: "int option"

text \<open>
  Fields that keep \<open>null\<close>: a raw message stores the value itself, a pointer is set back to \<open>nil\<close>.
\<close>

definition raw_message :: "json option \<Rightarrow> json \<Rightarrow> json option option" where
  "raw_message old v = Some (Some v)"

definition int64_pointer :: "int option \<Rightarrow> json \<Rightarrow> int option option" where
  "int64_pointer old v = (if v = JNull then Some None else map_option Some (dec_int64 v))"

definition dec_request :: "json \<Rightarrow> JSONRPCRequest option" where
  "dec_request j =
    (case (json_field dec_string ''jsonrpc'' [] j, json_field dec_string ''method'' [] j,
           object_field raw_message ''params'' None j, object_field int64_pointer ''id'' None j) of
       (Some v, Some m, Some p, Some i) \<Rightarrow> Some \<lparr>jr_JSONRPC = v, jr_Method = m, jr_Params = p, jr_ID = i\<rparr>
     | _ \<Rightarrow> None)"

definition IsNotification :: "JSONRPCRequest \<Rightarrow> bool" where
  "IsNotification r \<longleftrightarrow> jr_ID r = None"

text \<open>
  The message of an error, as the value its text is made from: the unknown method, the decoder's complaint
  about the parameters, or the error \<open>'e\<close> of the service.
\<close>

datatype 'e rpc_message = Method_not_found string | Invalid_params | Core_error 'e

record 'e JSONRPCError =
  err_Code :: int
  err_Message :: "'e rpc_message"

record 'e JSONRPCResponse =
  resp_JSONRPC :: string
  resp_Result :: "json option"
  resp_Error :: "'e JSONRPCError option"
  resp_ID :: "int option"

definition JSONRPCVersion :: string where "JSONRPCVersion = ''2.0''"

definition newError :: "int \<Rightarrow> int \<Rightarrow> 'e rpc_message \<Rightarrow> 'e JSONRPCResponse" where
  "newError i code msg = \<lparr>resp_JSONRPC = JSONRPCVersion, resp_Result = None,
     resp_Error = Some \<lparr>err_Code = code, err_Message = msg\<rparr>, resp_ID = Some i\<rparr>"

definition newResult :: "int \<Rightarrow> json \<Rightarrow> 'e JSONRPCResponse" where
  "newResult i v = \<lparr>resp_JSONRPC = JSONRPCVersion, resp_Result = Some v, resp_Error = None, resp_ID = Some i\<rparr>"

definition newEmptyResult :: "int \<Rightarrow> 'e JSONRPCResponse" where
  "newEmptyResult i = newResult i JNull"

section \<open>Parameters of the methods\<close>

record StartParams =
  sp_Content :: string
  sp_RuleSetProxy :: string

record TestDelayParams =
  td_Tag :: string
  td_TimeoutMs :: int

record TestGroupDelayParams =
  tg_GroupTag :: string
  tg_TimeoutMs :: int

record SelectProxyParams =
  sel_GroupTag :: string
  sel_OutboundTag :: string

record SetGroupExpandParams =
  ge_GroupTag :: string
  ge_Expand :: bool

definition dec_pair :: "(json \<Rightarrow> 'a option) \<Rightarrow> (json \<Rightarrow> 'b option) \<Rightarrow> ('a \<Rightarrow> 'b \<Rightarrow> 'c) \<Rightarrow> json \<Rightarrow> 'c option" where
  "dec_pair d1 d2 f j = (case (d1 j, d2 j) of (Some a, Some b) \<Rightarrow> Some (f a b) | _ \<Rightarrow> None)"

definition dec_StartParams :: "json \<Rightarrow> StartParams option" where
  "dec_StartParams = dec_pair (json_field dec_string ''content'' []) (json_field dec_string ''rule_set_proxy'' []) StartParams.make"

definition dec_TestDelayParams :: "json \<Rightarrow> TestDelayParams option" where
  "dec_TestDelayParams = dec_pair (json_field dec_string ''tag'' []) (json_field dec_int32 ''timeout_ms'' 0) TestDelayParams.make"

definition dec_TestGroupDelayParams :: "json \<Rightarrow> TestGroupDelayParams option" where
  "dec_TestGroupDelayParams =
     dec_pair (json_field dec_string ''group_tag'' []) (json_field dec_int32 ''timeout_ms'' 0) TestGroupDelayParams.make"

definition dec_SelectProxyParams :: "json \<Rightarrow> SelectProxyParams option" where
  "dec_SelectProxyParams =
     dec_pair (json_field dec_string ''group_tag'' []) (json_field dec_string ''outbound_tag'' []) SelectProxyParams.make"

definition dec_SetGroupExpandParams :: "json \<Rightarrow> SetGroupExpandParams option" where
  "dec_SetGroupExpandParams =
     dec_pair (json_field dec_string ''group_tag'' []) (json_field dec_bool ''expand'' False) SetGroupExpandParams.make"

text \<open>\<open>SetModeParams\<close>, \<open>CloseConnectionParams\<close>, \<open>CheckConfigParams\<close>, \<open>ConvertParams\<close> and \<open>SetLogLevelParams\<close> have one field.\<close>

definition dec_SetModeParams :: "json \<Rightarrow> string option" where "dec_SetModeParams = json_field dec_string ''mode'' []"
definition dec_CloseConnectionParams :: "json \<Rightarrow> string option" where
  "dec_CloseConnectionParams = json_field dec_string ''id'' []"
definition dec_CheckConfigParams :: "json \<Rightarrow> string option" where
  "dec_CheckConfigParams = json_field dec_string ''content'' []"
definition dec_ConvertParams :: "json \<Rightarrow> string option" where "dec_ConvertParams = json_field dec_string ''content'' []"
definition dec_SetLogLevelParams :: "json \<Rightarrow> int option" where "dec_SetLogLevelParams = json_field dec_int32 ''level'' 0"

section \<open>The service as the handler sees it\<close>

text \<open>Each operation that can fail returns its error, or \<open>None\<close>, and the new state; \<open>CheckConfig\<close> returns a text.\<close>

record ('e, 's) core_api =
  api_StartWithContent :: "string \<Rightarrow> string \<Rightarrow> 's \<Rightarrow> 'e option \<times> 's"
  api_Stop :: "'s \<Rightarrow> 'e option \<times> 's"
  api_State :: "'s \<Rightarrow> State"
  api_QueryStats :: "'s \<Rightarrow> json"
  api_QueryProxies :: "'s \<Rightarrow> json"
  api_QueryConnections :: "'s \<Rightarrow> json"
  api_QueryMode :: "'s \<Rightarrow> json"
  api_QueryRules :: "'s \<Rightarrow> json"
  api_URLTest :: "string \<Rightarrow> int \<Rightarrow> 's \<Rightarrow> int"
  api_TestGroupDelay :: "string \<Rightarrow> int \<Rightarrow> 's \<Rightarrow> json"
  api_SelectOutbound :: "string \<Rightarrow> string \<Rightarrow> 's \<Rightarrow> 'e option \<times> 's"
  api_SetMode :: "string \<Rightarrow> 's \<Rightarrow> 'e option \<times> 's"
  api_CloseConnection :: "string \<Rightarrow> 's \<Rightarrow> 'e option \<times> 's"
  api_CloseConnections :: "'s \<Rightarrow> 'e option \<times> 's"
  api_SetGroupExpand :: "string \<Rightarrow> bool \<Rightarrow> 's \<Rightarrow> 'e option \<times> 's"
  api_FlushFakeIP :: "'s \<Rightarrow> 'e option \<times> 's"
  api_FlushDNSCache :: "'s \<Rightarrow> 'e option \<times> 's"
  api_FlushSystemDNS :: "'s \<Rightarrow> 's"
  api_ResetNetwork :: "'s \<Rightarrow> 's"
  api_TriggerGC :: "'s \<Rightarrow> 's"
  api_VersionJSON :: json
  api_CheckConfig :: "string \<Rightarrow> string option"
  api_Convert :: "string \<Rightarrow> 'e + string"
  api_SetLogLevel :: "int \<Rightarrow> 's \<Rightarrow> 's"

section \<open>The handler\<close>

text \<open>A method with parameters: without them, or with wrong ones, the answer is error -32602.\<close>

definition with_params ::
  "(json \<Rightarrow> 'p option) \<Rightarrow> ('p \<Rightarrow> 's \<Rightarrow> 'e JSONRPCResponse \<times> 's) \<Rightarrow> JSONRPCRequest \<Rightarrow> int \<Rightarrow> 's \<Rightarrow> 'e JSONRPCResponse \<times> 's" where
  "with_params dec run req i s =
    (case Option.bind (jr_Params req) dec of
       None \<Rightarrow> (newError i (-32602) Invalid_params, s)
     | Some p \<Rightarrow> run p s)"

definition handleVoid :: "int \<Rightarrow> 'e option \<times> 's \<Rightarrow> 'e JSONRPCResponse \<times> 's" where
  "handleVoid i r =
    (case r of (Some e, s) \<Rightarrow> (newError i 1 (Core_error e), s) | (None, s) \<Rightarrow> (newEmptyResult i, s))"

definition handleRawJSON :: "int \<Rightarrow> json \<Rightarrow> 's \<Rightarrow> 'e JSONRPCResponse \<times> 's" where
  "handleRawJSON i raw s = (newResult i raw, s)"

definition handleStartWithContent :: "('e, 's) core_api \<Rightarrow> JSONRPCRequest \<Rightarrow> int \<Rightarrow> 's \<Rightarrow> 'e JSONRPCResponse \<times> 's" where
  "handleStartWithContent api req i =
    with_params dec_StartParams (\<lambda>p s. handleVoid i (api_StartWithContent api (sp_Content p) (sp_RuleSetProxy p) s)) req i"

definition handleTestDelay :: "('e, 's) core_api \<Rightarrow> JSONRPCRequest \<Rightarrow> int \<Rightarrow> 's \<Rightarrow> 'e JSONRPCResponse \<times> 's" where
  "handleTestDelay api req i =
    with_params dec_TestDelayParams
      (\<lambda>p s. (newResult i (JObj [(''delay'', jint (api_URLTest api (td_Tag p) (td_TimeoutMs p) s))]), s)) req i"

definition handleTestGroupDelay :: "('e, 's) core_api \<Rightarrow> JSONRPCRequest \<Rightarrow> int \<Rightarrow> 's \<Rightarrow> 'e JSONRPCResponse \<times> 's" where
  "handleTestGroupDelay api req i =
    with_params dec_TestGroupDelayParams
      (\<lambda>p s. handleRawJSON i (api_TestGroupDelay api (tg_GroupTag p) (tg_TimeoutMs p) s) s) req i"

definition handleSelectProxy :: "('e, 's) core_api \<Rightarrow> JSONRPCRequest \<Rightarrow> int \<Rightarrow> 's \<Rightarrow> 'e JSONRPCResponse \<times> 's" where
  "handleSelectProxy api req i =
    with_params dec_SelectProxyParams
      (\<lambda>p s. handleVoid i (api_SelectOutbound api (sel_GroupTag p) (sel_OutboundTag p) s)) req i"

definition handleSetMode :: "('e, 's) core_api \<Rightarrow> JSONRPCRequest \<Rightarrow> int \<Rightarrow> 's \<Rightarrow> 'e JSONRPCResponse \<times> 's" where
  "handleSetMode api req i = with_params dec_SetModeParams (\<lambda>m s. handleVoid i (api_SetMode api m s)) req i"

definition handleCloseConnection :: "('e, 's) core_api \<Rightarrow> JSONRPCRequest \<Rightarrow> int \<Rightarrow> 's \<Rightarrow> 'e JSONRPCResponse \<times> 's" where
  "handleCloseConnection api req i =
    with_params dec_CloseConnectionParams (\<lambda>c s. handleVoid i (api_CloseConnection api c s)) req i"

definition handleSetGroupExpand :: "('e, 's) core_api \<Rightarrow> JSONRPCRequest \<Rightarrow> int \<Rightarrow> 's \<Rightarrow> 'e JSONRPCResponse \<times> 's" where
  "handleSetGroupExpand api req i =
    with_params dec_SetGroupExpandParams
      (\<lambda>p s. handleVoid i (api_SetGroupExpand api (ge_GroupTag p) (ge_Expand p) s)) req i"

definition handleCheckConfig :: "('e, 's) core_api \<Rightarrow> JSONRPCRequest \<Rightarrow> int \<Rightarrow> 's \<Rightarrow> 'e JSONRPCResponse \<times> 's" where
  "handleCheckConfig api req i =
    with_params dec_CheckConfigParams
      (\<lambda>c s. (newResult i (JObj [(''error'', JStr (case api_CheckConfig api c of None \<Rightarrow> [] | Some e \<Rightarrow> e))]), s)) req i"

definition handleConvert :: "('e, 's) core_api \<Rightarrow> JSONRPCRequest \<Rightarrow> int \<Rightarrow> 's \<Rightarrow> 'e JSONRPCResponse \<times> 's" where
  "handleConvert api req i =
    with_params dec_ConvertParams
      (\<lambda>c s. (case api_Convert api c of
                Inl e \<Rightarrow> newError i 1 (Core_error e)
              | Inr text \<Rightarrow> newResult i (JObj [(''json'', JStr text)]), s)) req i"

definition handleSetLogLevel :: "('e, 's) core_api \<Rightarrow> JSONRPCRequest \<Rightarrow> int \<Rightarrow> 's \<Rightarrow> 'e JSONRPCResponse \<times> 's" where
  "handleSetLogLevel api req i =
    with_params dec_SetLogLevelParams (\<lambda>l s. (newEmptyResult i, api_SetLogLevel api l s)) req i"

text \<open>The dispatch, in the order of the switch.\<close>

definition request_id :: "JSONRPCRequest \<Rightarrow> int" where
  "request_id req = (case jr_ID req of None \<Rightarrow> 0 | Some i \<Rightarrow> i)"

definition method_table ::
  "('e, 's) core_api \<Rightarrow> JSONRPCRequest \<Rightarrow> int \<Rightarrow> (string \<times> ('s \<Rightarrow> 'e JSONRPCResponse \<times> 's)) list" where
  "method_table api req i =
    [(''core.startWithContent'', handleStartWithContent api req i),
     (''core.stop'', \<lambda>s. handleVoid i (api_Stop api s)),
     (''core.queryState'', \<lambda>s. (newResult i (JStr (State_String (api_State api s))), s)),
     (''core.queryStats'', \<lambda>s. handleRawJSON i (api_QueryStats api s) s),
     (''core.queryProxies'', \<lambda>s. handleRawJSON i (api_QueryProxies api s) s),
     (''core.queryConnections'', \<lambda>s. handleRawJSON i (api_QueryConnections api s) s),
     (''core.queryMode'', \<lambda>s. handleRawJSON i (api_QueryMode api s) s),
     (''core.queryRules'', \<lambda>s. handleRawJSON i (api_QueryRules api s) s),
     (''core.testDelay'', handleTestDelay api req i),
     (''core.testGroupDelay'', handleTestGroupDelay api req i),
     (''core.selectProxy'', handleSelectProxy api req i),
     (''core.setMode'', handleSetMode api req i),
     (''core.closeConnection'', handleCloseConnection api req i),
     (''core.closeAllConnections'', \<lambda>s. handleVoid i (api_CloseConnections api s)),
     (''core.setGroupExpand'', handleSetGroupExpand api req i),
     (''core.flushFakeIP'', \<lambda>s. handleVoid i (api_FlushFakeIP api s)),
     (''core.flushDNSCache'', \<lambda>s. handleVoid i (api_FlushDNSCache api s)),
     (''core.flushSystemDNS'', \<lambda>s. (newEmptyResult i, api_FlushSystemDNS api s)),
     (''core.resetNetwork'', \<lambda>s. (newEmptyResult i, api_ResetNetwork api s)),
     (''core.triggerGC'', \<lambda>s. (newEmptyResult i, api_TriggerGC api s)),
     (''core.getVersion'', handleRawJSON i (api_VersionJSON api)),
     (''core.checkConfig'', handleCheckConfig api req i),
     (''core.convert'', handleConvert api req i),
     (''core.setLogLevel'', handleSetLogLevel api req i)]"

definition Handle :: "('e, 's) core_api \<Rightarrow> JSONRPCRequest \<Rightarrow> 's \<Rightarrow> 'e JSONRPCResponse \<times> 's" where
  "Handle api req s =
    (case map_of (method_table api req (request_id req)) (jr_Method req) of
       None \<Rightarrow> (newError (request_id req) (-32601) (Method_not_found (jr_Method req)), s)
     | Some run \<Rightarrow> run s)"

section \<open>Responses\<close>

text \<open>A response carries the id of its request and either a result or an error, never both.\<close>

definition answers :: "JSONRPCRequest \<Rightarrow> 'e JSONRPCResponse \<Rightarrow> bool" where
  "answers req r \<longleftrightarrow>
     resp_JSONRPC r = JSONRPCVersion \<and> resp_ID r = Some (request_id req) \<and> (resp_Result r = None \<longleftrightarrow> resp_Error r \<noteq> None)"

named_theorems handler_defs

lemmas [handler_defs] = handleStartWithContent_def handleTestDelay_def handleTestGroupDelay_def handleSelectProxy_def
  handleSetMode_def handleCloseConnection_def handleSetGroupExpand_def handleCheckConfig_def handleConvert_def
  handleSetLogLevel_def

lemma answers_simps [simp]:
  "answers req (newError (request_id req) code msg)" "answers req (newResult (request_id req) v)"
  "answers req (newEmptyResult (request_id req))"
  "answers req (fst (handleVoid (request_id req) r))" "answers req (fst (handleRawJSON (request_id req) v s))"
  by (auto simp: answers_def newError_def newResult_def newEmptyResult_def handleVoid_def handleRawJSON_def
      split: prod.split option.split)

lemma with_params_answers:
  "(\<And>p s. answers req (fst (run p s))) \<Longrightarrow> answers req (fst (with_params dec run req (request_id req) s))"
  by (simp add: with_params_def split: option.split)

lemma method_table_answers:
  "(m, run) \<in> set (method_table api req (request_id req)) \<Longrightarrow> answers req (fst (run s))"
  by (auto simp: method_table_def handler_defs intro!: with_params_answers split: sum.split)

lemma Handle_answers: "answers req (fst (Handle api req s))"
  by (auto simp: Handle_def split: option.split dest!: map_of_SomeD intro: method_table_answers)

end
