(* ===== verification/IpcCore.thy ===== *)
theory IpcCore
  imports Ipc
begin

text \<open>
  The contract between the JSON-RPC handler and the service, as a locale, and its interpretation on the model
  of the service: the sequential service of \<open>ServiceSeq\<close> together with the view of its instance of \<open>Query\<close>.
\<close>

section \<open>The contract\<close>

text \<open>
  Every operation keeps the invariant of the service; a start that succeeds leaves it running, and a stop
  leaves it not running.
\<close>

locale core_backend =
  fixes api :: "('e, 's) core_api" and I :: "'s \<Rightarrow> bool"
  assumes start_keeps: "I s \<Longrightarrow> I (snd (api_StartWithContent api c p s))"
    and stop_keeps: "I s \<Longrightarrow> I (snd (api_Stop api s))"
    and select_keeps: "I s \<Longrightarrow> I (snd (api_SelectOutbound api g t s))"
    and mode_keeps: "I s \<Longrightarrow> I (snd (api_SetMode api m s))"
    and close_keeps: "I s \<Longrightarrow> I (snd (api_CloseConnection api c s))"
    and close_all_keeps: "I s \<Longrightarrow> I (snd (api_CloseConnections api s))"
    and expand_keeps: "I s \<Longrightarrow> I (snd (api_SetGroupExpand api g b s))"
    and fakeip_keeps: "I s \<Longrightarrow> I (snd (api_FlushFakeIP api s))"
    and dns_keeps: "I s \<Longrightarrow> I (snd (api_FlushDNSCache api s))"
    and system_keeps: "I s \<Longrightarrow> I (api_FlushSystemDNS api s)" "I s \<Longrightarrow> I (api_ResetNetwork api s)"
      "I s \<Longrightarrow> I (api_TriggerGC api s)" "I s \<Longrightarrow> I (api_SetLogLevel api l s)"
    and start_ok: "I s \<Longrightarrow> api_StartWithContent api c p s = (None, s') \<Longrightarrow> api_State api s' = StateRunning"
    and stop_ok: "I s \<Longrightarrow> api_State api (snd (api_Stop api s)) \<noteq> StateRunning"
begin

lemmas keeps = start_keeps stop_keeps select_keeps mode_keeps close_keeps close_all_keeps expand_keeps
  fakeip_keeps dns_keeps system_keeps

lemma with_params_keeps:
  "(\<And>p. I (snd (run p s))) \<Longrightarrow> I s \<Longrightarrow> I (snd (with_params dec run req i s))"
  by (simp add: with_params_def split: option.split)

lemma handleVoid_keeps: "I (snd r) \<Longrightarrow> I (snd (handleVoid i r))"
  by (auto simp: handleVoid_def split: prod.splits option.splits)

lemma handleRawJSON_keeps: "I s \<Longrightarrow> I (snd (handleRawJSON i v s))"
  by (simp add: handleRawJSON_def)

lemma method_table_keeps: "(m, run) \<in> set (method_table api req i) \<Longrightarrow> I s \<Longrightarrow> I (snd (run s))"
  by (auto simp: method_table_def handler_defs
      intro!: with_params_keeps handleVoid_keeps handleRawJSON_keeps keeps split: sum.split)

lemma Handle_keeps: "I s \<Longrightarrow> I (snd (Handle api req s))"
  by (auto simp: Handle_def split: option.split dest!: map_of_SomeD intro: method_table_keeps)

lemma Handle_start:
  "I s \<Longrightarrow> jr_Method req = ''core.startWithContent'' \<Longrightarrow> resp_Error (fst (Handle api req s)) = None \<Longrightarrow>
     api_State api (snd (Handle api req s)) = StateRunning"
  by (auto simp: Handle_def method_table_def handleStartWithContent_def with_params_def handleVoid_def newError_def
      newEmptyResult_def newResult_def intro: start_ok split: option.splits prod.splits)

lemma Handle_stop:
  "I s \<Longrightarrow> jr_Method req = ''core.stop'' \<Longrightarrow> api_State api (snd (Handle api req s)) \<noteq> StateRunning"
  using stop_ok[of s]
  by (auto simp: Handle_def method_table_def handleVoid_def split: option.splits prod.splits)

end

section \<open>The model of the service\<close>

text \<open>What the kernel library and the other parameters of the model do, collected.\<close>

record library =
  lib_translate :: "string \<Rightarrow> string \<Rightarrow> start_config option"
  lib_start :: "start_config option \<Rightarrow> call"
  lib_stop :: call
  lib_boot :: "start_config option \<Rightarrow> kernel_view"
  lib_url_test :: "string \<Rightarrow> int \<Rightarrow> 16 word option"
  lib_ready :: "string \<Rightarrow> int \<Rightarrow> bool"
  lib_accept_mode :: "string \<Rightarrow> string list \<Rightarrow> string option"
  lib_parse_uuid :: "string \<Rightarrow> string option"
  lib_close_conn :: "string \<Rightarrow> close_result"
  lib_expand_failure :: "string option"
  lib_fakeip_failure :: "string option"
  lib_check :: "string \<Rightarrow> string option"
  lib_convert :: "string \<Rightarrow> string + string"
  lib_version :: json

text \<open>The service with what its instance looks like, and the log level.\<close>

record core =
  co_service :: service
  co_view :: kernel_view
  co_level :: int

datatype core_failure = Call_failed result | Control_failed control_error | Convert_failed string

definition core_running :: "core \<Rightarrow> running_view" where
  "core_running s = map_option (\<lambda>rs. (rs, co_view s)) (running (co_service s))"

definition last_result :: "service \<Rightarrow> core_failure option" where
  "last_result s =
    (case snd (last (results s)) of Return_nil \<Rightarrow> None | r \<Rightarrow> Some (Call_failed r))"

text \<open>\<open>StartWithContent\<close> on the whole state: a new instance looks as the library makes it.\<close>

definition core_start :: "library \<Rightarrow> string \<Rightarrow> string \<Rightarrow> core \<Rightarrow> core_failure option \<times> core" where
  "core_start lib content proxy s =
    (let cfg = lib_translate lib content proxy;
         svc = perform 0 (CallStart cfg) (lib_start lib cfg) (co_service s);
         view = (if running svc = running (co_service s) then co_view s else lib_boot lib cfg)
     in (last_result svc, s\<lparr>co_service := svc, co_view := view\<rparr>))"

definition core_stop :: "library \<Rightarrow> core \<Rightarrow> core_failure option \<times> core" where
  "core_stop lib s =
    (let svc = perform 0 CallStop (lib_stop lib) (co_service s) in (last_result svc, s\<lparr>co_service := svc\<rparr>))"

text \<open>A control operation changes the view only.\<close>

definition on_view :: "(running_view \<Rightarrow> control_error option \<times> running_view) \<Rightarrow> core \<Rightarrow> core_failure option \<times> core" where
  "on_view op s =
    (case op (core_running s) of
       (e, r) \<Rightarrow> (map_option Control_failed e, case r of None \<Rightarrow> s | Some (rs, kv) \<Rightarrow> s\<lparr>co_view := kv\<rparr>))"

definition singcast_api :: "library \<Rightarrow> (core_failure, core) core_api" where
  "singcast_api lib = \<lparr>
     api_StartWithContent = core_start lib,
     api_Stop = core_stop lib,
     api_State = (\<lambda>s. state (co_service s)),
     api_QueryStats = (\<lambda>s. QueryStats (core_running s)),
     api_QueryProxies = (\<lambda>s. QueryProxies (core_running s)),
     api_QueryConnections = (\<lambda>s. QueryConnections (core_running s)),
     api_QueryMode = (\<lambda>s. QueryMode (core_running s)),
     api_QueryRules = (\<lambda>s. QueryRules (core_running s)),
     api_URLTest = (\<lambda>tag ms s. URLTest (\<lambda>tag. lib_url_test lib tag ms) (core_running s) tag),
     api_TestGroupDelay = (\<lambda>tag ms s.
       JObj (map (map_prod id jint)
         (TestGroupDelay (\<lambda>tag. lib_url_test lib tag ms) (\<lambda>tag. lib_ready lib tag ms) (core_running s) tag))),
     api_SelectOutbound = (\<lambda>g t. on_view (SelectOutbound g t)),
     api_SetMode = (\<lambda>m. on_view (SetMode (lib_accept_mode lib) m)),
     api_CloseConnection = (\<lambda>c. on_view (\<lambda>r. (CloseConnection (lib_parse_uuid lib) (lib_close_conn lib) c r, r))),
     api_CloseConnections = on_view (CloseConnections (lib_close_conn lib)),
     api_SetGroupExpand = (\<lambda>g b. on_view (SetGroupExpand (lib_expand_failure lib) g b)),
     api_FlushFakeIP = on_view (FlushFakeIP (lib_fakeip_failure lib)),
     api_FlushDNSCache = on_view FlushDNSCache,
     api_FlushSystemDNS = (\<lambda>s. s),
     api_ResetNetwork = (\<lambda>s. snd (on_view (\<lambda>r. (None, ResetNetwork r)) s)),
     api_TriggerGC = (\<lambda>s. s),
     api_VersionJSON = lib_version lib,
     api_CheckConfig = lib_check lib,
     api_Convert = (\<lambda>c. case lib_convert lib c of Inl e \<Rightarrow> Inl (Convert_failed e) | Inr t \<Rightarrow> Inr t),
     api_SetLogLevel = (\<lambda>l s. s\<lparr>co_level := l\<rparr>)\<rparr>"

definition core_ok :: "core \<Rightarrow> bool" where "core_ok s \<longleftrightarrow> quiet (co_service s)"

lemma on_view_service [simp]: "co_service (snd (on_view op s)) = co_service s"
  by (simp add: on_view_def split: prod.split option.split)

lemma quiet_running: "quiet s \<Longrightarrow> kernel_of s = Serving cfg \<Longrightarrow> state s = StateRunning"
  by (auto simp: quiet_def kernel_of_def split: State.splits option.splits)

lemma quiet_not_running: "quiet s \<Longrightarrow> state s = StateRunning \<Longrightarrow> \<exists>cfg. kernel_of s = Serving cfg"
  by (auto simp: quiet_def kernel_of_def split: option.splits)

lemma start_kernel_nil: "snd (start_kernel c cfg k) = Return_nil \<Longrightarrow> \<exists>json. fst (start_kernel c cfg k) = Serving json"
  by (auto simp: start_kernel_def split: option.splits prod.splits if_splits)

lemma core_start_ok:
  assumes q: "quiet (co_service s)" and r: "core_start lib content proxy s = (None, s')"
  shows "state (co_service s') = StateRunning"
proof -
  define cfg where "cfg = lib_translate lib content proxy"
  define c where "c = lib_start lib cfg"
  have p: "refines 0 (CallStart cfg) c (co_service s)" using q by (rule perform_refines) (simp add: is_call_def)
  have s': "co_service s' = perform 0 (CallStart cfg) c (co_service s)" "last_result (co_service s') = None"
    using r by (auto simp: core_start_def Let_def cfg_def c_def)
  have "snd (start_kernel c cfg (kernel_of (co_service s))) = Return_nil"
    using p s'(2) by (auto simp: refines_def s'(1) last_result_def split: result.splits)
  then obtain json where "kernel_of (co_service s') = Serving json"
    using p start_kernel_nil by (fastforce simp: refines_def s'(1))
  moreover have "quiet (co_service s')" using p by (simp add: refines_def s'(1))
  ultimately show ?thesis by (rule quiet_running[rotated])
qed

lemma core_stop_ok: "quiet (co_service s) \<Longrightarrow> state (co_service (snd (core_stop lib s))) \<noteq> StateRunning"
proof -
  assume "quiet (co_service s)"
  then have p: "refines 0 CallStop (lib_stop lib) (co_service s)" by (rule perform_stop)
  have "stop_kernel k \<noteq> Serving cfg" for k cfg by (cases k) (simp_all add: stop_kernel_def)
  then show ?thesis
    using p quiet_not_running[of "perform 0 CallStop (lib_stop lib) (co_service s)"]
    by (auto simp: refines_def core_stop_def Let_def)
qed

interpretation singcast: core_backend "singcast_api lib" core_ok for lib
proof
  show "core_ok s \<Longrightarrow> core_ok (snd (api_StartWithContent (singcast_api lib) c p s))" for s c p
    using perform_refines[of "co_service s" "CallStart (lib_translate lib c p)" 0]
    by (simp add: singcast_api_def core_ok_def core_start_def Let_def is_call_def refines_def)
  show "core_ok s \<Longrightarrow> core_ok (snd (api_Stop (singcast_api lib) s))" for s
    using perform_stop[of "co_service s" 0]
    by (simp add: singcast_api_def core_ok_def core_stop_def Let_def refines_def)
  show "core_ok s \<Longrightarrow> api_StartWithContent (singcast_api lib) c p s = (None, s') \<Longrightarrow>
      api_State (singcast_api lib) s' = StateRunning" for s c p s'
    using core_start_ok by (simp add: singcast_api_def core_ok_def)
  show "core_ok s \<Longrightarrow> api_State (singcast_api lib) (snd (api_Stop (singcast_api lib) s)) \<noteq> StateRunning" for s
    using core_stop_ok by (simp add: singcast_api_def core_ok_def)
qed (simp_all add: singcast_api_def core_ok_def)

text \<open>A sequence of requests, handled one after the other.\<close>

definition handle_all :: "('e, 's) core_api \<Rightarrow> JSONRPCRequest list \<Rightarrow> 's \<Rightarrow> 's" where
  "handle_all api reqs s = fold (\<lambda>req s. snd (Handle api req s)) reqs s"

lemma handle_all_ok: "core_ok s \<Longrightarrow> core_ok (handle_all (singcast_api lib) reqs s)"
  unfolding handle_all_def by (induction reqs arbitrary: s) (simp_all add: singcast.Handle_keeps)

end
