(* ===== verification/IpcServer.thy ===== *)
theory IpcServer
  imports IpcCore "HOL-Library.Multiset"
begin

text \<open>
  The accept loop of \<open>ipc/server.go\<close> as a state machine.  One client is served at a time; a request with an id
  is handled by a goroutine of its own, so requests are answered in any order, also after their connection
  has gone; a notification is handled before the next message is read.  The handling of one request is one
  step here; its interleaving with other calls of the service is the subject of \<open>ServiceInv\<close>.
\<close>

section \<open>State and events\<close>

datatype 'e message = Response "'e JSONRPCResponse" | Notification string "json option"

datatype loop = Listening | Connected nat | Ended

text \<open>
  \<open>sv_active\<close> is the connection that gets the notifications, \<open>sv_pending\<close> the requests whose goroutines have
  not finished.  \<open>sv_received\<close> and \<open>sv_sent\<close> record the requests and the messages with their connections; a
  message written to a closed connection is lost by the socket, not by the server.
\<close>

record ('e, 's) server =
  sv_loop :: loop
  sv_conns :: nat
  sv_active :: "nat option"
  sv_cancelled :: bool
  sv_pending :: "(nat \<times> JSONRPCRequest) list"
  sv_received :: "(nat \<times> JSONRPCRequest) list"
  sv_sent :: "(nat \<times> 'e message) list"
  sv_core :: 's

definition NewServer :: "'s \<Rightarrow> ('e, 's) server" where
  "NewServer s = \<lparr>sv_loop = Listening, sv_conns = 0, sv_active = None, sv_cancelled = False, sv_pending = [],
     sv_received = [], sv_sent = [], sv_core = s\<rparr>"

text \<open>What can happen: \<open>Finish k\<close> is the end of the goroutine of the k-th pending request.\<close>

datatype event = Cancel | Accept | Accept_fails | Request JSONRPCRequest | Disconnect | Finish nat | Core_event int string

section \<open>The steps\<close>

definition serve_accept :: "('e, 's) server \<Rightarrow> ('e, 's) server option" where
  "serve_accept sv =
    (if sv_loop sv \<noteq> Listening then None
     else Some (sv\<lparr>sv_loop := Connected (sv_conns sv), sv_active := Some (sv_conns sv), sv_conns := sv_conns sv + 1\<rparr>))"

definition accept_error :: "('e, 's) server \<Rightarrow> ('e, 's) server option" where
  "accept_error sv =
    (if sv_loop sv \<noteq> Listening then None
     else Some (if sv_cancelled sv then sv\<lparr>sv_loop := Ended\<rparr> else sv))"

definition handleRequest :: "('e, 's) core_api \<Rightarrow> nat \<Rightarrow> JSONRPCRequest \<Rightarrow> ('e, 's) server \<Rightarrow> ('e, 's) server" where
  "handleRequest api c req sv =
    (if IsNotification req then sv\<lparr>sv_core := snd (Handle api req (sv_core sv))\<rparr>
     else sv\<lparr>sv_pending := sv_pending sv @ [(c, req)]\<rparr>)"

definition serve_request :: "('e, 's) core_api \<Rightarrow> JSONRPCRequest \<Rightarrow> ('e, 's) server \<Rightarrow> ('e, 's) server option" where
  "serve_request api req sv =
    (case sv_loop sv of
       Connected c \<Rightarrow> Some (handleRequest api c req (sv\<lparr>sv_received := sv_received sv @ [(c, req)]\<rparr>))
     | _ \<Rightarrow> None)"

text \<open>The end of a connection: the loop goes on only while the kernel runs.\<close>

definition serve_disconnect :: "('e, 's) core_api \<Rightarrow> ('e, 's) server \<Rightarrow> ('e, 's) server option" where
  "serve_disconnect api sv =
    (case sv_loop sv of
       Connected c \<Rightarrow>
         Some (sv\<lparr>sv_active := if sv_active sv = Some c then None else sv_active sv,
                 sv_loop := if api_State api (sv_core sv) = StateRunning then Listening else Ended\<rparr>)
     | _ \<Rightarrow> None)"

definition finish_request :: "('e, 's) core_api \<Rightarrow> nat \<Rightarrow> ('e, 's) server \<Rightarrow> ('e, 's) server option" where
  "finish_request api k sv =
    (if k < length (sv_pending sv) then
       (case sv_pending sv ! k of
          (c, req) \<Rightarrow>
            (case Handle api req (sv_core sv) of
               (r, s) \<Rightarrow>
                 Some (sv\<lparr>sv_pending := take k (sv_pending sv) @ drop (Suc k) (sv_pending sv),
                         sv_sent := sv_sent sv @ [(c, Response r)], sv_core := s\<rparr>)))
     else None)"

text \<open>
  Events of the core become notifications on the active connection.  A payload that is passed on raw has to be
  JSON, or encoding the message fails and it is dropped.
\<close>

definition sendNotification :: "string \<Rightarrow> json option \<Rightarrow> ('e, 's) server \<Rightarrow> ('e, 's) server" where
  "sendNotification name params sv =
    (case sv_active sv of None \<Rightarrow> sv | Some c \<Rightarrow> sv\<lparr>sv_sent := sv_sent sv @ [(c, Notification name params)]\<rparr>)"

definition send_raw :: "string \<Rightarrow> string \<Rightarrow> ('e, 's) server \<Rightarrow> ('e, 's) server" where
  "send_raw name payload sv =
    (case json_parse payload of None \<Rightarrow> sv | Some j \<Rightarrow> sendNotification name (Some j) sv)"

definition onCoreEvent :: "int \<Rightarrow> string \<Rightarrow> ('e, 's) server \<Rightarrow> ('e, 's) server" where
  "onCoreEvent ty payload sv =
    (if ty = 0 then send_raw ''event.log'' payload sv
     else if ty = 1 then sendNotification ''event.urlTest'' None sv
     else if ty = 2 then sendNotification ''event.modeUpdate'' (Some (JObj [(''mode'', JStr payload)])) sv
     else if ty = 3 then send_raw ''event.connEvent'' payload sv
     else if ty = 4 then sendNotification ''event.stateUpdate'' (Some (JObj [(''state'', JStr payload)])) sv
     else if ty = 5 then send_raw ''event.trafficUpdate'' payload sv
     else sv)"

definition server_step :: "('e, 's) core_api \<Rightarrow> event \<Rightarrow> ('e, 's) server \<Rightarrow> ('e, 's) server option" where
  "server_step api ev sv =
    (case ev of
       Cancel \<Rightarrow> Some (sv\<lparr>sv_cancelled := True\<rparr>)
     | Accept \<Rightarrow> serve_accept sv
     | Accept_fails \<Rightarrow> accept_error sv
     | Request req \<Rightarrow> serve_request api req sv
     | Disconnect \<Rightarrow> serve_disconnect api sv
     | Finish k \<Rightarrow> finish_request api k sv
     | Core_event ty payload \<Rightarrow> Some (onCoreEvent ty payload sv))"

fun server_run :: "('e, 's) core_api \<Rightarrow> event list \<Rightarrow> ('e, 's) server \<Rightarrow> ('e, 's) server option" where
  "server_run api [] sv = Some sv"
| "server_run api (ev # evs) sv =
     (case server_step api ev sv of None \<Rightarrow> None | Some sv' \<Rightarrow> server_run api evs sv')"

section \<open>Every request is answered once\<close>

definition ids_on :: "nat \<Rightarrow> (nat \<times> JSONRPCRequest) list \<Rightarrow> int multiset" where
  "ids_on c reqs = mset (map (\<lambda>(_, r). request_id r) (filter (\<lambda>(c', r). c' = c \<and> \<not> IsNotification r) reqs))"

definition answered_id :: "nat \<Rightarrow> nat \<times> 'e message \<Rightarrow> int multiset" where
  "answered_id c m =
    (case m of
       (c', Response r) \<Rightarrow> (case resp_ID r of Some i \<Rightarrow> if c' = c then {#i#} else {#} | None \<Rightarrow> {#})
     | _ \<Rightarrow> {#})"

definition answers_on :: "nat \<Rightarrow> (nat \<times> 'e message) list \<Rightarrow> int multiset" where
  "answers_on c ms = \<Sum>\<^sub># (mset (map (answered_id c) ms))"

definition accounted :: "('e, 's) server \<Rightarrow> bool" where
  "accounted sv \<longleftrightarrow>
     (\<forall>(c, r) \<in> set (sv_pending sv). \<not> IsNotification r) \<and>
     (\<forall>c. answers_on c (sv_sent sv) + ids_on c (sv_pending sv) = ids_on c (sv_received sv))"

lemma ids_on_append [simp]: "ids_on c (xs @ ys) = ids_on c xs + ids_on c ys"
  by (simp add: ids_on_def)

lemma ids_on_simps [simp]:
  "ids_on c [] = {#}"
  "ids_on c ((c', r) # rs) = (if c' = c \<and> \<not> IsNotification r then {#request_id r#} else {#}) + ids_on c rs"
  by (simp_all add: ids_on_def)

lemma answers_on_append [simp]: "answers_on c (xs @ ys) = answers_on c xs + answers_on c ys"
  by (simp add: answers_on_def)

lemma answers_on_simps [simp]:
  "answers_on c [] = {#}" "answers_on c (m # ms) = answered_id c m + answers_on c ms"
  by (simp_all add: answers_on_def)

lemma ids_on_take_drop:
  assumes "k < length ps" and "ps ! k = (c', r)" and "\<not> IsNotification r"
  shows "ids_on c ps = (if c' = c then {#request_id r#} else {#}) + ids_on c (take k ps @ drop (Suc k) ps)"
proof -
  have "ps = take k ps @ (c', r) # drop (Suc k) ps" using assms(1,2) id_take_nth_drop by metis
  then have "ids_on c ps = ids_on c (take k ps @ (c', r) # drop (Suc k) ps)" by simp
  then show ?thesis using assms(3) by simp
qed

lemma accounted_new: "accounted (NewServer s)"
  by (simp add: accounted_def NewServer_def)

lemma notification_accounted: "accounted sv \<Longrightarrow> accounted (sendNotification name params sv)"
  by (auto simp: accounted_def sendNotification_def answered_id_def split: option.split)

lemma onCoreEvent_accounted: "accounted sv \<Longrightarrow> accounted (onCoreEvent ty payload sv)"
  by (simp add: onCoreEvent_def send_raw_def notification_accounted split: option.split)

lemma finish_accounted: "finish_request api k sv = Some sv' \<Longrightarrow> accounted sv \<Longrightarrow> accounted sv'"
proof -
  assume f: "finish_request api k sv = Some sv'" and a: "accounted sv"
  obtain c req where k: "k < length (sv_pending sv)" "sv_pending sv ! k = (c, req)"
    using f by (cases "sv_pending sv ! k") (auto simp: finish_request_def split: if_splits)
  obtain r s where h: "Handle api req (sv_core sv) = (r, s)" by (rule prod.exhaust)
  have n: "\<not> IsNotification req" using a k nth_mem[OF k(1)] by (auto simp: accounted_def)
  have i: "resp_ID r = Some (request_id req)" using Handle_answers[of req api "sv_core sv"] h by (simp add: answers_def)
  have sv': "sv' = sv\<lparr>sv_pending := take k (sv_pending sv) @ drop (Suc k) (sv_pending sv),
      sv_sent := sv_sent sv @ [(c, Response r)], sv_core := s\<rparr>"
    using f k h by (simp add: finish_request_def)
  have "answers_on c' (sv_sent sv') + ids_on c' (sv_pending sv') = ids_on c' (sv_received sv')" for c'
  proof -
    have "ids_on c' (sv_received sv) = answers_on c' (sv_sent sv) + ids_on c' (sv_pending sv)"
      using a by (simp add: accounted_def)
    then show ?thesis using ids_on_take_drop[OF k n, of c'] i by (simp add: sv' answered_id_def)
  qed
  moreover have "\<forall>(c, r) \<in> set (sv_pending sv'). \<not> IsNotification r"
    using a by (auto simp: accounted_def sv' dest: in_set_takeD in_set_dropD)
  ultimately show "accounted sv'" by (simp add: accounted_def)
qed

lemma request_accounted: "serve_request api req sv = Some sv' \<Longrightarrow> accounted sv \<Longrightarrow> accounted sv'"
  by (auto simp: serve_request_def handleRequest_def accounted_def split: loop.splits if_splits)

lemma step_accounted: "server_step api ev sv = Some sv' \<Longrightarrow> accounted sv \<Longrightarrow> accounted sv'"
proof (cases ev)
  case Disconnect
  then show "server_step api ev sv = Some sv' \<Longrightarrow> accounted sv \<Longrightarrow> accounted sv'"
    by (auto simp: server_step_def serve_disconnect_def accounted_def split: loop.splits)
next
  case Accept
  then show "server_step api ev sv = Some sv' \<Longrightarrow> accounted sv \<Longrightarrow> accounted sv'"
    by (auto simp: server_step_def serve_accept_def accounted_def split: if_splits)
next
  case Accept_fails
  then show "server_step api ev sv = Some sv' \<Longrightarrow> accounted sv \<Longrightarrow> accounted sv'"
    by (auto simp: server_step_def accept_error_def accounted_def split: if_splits)
next
  case (Request req)
  then show "server_step api ev sv = Some sv' \<Longrightarrow> accounted sv \<Longrightarrow> accounted sv'"
    using request_accounted[of api req sv] by (simp add: server_step_def)
next
  case (Finish k)
  then show "server_step api ev sv = Some sv' \<Longrightarrow> accounted sv \<Longrightarrow> accounted sv'"
    using finish_accounted[of api k sv] by (simp add: server_step_def)
next
  case (Core_event ty payload)
  then show "server_step api ev sv = Some sv' \<Longrightarrow> accounted sv \<Longrightarrow> accounted sv'"
    using onCoreEvent_accounted by (auto simp: server_step_def)
next
  case Cancel
  then show "server_step api ev sv = Some sv' \<Longrightarrow> accounted sv \<Longrightarrow> accounted sv'"
    by (auto simp: server_step_def accounted_def)
qed

lemma run_accounted: "server_run api evs sv = Some sv' \<Longrightarrow> accounted sv \<Longrightarrow> accounted sv'"
  by (induction api evs sv rule: server_run.induct) (auto split: option.splits intro: step_accounted)

lemma server_run_append:
  "server_run api (xs @ ys) sv = (case server_run api xs sv of None \<Rightarrow> None | Some sv' \<Rightarrow> server_run api ys sv')"
  by (induction api xs sv rule: server_run.induct) (auto split: option.split)

text \<open>The goroutines that are left can always end, and then everything is answered.\<close>

lemma drain:
  "\<exists>sv'. server_run api (replicate (length (sv_pending sv)) (Finish 0)) sv = Some sv' \<and> sv_pending sv' = [] \<and>
     sv_received sv' = sv_received sv"
proof (induction "length (sv_pending sv)" arbitrary: sv)
  case 0
  then show ?case by simp
next
  case (Suc n)
  then obtain c req ps where p: "sv_pending sv = (c, req) # ps" by (cases "sv_pending sv") auto
  obtain r s where h: "Handle api req (sv_core sv) = (r, s)" by (rule prod.exhaust)
  let ?sv = "sv\<lparr>sv_pending := ps, sv_sent := sv_sent sv @ [(c, Response r)], sv_core := s\<rparr>"
  have "server_step api (Finish 0) sv = Some ?sv" by (simp add: server_step_def finish_request_def p h)
  moreover have "n = length (sv_pending ?sv)" using Suc(2) p by simp
  note Suc(1)[OF this]
  ultimately show ?case using p by simp
qed

lemma drained_answers:
  assumes "server_run api evs (NewServer s) = Some sv"
  shows "\<exists>sv'. server_run api (replicate (length (sv_pending sv)) (Finish 0)) sv = Some sv' \<and>
    (\<forall>c. answers_on c (sv_sent sv') = ids_on c (sv_received sv))"
proof -
  obtain sv' where d: "server_run api (replicate (length (sv_pending sv)) (Finish 0)) sv = Some sv'"
    "sv_pending sv' = []" "sv_received sv' = sv_received sv"
    using drain by blast
  have "accounted sv'" using run_accounted[OF d(1) run_accounted[OF assms accounted_new]] .
  then show ?thesis using d by (auto simp: accounted_def)
qed

section \<open>The service behind the server\<close>

context core_backend
begin

lemma step_keeps: "server_step api ev sv = Some sv' \<Longrightarrow> I (sv_core sv) \<Longrightarrow> I (sv_core sv')"
  by (auto simp: server_step_def serve_accept_def accept_error_def serve_request_def handleRequest_def
      serve_disconnect_def finish_request_def onCoreEvent_def send_raw_def sendNotification_def
      split: event.splits if_splits loop.splits prod.splits option.splits dest: Handle_keeps; metis Handle_keeps snd_conv)

lemma run_keeps: "server_run api evs sv = Some sv' \<Longrightarrow> I (sv_core sv) \<Longrightarrow> I (sv_core sv')"
  by (induction evs arbitrary: sv) (auto split: option.splits intro: step_keeps)

end

end
