(* ===== verification/GoPath.thy ===== *)
theory GoPath
  imports GoStrings
begin

text \<open>
  \<open>path/filepath\<close> on Unix: \<open>Clean\<close>, \<open>Join\<close>, \<open>Dir\<close> and \<open>Abs\<close>, on texts, with the working directory as an
  argument.  Names of files are resolved lexically: a path without symbolic links among its directories.
\<close>

section \<open>Operations\<close>

definition IsAbs :: "string \<Rightarrow> bool" where "IsAbs path \<longleftrightarrow> has_prefix path ''/''"

text \<open>One element of a path, on the reversed list of the elements kept so far.\<close>

definition clean_step :: "bool \<Rightarrow> string \<Rightarrow> string list \<Rightarrow> string list" where
  "clean_step rooted e out =
    (if e = [] \<or> e = ''.'' then out
     else if e = ''..'' then
       (case out of
          [] \<Rightarrow> if rooted then [] else [''..'']
        | x # xs \<Rightarrow> if x = ''..'' then e # out else xs)
     else e # out)"

definition clean_elems :: "string \<Rightarrow> string list" where
  "clean_elems path = rev (fold (clean_step (IsAbs path)) (str_split CHR ''/'' path) [])"

definition path_of :: "bool \<Rightarrow> string list \<Rightarrow> string" where
  "path_of rooted es = (if rooted then ''/'' @ str_join ''/'' es else if es = [] then ''.'' else str_join ''/'' es)"

definition Clean :: "string \<Rightarrow> string" where
  "Clean path = path_of (IsAbs path) (clean_elems path)"

text \<open>\<open>Join\<close> ignores the empty texts before the first element.\<close>

definition Join :: "string list \<Rightarrow> string" where
  "Join es = (case dropWhile (\<lambda>e. e = []) es of [] \<Rightarrow> [] | es' \<Rightarrow> Clean (str_join ''/'' es'))"

definition Dir :: "string \<Rightarrow> string" where
  "Dir path = Clean (case last_index path CHR ''/'' of None \<Rightarrow> [] | Some i \<Rightarrow> take (i + 1) path)"

definition Abs :: "string \<Rightarrow> string \<Rightarrow> string" where
  "Abs cwd path = (if IsAbs path then Clean path else Join [cwd, path])"

section \<open>Lemmas\<close>

text \<open>A plain name stands for itself in every path.\<close>

definition plain_name :: "string \<Rightarrow> bool" where
  "plain_name e \<longleftrightarrow> e \<noteq> [] \<and> e \<noteq> ''.'' \<and> e \<noteq> ''..'' \<and> CHR ''/'' \<notin> set e"

lemma clean_step_plain: "plain_name e \<Longrightarrow> clean_step r e out = e # out"
  by (simp add: clean_step_def plain_name_def)

lemma fold_clean_plain: "\<forall>e \<in> set es. plain_name e \<Longrightarrow> fold (clean_step r) es out = rev es @ out"
  by (induction es arbitrary: out) (auto simp: clean_step_plain)

lemma plain_names_split:
  "\<forall>e \<in> set es. plain_name e \<Longrightarrow> es \<noteq> [] \<Longrightarrow> str_split CHR ''/'' (str_join ''/'' es) = es"
  by (rule str_split_join) (auto simp: plain_name_def)

lemma hd_join_plain: "\<forall>e \<in> set es. plain_name e \<Longrightarrow> \<not> IsAbs (str_join ''/'' es)"
proof (cases es)
  case (Cons e es')
  assume "\<forall>e \<in> set es. plain_name e"
  then obtain c cs where "e = c # cs" "c \<noteq> CHR ''/''"
    using Cons by (cases e) (auto simp: plain_name_def)
  then show ?thesis using Cons by (cases es') (simp_all add: IsAbs_def has_prefix_def)
qed (simp add: IsAbs_def has_prefix_def)

lemma elems_rel: "\<forall>e \<in> set es. plain_name e \<Longrightarrow> clean_elems (path_of False es) = es"
proof (cases "es = []")
  case True
  then show ?thesis by (simp add: clean_elems_def path_of_def clean_step_def)
next
  case False
  assume p: "\<forall>e \<in> set es. plain_name e"
  then show ?thesis
    using False by (simp add: clean_elems_def path_of_def plain_names_split fold_clean_plain)
qed

lemma elems_abs: "\<forall>e \<in> set es. plain_name e \<Longrightarrow> clean_elems (path_of True es) = es"
proof (cases "es = []")
  case True
  then show ?thesis by (simp add: clean_elems_def path_of_def clean_step_def)
next
  case False
  assume p: "\<forall>e \<in> set es. plain_name e"
  then show ?thesis
    using False by (simp add: clean_elems_def path_of_def plain_names_split fold_clean_plain clean_step_def)
qed

lemma IsAbs_path_of [simp]: "IsAbs (path_of True es)"
  by (simp add: IsAbs_def path_of_def has_prefix_def)

lemma not_IsAbs_path_of: "\<forall>e \<in> set es. plain_name e \<Longrightarrow> \<not> IsAbs (path_of False es)"
  using hd_join_plain[of es] by (auto simp: path_of_def IsAbs_def has_prefix_def)

lemma path_of_nonempty: "\<forall>e \<in> set es. plain_name e \<Longrightarrow> path_of r es \<noteq> []"
proof (cases es)
  case (Cons e es')
  assume "\<forall>e \<in> set es. plain_name e"
  then have "e \<noteq> []" using Cons by (simp add: plain_name_def)
  then show ?thesis using Cons by (cases es') (simp_all add: path_of_def)
qed (simp add: path_of_def)

lemma str_split_append: "str_split sep (a @ sep # b) = str_split sep a @ str_split sep b"
  by (induction a) (auto split: list.split)

lemma fold_rel: "\<forall>e \<in> set bs. plain_name e \<Longrightarrow>
    fold (clean_step r) (str_split CHR ''/'' (path_of False bs)) out = rev bs @ out"
  by (cases "bs = []") (simp_all add: path_of_def plain_names_split fold_clean_plain clean_step_def)

text \<open>Joining two paths of plain names appends the names.\<close>

lemma Join_paths:
  assumes "\<forall>e \<in> set as. plain_name e" and "\<forall>e \<in> set bs. plain_name e"
  shows "Join [path_of r as, path_of False bs] = path_of r (as @ bs)"
proof -
  let ?p = "path_of r as" and ?q = "path_of False bs"
  have ne: "?p \<noteq> []" "?q \<noteq> []" using path_of_nonempty assms by blast+
  have r: "IsAbs ?p = r" using not_IsAbs_path_of[OF assms(1)] by (cases r) simp_all
  have a: "IsAbs (?p @ CHR ''/'' # ?q) = r"
    using ne(1) r by (cases ?p) (simp_all add: IsAbs_def has_prefix_def)
  have "fold (clean_step r) (str_split CHR ''/'' ?p) [] = rev as"
    using elems_rel[OF assms(1)] elems_abs[OF assms(1)] r
    by (cases r) (simp_all add: clean_elems_def rev_swap)
  then have "clean_elems (?p @ CHR ''/'' # ?q) = as @ bs"
    by (simp add: clean_elems_def a str_split_append fold_rel[OF assms(2)])
  then show ?thesis using ne by (simp add: Join_def Clean_def a)
qed

lemma Clean_path_of:
  assumes "\<forall>e \<in> set es. plain_name e"
  shows "Clean (path_of r es) = path_of r es"
proof -
  have "IsAbs (path_of r es) = r" using not_IsAbs_path_of[OF assms] by (cases r) simp_all
  moreover have "clean_elems (path_of r es) = es"
    using elems_rel[OF assms] elems_abs[OF assms] by (cases r) simp_all
  ultimately show ?thesis by (simp add: Clean_def)
qed

lemma Abs_rel:
  "\<forall>e \<in> set cs. plain_name e \<Longrightarrow> \<forall>e \<in> set es. plain_name e \<Longrightarrow>
     Abs (path_of True cs) (path_of False es) = path_of True (cs @ es)"
  by (simp add: Abs_def not_IsAbs_path_of Join_paths)

text \<open>An absolute path does not depend on the working directory, and stays absolute when extended.\<close>

lemma Abs_abs: "IsAbs path \<Longrightarrow> Abs cwd path = Abs cwd' path"
  by (simp add: Abs_def)



lemma IsAbs_append: "IsAbs p \<Longrightarrow> IsAbs (p @ q)"
  by (cases p) (auto simp: IsAbs_def has_prefix_def)

lemma IsAbs_Join: "IsAbs p \<Longrightarrow> IsAbs (Join (p # es))"
proof -
  assume p: "IsAbs p"
  then have "p \<noteq> []" by (auto simp: IsAbs_def has_prefix_def)
  moreover have "IsAbs (str_join ''/'' (p # es))" using p by (cases es) (simp_all add: IsAbs_append)
  ultimately show ?thesis by (simp add: Join_def Clean_def)
qed

end
