(* ===== verification/Host.thy ===== *)
theory Host
  imports GoPath
begin

text \<open>
  The operating system as far as the program uses it: files by absolute path, the working directory and the
  environment of the process.  Which system calls are refused is not known: predicates on the absolute path
  are the parameters, collected in a record.
\<close>

record host =
  h_cwd :: string
  h_files :: "string \<rightharpoonup> string"
  h_env :: "string \<Rightarrow> string"

record os =
  os_mkdir :: "string \<Rightarrow> bool"
  os_chdir :: "string \<Rightarrow> bool"
  os_write :: "string \<Rightarrow> bool"

definition file_at :: "host \<Rightarrow> string \<Rightarrow> string" where "file_at h path = Abs (h_cwd h) path"

definition ReadFile :: "host \<Rightarrow> string \<Rightarrow> string option" where "ReadFile h path = h_files h (file_at h path)"

definition WriteFile :: "os \<Rightarrow> string \<Rightarrow> string \<Rightarrow> host \<Rightarrow> host option" where
  "WriteFile os path data h =
    (if os_write os (file_at h path) then Some (h\<lparr>h_files := (h_files h)(file_at h path \<mapsto> data)\<rparr>) else None)"

text \<open>Opening for appending creates the file.\<close>

definition OpenAppend :: "os \<Rightarrow> string \<Rightarrow> host \<Rightarrow> host option" where
  "OpenAppend os path h =
    (if os_write os (file_at h path)
     then Some (case ReadFile h path of None \<Rightarrow> h\<lparr>h_files := (h_files h)(file_at h path \<mapsto> [])\<rparr> | Some _ \<Rightarrow> h)
     else None)"

definition MkdirAll :: "os \<Rightarrow> string \<Rightarrow> host \<Rightarrow> bool" where "MkdirAll os path h \<longleftrightarrow> os_mkdir os (file_at h path)"

definition Chdir :: "os \<Rightarrow> string \<Rightarrow> host \<Rightarrow> host option" where
  "Chdir os path h = (if os_chdir os (file_at h path) then Some (h\<lparr>h_cwd := file_at h path\<rparr>) else None)"

section \<open>Lemmas\<close>

lemma file_at_abs: "IsAbs path \<Longrightarrow> file_at h path = file_at h' path"
  unfolding file_at_def by (rule Abs_abs)

lemma WriteFile_read:
  "WriteFile os path data h = Some h' \<Longrightarrow>
     ReadFile h' p = (if file_at h p = file_at h path then Some data else ReadFile h p) \<and> h_cwd h' = h_cwd h \<and> h_env h' = h_env h"
  by (auto simp: WriteFile_def ReadFile_def file_at_def split: if_splits)

lemma OpenAppend_read:
  "OpenAppend os path h = Some h' \<Longrightarrow> h_cwd h' = h_cwd h \<and> (file_at h p \<noteq> file_at h path \<longrightarrow> ReadFile h' p = ReadFile h p)"
  by (auto simp: OpenAppend_def ReadFile_def file_at_def split: if_splits option.splits)

end
