(* ===== verification/IpcListen.thy ===== *)
theory IpcListen
  imports Host "HOL-Library.Word"
begin

unbundle bit_operations_syntax

text \<open>
  The Unix socket of the IPC server (\<open>ipc/listen_posix.go\<close>, \<open>IpcPath\<close> of \<open>ipc/server.go\<close>): the probe for another
  instance, the private bind, the access of the GUI user and the clean-up.  A name in the file system belongs to
  the listener that made it, and a connection succeeds when that listener is still open.  What the system
  answers to a bind or to \<open>setfacl\<close> is a parameter.
\<close>

section \<open>Sockets\<close>

record sockets =
  sk_names :: "string \<rightharpoonup> nat \<times> 12 word"
  sk_open :: "nat list"
  sk_next :: nat
  sk_umask :: "12 word"
  sk_acl :: "(string \<times> int) list"

definition no_sockets :: "12 word \<Rightarrow> sockets" where
  "no_sockets umask = \<lparr>sk_names = Map.empty, sk_open = [], sk_next = 0, sk_umask = umask, sk_acl = []\<rparr>"

definition isSocketAlive :: "string \<Rightarrow> sockets \<Rightarrow> bool" where
  "isSocketAlive path sk \<longleftrightarrow> (case sk_names sk path of None \<Rightarrow> False | Some (l, _) \<Rightarrow> l \<in> set (sk_open sk))"

definition remove_name :: "string \<Rightarrow> sockets \<Rightarrow> sockets" where
  "remove_name path sk = sk\<lparr>sk_names := (sk_names sk)(path := None)\<rparr>"

text \<open>The first close of a Unix listener removes its name, whoever has it by then; a second one does nothing.\<close>

definition close_listener :: "nat \<Rightarrow> string \<Rightarrow> sockets \<Rightarrow> sockets" where
  "close_listener l path sk =
    (if l \<in> set (sk_open sk) then (remove_name path sk)\<lparr>sk_open := removeAll l (sk_open sk)\<rparr> else sk)"

section \<open>Binding\<close>

datatype bind_answer = Allowed | Read_only_fs | Refused

text \<open>A bind makes the name, with the mode 0777 under the file mask; a name that exists is an error.\<close>

definition listen_unix :: "bind_answer \<Rightarrow> string \<Rightarrow> sockets \<Rightarrow> (bind_answer + nat) \<times> sockets" where
  "listen_unix a path sk =
    (if a \<noteq> Allowed then (Inl a, sk)
     else if sk_names sk path \<noteq> None then (Inl Refused, sk)
     else (Inr (sk_next sk),
           sk\<lparr>sk_names := (sk_names sk)(path \<mapsto> (sk_next sk, 511 AND NOT (sk_umask sk))),
             sk_open := sk_next sk # sk_open sk, sk_next := sk_next sk + 1\<rparr>))"

text \<open>The loop: only a read-only file system is waited for.  The second result counts the attempts.\<close>

fun listen_attempts ::
  "(nat \<Rightarrow> bind_answer) \<Rightarrow> string \<Rightarrow> nat \<Rightarrow> nat \<Rightarrow> sockets \<Rightarrow> nat option \<times> nat \<times> sockets" where
  "listen_attempts answers path 0 k sk = (None, k, sk)"
| "listen_attempts answers path (Suc n) k sk =
     (case listen_unix (answers k) path sk of
        (Inr l, sk) \<Rightarrow> (Some l, Suc k, sk)
      | (Inl Read_only_fs, sk) \<Rightarrow> listen_attempts answers path n (Suc k) sk
      | (Inl _, sk) \<Rightarrow> (None, Suc k, sk))"

definition socketUmask :: "12 word" where "socketUmask = 127"

definition listenUnixPrivate :: "(nat \<Rightarrow> bind_answer) \<Rightarrow> string \<Rightarrow> sockets \<Rightarrow> nat option \<times> nat \<times> sockets" where
  "listenUnixPrivate answers path sk =
    (let old = sk_umask sk in
     case listen_attempts answers path 30 0 (sk\<lparr>sk_umask := socketUmask\<rparr>) of
       (r, k, sk) \<Rightarrow> (r, k, sk\<lparr>sk_umask := old\<rparr>))"

section \<open>Access\<close>

text \<open>
  The directory of the socket: \<open>Stat\<close> fails, or gives a user id when the system has one.  \<open>setfacl uid\<close> is
  whether the command succeeds.
\<close>

record access =
  ac_env :: "string \<Rightarrow> string"
  ac_stat :: "int option option"
  ac_setfacl :: "int \<Rightarrow> bool"

definition setfacl :: "access \<Rightarrow> string \<Rightarrow> int \<Rightarrow> sockets \<Rightarrow> bool \<times> sockets" where
  "setfacl ac path uid sk =
    (if ac_setfacl ac uid then (True, sk\<lparr>sk_acl := sk_acl sk @ [(path, uid)]\<rparr>) else (False, sk))"

definition grantSocketAccess :: "access \<Rightarrow> string \<Rightarrow> sockets \<Rightarrow> bool \<times> sockets" where
  "grantSocketAccess ac path sk =
    (let guiUID = ac_env ac ''SINGCAST_GUI_UID'' in
     if guiUID \<noteq> [] \<and> guiUID \<noteq> ''0'' then
       (case atoi guiUID of
          (uid, None) \<Rightarrow> setfacl ac path uid sk
        | (_, Some _) \<Rightarrow> (False, sk))
     else
       (case ac_stat ac of
          None \<Rightarrow> (False, sk)
        | Some None \<Rightarrow> (True, sk)
        | Some (Some uid) \<Rightarrow> if uid = 0 then (True, sk) else setfacl ac path uid sk))"

section \<open>Listening\<close>

datatype listen_error = Another_instance | Listen_failed | Grant_failed

definition listenPlatform ::
  "(nat \<Rightarrow> bind_answer) \<Rightarrow> access \<Rightarrow> string \<Rightarrow> sockets \<Rightarrow> (listen_error + nat) \<times> sockets" where
  "listenPlatform answers ac path sk =
    (if isSocketAlive path sk then (Inl Another_instance, sk)
     else
       (case listenUnixPrivate answers path (remove_name path sk) of
          (None, _, sk) \<Rightarrow> (Inl Listen_failed, sk)
        | (Some l, _, sk) \<Rightarrow>
            (case grantSocketAccess ac path sk of
               (True, sk) \<Rightarrow> (Inr l, sk)
             | (False, sk) \<Rightarrow> (Inl Grant_failed, remove_name path (close_listener l path sk)))))"

definition cleanupPlatform :: "nat option \<Rightarrow> string \<Rightarrow> sockets \<Rightarrow> sockets" where
  "cleanupPlatform l path sk =
    remove_name path (case l of None \<Rightarrow> sk | Some l \<Rightarrow> close_listener l path sk)"

text \<open>
  On Windows (\<open>listen_windows.go\<close>) the pipe has a fixed descriptor: the system, the administrators and the
  interactive users.
\<close>

definition pipeSDDL :: string where "pipeSDDL = ''D:(A;;GA;;;SY)(A;;GA;;;BA)(A;;GA;;;IU)''"

definition windows_listenPlatform :: "(string \<Rightarrow> string \<Rightarrow> nat option) \<Rightarrow> string \<Rightarrow> nat option" where
  "windows_listenPlatform ListenPipe path = ListenPipe path pipeSDDL"

text \<open>\<open>IpcPath\<close>; the working directory can be unknown.\<close>

definition IpcPath :: "bool \<Rightarrow> (string \<Rightarrow> string) \<Rightarrow> string option \<Rightarrow> string \<Rightarrow> string" where
  "IpcPath windows env cwd homeDir =
    (if env ''SINGCAST_IPC_PATH'' \<noteq> [] then env ''SINGCAST_IPC_PATH''
     else if windows then [CHR 92, CHR 92] @ ''.'' @ [CHR 92] @ ''pipe'' @ [CHR 92] @ ''singcast''
     else
       let homeDir = (if homeDir = [] then (case cwd of None \<Rightarrow> ''.'' | Some d \<Rightarrow> d) else homeDir)
       in Join [homeDir, ''command.sock''])"

section \<open>Lemmas\<close>

text \<open>Listeners have numbers of their own, and a name belongs to a listener that was made.\<close>

definition sockets_ok :: "sockets \<Rightarrow> bool" where
  "sockets_ok sk \<longleftrightarrow>
     (\<forall>l \<in> set (sk_open sk). l < sk_next sk) \<and>
     (\<forall>p l mode. sk_names sk p = Some (l, mode) \<longrightarrow> l < sk_next sk)"

lemma sockets_ok_new: "sockets_ok (no_sockets umask)" by (simp add: sockets_ok_def no_sockets_def)

lemma remove_name_ok: "sockets_ok sk \<Longrightarrow> sockets_ok (remove_name path sk)"
  by (auto simp: sockets_ok_def remove_name_def)

lemma close_listener_ok: "sockets_ok sk \<Longrightarrow> sockets_ok (close_listener l path sk)"
  by (auto simp: sockets_ok_def close_listener_def remove_name_def)

lemma cleanup_ok: "sockets_ok sk \<Longrightarrow> sockets_ok (cleanupPlatform l path sk)"
  by (auto simp: cleanupPlatform_def remove_name_ok close_listener_ok split: option.split)

lemma listen_attempts_result:
  "listen_attempts answers path n k sk = (r, k', sk') \<Longrightarrow> sockets_ok sk \<Longrightarrow> sk_names sk path = None \<Longrightarrow>
     k' \<le> k + n \<and> sk_umask sk' = sk_umask sk \<and> sk_acl sk' = sk_acl sk \<and> sockets_ok sk' \<and>
     (case r of
        None \<Rightarrow> sk' = sk
      | Some l \<Rightarrow> l = sk_next sk \<and> sk_names sk' = (sk_names sk)(path \<mapsto> (l, 511 AND NOT (sk_umask sk))) \<and>
          sk_open sk' = l # sk_open sk \<and> sk_next sk' = sk_next sk + 1)"
proof (induction answers path n k sk rule: listen_attempts.induct)
  case (2 answers path n k sk)
  show ?case
  proof (cases "answers k")
    case Allowed
    then show ?thesis using 2(2,3,4) by (auto simp: listen_unix_def sockets_ok_def less_Suc_eq split: if_split_asm; blast)
  next
    case Read_only_fs
    then have l: "listen_unix (answers k) path sk = (Inl Read_only_fs, sk)" by (simp add: listen_unix_def)
    have "listen_attempts answers path n (Suc k) sk = (r, k', sk')" using 2(2) by (simp add: l)
    from "2.IH"[OF l[symmetric] refl refl this 2(3,4)] show ?thesis by auto
  next
    case Refused
    then show ?thesis using 2(2,3,4) by (auto simp: listen_unix_def)
  qed
qed auto

text \<open>Other names and listeners are not touched.\<close>

definition others_kept :: "string \<Rightarrow> sockets \<Rightarrow> sockets \<Rightarrow> bool" where
  "others_kept path sk sk' \<longleftrightarrow> (\<forall>p. p \<noteq> path \<longrightarrow> sk_names sk' p = sk_names sk p) \<and> set (sk_open sk) \<subseteq> set (sk_open sk')"

lemma grant_frame:
  "grantSocketAccess ac path sk = (b, sk') \<Longrightarrow>
     sk_names sk' = sk_names sk \<and> sk_open sk' = sk_open sk \<and> sk_next sk' = sk_next sk \<and> sk_umask sk' = sk_umask sk"
  by (auto simp: grantSocketAccess_def setfacl_def Let_def split: if_splits option.splits prod.splits)

text \<open>
  What listening does: with a result the name is a new open socket with mode 0600 from the start; when another
  instance listens nothing happens; after any other error no socket is left.  The file mask is as before.
\<close>

lemma listenPlatform_result:
  assumes "listenPlatform answers ac path sk = (r, sk')" and "sockets_ok sk"
  shows "sk_umask sk' = sk_umask sk \<and> sockets_ok sk' \<and>
    (case r of
       Inr l \<Rightarrow> \<not> isSocketAlive path sk \<and> l \<notin> set (sk_open sk) \<and> sk_names sk' path = Some (l, 384) \<and>
         isSocketAlive path sk' \<and> sk_open sk' = l # sk_open sk \<and> others_kept path sk sk'
     | Inl Another_instance \<Rightarrow> isSocketAlive path sk \<and> sk' = sk
     | Inl _ \<Rightarrow> sk_names sk' path = None \<and> set (sk_open sk') = set (sk_open sk) \<and> others_kept path sk sk')"
proof (cases "isSocketAlive path sk")
  case True
  then show ?thesis using assms by (auto simp: listenPlatform_def)
next
  case dead: False
  define s0 where "s0 = (remove_name path sk)\<lparr>sk_umask := socketUmask\<rparr>"
  have s0: "sockets_ok s0" "sk_names s0 path = None" "sk_next s0 = sk_next sk" "sk_open s0 = sk_open sk" "sk_umask s0 = 127"
    using remove_name_ok[OF assms(2), of path] by (auto simp: s0_def sockets_ok_def remove_name_def socketUmask_def)
  obtain q k s1 where a: "listen_attempts answers path 30 0 s0 = (q, k, s1)" by (metis prod_cases3)
  define s2 where "s2 = s1\<lparr>sk_umask := sk_umask sk\<rparr>"
  have l: "listenUnixPrivate answers path (remove_name path sk) = (q, k, s2)"
    using a by (simp add: listenUnixPrivate_def Let_def s0_def s2_def remove_name_def)
  note res = listen_attempts_result[OF a s0(1,2)]
  have ok2: "sockets_ok s2" using res by (auto simp: s2_def sockets_ok_def)
  show ?thesis
  proof (cases q)
    case None
    moreover have "sk_names s0 p = sk_names sk p" if "p \<noteq> path" for p using that by (simp add: s0_def remove_name_def)
    ultimately show ?thesis using assms dead l res ok2 s0 by (auto simp: listenPlatform_def s2_def others_kept_def)
  next
    case (Some n)
    have mode: "(511 AND NOT 127 :: 12 word) = 384" by (simp add: bit_eq_iff)
    have fresh: "n \<notin> set (sk_open sk)" using res s0(3) assms(2) Some by (auto simp: sockets_ok_def)
    have s2: "sk_names s2 path = Some (n, 384)" "sk_open s2 = n # sk_open sk" "sk_umask s2 = sk_umask sk"
      "\<And>p. p \<noteq> path \<Longrightarrow> sk_names s2 p = sk_names sk p"
      using res Some s0 mode by (auto simp: s2_def s0_def remove_name_def)
    obtain b s3 where g: "grantSocketAccess ac path s2 = (b, s3)" by (rule prod.exhaust)
    note gf = grant_frame[OF g]
    have ok3: "sockets_ok s3" using ok2 gf by (simp add: sockets_ok_def)
    show ?thesis
    proof (cases b)
      case True
      then have "r = Inr n" "sk' = s3" using assms(1) dead l Some g by (auto simp: listenPlatform_def)
      then show ?thesis using dead fresh s2 gf ok3 by (auto simp: others_kept_def isSocketAlive_def)
    next
      case False
      then have "r = Inl Grant_failed" "sk' = remove_name path (close_listener n path s3)"
        using assms(1) dead l Some g by (auto simp: listenPlatform_def)
      moreover have "sockets_ok (remove_name path (close_listener n path s3))"
        by (intro remove_name_ok close_listener_ok ok3)
      ultimately show ?thesis using s2 gf fresh by (auto simp: remove_name_def close_listener_def others_kept_def)
    qed
  qed
qed

section \<open>The interface of a listener\<close>

text \<open>
  What the servers rely on (\<open>Server.Run\<close> with \<open>listenPlatform\<close>, the close of the listener and \<open>cleanupPlatform\<close>): listening
  opens one new private socket at the path or nothing, closing it and cleaning up take it away again, and other
  sockets are not touched.
\<close>

locale listener =
  fixes listen :: "sockets \<Rightarrow> (listen_error + nat) \<times> sockets"
    and close :: "nat \<Rightarrow> sockets \<Rightarrow> sockets"
    and cleanup :: "nat \<Rightarrow> sockets \<Rightarrow> sockets"
    and path :: string
  assumes listen_opens: "sockets_ok sk \<Longrightarrow> listen sk = (Inr l, sk') \<Longrightarrow>
      sockets_ok sk' \<and> l \<notin> set (sk_open sk) \<and> sk_names sk' path = Some (l, 384) \<and> sk_open sk' = l # sk_open sk \<and>
      others_kept path sk sk'"
    and listen_fails: "sockets_ok sk \<Longrightarrow> listen sk = (Inl e, sk') \<Longrightarrow>
      sockets_ok sk' \<and> set (sk_open sk') = set (sk_open sk) \<and> (\<forall>p. p \<noteq> path \<longrightarrow> sk_names sk' p = sk_names sk p)"
    and close_ok: "sockets_ok sk \<Longrightarrow> sockets_ok (close l sk)"
    and close_open: "sk_open (close l sk) = removeAll l (sk_open sk)"
    and close_names: "p \<noteq> path \<Longrightarrow> sk_names (close l sk) p = sk_names sk p"
    and cleanup_ok: "sockets_ok sk \<Longrightarrow> sockets_ok (cleanup l sk)"
    and cleanup_open: "sk_open (cleanup l sk) = removeAll l (sk_open sk)"
    and cleanup_names: "sk_names (cleanup l sk) p = (if p = path then None else sk_names sk p)"
begin

text \<open>A server that listens and ends leaves the sockets as they were, without a name at its path.\<close>

lemma listen_and_end:
  assumes "sockets_ok sk" and "listen sk = (Inr l, sk1)"
  shows "sockets_ok (cleanup l (close l sk1))" and "sk_open (cleanup l (close l sk1)) = sk_open sk"
    and "sk_names (cleanup l (close l sk1)) = (sk_names sk)(path := None)"
proof -
  note o = listen_opens[OF assms]
  show "sockets_ok (cleanup l (close l sk1))" using o by (intro cleanup_ok close_ok) blast
  show "sk_open (cleanup l (close l sk1)) = sk_open sk" using o by (simp add: cleanup_open close_open)
  show "sk_names (cleanup l (close l sk1)) = (sk_names sk)(path := None)"
    using o by (auto simp: cleanup_names close_names others_kept_def)
qed

end

lemma close_listener_open: "sk_open (close_listener l path sk) = removeAll l (sk_open sk)"
  by (simp add: close_listener_def)

lemma cleanupPlatform_open: "sk_open (cleanupPlatform (Some l) path sk) = removeAll l (sk_open sk)"
  by (simp add: cleanupPlatform_def remove_name_def close_listener_open)

interpretation posix: listener "listenPlatform binds ac path" "\<lambda>l. close_listener l path"
    "\<lambda>l. cleanupPlatform (Some l) path" path for binds ac path
proof (unfold_locales, goal_cases)
  case (1 sk l sk')
  then show ?case using listenPlatform_result[OF 1(2,1)] by simp
next
  case (2 sk e sk')
  then show ?case using listenPlatform_result[OF 2(2,1)] by (cases e) (auto simp: others_kept_def)
next
  case (5 p l sk)
  then show ?case by (simp add: close_listener_def remove_name_def)
next
  case (8 l sk p)
  then show ?case by (simp add: cleanupPlatform_def remove_name_def close_listener_def)
qed (simp_all add: close_listener_ok close_listener_open cleanup_ok cleanupPlatform_open)

text \<open>At most thirty attempts are made, and only read-only file systems are waited for.\<close>

lemma listen_attempts_bound:
  "sockets_ok sk \<Longrightarrow> sk_names sk path = None \<Longrightarrow> fst (snd (listenUnixPrivate answers path sk)) \<le> 30"
proof -
  assume s: "sockets_ok sk" "sk_names sk path = None"
  obtain q k s1 where a: "listen_attempts answers path 30 0 (sk\<lparr>sk_umask := socketUmask\<rparr>) = (q, k, s1)"
    by (metis prod_cases3)
  show ?thesis
    using listen_attempts_result[OF a] s a by (simp add: listenUnixPrivate_def Let_def sockets_ok_def)
qed

text \<open>
  In a directory of an ordinary user, without the variable of the service, nothing is served where \<open>setfacl\<close> does
  not exist (macOS, iOS, Android), although the owner could use the socket as it is.
\<close>

lemma needs_setfacl:
  assumes "ac_env ac ''SINGCAST_GUI_UID'' = []" and "ac_stat ac = Some (Some uid)" and "uid \<noteq> 0"
    and "\<And>u. \<not> ac_setfacl ac u"
  shows "\<exists>e sk'. listenPlatform answers ac path sk = (Inl e, sk')"
  using assms by (auto simp: listenPlatform_def grantSocketAccess_def setfacl_def split: option.split prod.split)

end
