(* ===== verification/Platform.thy ===== *)
theory Platform
  imports GoJson
begin

text \<open>
  \<open>core/platform.go\<close>: what the host of a mobile app and the kernel exchange - the TUN descriptor, socket
  protection, the network interfaces and the monitor of the default interface.  The callbacks of the host are
  parameters (what they answer), and so are the kernel's TUN constructor and its interface finder.  The
  monitor is a step relation, because the code calls the registered callbacks outside its mutex.
\<close>

section \<open>The monitor of the default interface\<close>

text \<open>An interface with its addresses; one that the kernel cannot resolve has only a name and an index.\<close>

record interface =
  if_Name :: string
  if_Index :: int
  if_MTU :: int
  if_Addresses :: "(ip_addr \<times> int) list"
  if_Flags :: int

text \<open>
  \<open>mn_callbacks\<close> are the registered callbacks, numbered by \<open>mn_next\<close>.  \<open>mn_todo t\<close> is what the thread \<open>t\<close>,
  having released the mutex, still has to call; \<open>mn_told\<close> records the calls of callbacks and \<open>mn_resets\<close>
  counts the calls of \<open>router.ResetNetwork\<close>.
\<close>

datatype todo = Tell nat "interface option" | Reset

record monitor =
  mn_iface :: "interface option"
  mn_callbacks :: "nat list"
  mn_next :: nat
  mn_myInterfaces :: "string list"
  mn_router :: bool
  mn_resets :: nat
  mn_told :: "(nat \<times> interface option) list"
  mn_todo :: "nat \<Rightarrow> todo list"

definition NewMonitor :: monitor where
  "NewMonitor = \<lparr>mn_iface = None, mn_callbacks = [], mn_next = 0, mn_myInterfaces = [], mn_router = False,
     mn_resets = 0, mn_told = [], mn_todo = (\<lambda>_. [])\<rparr>"

definition RegisterCallback :: "nat \<Rightarrow> monitor \<Rightarrow> monitor" where
  "RegisterCallback t m =
    (let el = mn_next m
     in m\<lparr>mn_callbacks := mn_callbacks m @ [el], mn_next := el + 1,
          mn_todo := (mn_todo m)(t := if mn_iface m = None then [] else [Tell el (mn_iface m)])\<rparr>)"

definition UnregisterCallback :: "nat \<Rightarrow> monitor \<Rightarrow> monitor" where
  "UnregisterCallback el m = m\<lparr>mn_callbacks := filter (\<lambda>c. c \<noteq> el) (mn_callbacks m)\<rparr>"

definition RegisterMyInterface :: "string \<Rightarrow> monitor \<Rightarrow> monitor" where
  "RegisterMyInterface name m = m\<lparr>mn_myInterfaces := mn_myInterfaces m @ [name]\<rparr>"

definition unresolved :: "string \<Rightarrow> int \<Rightarrow> interface" where
  "unresolved name index = \<lparr>if_Name = name, if_Index = index, if_MTU = 0, if_Addresses = [], if_Flags = 0\<rparr>"

text \<open>\<open>by_index\<close> is the interface finder of the network manager after its refresh, \<open>None\<close> also without a manager.\<close>

definition monitor_update :: "(int \<Rightarrow> interface option) \<Rightarrow> nat \<Rightarrow> string \<Rightarrow> int \<Rightarrow> monitor \<Rightarrow> monitor" where
  "monitor_update by_index t name index m =
    (if index = -1 then
       m\<lparr>mn_iface := None, mn_todo := (mn_todo m)(t := map (\<lambda>cb. Tell cb None) (mn_callbacks m))\<rparr>
     else
       let resolved = (case by_index index of Some i \<Rightarrow> i | None \<Rightarrow> unresolved name index)
       in if (case mn_iface m of None \<Rightarrow> False | Some i \<Rightarrow> if_Name i = if_Name resolved \<and> if_Index i = if_Index resolved)
          then m
          else m\<lparr>mn_iface := Some resolved,
                 mn_todo := (mn_todo m)(t := map (\<lambda>cb. Tell cb (Some resolved)) (mn_callbacks m) @
                              (if mn_router m then [Reset] else []))\<rparr>)"

text \<open>One call of a callback or of the router by the thread \<open>t\<close>.\<close>

definition deliver :: "nat \<Rightarrow> monitor \<Rightarrow> monitor" where
  "deliver t m =
    (case mn_todo m t of
       [] \<Rightarrow> m
     | Tell cb i # rest \<Rightarrow> m\<lparr>mn_told := mn_told m @ [(cb, i)], mn_todo := (mn_todo m)(t := rest)\<rparr>
     | Reset # rest \<Rightarrow> m\<lparr>mn_resets := mn_resets m + 1, mn_todo := (mn_todo m)(t := rest)\<rparr>)"

text \<open>
  \<open>UpdateDefaultInterface\<close>: the interfaces the program made itself are skipped.
\<close>

definition UpdateDefaultInterface :: "(int \<Rightarrow> interface option) \<Rightarrow> nat \<Rightarrow> string \<Rightarrow> int \<Rightarrow> monitor \<Rightarrow> monitor" where
  "UpdateDefaultInterface by_index t name index m =
    (if name \<in> set (mn_myInterfaces m) then m else monitor_update by_index t name index m)"

datatype monitor_call = Register | Unregister nat | My_interface string | Set_router | Update string int

definition call_monitor :: "(int \<Rightarrow> interface option) \<Rightarrow> nat \<Rightarrow> monitor_call \<Rightarrow> monitor \<Rightarrow> monitor" where
  "call_monitor by_index t c m =
    (case c of
       Register \<Rightarrow> RegisterCallback t m
     | Unregister el \<Rightarrow> UnregisterCallback el m
     | My_interface name \<Rightarrow> RegisterMyInterface name m
     | Set_router \<Rightarrow> m\<lparr>mn_router := True\<rparr>
     | Update name index \<Rightarrow> UpdateDefaultInterface by_index t name index m)"

text \<open>A step of a thread: a call when it has nothing left to do, otherwise the next thing on its list.\<close>

definition monitor_step :: "(int \<Rightarrow> interface option) \<Rightarrow> nat \<Rightarrow> monitor_call option \<Rightarrow> monitor \<Rightarrow> monitor option" where
  "monitor_step by_index t c m =
    (case c of
       Some c \<Rightarrow> if mn_todo m t = [] then Some (call_monitor by_index t c m) else None
     | None \<Rightarrow> if mn_todo m t = [] then None else Some (deliver t m))"

fun monitor_steps ::
  "(int \<Rightarrow> interface option) \<Rightarrow> (nat \<times> monitor_call option) list \<Rightarrow> monitor \<Rightarrow> monitor option" where
  "monitor_steps by_index [] m = Some m"
| "monitor_steps by_index ((t, c) # acts) m =
     (case monitor_step by_index t c m of None \<Rightarrow> None | Some m' \<Rightarrow> monitor_steps by_index acts m')"

text \<open>One caller at a time: a call and all its deliveries.\<close>

fun deliver_all :: "todo list \<Rightarrow> monitor \<Rightarrow> monitor" where
  "deliver_all [] m = m"
| "deliver_all (x # xs) m = deliver_all xs (deliver 0 m)"

definition complete_call :: "(int \<Rightarrow> interface option) \<Rightarrow> monitor_call \<Rightarrow> monitor \<Rightarrow> monitor" where
  "complete_call by_index c m = (let m' = call_monitor by_index 0 c m in deliver_all (mn_todo m' 0) m')"

definition complete_calls :: "((int \<Rightarrow> interface option) \<times> monitor_call) list \<Rightarrow> monitor \<Rightarrow> monitor" where
  "complete_calls cs m = fold (\<lambda>(by_index, c). complete_call by_index c) cs m"

section \<open>Every callback knows the default interface\<close>

definition last_told :: "nat \<Rightarrow> (nat \<times> interface option) list \<Rightarrow> interface option" where
  "last_told cb told = (case filter (\<lambda>(c, _). c = cb) (rev told) of [] \<Rightarrow> None | (_, i) # _ \<Rightarrow> i)"

definition up_to_date :: "monitor \<Rightarrow> bool" where
  "up_to_date m \<longleftrightarrow> list_all (\<lambda>cb. last_told cb (mn_told m) = mn_iface m) (mn_callbacks m)"

lemma last_told_append [simp]:
  "last_told cb [] = None" "last_told cb (told @ [(c, i)]) = (if c = cb then i else last_told cb told)"
  by (simp_all add: last_told_def)

lemma last_told_unknown: "\<forall>(c, i) \<in> set told. c \<noteq> cb \<Longrightarrow> last_told cb told = None"
  by (induction told rule: rev_induct) auto

definition monitor_ok :: "monitor \<Rightarrow> bool" where
  "monitor_ok m \<longleftrightarrow>
     up_to_date m \<and> mn_todo m = (\<lambda>_. []) \<and> distinct (mn_callbacks m) \<and>
     list_all (\<lambda>cb. cb < mn_next m) (mn_callbacks m) \<and> list_all (\<lambda>(cb, _). cb < mn_next m) (mn_told m)"

lemma deliver_all_result:
  "mn_todo m = (\<lambda>_. [])(0 := xs) \<Longrightarrow>
     deliver_all xs m =
       m\<lparr>mn_told := mn_told m @ List.map_filter (\<lambda>x. case x of Tell cb i \<Rightarrow> Some (cb, i) | Reset \<Rightarrow> None) xs,
         mn_resets := mn_resets m + length (filter (\<lambda>x. x = Reset) xs), mn_todo := (\<lambda>_. [])\<rparr>"
proof (induction xs arbitrary: m)
  case Nil
  then show ?case by (simp add: List.map_filter_simps fun_upd_idem)
next
  case (Cons x xs)
  have "mn_todo (deliver 0 m) = (\<lambda>_. [])(0 := xs)"
    using Cons.prems by (auto simp: deliver_def split: todo.split)
  then show ?case using Cons.IH[of "deliver 0 m"] Cons.prems
    by (auto simp: deliver_def List.map_filter_simps split: todo.split)
qed

lemma told_all:
  "List.map_filter (\<lambda>x. case x of Tell cb i \<Rightarrow> Some (cb, i) | Reset \<Rightarrow> None)
     (map (\<lambda>cb. Tell cb i) cbs @ (if b then [Reset] else [])) = map (\<lambda>cb. (cb, i)) cbs"
  by (induction cbs) (simp_all add: List.map_filter_simps)

lemma last_told_all: "cb \<in> set cbs \<Longrightarrow> last_told cb (told @ map (\<lambda>cb. (cb, i)) cbs) = i"
proof (induction cbs rule: rev_induct)
  case (snoc c cbs)
  then show ?case
    using last_told_append(2)[of cb "told @ map (\<lambda>cb. (cb, i)) cbs" c i] by (cases "c = cb") auto
qed simp

lemma notified_ok:
  assumes m: "monitor_ok m" and i: "mn_iface m' = i" and t: "mn_todo m' = (\<lambda>_. [])(0 := xs)"
    and xs: "xs = map (\<lambda>cb. Tell cb i) (mn_callbacks m) @ (if b then [Reset] else [])"
    and same: "mn_callbacks m' = mn_callbacks m" "mn_next m' = mn_next m" "mn_told m' = mn_told m"
  shows "monitor_ok (deliver_all xs m')"
proof -
  have "mn_told (deliver_all xs m') = mn_told m @ map (\<lambda>cb. (cb, i)) (mn_callbacks m)"
    using deliver_all_result[OF t] told_all[of i "mn_callbacks m" b] unfolding xs same by simp
  moreover have "mn_iface (deliver_all xs m') = i" "mn_callbacks (deliver_all xs m') = mn_callbacks m"
    "mn_next (deliver_all xs m') = mn_next m" "mn_todo (deliver_all xs m') = (\<lambda>_. [])"
    using deliver_all_result[OF t] i same by simp_all
  ultimately show ?thesis
    using m by (auto simp: monitor_ok_def up_to_date_def list_all_iff last_told_all)
qed

lemma RegisterCallback_ok:
  assumes m: "monitor_ok m"
  shows "monitor_ok (complete_call by_index Register m)"
proof -
  let ?m = "RegisterCallback 0 m"
  let ?xs = "if mn_iface m = None then [] else [Tell (mn_next m) (mn_iface m)]"
  have t: "mn_todo ?m = (\<lambda>_. [])(0 := ?xs)" using m by (simp add: RegisterCallback_def Let_def monitor_ok_def)
  have n: "last_told (mn_next m) (mn_told m) = None"
    using m by (intro last_told_unknown) (auto simp: monitor_ok_def list_all_iff)
  have "complete_call by_index Register m = deliver_all ?xs ?m"
    by (simp add: complete_call_def call_monitor_def Let_def t)
  also have "monitor_ok \<dots>"
    unfolding deliver_all_result[OF t] using m n
    by (auto simp: monitor_ok_def up_to_date_def list_all_iff RegisterCallback_def Let_def List.map_filter_simps less_Suc_eq)
  finally show ?thesis .
qed

lemma monitor_update_ok:
  assumes m: "monitor_ok m"
  shows "monitor_ok (deliver_all (mn_todo (monitor_update by_index 0 name index m) 0) (monitor_update by_index 0 name index m))"
proof -
  let ?m = "monitor_update by_index 0 name index m"
  have idle: "mn_todo m = (\<lambda>_. [])" using m by (simp add: monitor_ok_def)
  consider "?m = m"
    | xs i b where "mn_iface ?m = i" "mn_todo ?m = (\<lambda>_. [])(0 := xs)"
      "xs = map (\<lambda>cb. Tell cb i) (mn_callbacks m) @ (if b then [Reset] else [])"
      "mn_callbacks ?m = mn_callbacks m" "mn_next ?m = mn_next m" "mn_told ?m = mn_told m"
  proof (cases "index = -1")
    case True
    then have "mn_todo ?m = (\<lambda>_. [])(0 := map (\<lambda>cb. Tell cb None) (mn_callbacks m) @ (if False then [Reset] else []))"
      by (simp add: monitor_update_def idle)
    then show ?thesis using that(2)[OF _ _ refl, of None False] True by (simp add: monitor_update_def)
  next
    case False
    define r where "r = (case by_index index of Some i \<Rightarrow> i | None \<Rightarrow> unresolved name index)"
    show ?thesis
    proof (cases "case mn_iface m of None \<Rightarrow> False | Some i \<Rightarrow> if_Name i = if_Name r \<and> if_Index i = if_Index r")
      case True
      then have "?m = m" using False by (simp add: monitor_update_def Let_def r_def[symmetric])
      then show ?thesis by (rule that(1))
    next
      case same: False
      have u: "?m = m\<lparr>mn_iface := Some r, mn_todo := (mn_todo m)(0 := map (\<lambda>cb. Tell cb (Some r)) (mn_callbacks m) @
          (if mn_router m then [Reset] else []))\<rparr>"
        using False same by (simp add: monitor_update_def Let_def r_def[symmetric])
      show ?thesis using that(2)[OF _ _ refl, of "Some r" "mn_router m"] u by (simp add: idle)
    qed
  qed
  then show ?thesis
  proof cases
    case 1
    then show ?thesis using m idle by simp
  next
    case (2 xs i b)
    then show ?thesis using notified_ok[OF m 2(1,2,3,4,5,6)] by simp
  qed
qed

lemma complete_call_ok:
  assumes m: "monitor_ok m"
  shows "monitor_ok (complete_call by_index c m)"
proof (cases c)
  case Register
  then show ?thesis using RegisterCallback_ok[OF m] by simp
next
  case (Unregister el)
  then show ?thesis
    using m by (auto simp: complete_call_def call_monitor_def UnregisterCallback_def monitor_ok_def up_to_date_def list_all_iff)
next
  case (My_interface name)
  then show ?thesis
    using m by (auto simp: complete_call_def call_monitor_def RegisterMyInterface_def monitor_ok_def up_to_date_def)
next
  case Set_router
  then show ?thesis using m by (auto simp: complete_call_def call_monitor_def monitor_ok_def up_to_date_def)
next
  case (Update name index)
  then show ?thesis
    using m monitor_update_ok[OF m, of by_index name index]
    by (auto simp: complete_call_def call_monitor_def UpdateDefaultInterface_def Let_def monitor_ok_def)
qed

lemma complete_calls_ok: "monitor_ok m \<Longrightarrow> monitor_ok (complete_calls cs m)"
  unfolding complete_calls_def by (induction cs arbitrary: m) (auto simp: complete_call_ok)

lemma monitor_ok_new: "monitor_ok NewMonitor"
  by (simp add: monitor_ok_def NewMonitor_def up_to_date_def)

text \<open>
  A registration that has read the old interface and an update at the same time: the callback is told the new
  interface first and the old one last.
\<close>

definition late_registration :: "(nat \<times> monitor_call option) list" where
  "late_registration =
     [(0, Some (Update ''wlan0'' 1)), (1, Some Register), (0, Some (Update ''rmnet0'' 2)), (0, None), (1, None)]"

lemma late_registration_run:
  "case monitor_steps (\<lambda>_. None) late_registration NewMonitor of
     None \<Rightarrow> False
   | Some m \<Rightarrow> mn_todo m 0 = [] \<and> mn_todo m 1 = [] \<and> mn_iface m = Some (unresolved ''rmnet0'' 2) \<and>
       last_told 0 (mn_told m) = Some (unresolved ''wlan0'' 1) \<and> \<not> up_to_date m"
  by code_simp

section \<open>The platform\<close>

text \<open>
  The callbacks of the host: \<open>pf_protect\<close> says which descriptors it protects, \<open>pf_interfaces\<close> and \<open>pf_wifi\<close>
  what its providers answer.  \<open>pf_protectCount\<close> is a 64-bit counter.
\<close>

record PlatformIO =
  pf_isMobile :: bool
  pf_tunFd :: int
  pf_protect :: "(int \<Rightarrow> bool) option"
  pf_includeAll :: bool
  pf_interfaces :: "string option"
  pf_wifi :: "string option"
  pf_monitor :: "monitor option"
  pf_protectCount :: int

definition NewPlatformIO :: PlatformIO where
  "NewPlatformIO = \<lparr>pf_isMobile = False, pf_tunFd = 0, pf_protect = None, pf_includeAll = False,
     pf_interfaces = None, pf_wifi = None, pf_monitor = None, pf_protectCount = 0\<rparr>"

definition SetMobile :: "bool \<Rightarrow> PlatformIO \<Rightarrow> PlatformIO" where
  "SetMobile mobile p =
    (let p = p\<lparr>pf_isMobile := mobile\<rparr>
     in if mobile \<and> pf_monitor p = None then p\<lparr>pf_monitor := Some NewMonitor\<rparr> else p)"

definition SetTunFd :: "int \<Rightarrow> PlatformIO \<Rightarrow> PlatformIO" where "SetTunFd fd p = p\<lparr>pf_tunFd := fd\<rparr>"

definition SetSocketProtector :: "(int \<Rightarrow> bool) option \<Rightarrow> PlatformIO \<Rightarrow> PlatformIO" where
  "SetSocketProtector fn p = p\<lparr>pf_protect := fn\<rparr>"

definition UsePlatformInterface :: "PlatformIO \<Rightarrow> bool" where
  "UsePlatformInterface p \<longleftrightarrow> pf_isMobile p \<and> pf_tunFd p \<noteq> 0"

definition UnderNetworkExtension :: "string \<Rightarrow> PlatformIO \<Rightarrow> bool" where
  "UnderNetworkExtension goos p \<longleftrightarrow> goos = ''ios'' \<and> pf_tunFd p \<noteq> 0"

text \<open>
  \<open>OpenInterface\<close>: \<open>open_tun fd\<close> is the kernel's constructor, with the name of the device when it can be read.
  The descriptor is cleared once it is used.
\<close>

datatype open_error = No_tun_fd | Tun_failed string

definition OpenInterface ::
  "(int \<Rightarrow> string + string option) \<Rightarrow> PlatformIO \<Rightarrow> open_error option \<times> PlatformIO" where
  "OpenInterface open_tun p =
    (let fd = pf_tunFd p
     in if fd = 0 then (Some No_tun_fd, p)
        else (case open_tun fd of
                Inl e \<Rightarrow> (Some (Tun_failed e), p)
              | Inr name \<Rightarrow>
                  (let p = p\<lparr>pf_tunFd := 0\<rparr>
                   in (None, case name of
                               None \<Rightarrow> p
                             | Some n \<Rightarrow> p\<lparr>pf_monitor := map_option (RegisterMyInterface n) (pf_monitor p)\<rparr>))))"

definition AutoDetectInterfaceControl :: "int \<Rightarrow> PlatformIO \<Rightarrow> string option \<times> PlatformIO" where
  "AutoDetectInterfaceControl fd p =
    (case pf_protect p of
       None \<Rightarrow> (None, p)
     | Some protect \<Rightarrow>
         if \<not> protect fd then (Some (''protect fd '' @ itoa fd @ '' failed''), p)
         else (None, p\<lparr>pf_protectCount := pf_protectCount p + 1\<rparr>))"

section \<open>Data from the host\<close>

record mobileInterface =
  mi_Name :: string
  mi_Index :: int
  mi_MTU :: int
  mi_Addresses :: "string list"
  mi_Flags :: int
  mi_Type :: int

definition dec_mobileInterface :: "json \<Rightarrow> mobileInterface option" where
  "dec_mobileInterface j =
    (case (json_field dec_string ''name'' [] j, json_field dec_int32 ''index'' 0 j, json_field dec_int32 ''mtu'' 0 j,
           json_field dec_strings ''addresses'' [] j, json_field dec_int32 ''flags'' 0 j, json_field dec_int32 ''type'' 0 j) of
       (Some n, Some i, Some m, Some a, Some f, Some t) \<Rightarrow>
         Some \<lparr>mi_Name = n, mi_Index = i, mi_MTU = m, mi_Addresses = a, mi_Flags = f, mi_Type = t\<rparr>
     | _ \<Rightarrow> None)"

text \<open>\<open>netip.ParsePrefix\<close>: no zone, and a length in plain decimal that fits the family.\<close>

definition ParsePrefix :: "string \<Rightarrow> (ip_addr \<times> int) option" where
  "ParsePrefix s =
    (case last_index s CHR ''/'' of
       None \<Rightarrow> None
     | Some i \<Rightarrow>
         (case ParseAddr (take i s) of
            None \<Rightarrow> None
          | Some ip \<Rightarrow>
              let bits = drop (i + 1) s; (n, err) = atoi bits;
                  limit = (case ip of V4 _ \<Rightarrow> 32 | V6 _ _ \<Rightarrow> 128)
              in if (case ip of V4 _ \<Rightarrow> False | V6 _ zone \<Rightarrow> zone \<noteq> []) then None
                 else if 1 < length bits \<and> (hd bits = CHR ''0'' \<or> \<not> is_digit (hd bits)) then None
                 else if err \<noteq> None \<or> n < 0 \<or> limit < n then None
                 else Some (ip, n)))"

text \<open>The prefixes up to the first bad one.\<close>

fun parseInterfaceAddrs :: "string list \<Rightarrow> (ip_addr \<times> int) list" where
  "parseInterfaceAddrs [] = []"
| "parseInterfaceAddrs (s # ss) = (case ParsePrefix s of None \<Rightarrow> [] | Some p \<Rightarrow> p # parseInterfaceAddrs ss)"

definition adapter_interface :: "mobileInterface \<Rightarrow> interface" where
  "adapter_interface mi = \<lparr>if_Name = mi_Name mi, if_Index = mi_Index mi, if_MTU = mi_MTU mi,
     if_Addresses = parseInterfaceAddrs (mi_Addresses mi), if_Flags = mi_Flags mi\<rparr>"

definition parseAdapterInterfaces :: "string \<Rightarrow> interface list option" where
  "parseAdapterInterfaces text =
    (case Option.bind (json_parse text) (\<lambda>j. if j = JNull then Some [] else dec_list dec_mobileInterface j) of
       None \<Rightarrow> None
     | Some mis \<Rightarrow> Some (map adapter_interface mis))"

datatype interfaces_error = No_provider | Bad_interfaces

definition NetworkInterfaces :: "PlatformIO \<Rightarrow> interfaces_error + interface list" where
  "NetworkInterfaces p =
    (case pf_interfaces p of
       None \<Rightarrow> Inl No_provider
     | Some text \<Rightarrow> (case parseAdapterInterfaces text of None \<Rightarrow> Inl Bad_interfaces | Some is \<Rightarrow> Inr is))"

text \<open>SSID and BSSID; both empty without a provider or when its answer is not what it should be.\<close>

definition ReadWIFIState :: "PlatformIO \<Rightarrow> string \<times> string" where
  "ReadWIFIState p =
    (case Option.bind (pf_wifi p) json_parse of
       None \<Rightarrow> ([], [])
     | Some j \<Rightarrow>
         (case (json_field dec_string ''ssid'' [] j, json_field dec_string ''bssid'' [] j) of
            (Some s, Some b) \<Rightarrow> (s, b)
          | _ \<Rightarrow> ([], [])))"

text \<open>The command that flushes the DNS cache of the system.\<close>

definition flush_command :: "string \<Rightarrow> string list option" where
  "flush_command goos =
    (if goos = ''linux'' then Some [''resolvectl'', ''flush-caches'']
     else if goos = ''darwin'' then Some [''dscacheutil'', ''-flushcache'']
     else if goos = ''windows'' then Some [''ipconfig'', ''/flushdns'']
     else None)"

section \<open>The descriptor is used once\<close>

lemma OpenInterface_once:
  "OpenInterface open_tun p = (None, p') \<Longrightarrow>
     pf_tunFd p \<noteq> 0 \<and> pf_tunFd p' = 0 \<and> \<not> UsePlatformInterface p' \<and> OpenInterface open_tun' p' = (Some No_tun_fd, p')"
  by (auto simp: OpenInterface_def UsePlatformInterface_def Let_def split: if_splits sum.splits option.splits)

lemma OpenInterface_failure: "OpenInterface open_tun p = (Some e, p') \<Longrightarrow> p' = p"
  by (auto simp: OpenInterface_def Let_def split: if_splits sum.splits option.splits)

text \<open>The interface the program made is never reported as the default interface afterwards.\<close>

lemma own_interface_skipped:
  "OpenInterface open_tun p = (None, p') \<Longrightarrow> open_tun (pf_tunFd p) = Inr (Some name) \<Longrightarrow> pf_monitor p = Some m \<Longrightarrow>
     pf_monitor p' = Some (RegisterMyInterface name m) \<and>
     UpdateDefaultInterface by_index t name index (RegisterMyInterface name m) = RegisterMyInterface name m"
  by (auto simp: OpenInterface_def UpdateDefaultInterface_def RegisterMyInterface_def Let_def split: if_splits)

end
