(* ===== verification/FrontEnds.thy ===== *)
theory FrontEnds
  imports IpcListen IpcCore Platform "HOL-Library.Multiset"
begin

text \<open>
  The two libraries over the core: the mobile API (\<open>mobile/api.go\<close>) and the C library (\<open>cmd/lib/exports.go\<close>,
  \<open>memory.go\<close>).  Both call the operations of \<open>core_api\<close>; the mobile API owns an IPC server that runs in a
  goroutine, the C library hands strings to its caller, who has to free them.
\<close>

section \<open>The operations of both\<close>

datatype core_op =
    Op_StartWithContent string string | Op_Stop | Op_State | Op_SetLogLevel int | Op_ResetNetwork
  | Op_CheckConfig string | Op_SelectProxy string string | Op_TestDelay string int | Op_SetMode string
  | Op_SetGroupExpand string bool | Op_QueryProxies | Op_QueryStats | Op_QueryConnections | Op_QueryMode
  | Op_CloseConnection string | Op_CloseAllConnections | Op_FlushSystemDNS | Op_QueryRules | Op_FlushFakeIP
  | Op_FlushDNSCache | Op_TestGroupDelay string int | Op_TriggerGC | Op_Version

text \<open>What a method returns: nothing, an error or \<open>nil\<close>, a text (JSON or plain), a number.\<close>

datatype 'e answer = Done | Outcome "'e option" | Check_result "string option" | Json json | Plain string | Number int

text \<open>The methods of \<open>Singcast\<close> that pass on to the core.\<close>

primrec mobile_call :: "('e, 's) core_api \<Rightarrow> core_op \<Rightarrow> 's \<Rightarrow> 'e answer \<times> 's" where
  "mobile_call api (Op_StartWithContent content ruleSetProxy) s = apfst Outcome (api_StartWithContent api content ruleSetProxy s)"
| "mobile_call api Op_Stop s = apfst Outcome (api_Stop api s)"
| "mobile_call api Op_State s = (Plain (State_String (api_State api s)), s)"
| "mobile_call api (Op_SetLogLevel level) s = (Done, api_SetLogLevel api level s)"
| "mobile_call api Op_ResetNetwork s = (Done, api_ResetNetwork api s)"
| "mobile_call api (Op_CheckConfig content) s = (Check_result (api_CheckConfig api content), s)"
| "mobile_call api (Op_SelectProxy grp tag) s = apfst Outcome (api_SelectOutbound api grp tag s)"
| "mobile_call api (Op_TestDelay name timeoutMs) s = (Number (api_URLTest api name timeoutMs s), s)"
| "mobile_call api (Op_SetMode mode) s = apfst Outcome (api_SetMode api mode s)"
| "mobile_call api (Op_SetGroupExpand grp expand) s = apfst Outcome (api_SetGroupExpand api grp expand s)"
| "mobile_call api Op_QueryProxies s = (Json (api_QueryProxies api s), s)"
| "mobile_call api Op_QueryStats s = (Json (api_QueryStats api s), s)"
| "mobile_call api Op_QueryConnections s = (Json (api_QueryConnections api s), s)"
| "mobile_call api Op_QueryMode s = (Json (api_QueryMode api s), s)"
| "mobile_call api (Op_CloseConnection i) s = apfst Outcome (api_CloseConnection api i s)"
| "mobile_call api Op_CloseAllConnections s = apfst Outcome (api_CloseConnections api s)"
| "mobile_call api Op_FlushSystemDNS s = (Done, api_FlushSystemDNS api s)"
| "mobile_call api Op_QueryRules s = (Json (api_QueryRules api s), s)"
| "mobile_call api Op_FlushFakeIP s = apfst Outcome (api_FlushFakeIP api s)"
| "mobile_call api Op_FlushDNSCache s = apfst Outcome (api_FlushDNSCache api s)"
| "mobile_call api (Op_TestGroupDelay groupTag timeoutMs) s = (Json (api_TestGroupDelay api groupTag timeoutMs s), s)"
| "mobile_call api Op_TriggerGC s = (Done, api_TriggerGC api s)"
| "mobile_call api Op_Version s = (Json (api_VersionJSON api), s)"

text \<open>\<open>Convert\<close> exists in the mobile API only.\<close>

definition mobile_Convert :: "('e, 's) core_api \<Rightarrow> string \<Rightarrow> 'e + string" where
  "mobile_Convert api content = api_Convert api content"

text \<open>The settings of the platform.\<close>

definition mobile_Create :: "PlatformIO" where "mobile_Create = SetMobile True NewPlatformIO"

definition mobile_SetTunFd :: "int \<Rightarrow> PlatformIO \<Rightarrow> PlatformIO" where "mobile_SetTunFd fd p = SetTunFd fd p"

definition mobile_SetSocketProtector :: "(int \<Rightarrow> bool) option \<Rightarrow> PlatformIO \<Rightarrow> PlatformIO" where
  "mobile_SetSocketProtector protect p =
    (case protect of None \<Rightarrow> SetSocketProtector None p | Some f \<Rightarrow> SetSocketProtector (Some (\<lambda>fd. f fd)) p)"

section \<open>The IPC server of the mobile API\<close>

text \<open>
  A run of the server: not listening yet, serving, its listener closed by the cancelled context, ended.  The
  steps of the goroutines of all runs and the calls of the host interleave.
\<close>

datatype run_phase = Starting | Serving_on nat | Closing nat | Finished | Listen_error

record endpoint =
  ep_sockets :: sockets
  ep_runs :: "run_phase list"
  ep_cancelled :: "nat list"
  ep_server :: "nat option"
  ep_cancel :: "nat option"

definition new_endpoint :: "12 word \<Rightarrow> endpoint" where
  "new_endpoint umask = \<lparr>ep_sockets = no_sockets umask, ep_runs = [], ep_cancelled = [], ep_server = None, ep_cancel = None\<rparr>"

definition StartIpcServer :: "endpoint \<Rightarrow> bool \<times> endpoint" where
  "StartIpcServer ep =
    (if ep_server ep \<noteq> None then (False, ep)
     else (True, ep\<lparr>ep_runs := ep_runs ep @ [Starting], ep_server := Some (length (ep_runs ep)),
                   ep_cancel := Some (length (ep_runs ep))\<rparr>))"

definition StopIpcServer :: "endpoint \<Rightarrow> endpoint" where
  "StopIpcServer ep =
    (case ep_cancel ep of
       None \<Rightarrow> ep\<lparr>ep_server := None\<rparr>
     | Some r \<Rightarrow> ep\<lparr>ep_cancelled := r # ep_cancelled ep, ep_cancel := None, ep_server := None\<rparr>)"

text \<open>
  The steps of the goroutine of run \<open>r\<close> (\<open>Server.Run\<close>): \<open>Listen\<close>; \<open>Close\<close>, by the goroutine that waits for the context;
  and \<open>Clean_up\<close>, the deferred call after the accept loop has seen the error.
\<close>

datatype ep_action = Start_server | Stop_server | Listen nat | Close nat | Clean_up nat

definition listen_step :: "(nat \<Rightarrow> bind_answer) \<Rightarrow> access \<Rightarrow> string \<Rightarrow> nat \<Rightarrow> endpoint \<Rightarrow> endpoint option" where
  "listen_step binds ac path r ep =
    (if r < length (ep_runs ep) \<and> ep_runs ep ! r = Starting then
       (case listenPlatform binds ac path (ep_sockets ep) of
          (Inl _, sk) \<Rightarrow> Some (ep\<lparr>ep_sockets := sk, ep_runs := (ep_runs ep)[r := Listen_error]\<rparr>)
        | (Inr l, sk) \<Rightarrow> Some (ep\<lparr>ep_sockets := sk, ep_runs := (ep_runs ep)[r := Serving_on l]\<rparr>))
     else None)"

definition close_step :: "string \<Rightarrow> nat \<Rightarrow> endpoint \<Rightarrow> endpoint option" where
  "close_step path r ep =
    (if r < length (ep_runs ep) \<and> r \<in> set (ep_cancelled ep) then
       (case ep_runs ep ! r of
          Serving_on l \<Rightarrow>
            Some (ep\<lparr>ep_sockets := close_listener l path (ep_sockets ep), ep_runs := (ep_runs ep)[r := Closing l]\<rparr>)
        | _ \<Rightarrow> None)
     else None)"

definition cleanup_step :: "string \<Rightarrow> nat \<Rightarrow> endpoint \<Rightarrow> endpoint option" where
  "cleanup_step path r ep =
    (if r < length (ep_runs ep) then
       (case ep_runs ep ! r of
          Closing l \<Rightarrow>
            Some (ep\<lparr>ep_sockets := cleanupPlatform (Some l) path (ep_sockets ep), ep_runs := (ep_runs ep)[r := Finished]\<rparr>)
        | _ \<Rightarrow> None)
     else None)"

definition endpoint_step :: "(nat \<Rightarrow> bind_answer) \<Rightarrow> access \<Rightarrow> string \<Rightarrow> ep_action \<Rightarrow> endpoint \<Rightarrow> endpoint option" where
  "endpoint_step binds ac path a ep =
    (case a of
       Start_server \<Rightarrow> Some (snd (StartIpcServer ep))
     | Stop_server \<Rightarrow> Some (StopIpcServer ep)
     | Listen r \<Rightarrow> listen_step binds ac path r ep
     | Close r \<Rightarrow> close_step path r ep
     | Clean_up r \<Rightarrow> cleanup_step path r ep)"

fun endpoint_run :: "(nat \<Rightarrow> bind_answer) \<Rightarrow> access \<Rightarrow> string \<Rightarrow> ep_action list \<Rightarrow> endpoint \<Rightarrow> endpoint option" where
  "endpoint_run binds ac path [] ep = Some ep"
| "endpoint_run binds ac path (a # as) ep =
     (case endpoint_step binds ac path a ep of None \<Rightarrow> None | Some ep \<Rightarrow> endpoint_run binds ac path as ep)"

section \<open>The C library\<close>

text \<open>
  The heap of strings handed out and not yet freed, by address; \<open>cl_given\<close> records every string that was handed
  out.  An event callback is an address of the host.
\<close>

record 's clib =
  cl_core :: 's
  cl_callback :: "nat option"
  cl_next :: nat
  cl_live :: "nat list"
  cl_given :: "nat list"
  cl_delivered :: "(nat \<times> int \<times> nat) list"

definition cString :: "'s clib \<Rightarrow> nat \<times> 's clib" where
  "cString cl =
    (let p = cl_next cl
     in (p, cl\<lparr>cl_next := p + 1, cl_live := p # cl_live cl, cl_given := p # cl_given cl\<rparr>))"

text \<open>\<open>CoreFreeString\<close>: nothing for NULL; freeing a string twice is undefined.\<close>

definition CoreFreeString :: "nat option \<Rightarrow> 's clib \<Rightarrow> 's clib option" where
  "CoreFreeString p cl =
    (case p of
       None \<Rightarrow> Some cl
     | Some p \<Rightarrow> if p \<in> set (cl_live cl) then Some (cl\<lparr>cl_live := remove1 p (cl_live cl)\<rparr>) else None)"

definition CoreSetEventCallback :: "nat option \<Rightarrow> 's clib \<Rightarrow> 's clib" where
  "CoreSetEventCallback cb cl = cl\<lparr>cl_callback := cb\<rparr>"

text \<open>The event handler that \<open>init\<close> registers with the core.\<close>

definition emit_event :: "int \<Rightarrow> 's clib \<Rightarrow> 's clib" where
  "emit_event eventType cl =
    (case cl_callback cl of
       None \<Rightarrow> cl
     | Some cb \<Rightarrow> (case cString cl of (p, cl) \<Rightarrow> cl\<lparr>cl_delivered := (cb, eventType, p) # cl_delivered cl\<rparr>))"

definition errorString :: "'e option \<Rightarrow> 's clib \<Rightarrow> nat option \<times> 's clib" where
  "errorString e cl = (case e of None \<Rightarrow> (None, cl) | Some _ \<Rightarrow> apfst Some (cString cl))"

text \<open>What an exported function returns: nothing, an integer, or a pointer to a string that may be NULL.\<close>

datatype c_value = C_void | C_int int | C_string "nat option"

definition returned :: "'e answer \<Rightarrow> 's clib \<Rightarrow> c_value \<times> 's clib" where
  "returned a cl =
    (case a of
       Done \<Rightarrow> (C_void, cl)
     | Number n \<Rightarrow> (C_int n, cl)
     | Outcome e \<Rightarrow> apfst C_string (errorString e cl)
     | Check_result e \<Rightarrow> apfst C_string (errorString e cl)
     | Json _ \<Rightarrow> apfst (C_string \<circ> Some) (cString cl)
     | Plain _ \<Rightarrow> apfst (C_string \<circ> Some) (cString cl))"

text \<open>The exported functions; a flag is any integer but zero.\<close>

datatype c_function =
    CoreStartWithContent string string | CoreStop | CoreQueryState | CoreSetLogLevel int | CoreResetNetwork
  | CoreCheckConfig string | CoreSelectProxy string string | CoreTestDelay string int | CoreSetMode string
  | CoreSetGroupExpand string int | CoreQueryProxies | CoreQueryStats | CoreQueryConnections | CoreQueryMode
  | CoreCloseConnection string | CoreCloseAllConnections | CoreFlushSystemDNS | CoreQueryRules | CoreFlushFakeIP
  | CoreFlushDNSCache | CoreTestGroupDelay string int | CoreTriggerGC | CoreGetVersion

definition export_answer :: "('e, 's) core_api \<Rightarrow> c_function \<Rightarrow> 's \<Rightarrow> 'e answer \<times> 's" where
  "export_answer api f s =
    (case f of
       CoreStartWithContent content ruleSetProxy \<Rightarrow> apfst Outcome (api_StartWithContent api content ruleSetProxy s)
     | CoreStop \<Rightarrow> apfst Outcome (api_Stop api s)
     | CoreQueryState \<Rightarrow> (Plain (State_String (api_State api s)), s)
     | CoreSetLogLevel level \<Rightarrow> (Done, api_SetLogLevel api level s)
     | CoreResetNetwork \<Rightarrow> (Done, api_ResetNetwork api s)
     | CoreCheckConfig content \<Rightarrow> (Check_result (api_CheckConfig api content), s)
     | CoreSelectProxy grp tag \<Rightarrow> apfst Outcome (api_SelectOutbound api grp tag s)
     | CoreTestDelay name timeoutMs \<Rightarrow> (Number (api_URLTest api name timeoutMs s), s)
     | CoreSetMode mode \<Rightarrow> apfst Outcome (api_SetMode api mode s)
     | CoreSetGroupExpand grp expand \<Rightarrow> apfst Outcome (api_SetGroupExpand api grp (expand \<noteq> 0) s)
     | CoreQueryProxies \<Rightarrow> (Json (api_QueryProxies api s), s)
     | CoreQueryStats \<Rightarrow> (Json (api_QueryStats api s), s)
     | CoreQueryConnections \<Rightarrow> (Json (api_QueryConnections api s), s)
     | CoreQueryMode \<Rightarrow> (Json (api_QueryMode api s), s)
     | CoreCloseConnection i \<Rightarrow> apfst Outcome (api_CloseConnection api i s)
     | CoreCloseAllConnections \<Rightarrow> apfst Outcome (api_CloseConnections api s)
     | CoreFlushSystemDNS \<Rightarrow> (Done, api_FlushSystemDNS api s)
     | CoreQueryRules \<Rightarrow> (Json (api_QueryRules api s), s)
     | CoreFlushFakeIP \<Rightarrow> apfst Outcome (api_FlushFakeIP api s)
     | CoreFlushDNSCache \<Rightarrow> apfst Outcome (api_FlushDNSCache api s)
     | CoreTestGroupDelay grp timeoutMs \<Rightarrow> (Json (api_TestGroupDelay api grp timeoutMs s), s)
     | CoreTriggerGC \<Rightarrow> (Done, api_TriggerGC api s)
     | CoreGetVersion \<Rightarrow> (Json (api_VersionJSON api), s))"

definition export_call :: "('e, 's) core_api \<Rightarrow> c_function \<Rightarrow> 's clib \<Rightarrow> c_value \<times> 's clib" where
  "export_call api f cl =
    (case export_answer api f (cl_core cl) of (a, s) \<Rightarrow> returned a (cl\<lparr>cl_core := s\<rparr>))"

section \<open>The three front ends\<close>

text \<open>The operation an exported function stands for, and the one a request asks for.\<close>

fun op_of :: "c_function \<Rightarrow> core_op" where
  "op_of (CoreStartWithContent c p) = Op_StartWithContent c p"
| "op_of CoreStop = Op_Stop"
| "op_of CoreQueryState = Op_State"
| "op_of (CoreSetLogLevel l) = Op_SetLogLevel l"
| "op_of CoreResetNetwork = Op_ResetNetwork"
| "op_of (CoreCheckConfig c) = Op_CheckConfig c"
| "op_of (CoreSelectProxy g t) = Op_SelectProxy g t"
| "op_of (CoreTestDelay n ms) = Op_TestDelay n ms"
| "op_of (CoreSetMode m) = Op_SetMode m"
| "op_of (CoreSetGroupExpand g e) = Op_SetGroupExpand g (e \<noteq> 0)"
| "op_of CoreQueryProxies = Op_QueryProxies"
| "op_of CoreQueryStats = Op_QueryStats"
| "op_of CoreQueryConnections = Op_QueryConnections"
| "op_of CoreQueryMode = Op_QueryMode"
| "op_of (CoreCloseConnection i) = Op_CloseConnection i"
| "op_of CoreCloseAllConnections = Op_CloseAllConnections"
| "op_of CoreFlushSystemDNS = Op_FlushSystemDNS"
| "op_of CoreQueryRules = Op_QueryRules"
| "op_of CoreFlushFakeIP = Op_FlushFakeIP"
| "op_of CoreFlushDNSCache = Op_FlushDNSCache"
| "op_of (CoreTestGroupDelay g ms) = Op_TestGroupDelay g ms"
| "op_of CoreTriggerGC = Op_TriggerGC"
| "op_of CoreGetVersion = Op_Version"

definition param_op :: "(json \<Rightarrow> 'p option) \<Rightarrow> ('p \<Rightarrow> core_op) \<Rightarrow> JSONRPCRequest \<Rightarrow> core_op option" where
  "param_op dec mk req = map_option mk (Option.bind (jr_Params req) dec)"

definition request_table :: "(string \<times> (JSONRPCRequest \<Rightarrow> core_op option)) list" where
  "request_table =
    [(''core.startWithContent'', param_op dec_StartParams (\<lambda>p. Op_StartWithContent (sp_Content p) (sp_RuleSetProxy p))),
     (''core.stop'', \<lambda>_. Some Op_Stop),
     (''core.queryState'', \<lambda>_. Some Op_State),
     (''core.queryStats'', \<lambda>_. Some Op_QueryStats),
     (''core.queryProxies'', \<lambda>_. Some Op_QueryProxies),
     (''core.queryConnections'', \<lambda>_. Some Op_QueryConnections),
     (''core.queryMode'', \<lambda>_. Some Op_QueryMode),
     (''core.queryRules'', \<lambda>_. Some Op_QueryRules),
     (''core.testDelay'', param_op dec_TestDelayParams (\<lambda>p. Op_TestDelay (td_Tag p) (td_TimeoutMs p))),
     (''core.testGroupDelay'', param_op dec_TestGroupDelayParams (\<lambda>p. Op_TestGroupDelay (tg_GroupTag p) (tg_TimeoutMs p))),
     (''core.selectProxy'', param_op dec_SelectProxyParams (\<lambda>p. Op_SelectProxy (sel_GroupTag p) (sel_OutboundTag p))),
     (''core.setMode'', param_op dec_SetModeParams Op_SetMode),
     (''core.closeConnection'', param_op dec_CloseConnectionParams Op_CloseConnection),
     (''core.closeAllConnections'', \<lambda>_. Some Op_CloseAllConnections),
     (''core.setGroupExpand'', param_op dec_SetGroupExpandParams (\<lambda>p. Op_SetGroupExpand (ge_GroupTag p) (ge_Expand p))),
     (''core.flushFakeIP'', \<lambda>_. Some Op_FlushFakeIP),
     (''core.flushDNSCache'', \<lambda>_. Some Op_FlushDNSCache),
     (''core.flushSystemDNS'', \<lambda>_. Some Op_FlushSystemDNS),
     (''core.resetNetwork'', \<lambda>_. Some Op_ResetNetwork),
     (''core.triggerGC'', \<lambda>_. Some Op_TriggerGC),
     (''core.getVersion'', \<lambda>_. Some Op_Version),
     (''core.checkConfig'', param_op dec_CheckConfigParams Op_CheckConfig),
     (''core.setLogLevel'', param_op dec_SetLogLevelParams Op_SetLogLevel)]"

definition request_op :: "JSONRPCRequest \<Rightarrow> core_op option" where
  "request_op req = (case map_of request_table (jr_Method req) of None \<Rightarrow> None | Some f \<Rightarrow> f req)"

text \<open>How the answer of an operation is told in a response.\<close>

definition rpc_answer :: "int \<Rightarrow> 'e answer \<Rightarrow> 'e JSONRPCResponse" where
  "rpc_answer i a =
    (case a of
       Done \<Rightarrow> newEmptyResult i
     | Outcome None \<Rightarrow> newEmptyResult i
     | Outcome (Some e) \<Rightarrow> newError i 1 (Core_error e)
     | Check_result e \<Rightarrow> newResult i (JObj [(''error'', JStr (case e of None \<Rightarrow> [] | Some t \<Rightarrow> t))])
     | Json j \<Rightarrow> newResult i j
     | Plain t \<Rightarrow> newResult i (JStr t)
     | Number n \<Rightarrow> newResult i (JObj [(''delay'', jint n)]))"

lemma handleVoid_answer: "handleVoid i r = apfst (rpc_answer i) (apfst Outcome r)"
  by (cases r) (auto simp: handleVoid_def rpc_answer_def split: option.split)

lemma with_params_op:
  assumes "param_op dec mk req = Some op" and "\<And>p. run p s = apfst (rpc_answer i) (mobile_call api (mk p) s)"
  shows "with_params dec run req i s = apfst (rpc_answer i) (mobile_call api op s)"
  using assms by (auto simp: param_op_def with_params_def)

lemma Handle_mobile:
  assumes "request_op req = Some op"
  shows "Handle api req s = apfst (rpc_answer (request_id req)) (mobile_call api op s)"
proof -
  obtain f where f: "map_of request_table (jr_Method req) = Some f" "f req = Some op"
    using assms by (auto simp: request_op_def split: option.splits)
  have "(jr_Method req, f) \<in> set request_table" using f(1) by (rule map_of_SomeD)
  then show ?thesis
    unfolding request_table_def list.set
    by (elim insertE emptyE Pair_inject; insert f(2); hypsubst_thin?)
      (auto simp: Handle_def method_table_def handler_defs handleRawJSON_def handleVoid_answer rpc_answer_def
        intro!: with_params_op split: option.split)
qed

lemma export_mobile: "export_answer api f s = mobile_call api (op_of f) s"
  by (cases f) (simp_all add: export_answer_def)

section \<open>Who owns the strings of the C library\<close>

text \<open>
  What the host and the core do with the library; the strings the host has got are those returned to it and those
  delivered to its callback.
\<close>

datatype c_action = Call c_function | Event int | Free "nat option" | Set_callback "nat option"

record 's c_host =
  ch_lib :: "'s clib"
  ch_returned :: "nat list"
  ch_freed :: "nat list"

definition clib_init :: "'s \<Rightarrow> 's c_host" where
  "clib_init s =
    \<lparr>ch_lib = \<lparr>cl_core = s, cl_callback = None, cl_next = 0, cl_live = [], cl_given = [], cl_delivered = []\<rparr>,
     ch_returned = [], ch_freed = []\<rparr>"

definition pointer :: "c_value \<Rightarrow> nat list" where
  "pointer v = (case v of C_string (Some p) \<Rightarrow> [p] | _ \<Rightarrow> [])"

definition clib_step :: "('e, 's) core_api \<Rightarrow> c_action \<Rightarrow> 's c_host \<Rightarrow> 's c_host option" where
  "clib_step api a h =
    (case a of
       Call f \<Rightarrow> (case export_call api f (ch_lib h) of (v, cl) \<Rightarrow> Some (h\<lparr>ch_lib := cl, ch_returned := pointer v @ ch_returned h\<rparr>))
     | Event ty \<Rightarrow> Some (h\<lparr>ch_lib := emit_event ty (ch_lib h)\<rparr>)
     | Free p \<Rightarrow>
         (case CoreFreeString p (ch_lib h) of
            None \<Rightarrow> None
          | Some cl \<Rightarrow> Some (h\<lparr>ch_lib := cl, ch_freed := (case p of None \<Rightarrow> [] | Some q \<Rightarrow> [q]) @ ch_freed h\<rparr>))
     | Set_callback cb \<Rightarrow> Some (h\<lparr>ch_lib := CoreSetEventCallback cb (ch_lib h)\<rparr>))"

fun clib_run :: "('e, 's) core_api \<Rightarrow> c_action list \<Rightarrow> 's c_host \<Rightarrow> 's c_host option" where
  "clib_run api [] h = Some h"
| "clib_run api (a # as) h = (case clib_step api a h of None \<Rightarrow> None | Some h \<Rightarrow> clib_run api as h)"

definition host_got :: "'s c_host \<Rightarrow> nat multiset" where
  "host_got h = mset (ch_returned h) + mset (map (\<lambda>(_, _, p). p) (cl_delivered (ch_lib h)))"

text \<open>
  Every string that was made has reached the host once; those it has not freed are alive; all are different.
\<close>

definition strings_owned :: "'s c_host \<Rightarrow> bool" where
  "strings_owned h \<longleftrightarrow>
     mset (cl_given (ch_lib h)) = host_got h \<and>
     mset (cl_live (ch_lib h)) + mset (ch_freed h) = mset (cl_given (ch_lib h)) \<and>
     distinct (cl_given (ch_lib h)) \<and> (\<forall>p \<in> set (cl_given (ch_lib h)). p < cl_next (ch_lib h))"

lemma strings_owned_init: "strings_owned (clib_init s)"
  by (simp add: strings_owned_def clib_init_def host_got_def)

lemma cString_owned:
  "strings_owned h \<Longrightarrow> cString (ch_lib h) = (p, cl) \<Longrightarrow>
     strings_owned (h\<lparr>ch_lib := cl, ch_returned := p # ch_returned h\<rparr>) \<and> cl_delivered cl = cl_delivered (ch_lib h)"
  by (auto simp: strings_owned_def cString_def Let_def host_got_def less_Suc_eq)

lemma strings_owned_core: "strings_owned (h\<lparr>ch_lib := (ch_lib h)\<lparr>cl_core := s\<rparr>\<rparr>) = strings_owned h"
  by (simp add: strings_owned_def host_got_def)

lemma returned_owned:
  assumes "strings_owned h" and "returned a (ch_lib h) = (v, cl)"
  shows "strings_owned (h\<lparr>ch_lib := cl, ch_returned := pointer v @ ch_returned h\<rparr>)"
proof -
  obtain p cl' where c: "cString (ch_lib h) = (p, cl')" by (rule prod.exhaust)
  have "strings_owned (h\<lparr>ch_lib := cl', ch_returned := p # ch_returned h\<rparr>)" using cString_owned[OF assms(1) c] by blast
  then show ?thesis
    using assms c by (cases a) (auto simp: returned_def errorString_def pointer_def split: option.splits)
qed

lemma emit_owned:
  assumes "strings_owned h"
  shows "strings_owned (h\<lparr>ch_lib := emit_event ty (ch_lib h)\<rparr>)"
proof (cases "cl_callback (ch_lib h)")
  case None
  then show ?thesis using assms by (simp add: emit_event_def)
next
  case (Some cb)
  obtain p cl where c: "cString (ch_lib h) = (p, cl)" by (rule prod.exhaust)
  show ?thesis
    using cString_owned[OF assms c] Some c by (simp add: emit_event_def strings_owned_def host_got_def)
qed

lemma free_owned:
  assumes "strings_owned h" and "CoreFreeString p (ch_lib h) = Some cl"
  shows "strings_owned (h\<lparr>ch_lib := cl, ch_freed := (case p of None \<Rightarrow> [] | Some q \<Rightarrow> [q]) @ ch_freed h\<rparr>)"
proof (cases p)
  case (Some q)
  then have q: "q \<in> set (cl_live (ch_lib h))" "cl = (ch_lib h)\<lparr>cl_live := remove1 q (cl_live (ch_lib h))\<rparr>"
    using assms(2) by (auto simp: CoreFreeString_def split: if_splits)
  have "mset (remove1 q (cl_live (ch_lib h))) + mset (q # ch_freed h) = mset (cl_live (ch_lib h)) + mset (ch_freed h)"
    using q(1) by simp
  also have "\<dots> = mset (cl_given (ch_lib h))" using assms(1) by (simp add: strings_owned_def)
  finally show ?thesis
    using assms(1) Some unfolding strings_owned_def host_got_def q(2) by simp
next
  case None
  then show ?thesis using assms by (auto simp: CoreFreeString_def strings_owned_def host_got_def)
qed

lemma clib_step_owned: "clib_step api a h = Some h' \<Longrightarrow> strings_owned h \<Longrightarrow> strings_owned h'"
proof (cases a)
  case (Call f)
  assume s: "clib_step api a h = Some h'" "strings_owned h"
  obtain x t where e: "export_answer api f (cl_core (ch_lib h)) = (x, t)" by (rule prod.exhaust)
  let ?h = "h\<lparr>ch_lib := (ch_lib h)\<lparr>cl_core := t\<rparr>\<rparr>"
  obtain v cl where r: "returned x (ch_lib ?h) = (v, cl)" by (rule prod.exhaust)
  have "strings_owned ?h" using s(2) by (simp only: strings_owned_core)
  from returned_owned[OF this r] show ?thesis using s(1) Call e r by (simp add: clib_step_def export_call_def)
next
  case (Free p)
  assume "clib_step api a h = Some h'" "strings_owned h"
  then show ?thesis using free_owned[of h p] Free by (auto simp: clib_step_def split: option.splits)
next
  case (Event ty)
  assume "clib_step api a h = Some h'" "strings_owned h"
  then show ?thesis using emit_owned[of h ty] Event by (auto simp: clib_step_def)
next
  case (Set_callback cb)
  assume "clib_step api a h = Some h'" "strings_owned h"
  then show ?thesis using Set_callback by (auto simp: clib_step_def CoreSetEventCallback_def strings_owned_def host_got_def)
qed

lemma clib_run_owned: "clib_run api as h = Some h' \<Longrightarrow> strings_owned h \<Longrightarrow> strings_owned h'"
  by (induction api as h rule: clib_run.induct) (auto split: option.splits intro: clib_step_owned)

text \<open>Freeing a string the host has got and not freed always works; the host can empty the heap.\<close>

lemma free_given: "strings_owned h \<Longrightarrow> p \<in># host_got h - mset (ch_freed h) \<Longrightarrow> clib_step api (Free (Some p)) h \<noteq> None"
proof -
  assume o: "strings_owned h" and p: "p \<in># host_got h - mset (ch_freed h)"
  have "mset (cl_live (ch_lib h)) + mset (ch_freed h) = host_got h" using o by (simp add: strings_owned_def)
  then have "host_got h - mset (ch_freed h) = mset (cl_live (ch_lib h))" by (metis add_diff_cancel_right')
  then show "clib_step api (Free (Some p)) h \<noteq> None"
    using p by (simp add: clib_step_def CoreFreeString_def)
qed

lemma free_all:
  "\<exists>h'. clib_run api (map (\<lambda>p. Free (Some p)) (cl_live (ch_lib h))) h = Some h' \<and> cl_live (ch_lib h') = []"
proof (induction "cl_live (ch_lib h)" arbitrary: h)
  case (Cons p ps)
  let ?h = "h\<lparr>ch_lib := (ch_lib h)\<lparr>cl_live := ps\<rparr>, ch_freed := p # ch_freed h\<rparr>"
  have "clib_step api (Free (Some p)) h = Some ?h"
    by (simp add: clib_step_def CoreFreeString_def Cons(2)[symmetric])
  moreover have "ps = cl_live (ch_lib ?h)" by simp
  note Cons(1)[OF this]
  ultimately show ?case using Cons(2)[symmetric] by simp
qed simp

section \<open>One server after the other\<close>

definition active :: "run_phase \<Rightarrow> bool" where
  "active ph = (case ph of Starting \<Rightarrow> True | Serving_on _ \<Rightarrow> True | Closing _ \<Rightarrow> True | _ \<Rightarrow> False)"

text \<open>Schedules in which a server is started only when all earlier ones have ended.\<close>

fun orderly_run :: "(nat \<Rightarrow> bind_answer) \<Rightarrow> access \<Rightarrow> string \<Rightarrow> ep_action list \<Rightarrow> endpoint \<Rightarrow> endpoint option" where
  "orderly_run binds ac path [] ep = Some ep"
| "orderly_run binds ac path (a # as) ep =
     (if a = Start_server \<and> list_ex active (ep_runs ep) then None
      else (case endpoint_step binds ac path a ep of None \<Rightarrow> None | Some ep \<Rightarrow> orderly_run binds ac path as ep))"

text \<open>
  Then at most one run is active, and a serving one has the name of the socket; an open listener belongs to a
  serving run.
\<close>

definition phase_ok :: "string \<Rightarrow> sockets \<Rightarrow> run_phase \<Rightarrow> bool" where
  "phase_ok path sk ph =
    (case ph of
       Serving_on l \<Rightarrow> sk_names sk path = Some (l, 384) \<and> sk_open sk = [l]
     | Closing l \<Rightarrow> sk_open sk = []
     | Starting \<Rightarrow> sk_open sk = []
     | _ \<Rightarrow> True)"

definition endpoint_ok :: "string \<Rightarrow> endpoint \<Rightarrow> bool" where
  "endpoint_ok path ep \<longleftrightarrow>
     sockets_ok (ep_sockets ep) \<and> list_all (phase_ok path (ep_sockets ep)) (ep_runs ep) \<and>
     (\<forall>r r'. r < length (ep_runs ep) \<and> r' < length (ep_runs ep) \<and> active (ep_runs ep ! r) \<and> active (ep_runs ep ! r') \<longrightarrow> r = r') \<and>
     (list_ex active (ep_runs ep) \<or> sk_open (ep_sockets ep) = [])"

lemma endpoint_ok_new: "endpoint_ok path (new_endpoint umask)"
  by (simp add: endpoint_ok_def new_endpoint_def sockets_ok_new) (simp add: no_sockets_def)

text \<open>A step of the one active run.\<close>

lemma active_step:
  assumes ok: "endpoint_ok path ep" and r: "r < length (ep_runs ep)" "active (ep_runs ep ! r)"
    and sk: "sockets_ok sk" "phase_ok path sk ph" "active ph \<or> sk_open sk = []"
  shows "endpoint_ok path (ep\<lparr>ep_sockets := sk, ep_runs := (ep_runs ep)[r := ph]\<rparr>)"
proof -
  let ?runs = "(ep_runs ep)[r := ph]"
  have others: "\<not> active (ep_runs ep ! q)" if "q < length (ep_runs ep)" "q \<noteq> r" for q
    using ok r that by (auto simp: endpoint_ok_def)
  have idle: "phase_ok path sk x" if "\<not> active x" for x
    using that by (cases x) (simp_all add: phase_ok_def active_def)
  have "phase_ok path sk (?runs ! q)" if "q < length ?runs" for q
    using that others idle sk(2) by (cases "q = r") simp_all
  then have "list_all (phase_ok path sk) ?runs" by (simp add: list_all_length)
  moreover have "q = q'" if "q < length ?runs" "q' < length ?runs" "active (?runs ! q)" "active (?runs ! q')" for q q'
    using that others by (metis length_list_update nth_list_update_neq)
  moreover have "list_ex active ?runs \<or> sk_open sk = []"
    using sk(3) r(1) by (auto simp: list_ex_length intro!: exI[of _ r])
  ultimately show ?thesis using sk(1) by (simp add: endpoint_ok_def)
qed

lemma active_open: "endpoint_ok path ep \<Longrightarrow> r < length (ep_runs ep) \<Longrightarrow> phase_ok path (ep_sockets ep) (ep_runs ep ! r)"
  by (simp add: endpoint_ok_def list_all_length)

lemma listen_endpoint:
  assumes "listen_step binds ac path r ep = Some ep'" and ok: "endpoint_ok path ep"
  shows "endpoint_ok path ep'"
proof -
  have r: "r < length (ep_runs ep)" "ep_runs ep ! r = Starting"
    using assms(1) by (auto simp: listen_step_def split: if_splits)
  have none: "sk_open (ep_sockets ep) = []" using active_open[OF ok r(1)] r(2) by (simp add: phase_ok_def)
  have sok: "sockets_ok (ep_sockets ep)" using ok by (simp add: endpoint_ok_def)
  obtain x sk where l: "listenPlatform binds ac path (ep_sockets ep) = (x, sk)" by (rule prod.exhaust)
  have act: "active (ep_runs ep ! r)" using r(2) by (simp add: active_def)
  show ?thesis
  proof (cases x)
    case (Inl e)
    have "endpoint_ok path (ep\<lparr>ep_sockets := sk, ep_runs := (ep_runs ep)[r := Listen_error]\<rparr>)"
      using posix.listen_fails[OF sok l[unfolded Inl]] none by (intro active_step[OF ok r(1) act]) (simp_all add: phase_ok_def)
    then show ?thesis using assms(1) r l Inl by (simp add: listen_step_def)
  next
    case (Inr n)
    have "endpoint_ok path (ep\<lparr>ep_sockets := sk, ep_runs := (ep_runs ep)[r := Serving_on n]\<rparr>)"
      using posix.listen_opens[OF sok l[unfolded Inr]] none
      by (intro active_step[OF ok r(1) act]) (simp_all add: phase_ok_def active_def)
    then show ?thesis using assms(1) r l Inr by (simp add: listen_step_def)
  qed
qed

lemma close_endpoint:
  assumes "close_step path r ep = Some ep'" and ok: "endpoint_ok path ep"
  shows "endpoint_ok path ep'"
proof -
  obtain l where r: "r < length (ep_runs ep)" "ep_runs ep ! r = Serving_on l"
    "ep' = ep\<lparr>ep_sockets := close_listener l path (ep_sockets ep), ep_runs := (ep_runs ep)[r := Closing l]\<rparr>"
    using assms(1) by (auto simp: close_step_def split: if_splits run_phase.splits)
  have o: "sk_open (ep_sockets ep) = [l]" using active_open[OF ok r(1)] r(2) by (simp add: phase_ok_def)
  have "sockets_ok (close_listener l path (ep_sockets ep))" using ok posix.close_ok by (simp add: endpoint_ok_def)
  then show ?thesis
    unfolding r(3) using o r(1,2)
    by (intro active_step[OF ok]) (simp_all add: phase_ok_def active_def posix.close_open)
qed

lemma cleanup_endpoint:
  assumes "cleanup_step path r ep = Some ep'" and ok: "endpoint_ok path ep"
  shows "endpoint_ok path ep'"
proof -
  obtain l where r: "r < length (ep_runs ep)" "ep_runs ep ! r = Closing l"
    "ep' = ep\<lparr>ep_sockets := cleanupPlatform (Some l) path (ep_sockets ep), ep_runs := (ep_runs ep)[r := Finished]\<rparr>"
    using assms(1) by (auto simp: cleanup_step_def split: if_splits run_phase.splits)
  have o: "sk_open (ep_sockets ep) = []" using active_open[OF ok r(1)] r(2) by (simp add: phase_ok_def)
  have "sockets_ok (cleanupPlatform (Some l) path (ep_sockets ep))" using ok posix.cleanup_ok by (simp add: endpoint_ok_def)
  then show ?thesis
    unfolding r(3) using o r(1,2)
    by (intro active_step[OF ok]) (simp_all add: phase_ok_def active_def posix.cleanup_open)
qed

lemma start_endpoint:
  assumes "endpoint_ok path ep" and "\<not> list_ex active (ep_runs ep)"
  shows "endpoint_ok path (snd (StartIpcServer ep))"
proof -
  have i: "\<not> active (ep_runs ep ! r)" if "r < length (ep_runs ep)" for r using assms(2) that by (auto simp: list_ex_length)
  have "\<not> active ((ep_runs ep @ [Starting]) ! r)" if "r < length (ep_runs ep)" for r using i[OF that] that by (simp add: nth_append)
  then have "r = length (ep_runs ep)" if "r < Suc (length (ep_runs ep))" "active ((ep_runs ep @ [Starting]) ! r)" for r
    using that by (metis less_SucE)
  moreover have "list_ex active (ep_runs ep @ [Starting])" by (simp add: active_def)
  ultimately show ?thesis
    using assms by (auto simp: StartIpcServer_def endpoint_ok_def phase_ok_def[of _ _ Starting])
qed

lemma orderly_step:
  assumes "endpoint_step binds ac path a ep = Some ep'" and "endpoint_ok path ep"
    and "a = Start_server \<Longrightarrow> \<not> list_ex active (ep_runs ep)"
  shows "endpoint_ok path ep'"
proof (cases a)
  case Start_server
  then show ?thesis using assms start_endpoint by (auto simp: endpoint_step_def)
next
  case Stop_server
  then show ?thesis using assms by (auto simp: endpoint_step_def StopIpcServer_def endpoint_ok_def split: option.splits)
qed (use assms listen_endpoint close_endpoint cleanup_endpoint in \<open>auto simp: endpoint_step_def\<close>)

lemma orderly_run_ok: "orderly_run binds ac path as ep = Some ep' \<Longrightarrow> endpoint_ok path ep \<Longrightarrow> endpoint_ok path ep'"
  by (induction binds ac path as ep rule: orderly_run.induct)
    (auto split: option.splits if_splits intro: orderly_step)

text \<open>
  A fast restart: \<open>StopIpcServer\<close> does not wait for the old run.  The old run has closed its listener, the new one
  binds the name, and then the deferred clean-up of the old run removes it.
\<close>

definition fast_restart :: "ep_action list" where
  "fast_restart = [Start_server, Listen 0, Stop_server, Start_server, Close 0, Listen 1, Clean_up 0]"

text \<open>Or the new run finds the old one still listening, and fails after \<open>StartIpcServer\<close> has returned.\<close>

definition faster_restart :: "ep_action list" where
  "faster_restart = [Start_server, Listen 0, Stop_server, Start_server, Listen 1, Close 0, Clean_up 0]"

definition plain_access :: access where
  "plain_access = \<lparr>ac_env = (\<lambda>_. []), ac_stat = Some (Some 0), ac_setfacl = (\<lambda>_. True)\<rparr>"

lemma restart_runs:
  "map_option (\<lambda>ep. (ep_server ep, ep_runs ep, sk_names (ep_sockets ep) ''s'', sk_open (ep_sockets ep)))
     (endpoint_run (\<lambda>_. Allowed) plain_access ''s'' fast_restart (new_endpoint 18)) =
     Some (Some 1, [Finished, Serving_on 1], None, [1])"
  "map_option (\<lambda>ep. (ep_server ep, ep_runs ep, sk_names (ep_sockets ep) ''s'', sk_open (ep_sockets ep)))
     (endpoint_run (\<lambda>_. Allowed) plain_access ''s'' faster_restart (new_endpoint 18)) =
     Some (Some 1, [Finished, Listen_error], None, [])"
  by code_simp+

end
