(* ===== verification/Cmd.thy ===== *)
theory Cmd
  imports ServiceConfig
begin

text \<open>
  The command line of \<open>cmd/singcast\<close>: loading a configuration (\<open>translate.go\<close>), \<open>check\<close> and \<open>convert\<close>, and the
  \<open>run\<close> command with the override of the API address and the reload.  A file system is a map from paths to
  contents; \<open>convert\<close> and \<open>proxied\<close> are \<open>translator.Convert\<close> and \<open>ApplyRuleSetProxy\<close> on texts.
\<close>

section \<open>Loading a configuration\<close>

definition loadConfigJSON ::
  "(string \<Rightarrow> string option) \<Rightarrow> (string \<Rightarrow> string \<Rightarrow> string option) \<Rightarrow> (string \<rightharpoonup> string) \<Rightarrow> string \<Rightarrow> string \<Rightarrow> string option" where
  "loadConfigJSON convert proxied files path ruleSetProxy =
    (case files path of
       None \<Rightarrow> None
     | Some data \<Rightarrow>
         if trim_space data = [] then None
         else (case convert data of
                 None \<Rightarrow> None
               | Some result \<Rightarrow> if ruleSetProxy = [] then Some result else proxied result ruleSetProxy))"

text \<open>The \<open>check\<close> command: \<open>check_config\<close> is \<open>core.CheckConfig\<close>, true when it returns no error.\<close>

definition check_command ::
  "(string \<Rightarrow> string option) \<Rightarrow> (string \<Rightarrow> string \<Rightarrow> string option) \<Rightarrow> (string \<Rightarrow> bool) \<Rightarrow> (string \<rightharpoonup> string) \<Rightarrow>
   string \<Rightarrow> string \<Rightarrow> bool" where
  "check_command convert proxied check_config files path ruleSetProxy =
    (case loadConfigJSON convert proxied files path ruleSetProxy of None \<Rightarrow> False | Some json \<Rightarrow> check_config json)"

text \<open>The \<open>convert\<close> command: what goes to standard output, and the files; \<open>None\<close> is an error.\<close>

definition convert_command ::
  "(string \<Rightarrow> string option) \<Rightarrow> (string \<Rightarrow> string \<Rightarrow> string option) \<Rightarrow> string \<Rightarrow> string \<Rightarrow> string \<Rightarrow> (string \<rightharpoonup> string) \<Rightarrow>
   (string \<times> (string \<rightharpoonup> string)) option" where
  "convert_command convert proxied path ruleSetProxy output files =
    (case loadConfigJSON convert proxied files path ruleSetProxy of
       None \<Rightarrow> None
     | Some result \<Rightarrow> if output = [] then Some (result @ [CHR 10], files) else Some ([], files(output \<mapsto> result)))"

section \<open>The API address\<close>

text \<open>A raw map: the last of several members with one key.\<close>

definition raw_map :: "(string \<times> json) list \<Rightarrow> json gomap" where
  "raw_map ms = fold (\<lambda>(k, v). mput k v) ms []"

definition section_map :: "string \<Rightarrow> json gomap \<Rightarrow> json gomap option" where
  "section_map name m =
    (case map_of m name of
       None \<Rightarrow> Some []
     | Some JNull \<Rightarrow> Some []
     | Some (JObj ms) \<Rightarrow> Some (raw_map ms)
     | _ \<Rightarrow> None)"

text \<open>
  \<open>overrideAPI\<close> on the parsed file.  A file that is not an object is an error (for \<open>null\<close> the code panics on
  the nil map instead, which is \<open>None\<close> too).
\<close>

definition override_api :: "string \<Rightarrow> json \<Rightarrow> json option" where
  "override_api addr root =
    (case root of
       JObj ms \<Rightarrow>
         (let cfg = raw_map ms in
          case section_map ''experimental'' cfg of
            None \<Rightarrow> None
          | Some ex \<Rightarrow>
              (case section_map ''clash_api'' ex of
                 None \<Rightarrow> None
               | Some api \<Rightarrow>
                   (let api = mput ''external_controller'' (JStr addr) api; ex = mput ''clash_api'' (JObj api) ex
                    in Some (JObj (mput ''experimental'' (JObj ex) cfg)))))
     | _ \<Rightarrow> None)"

text \<open>\<open>overrideAPI\<close>: \<open>encode\<close> is the indenting encoder of the library.\<close>

definition overrideAPI :: "(json \<Rightarrow> string) \<Rightarrow> string \<Rightarrow> string \<Rightarrow> (string \<rightharpoonup> string) \<Rightarrow> (string \<rightharpoonup> string) option" where
  "overrideAPI encode configPath addr files =
    (case Option.bind (Option.bind (files configPath) json_parse) (override_api addr) of
       None \<Rightarrow> None
     | Some root \<Rightarrow> Some (files(configPath \<mapsto> encode root)))"

section \<open>The run command\<close>

text \<open>
  \<open>runForeground\<close>: \<open>translate\<close> is what \<open>StartWithContent\<close> makes of a text, \<open>answer\<close> what the library does with
  the result.  A signal comes with the files at its time; a reload reads \<open>config.json\<close> again, any other signal
  stops the service.
\<close>

datatype signal = Reload "string \<rightharpoonup> string" | Shutdown

definition start_content ::
  "(string \<Rightarrow> start_config option) \<Rightarrow> (start_config option \<Rightarrow> call) \<Rightarrow> string \<Rightarrow> service \<Rightarrow> service" where
  "start_content translate answer data s = perform 0 (CallStart (translate data)) (answer (translate data)) s"

fun run_signals ::
  "(string \<Rightarrow> start_config option) \<Rightarrow> (start_config option \<Rightarrow> call) \<Rightarrow> string \<Rightarrow> signal list \<Rightarrow> service \<Rightarrow> service" where
  "run_signals translate answer out [] s = s"
| "run_signals translate answer out (Shutdown # sigs) s = perform 0 CallStop Proceed s"
| "run_signals translate answer out (Reload files # sigs) s =
     run_signals translate answer out sigs
       (case files out of None \<Rightarrow> s | Some data \<Rightarrow> start_content translate answer data s)"

definition runForeground ::
  "(string \<Rightarrow> start_config option) \<Rightarrow> (start_config option \<Rightarrow> call) \<Rightarrow> string \<Rightarrow> (string \<rightharpoonup> string) \<Rightarrow> signal list \<Rightarrow> service" where
  "runForeground translate answer out files sigs =
    (let s = perform 0 CallInit Proceed NewService;
         s = (case files out of
                None \<Rightarrow> s
              | Some data \<Rightarrow>
                  (let s' = start_content translate answer data s
                   in if snd (last (results s')) \<noteq> Return_nil then s' else run_signals translate answer out sigs s'))
     in perform 0 CallDestroy Proceed s)"

section \<open>Lemmas\<close>

lemma wf_raw_map: "wf_map (raw_map ms)"
proof -
  have "wf_map m \<Longrightarrow> wf_map (fold (\<lambda>(k, v). mput k v) ms m)" for m
    by (induction ms arbitrary: m) auto
  then show ?thesis by (simp add: raw_map_def)
qed

lemma raw_map_member: "map_of (raw_map ms) k = member ms k"
proof -
  have "map_of (fold (\<lambda>(k, v). mput k v) ms m) k = (case map_of (rev ms) k of None \<Rightarrow> map_of m k | Some v \<Rightarrow> Some v)" for m
    by (induction ms arbitrary: m) (auto simp: map_add_def split: option.split)
  then show ?thesis by (simp add: raw_map_def member_def split: option.split)
qed

lemma member_wf: "wf_map m \<Longrightarrow> member m k = map_of m k"
proof (induction m)
  case (Cons a m)
  then have "member m k = map_of m k" "map_of m (fst a) = None"
    by (auto simp: wf_map_def map_of_eq_None_iff)
  then show ?case by (cases a) (auto simp: member_def map_add_def split: option.split)
qed (simp add: member_def)

lemma section_map_wf: "section_map name m = Some s \<Longrightarrow> wf_map s"
  by (auto simp: section_map_def wf_raw_map split: option.splits json.splits)

text \<open>A value inside nested objects.\<close>

fun json_path :: "string list \<Rightarrow> json \<Rightarrow> json option" where
  "json_path [] j = Some j"
| "json_path (k # ks) j =
     (case j of JObj ms \<Rightarrow> (case member ms k of None \<Rightarrow> None | Some v \<Rightarrow> json_path ks v) | _ \<Rightarrow> None)"

lemma section_map_path:
  "section_map name m = Some s \<Longrightarrow>
     map_of s k = (case map_of m name of None \<Rightarrow> None | Some v \<Rightarrow> (case v of JObj ms \<Rightarrow> member ms k | _ \<Rightarrow> None))"
  by (auto simp: section_map_def raw_map_member split: option.splits json.splits)

text \<open>The controller is the given address; every other setting, on each of the three levels, is as it was.\<close>

lemma override_api_settings:
  assumes "override_api addr root = Some root'"
  shows "json_path [''experimental'', ''clash_api'', ''external_controller''] root' = Some (JStr addr)"
    and "k1 \<noteq> ''experimental'' \<Longrightarrow> json_path [k1] root' = json_path [k1] root"
    and "k2 \<noteq> ''clash_api'' \<Longrightarrow> json_path [''experimental'', k2] root' = json_path [''experimental'', k2] root"
    and "k3 \<noteq> ''external_controller'' \<Longrightarrow>
      json_path [''experimental'', ''clash_api'', k3] root' = json_path [''experimental'', ''clash_api'', k3] root"
proof -
  obtain ms ex api where r: "root = JObj ms" "section_map ''experimental'' (raw_map ms) = Some ex"
    "section_map ''clash_api'' ex = Some api"
    "root' = JObj (mput ''experimental'' (JObj (mput ''clash_api'' (JObj (mput ''external_controller'' (JStr addr) api)) ex)) (raw_map ms))"
    using assms by (auto simp: override_api_def Let_def split: json.splits option.splits)
  note w = member_wf[OF wf_map_mput[OF wf_raw_map]] member_wf[OF wf_map_mput[OF section_map_wf[OF r(2)]]]
    member_wf[OF wf_map_mput[OF section_map_wf[OF r(3)]]]
  note p = section_map_path[OF r(2)] section_map_path[OF r(3)]
  show "json_path [''experimental'', ''clash_api'', ''external_controller''] root' = Some (JStr addr)"
    by (simp add: r(4) w)
  show "k1 \<noteq> ''experimental'' \<Longrightarrow> json_path [k1] root' = json_path [k1] root"
    by (simp add: r(1,4) w raw_map_member)
  show "k2 \<noteq> ''clash_api'' \<Longrightarrow> json_path [''experimental'', k2] root' = json_path [''experimental'', k2] root"
    by (simp add: r(1,4) w p raw_map_member split: option.split json.split)
  show "k3 \<noteq> ''external_controller'' \<Longrightarrow>
      json_path [''experimental'', ''clash_api'', k3] root' = json_path [''experimental'', ''clash_api'', k3] root"
    by (simp add: r(1,4) w p raw_map_member split: option.split json.split)
qed

text \<open>
  A reload reads the file that \<open>run\<close> wrote when it started: what the user changes in the configuration file
  afterwards does not reach the service.
\<close>

lemma reload_ignores_config:
  "configPath \<noteq> out \<Longrightarrow>
     run_signals translate answer out (Reload (files(configPath := edited)) # sigs) s =
       run_signals translate answer out (Reload files # sigs) s"
  by simp

text \<open>Whatever happens, the service ends destroyed and at rest.\<close>

lemma start_content_quiet: "quiet s \<Longrightarrow> quiet (start_content translate answer data s)"
  using perform_refines[of s "CallStart (translate data)" 0]
  by (simp add: start_content_def refines_def is_call_def)

lemma run_signals_quiet: "quiet s \<Longrightarrow> quiet (run_signals translate answer out sigs s)"
proof (induction translate answer out sigs s rule: run_signals.induct)
  case (2 translate answer out sigs s)
  then show ?case using perform_stop[of s 0] by (simp add: refines_def)
next
  case (3 translate answer out files sigs s)
  then show ?case by (cases "files out") (simp_all add: start_content_quiet)
qed simp

lemma runForeground_ends:
  "quiet (runForeground translate answer out files sigs) \<and> kernel_of (runForeground translate answer out files sigs) = Gone"
proof -
  have destroyed: "quiet s \<Longrightarrow> quiet (perform 0 CallDestroy Proceed s) \<and> kernel_of (perform 0 CallDestroy Proceed s) = Gone" for s
    using perform_destroy[of s 0] by (simp add: refines_def)
  have "quiet (perform 0 CallInit Proceed NewService)"
    using perform_init[OF quiet_new, of 0] by (simp add: refines_def)
  then show ?thesis
    unfolding runForeground_def Let_def
    by (intro destroyed) (auto simp: start_content_quiet run_signals_quiet split: option.split)
qed

section \<open>The prefix of rule sets\<close>

text \<open>
  A daemon loads what its parent wrote and applies the prefix a second time.  That changes nothing, unless
  the prefix itself is a URL of the rewritten site.
\<close>

lemma mput_mput [simp]: "mput k v (mput k w m) = mput k v m"
  by (induction m) auto

definition foreign_prefix :: "string \<Rightarrow> bool" where
  "foreign_prefix proxy \<longleftrightarrow> \<not> has_prefix (trim_right CHR ''/'' proxy @ ''/'' @ RawGitHubPrefix) RawGitHubPrefix"

lemma ProxyURL_twice: "foreign_prefix proxy \<Longrightarrow> ProxyURL (ProxyURL u proxy) proxy = ProxyURL u proxy"
proof -
  assume f: "foreign_prefix proxy"
  define p r where "p = trim_right CHR ''/'' proxy @ ''/''" and "r = RawGitHubPrefix"
  have "take (length r) (p @ u) \<noteq> r" if "take (length r) u = r"
  proof -
    have "take (length r) (p @ u) = take (length r) (p @ take (length r) u)" by simp
    then show ?thesis using f that by (simp add: foreign_prefix_def has_prefix_def p_def r_def)
  qed
  then show ?thesis
    unfolding ProxyURL_def Let_def has_prefix_def r_def[symmetric] by (simp add: p_def)
qed

lemma proxy_rule_set_twice: "foreign_prefix proxy \<Longrightarrow> proxy_rule_set proxy (proxy_rule_set proxy rs) = proxy_rule_set proxy rs"
  by (cases rs) (auto simp: proxy_rule_set_def ProxyURL_twice)

lemma apply_rule_set_proxy_twice:
  assumes "foreign_prefix proxy" and "apply_rule_set_proxy proxy root = Some root'"
  shows "apply_rule_set_proxy proxy root' = Some root'"
proof -
  have two: "map (proxy_rule_set proxy \<circ> proxy_rule_set proxy) rs = map (proxy_rule_set proxy) rs" for rs
    using proxy_rule_set_twice[OF assms(1)] by simp
  show ?thesis
    using assms(2) by (auto simp: apply_rule_set_proxy_def two split: if_splits option.splits gval.splits)
qed

end
