(* ===== verification/CoreLog.thy ===== *)
theory CoreLog
  imports GoJson General
begin

text \<open>
  \<open>core/logging.go\<close> and \<open>platformLogWriter\<close> of \<open>core/service.go\<close>: the levels, the filter, the text of an entry
  and the level a configuration asks for.  A smaller core level is more severe; a larger \<open>slog\<close> level is.
\<close>

section \<open>Levels\<close>

definition LogLevelError :: int where "LogLevelError = 2"
definition LogLevelWarn :: int where "LogLevelWarn = 3"
definition LogLevelInfo :: int where "LogLevelInfo = 4"
definition LogLevelDebug :: int where "LogLevelDebug = 5"
definition LogLevelTrace :: int where "LogLevelTrace = 6"

lemmas log_levels = LogLevelError_def LogLevelWarn_def LogLevelInfo_def LogLevelDebug_def LogLevelTrace_def

definition parseLogLevel :: "string \<Rightarrow> int option" where
  "parseLogLevel s =
    map_of [(''trace'', LogLevelTrace), (''debug'', LogLevelDebug), (''info'', LogLevelInfo), (''warn'', LogLevelWarn),
            (''error'', LogLevelError)] s"

text \<open>\<open>slog\<close> levels: debug is -4, info 0, warn 4, error 8.\<close>

definition slogToCoreLevel :: "int \<Rightarrow> int" where
  "slogToCoreLevel level =
    (if 8 \<le> level then LogLevelError
     else if 4 \<le> level then LogLevelWarn
     else if 0 \<le> level then LogLevelInfo
     else if -4 \<le> level then LogLevelDebug
     else LogLevelTrace)"

text \<open>The kernel's levels: panic is 0, fatal 1, error 2, and so on to trace, 6.\<close>

definition kernel_slog_level :: "int \<Rightarrow> int" where
  "kernel_slog_level level =
    (if level \<le> 2 then 8 else if level \<le> 3 then 4 else if level \<le> 4 then 0 else if level \<le> 5 then -4 else -5)"

section \<open>The handler\<close>

record log_record =
  lr_Level :: int
  lr_Message :: string
  lr_Attrs :: "(string \<times> string) list"
  lr_Time :: int

record LogEntry =
  le_Level :: int
  le_Message :: string
  le_Timestamp :: int

text \<open>Attributes as they are written; a value is given by its text.\<close>

definition attrs_text :: "(string \<times> string) list \<Rightarrow> string" where
  "attrs_text attrs = concat (map (\<lambda>(k, v). CHR '' '' # k @ CHR ''='' # v) attrs)"

text \<open>The handler carries the text of the attributes added by \<open>WithAttrs\<close>.\<close>

definition WithAttrs :: "(string \<times> string) list \<Rightarrow> string \<Rightarrow> string" where
  "WithAttrs attrs extra = extra @ attrs_text attrs"

definition Enabled :: "int \<Rightarrow> int \<Rightarrow> bool" where
  "Enabled coreLogLevel level \<longleftrightarrow> slogToCoreLevel level \<le> coreLogLevel"

definition handle_record :: "string \<Rightarrow> log_record \<Rightarrow> LogEntry" where
  "handle_record extra r =
    \<lparr>le_Level = slogToCoreLevel (lr_Level r), le_Message = lr_Message r @ extra @ attrs_text (lr_Attrs r),
     le_Timestamp = lr_Time r\<rparr>"

text \<open>\<open>slog.Log\<close> with this handler and \<open>WriteMessage\<close>: the entry that reaches the callback, if any.\<close>

definition log_call :: "int \<Rightarrow> string \<Rightarrow> log_record \<Rightarrow> LogEntry option" where
  "log_call coreLogLevel extra r =
    (if Enabled coreLogLevel (lr_Level r) then Some (handle_record extra r) else None)"

definition WriteMessage :: "int \<Rightarrow> int \<Rightarrow> string \<Rightarrow> int \<Rightarrow> LogEntry option" where
  "WriteMessage coreLogLevel level message now =
    log_call coreLogLevel [] \<lparr>lr_Level = kernel_slog_level level, lr_Message = message, lr_Attrs = [], lr_Time = now\<rparr>"

section \<open>The level of a configuration\<close>

definition log_level_text :: "json \<Rightarrow> string option" where
  "log_level_text j = object_field (json_field dec_string ''level'') ''log'' [] j"

definition syncLogLevelFromConfig :: "string \<Rightarrow> int \<Rightarrow> int" where
  "syncLogLevelFromConfig content coreLogLevel =
    (case Option.bind (json_parse content) log_level_text of
       None \<Rightarrow> coreLogLevel
     | Some level \<Rightarrow> (case parseLogLevel level of None \<Rightarrow> coreLogLevel | Some l \<Rightarrow> l))"

section \<open>Lemmas\<close>

text \<open>A message of the kernel passes exactly when its level is within the filter, and keeps its level.\<close>

lemma WriteMessage_filter:
  assumes "0 \<le> level" and "level \<le> 6" and "2 \<le> coreLogLevel"
  shows "WriteMessage coreLogLevel level message now =
    (if level \<le> coreLogLevel
     then Some \<lparr>le_Level = max 2 level, le_Message = message, le_Timestamp = now\<rparr> else None)"
proof -
  have "slogToCoreLevel (kernel_slog_level level) = max 2 level"
    using assms by (auto simp: slogToCoreLevel_def kernel_slog_level_def log_levels max_def)
  then show ?thesis
    using assms by (simp add: WriteMessage_def log_call_def Enabled_def handle_record_def attrs_text_def)
qed

text \<open>Attributes added before count as if they had been given first.\<close>

lemma WithAttrs_order:
  "le_Message (handle_record (WithAttrs as extra) r) =
     le_Message (handle_record extra (r\<lparr>lr_Attrs := as @ lr_Attrs r\<rparr>))"
  by (simp add: handle_record_def WithAttrs_def attrs_text_def)

text \<open>Every level of a mihomo configuration, translated, is one the core follows.\<close>

lemma translated_level_followed:
  "level \<in> set [''debug'', ''info'', ''warning'', ''error'', ''silent'', ''''] \<Longrightarrow>
     parseLogLevel (mapLogLevel level) \<noteq> None"
  by (auto simp: parseLogLevel_def mapLogLevel_def)

end
