(* ===== verification/CoreInit.thy ===== *)
theory CoreInit
  imports ServiceConfig CoreLog Host
begin

text \<open>
  \<open>InitContext\<close> of \<open>core/service.go\<close> in full: its options, the directories it creates, the change of the working
  directory, the watchdog and the early detection of the country; and the functions that need no running
  service (\<open>CheckConfig\<close>, \<open>Convert\<close>, \<open>VersionJSON\<close>).  The state change itself is the call \<open>CallInit\<close> of \<open>Service\<close>.
\<close>

section \<open>Options\<close>

record InitOptions =
  HomeDir :: string
  Debug :: bool
  HealthCheck :: "HealthCheckConfig option"

text \<open>
  Decoding sets one field after the other, in the order of the text: an object replaces fields of the health
  check that an earlier member of the same name has set, and \<open>null\<close> resets the pointer.
\<close>

definition zero_health :: HealthCheckConfig where
  "zero_health = \<lparr>hc_Enabled = False, hc_Interval = 0, hc_Timeout = 0, hc_FailThreshold = 0, hc_Cooldown = 0\<rparr>"

definition dec_word64 :: "json \<Rightarrow> 64 word option" where
  "dec_word64 j = map_option word_of_int (dec_int64 j)"

definition set_HealthCheck :: "HealthCheckConfig option \<Rightarrow> json \<Rightarrow> HealthCheckConfig option option" where
  "set_HealthCheck old j =
    (if j = JNull then Some None
     else
       let h = (case old of None \<Rightarrow> zero_health | Some h \<Rightarrow> h) in
       case (json_field dec_bool ''enabled'' (hc_Enabled h) j, json_field dec_word64 ''interval_ms'' (hc_Interval h) j,
             json_field dec_word64 ''timeout_ms'' (hc_Timeout h) j,
             json_field dec_word64 ''fail_threshold'' (hc_FailThreshold h) j,
             json_field dec_word64 ''cooldown_ms'' (hc_Cooldown h) j) of
         (Some e, Some i, Some t, Some f, Some c) \<Rightarrow>
           Some (Some \<lparr>hc_Enabled = e, hc_Interval = i, hc_Timeout = t, hc_FailThreshold = f, hc_Cooldown = c\<rparr>)
       | _ \<Rightarrow> None)"

definition dec_InitOptions :: "json \<Rightarrow> InitOptions option" where
  "dec_InitOptions j =
    (case (json_field dec_string ''home_dir'' [] j, json_field dec_bool ''debug'' False j,
           object_field set_HealthCheck ''health_check'' None j) of
       (Some home, Some debug, Some hc) \<Rightarrow> Some \<lparr>HomeDir = home, Debug = debug, HealthCheck = hc\<rparr>
     | _ \<Rightarrow> None)"

section \<open>Initialisation\<close>

datatype init_error = Init_state State | Parse_options | Home_required | Create_home | Chdir_home | Create_temp

text \<open>Everything \<open>InitContext\<close> changes: the service, the process, the log level, the country and the watchdog.\<close>

record runtime =
  rt_service :: service
  rt_host :: host
  rt_level :: int
  rt_geo :: geo_cache
  rt_watchdog :: "healthConfig option"

text \<open>The home directory: what was changed before an error stays changed.\<close>

definition init_home :: "os \<Rightarrow> InitOptions \<Rightarrow> host \<times> int \<Rightarrow> init_error option \<times> host \<times> int" where
  "init_home os opts st =
    (case st of
       (h, level) \<Rightarrow>
         if HomeDir opts = [] then (Some Home_required, h, level)
         else
           let homeDir = Abs (h_cwd h) (HomeDir opts) in
           if \<not> MkdirAll os homeDir h then (Some Create_home, h, level)
           else
             (case Chdir os homeDir h of
                None \<Rightarrow> (Some Chdir_home, h, level)
              | Some h \<Rightarrow>
                  let level = (if Debug opts then LogLevelDebug else level) in
                  if \<not> MkdirAll os (Join [homeDir, ''temp'']) h then (Some Create_temp, h, level)
                  else (None, h, level)))"

definition watchdog_config :: "InitOptions \<Rightarrow> healthConfig option" where
  "watchdog_config opts =
    (case HealthCheck opts of
       None \<Rightarrow> None
     | Some h \<Rightarrow> if hc_Enabled h then Some (normalizeHealthConfig (Some h)) else None)"

definition init_with :: "os \<Rightarrow> string option list \<Rightarrow> InitOptions option \<Rightarrow> runtime \<Rightarrow> init_error option \<times> runtime" where
  "init_with os geo decoded rt =
    (case decoded of
       None \<Rightarrow> (Some Parse_options, rt\<lparr>rt_service := perform 0 CallInit InitFails (rt_service rt)\<rparr>)
     | Some opts \<Rightarrow>
         (case init_home os opts (rt_host rt, rt_level rt) of
            (Some e, h, level) \<Rightarrow>
              (Some e, rt\<lparr>rt_service := perform 0 CallInit InitFails (rt_service rt), rt_host := h, rt_level := level\<rparr>)
          | (None, h, level) \<Rightarrow>
              (let wd = watchdog_config opts;
                   g = snd (DetectCountryWithFallback geo [] (rt_geo rt));
                   answer = (if wd = None then Proceed else InitWatchdog)
               in (None, rt\<lparr>rt_service := perform 0 CallInit answer (rt_service rt), rt_host := h, rt_level := level,
                           rt_geo := g, rt_watchdog := (if wd = None then rt_watchdog rt else wd)\<rparr>))))"

text \<open>
  \<open>InitContext\<close>: in any state but Created only the compare-and-swap is made, which fails.
\<close>

definition InitContext :: "os \<Rightarrow> string option list \<Rightarrow> string \<Rightarrow> runtime \<Rightarrow> init_error option \<times> runtime" where
  "InitContext os geo optionsJSON rt =
    (if state (rt_service rt) \<noteq> StateCreated
     then (Some (Init_state (state (rt_service rt))), rt\<lparr>rt_service := perform 0 CallInit Proceed (rt_service rt)\<rparr>)
     else init_with os geo (Option.bind (json_parse optionsJSON) dec_InitOptions) rt)"

section \<open>Without a service\<close>

text \<open>
  \<open>convert\<close> is \<open>translator.Convert\<close> (the error as text), \<open>accepts\<close> the parser of the kernel library: its error, if
  any.
\<close>

datatype check_error = Check_convert string | Check_parse string

definition CheckConfig :: "(string \<Rightarrow> string + string) \<Rightarrow> (string \<Rightarrow> string option) \<Rightarrow> string \<Rightarrow> check_error option" where
  "CheckConfig convert accepts content =
    (case convert content of
       Inl e \<Rightarrow> Some (Check_convert e)
     | Inr jsonStr \<Rightarrow> map_option Check_parse (accepts jsonStr))"

definition VersionJSON :: "string \<Rightarrow> json" where
  "VersionJSON version = JObj [(''version'', JStr version), (''core'', JStr ''singcast'')]"

text \<open>\<open>translator.Convert\<close> is \<open>ConvertWithMeta\<close> without options; \<open>encode\<close> writes a translated configuration.\<close>

definition Convert ::
  "(string \<Rightarrow> bool) \<Rightarrow> (string \<Rightarrow> RawConfig option) \<Rightarrow> (translation \<Rightarrow> string) \<Rightarrow> string option list \<Rightarrow> geo_cache \<Rightarrow>
   string \<Rightarrow> string option" where
  "Convert valid_uuid yaml encode geo g data =
    (case fst (ConvertWithMeta valid_uuid yaml geo data None g) of
       Passed_through s \<Rightarrow> Some s
     | Translated None t \<Rightarrow> Some (encode t)
     | _ \<Rightarrow> None)"

section \<open>Lemmas\<close>

text \<open>A successful preparation leaves the process in the home directory.\<close>

lemma init_home_done:
  "init_home os opts (h, level) = (None, h', level') \<Longrightarrow>
     HomeDir opts \<noteq> [] \<and> h_files h' = h_files h \<and> h_env h' = h_env h \<and>
     h_cwd h' = file_at h (Abs (h_cwd h) (HomeDir opts)) \<and> level' = (if Debug opts then LogLevelDebug else level)"
  by (auto simp: init_home_def Let_def Chdir_def split: if_splits option.splits)

lemma init_failed_kernel:
  "quiet s \<Longrightarrow> state s = StateCreated \<Longrightarrow>
     kernel_of (perform i CallInit InitFails s) = Fresh \<and> quiet (perform i CallInit InitFails s)"
  using perform_init[of s i InitFails] by (simp add: refines_def init_kernel_def kernel_of_def)

lemma init_ok_kernel:
  "quiet s \<Longrightarrow> state s = StateCreated \<Longrightarrow> c \<noteq> InitFails \<Longrightarrow>
     kernel_of (perform i CallInit c s) = Stopped \<and> quiet (perform i CallInit c s)"
  using perform_init[of s i c] by (simp add: refines_def init_kernel_def kernel_of_def)

text \<open>
  The outcome decides the state: with an error the service is as before the call and nothing is watched, else it
  is initialised, and the watchdog runs exactly when the options ask for it.
\<close>

lemma init_watchdog: "quiet s \<Longrightarrow> state s = StateCreated \<Longrightarrow>
    healthCancel (perform i CallInit c s) = (healthCancel s \<or> c = InitWatchdog)"
  by (cases c) (simp_all add: service_defs)

lemma InitContext_outcome:
  assumes "quiet (rt_service rt)" and "state (rt_service rt) = StateCreated"
    and "InitContext os geo optionsJSON rt = (e, rt')"
  shows "quiet (rt_service rt') \<and>
    (case e of
       Some _ \<Rightarrow> kernel_of (rt_service rt') = Fresh \<and> rt_watchdog rt' = rt_watchdog rt \<and> rt_geo rt' = rt_geo rt \<and>
         healthCancel (rt_service rt') = healthCancel (rt_service rt)
     | None \<Rightarrow> kernel_of (rt_service rt') = Stopped \<and> cachedCountryOnce (rt_geo rt') \<and>
         (\<exists>opts. Option.bind (json_parse optionsJSON) dec_InitOptions = Some opts \<and>
            h_cwd (rt_host rt') = file_at (rt_host rt) (Abs (h_cwd (rt_host rt)) (HomeDir opts)) \<and>
            (healthCancel (rt_service rt') \<longleftrightarrow> healthCancel (rt_service rt) \<or> watchdog_config opts \<noteq> None)))"
proof (cases "Option.bind (json_parse optionsJSON) dec_InitOptions")
  case None
  then show ?thesis
    using assms init_failed_kernel[OF assms(1,2), of 0] init_watchdog[OF assms(1,2), of 0 InitFails]
    by (auto simp: InitContext_def init_with_def)
next
  case (Some opts)
  obtain e' h level where p: "init_home os opts (rt_host rt, rt_level rt) = (e', h, level)" by (cases "init_home os opts (rt_host rt, rt_level rt)")
  show ?thesis
  proof (cases e')
    case (Some x)
    then show ?thesis
      using assms p \<open>Option.bind _ _ = Some opts\<close> init_failed_kernel[OF assms(1,2), of 0] init_watchdog[OF assms(1,2), of 0 InitFails]
      by (auto simp: InitContext_def init_with_def)
  next
    case None
    have "cachedCountryOnce (snd (DetectCountryWithFallback geo [] (rt_geo rt)))"
      by (simp add: DetectCountryWithFallback_def DetectCountry_def Let_def)
    then show ?thesis
      using assms p None \<open>Option.bind _ _ = Some opts\<close> init_home_done[of os opts "rt_host rt" "rt_level rt" h level]
        init_ok_kernel[OF assms(1,2), of Proceed 0] init_watchdog[OF assms(1,2), of 0 Proceed]
        init_ok_kernel[OF assms(1,2), of InitWatchdog 0] init_watchdog[OF assms(1,2), of 0 InitWatchdog]
      by (auto simp: InitContext_def init_with_def Let_def split: if_splits)
  qed
qed

text \<open>What \<open>Convert\<close> makes of a text is what a start without a prefix is given.\<close>

lemma Convert_start:
  "map_option fst (translateConfig valid_uuid yaml encode proxied geo g data []) = Convert valid_uuid yaml encode geo g data"
  by (auto simp: translateConfig_def Convert_def split: conversion.split option.split)

end
