(* ===== verification/CmdRun.thy ===== *)
theory CmdRun
  imports Cmd CoreInit
begin

text \<open>
  The \<open>run\<close> command of \<open>cmd/singcast/run.go\<close> on the files of the machine, in the foreground and as a daemon
  (\<open>daemon_unix.go\<close>), with the working directories of the processes.  \<open>translate\<close>, \<open>answer\<close>, \<open>convert\<close>,
  \<open>proxied\<close> and \<open>encode\<close> are as in \<open>Cmd\<close>.
\<close>

section \<open>Errors and parameters\<close>

datatype run_error =
    E_create_home | E_load | E_write | E_override | E_init init_error | E_read | E_start
  | E_daemon_running int | E_executable | E_log | E_fork

text \<open>What the flags say.\<close>

record run_flags =
  fl_home :: string
  fl_config :: string
  fl_daemon :: bool
  fl_api :: string
  fl_proxy :: string

text \<open>What \<open>ForkExec\<close> gives the new process: its arguments and its working directory.\<close>

record child =
  ch_args :: "string list"
  ch_dir :: string

text \<open>
  Processes: the path of the running binary, the number of a new process (none when it cannot be started) and
  which processes take a signal.
\<close>

record processes =
  pr_self :: "string option"
  pr_fork :: "child \<Rightarrow> int option"
  pr_alive :: "int \<Rightarrow> bool"

section \<open>Before the start\<close>

text \<open>The loaded configuration goes to \<open>config.json\<close> in the home directory; the API address is set in that file.\<close>

definition run_prepare ::
  "(string \<Rightarrow> string option) \<Rightarrow> (string \<Rightarrow> string \<Rightarrow> string option) \<Rightarrow> (json \<Rightarrow> string) \<Rightarrow> os \<Rightarrow> run_flags \<Rightarrow> host \<Rightarrow>
   run_error + string \<times> host" where
  "run_prepare convert proxied encode os fl h =
    (if \<not> MkdirAll os (fl_home fl) h then Inl E_create_home
     else
       (case loadConfigJSON convert proxied (ReadFile h) (fl_config fl) (fl_proxy fl) of
          None \<Rightarrow> Inl E_load
        | Some jsonContent \<Rightarrow>
            let outPath = Join [fl_home fl, ''config.json''] in
            (case WriteFile os outPath jsonContent h of
               None \<Rightarrow> Inl E_write
             | Some h \<Rightarrow>
                 if fl_api fl = [] then Inr (jsonContent, h)
                 else
                   (case overrideAPI encode (file_at h outPath) (fl_api fl) (h_files h) of
                      None \<Rightarrow> Inl E_override
                    | Some files \<Rightarrow> Inr (jsonContent, h\<lparr>h_files := files\<rparr>)))))"

section \<open>The foreground\<close>

text \<open>\<open>printListeningPorts\<close>: the lines it prints.\<close>

record inbound_line =
  in_Type :: string
  in_Tag :: string
  in_Listen :: string
  in_ListenPort :: int

definition dec_inbound :: "json \<Rightarrow> inbound_line option" where
  "dec_inbound j =
    (case (json_field dec_string ''type'' [] j, json_field dec_string ''tag'' [] j, json_field dec_string ''listen'' [] j,
           json_field (dec_int 0 65535) ''listen_port'' 0 j) of
       (Some ty, Some tag, Some listen, Some port) \<Rightarrow>
         Some \<lparr>in_Type = ty, in_Tag = tag, in_Listen = listen, in_ListenPort = port\<rparr>
     | _ \<Rightarrow> None)"

definition port_line :: "inbound_line \<Rightarrow> string list" where
  "port_line i =
    (let addr = (if in_Listen i = [] then ''0.0.0.0'' else in_Listen i) in
     if 0 < in_ListenPort i
     then [in_Tag i @ ''('' @ in_Type i @ '') listening on '' @ addr @ '':'' @ itoa (in_ListenPort i)] else [])"

definition printListeningPorts :: "string \<Rightarrow> string list" where
  "printListeningPorts jsonContent =
    (case Option.bind (json_parse jsonContent) (json_field (dec_list dec_inbound) ''inbounds'' []) of
       None \<Rightarrow> []
     | Some ins \<Rightarrow> concat (map port_line ins))"

text \<open>
  \<open>runForeground\<close> from the initialisation on.  The options it passes to \<open>Init\<close> are the home directory alone.  A
  failed initialisation returns before the deferred \<open>Destroy\<close>.  The service that remains is the second result.
\<close>

definition home_options :: "string \<Rightarrow> InitOptions" where
  "home_options home = \<lparr>HomeDir = home, Debug = False, HealthCheck = None\<rparr>"

definition run_foreground ::
  "(string \<Rightarrow> start_config option) \<Rightarrow> (start_config option \<Rightarrow> call) \<Rightarrow> os \<Rightarrow> string \<Rightarrow> string \<Rightarrow> signal list \<Rightarrow> host \<Rightarrow>
   run_error option \<times> service" where
  "run_foreground translate answer os homeDir configPath sigs h =
    (case init_home os (home_options homeDir) (h, LogLevelInfo) of
       (Some e, _) \<Rightarrow> (Some (E_init e), perform 0 CallInit InitFails NewService)
     | (None, h, _) \<Rightarrow>
         (case ReadFile h configPath of
            None \<Rightarrow> (Some E_read, runForeground translate answer (file_at h configPath) (h_files h) sigs)
          | Some data \<Rightarrow>
              (let s = perform 0 CallInit Proceed NewService;
                   failed = snd (last (results (start_content translate answer data s))) \<noteq> Return_nil
               in (if failed then Some E_start else None,
                   runForeground translate answer (file_at h configPath) (h_files h) sigs))))"

section \<open>The daemon\<close>

text \<open>
  \<open>fmt.Sscanf\<close> with \<open>%d\<close>: leading spaces, a sign, decimal digits; the number has to fit 64 bits, what follows
  is not read.
\<close>

definition scan_int :: "string \<Rightarrow> int option" where
  "scan_int s =
    (let s = dropWhile (\<lambda>c. c \<in> set [CHR 32, CHR 9, CHR 11, CHR 12, CHR 13]) s;
         neg = has_prefix s ''-'';
         s = (if neg \<or> has_prefix s ''+'' then drop 1 s else s);
         ds = takeWhile is_digit s;
         v = (if neg then - digits_val 0 ds else digits_val 0 ds)
     in if ds = [] \<or> v < min_int64 \<or> max_int64 < v then None else Some v)"

definition pidPath :: "string \<Rightarrow> string" where "pidPath homeDir = Join [homeDir, ''singcast.pid'']"

definition running_daemon :: "processes \<Rightarrow> string \<Rightarrow> host \<Rightarrow> int option" where
  "running_daemon pr homeDir h =
    (case Option.bind (ReadFile h (pidPath homeDir)) scan_int of
       None \<Rightarrow> None
     | Some pid \<Rightarrow> if 0 < pid \<and> pr_alive pr pid then Some pid else None)"

definition daemon_args :: "string \<Rightarrow> string \<Rightarrow> string \<Rightarrow> string \<Rightarrow> string list" where
  "daemon_args homeDir configPath ruleSetProxy apiAddr =
    [''singcast'', ''run'', ''-c'', configPath, ''--home'', homeDir]
    @ (if ruleSetProxy = [] then [] else [''--rule-set-proxy'', ruleSetProxy])
    @ (if apiAddr = [] then [] else [''--api'', apiAddr])"

text \<open>The number of the process is written last; when that fails there is only a warning.\<close>

definition startDaemon ::
  "os \<Rightarrow> processes \<Rightarrow> string \<Rightarrow> string \<Rightarrow> string \<Rightarrow> string \<Rightarrow> host \<Rightarrow> (run_error + child) \<times> host" where
  "startDaemon os pr homeDir configPath ruleSetProxy apiAddr h =
    (case running_daemon pr homeDir h of
       Some pid \<Rightarrow> (Inl (E_daemon_running pid), h)
     | None \<Rightarrow>
         if pr_self pr = None then (Inl E_executable, h)
         else
           (case OpenAppend os (Join [homeDir, ''singcast.log'']) h of
              None \<Rightarrow> (Inl E_log, h)
            | Some h \<Rightarrow>
                (let c = \<lparr>ch_args = daemon_args homeDir configPath ruleSetProxy apiAddr, ch_dir = file_at h homeDir\<rparr> in
                 case pr_fork pr c of
                   None \<Rightarrow> (Inl E_fork, h)
                 | Some pid \<Rightarrow>
                     (Inr c, case WriteFile os (pidPath homeDir) (itoa pid) h of None \<Rightarrow> h | Some h \<Rightarrow> h))))"

text \<open>
  The flags the daemon is started with, read back as the command line does: a flag and its value.
\<close>

fun read_flags :: "string list \<Rightarrow> run_flags \<Rightarrow> run_flags" where
  "read_flags (f # v # args) fl =
     read_flags args
       (if f = ''-c'' then fl\<lparr>fl_config := v\<rparr>
        else if f = ''--home'' then fl\<lparr>fl_home := v\<rparr>
        else if f = ''--rule-set-proxy'' then fl\<lparr>fl_proxy := v\<rparr>
        else if f = ''--api'' then fl\<lparr>fl_api := v\<rparr> else fl)"
| "read_flags _ fl = fl"

definition no_flags :: run_flags where
  "no_flags = \<lparr>fl_home = [], fl_config = [], fl_daemon = False, fl_api = [], fl_proxy = []\<rparr>"

definition child_flags :: "child \<Rightarrow> run_flags" where "child_flags c = read_flags (drop 2 (ch_args c)) no_flags"

definition child_host :: "child \<Rightarrow> host \<Rightarrow> host" where "child_host c h = h\<lparr>h_cwd := ch_dir c\<rparr>"

section \<open>The command\<close>

datatype run_outcome = Run_failed run_error | Run_daemon child host | Run_ended service

definition runCommand ::
  "(string \<Rightarrow> string option) \<Rightarrow> (string \<Rightarrow> string \<Rightarrow> string option) \<Rightarrow> (json \<Rightarrow> string) \<Rightarrow>
   (string \<Rightarrow> start_config option) \<Rightarrow> (start_config option \<Rightarrow> call) \<Rightarrow> os \<Rightarrow> processes \<Rightarrow> run_flags \<Rightarrow> signal list \<Rightarrow>
   host \<Rightarrow> run_outcome" where
  "runCommand convert proxied encode translate answer os pr fl sigs h =
    (case run_prepare convert proxied encode os fl h of
       Inl e \<Rightarrow> Run_failed e
     | Inr (jsonContent, h) \<Rightarrow>
         (let outPath = Join [fl_home fl, ''config.json''] in
          if fl_daemon fl then
            (case startDaemon os pr (fl_home fl) outPath (fl_proxy fl) (fl_api fl) h of
               (Inl e, _) \<Rightarrow> Run_failed e
             | (Inr c, h) \<Rightarrow> Run_daemon c h)
          else
            (case run_foreground translate answer os (fl_home fl) outPath sigs h of
               (Some e, _) \<Rightarrow> Run_failed e
             | (None, s) \<Rightarrow> Run_ended s)))"

section \<open>Lemmas\<close>

lemma scan_int_itoa: "0 < pid \<Longrightarrow> pid \<le> max_int64 \<Longrightarrow> scan_int (itoa pid) = Some pid"
proof -
  assume p: "0 < pid" "pid \<le> max_int64"
  have d: "list_all is_digit (dec_str pid)" "dec_str pid \<noteq> []" using dec_str_digits[of pid] p(1) by simp_all
  then obtain c cs where c: "dec_str pid = c # cs" "is_digit c" by (cases "dec_str pid") auto
  have w: "dropWhile (\<lambda>c. c \<in> set [CHR 32, CHR 9, CHR 11, CHR 12, CHR 13]) (dec_str pid) = dec_str pid"
    using c by (auto simp: is_digit_def)
  have m: "\<not> has_prefix (dec_str pid) ''-''" "\<not> has_prefix (dec_str pid) ''+''"
    using c by (auto simp: has_prefix_def is_digit_def)
  have t: "takeWhile is_digit (dec_str pid) = dec_str pid"
    using d(1) by (simp add: takeWhile_eq_all_conv list_all_iff)
  show ?thesis
    using p d(2) unfolding scan_int_def Let_def itoa_nonneg[OF less_imp_le[OF p(1)]] w
    by (simp add: m t min_int64_def)
qed

text \<open>The number a daemon leaves behind keeps a second one from starting while it lives.\<close>

lemma startDaemon_pid:
  assumes "startDaemon os pr homeDir configPath ruleSetProxy apiAddr h = (Inr c, h')" and "pr_fork pr c = Some pid"
    and "os_write os (file_at h (pidPath homeDir))"
  shows "h_cwd h' = h_cwd h \<and> ReadFile h' (pidPath homeDir) = Some (itoa pid)"
proof -
  obtain h1 where l: "OpenAppend os (Join [homeDir, ''singcast.log'']) h = Some h1"
    "h' = (case WriteFile os (pidPath homeDir) (itoa pid) h1 of None \<Rightarrow> h1 | Some h \<Rightarrow> h)"
    using assms(1,2) by (auto simp: startDaemon_def Let_def split: option.splits if_splits)
  have c: "h_cwd h1 = h_cwd h" using OpenAppend_read[OF l(1)] by blast
  then have "file_at h1 (pidPath homeDir) = file_at h (pidPath homeDir)" by (simp add: file_at_def)
  then obtain h2 where w: "WriteFile os (pidPath homeDir) (itoa pid) h1 = Some h2"
    using assms(3) by (simp add: WriteFile_def)
  then show ?thesis using l(2) c WriteFile_read[OF w] by simp
qed

text \<open>What the child finds: its flags are those of the parent.\<close>

lemma daemon_flags:
  "child_flags \<lparr>ch_args = daemon_args homeDir configPath ruleSetProxy apiAddr, ch_dir = d\<rparr> =
     \<lparr>fl_home = homeDir, fl_config = configPath, fl_daemon = False, fl_api = apiAddr, fl_proxy = ruleSetProxy\<rparr>"
  by (simp add: child_flags_def daemon_args_def no_flags_def)

section \<open>The home directory\<close>

text \<open>
  \<open>Init\<close> changes into the home directory, and then \<open>config.json\<close> is read with the path that was built before:
  this is the file that was written only when that path is absolute (or the home directory is the working
  directory).
\<close>

lemma plain_config: "plain_name ''config.json''" by (simp add: plain_name_def)

lemma path_of_inj:
  assumes "path_of True as = path_of True bs" and "\<forall>e \<in> set as. plain_name e" and "\<forall>e \<in> set bs. plain_name e"
  shows "as = bs"
  using elems_abs[OF assms(2)] elems_abs[OF assms(3)] unfolding assms(1) by (rule trans[OF sym])

definition names :: "string list \<Rightarrow> bool" where "names es \<longleftrightarrow> (\<forall>e \<in> set es. plain_name e)"

lemma names_simps [simp]: "names []" "names (e # es) \<longleftrightarrow> plain_name e \<and> names es" "names (as @ bs) \<longleftrightarrow> names as \<and> names bs"
  by (auto simp: names_def)

lemmas named_paths = Join_paths[folded names_def] Clean_path_of[folded names_def] Abs_rel[folded names_def]
  path_of_inj[folded names_def] not_IsAbs_path_of[folded names_def]

lemma config_path:
  "names hs \<Longrightarrow> Join [path_of r hs, ''config.json''] = path_of r (hs @ [''config.json''])"
  using named_paths(1)[of hs "[''config.json'']" r] by (simp add: plain_config path_of_def[of False "[_]"])

lemma file_at_named:
  "names cs \<Longrightarrow> names es \<Longrightarrow> h_cwd h = path_of True cs \<Longrightarrow>
     file_at h (path_of r es) = path_of True (if r then es else cs @ es)"
  by (cases r) (simp_all add: file_at_def named_paths Abs_def[of _ "path_of True es"])

lemma run_prepare_files:
  assumes "run_prepare convert proxied encode os fl h = Inr (json, h1)"
  shows "h_cwd h1 = h_cwd h \<and>
    (\<forall>p. p \<noteq> file_at h (Join [fl_home fl, ''config.json'']) \<longrightarrow> h_files h1 p = h_files h p) \<and>
    (\<exists>data. ReadFile h1 (Join [fl_home fl, ''config.json'']) = Some data \<and> (fl_api fl = [] \<longrightarrow> data = json))"
  using assms
  by (auto simp: run_prepare_def Let_def WriteFile_def overrideAPI_def ReadFile_def file_at_def
      split: if_splits option.splits)

lemma init_home_named:
  assumes "init_home os (home_options home) (h, level) = (None, h', level')"
    and "h_cwd h = path_of True cs" and "home = path_of r hs" and "names cs" and "names hs"
  shows "h_files h' = h_files h \<and> h_cwd h' = path_of True (if r then hs else cs @ hs)"
proof -
  have "h_files h' = h_files h" "h_cwd h' = file_at h (Abs (h_cwd h) home)"
    using init_home_done[OF assms(1)] by (simp_all add: home_options_def)
  moreover have "Abs (h_cwd h) home = path_of True (if r then hs else cs @ hs)"
    using file_at_named[OF assms(4,5,2), of r] assms(3) by (simp add: file_at_def)
  moreover have "names (if r then hs else cs @ hs)" using assms(4,5) by simp
  ultimately show ?thesis using file_at_named[OF assms(4) _ assms(2), of _ True] by simp
qed

lemma home_directory:
  assumes cwd: "h_cwd h = path_of True cs" and home: "fl_home fl = path_of r hs" and n: "names cs" "names hs"
    and prep: "run_prepare convert proxied encode os fl h = Inr (json, h1)"
    and ini: "init_home os (home_options (fl_home fl)) (h1, level) = (None, h2, level')"
  defines "out \<equiv> Join [fl_home fl, ''config.json'']"
  shows "ReadFile h2 out =
    (if r \<or> hs = [] then ReadFile h1 out else h_files h (path_of True (cs @ hs @ hs @ [''config.json''])))"
proof -
  have o: "out = path_of r (hs @ [''config.json''])" using config_path[OF n(2)] by (simp add: out_def home)
  have no: "names (hs @ [''config.json''])" using n(2) by (simp add: plain_config)
  have c1: "h_cwd h1 = path_of True cs" using run_prepare_files[OF prep] cwd by simp
  have w: "file_at h out = path_of True (if r then hs @ [''config.json''] else cs @ hs @ [''config.json''])"
    using file_at_named[OF n(1) no cwd] by (simp add: o)
  have same: "h_files h1 p = h_files h p" if "p \<noteq> file_at h out" for p
    using run_prepare_files[OF prep] that by (simp add: out_def)
  have i: "h_files h2 = h_files h1" "h_cwd h2 = path_of True (if r then hs else cs @ hs)"
    using init_home_named[OF ini c1 home n] by simp_all
  have "names (if r then hs else cs @ hs)" using n by simp
  from file_at_named[OF this no i(2)]
  have r2: "file_at h2 out = path_of True (if r then hs @ [''config.json''] else cs @ hs @ hs @ [''config.json''])"
    by (simp add: o)
  have r1: "file_at h1 out = file_at h out" using c1 cwd by (simp add: file_at_def)
  have "path_of True (cs @ hs @ hs @ [''config.json'']) \<noteq> path_of True (cs @ hs @ [''config.json''])" if "hs \<noteq> []"
    using named_paths(4)[of "cs @ hs @ hs @ [''config.json'']" "cs @ hs @ [''config.json'']"] n that
    by (auto simp: plain_config)
  then show ?thesis
    using same[of "file_at h2 out"] by (auto simp: ReadFile_def i(1) r1 r2 w)
qed

text \<open>
  In the foreground, once the configuration can be read, the only thing that can fail is the start; in either case the
  service ends destroyed and at rest.
\<close>

lemma run_foreground_read:
  assumes "init_home os (home_options homeDir) (h, LogLevelInfo) = (None, h1, level)"
    and "ReadFile h1 configPath = Some data"
  shows "run_foreground translate answer os homeDir configPath sigs h =
    (if snd (last (results (start_content translate answer data (perform 0 CallInit Proceed NewService)))) \<noteq> Return_nil
     then Some E_start else None, runForeground translate answer (file_at h1 configPath) (h_files h1) sigs)"
  using assms by (simp add: run_foreground_def Let_def)

lemma runCommand_foreground:
  assumes "run_prepare convert proxied encode os fl h = Inr (json, h1)" and "\<not> fl_daemon fl"
    and "init_home os (home_options (fl_home fl)) (h1, LogLevelInfo) = (None, h2, level)"
    and "ReadFile h2 (Join [fl_home fl, ''config.json'']) = Some data"
  shows "case runCommand convert proxied encode translate answer os pr fl sigs h of
    Run_failed e \<Rightarrow> e = E_start | Run_daemon _ _ \<Rightarrow> False | Run_ended s \<Rightarrow> quiet s \<and> kernel_of s = Gone"
  using assms(1,2) run_foreground_read[OF assms(3,4), of translate answer sigs] runForeground_ends
  by (simp add: runCommand_def Let_def)

end
