(* ===== verification/GoQuote.thy ===== *)
theory GoQuote
  imports GoJson
begin

text \<open>
  \<open>strconv.Quote\<close>: the quoted form of a text.  Which code points above ASCII are printable is a table of the Go
  library, the parameter \<open>is_print\<close>; for ASCII it is the range from space to tilde.
\<close>

definition hex_width :: "nat \<Rightarrow> int \<Rightarrow> string" where
  "hex_width n x = map (\<lambda>k. hex_digit (x div 16 ^ k mod 16)) (rev [0..<n])"

text \<open>The code point a valid encoding stands for.\<close>

definition rune_value :: "string \<Rightarrow> int" where
  "rune_value s =
    (let b = (\<lambda>k. byte (s ! k)) in
     if length s = 1 then b 0
     else if length s = 2 then (b 0 - 192) * 64 + (b 1 - 128)
     else if length s = 3 then (b 0 - 224) * 4096 + (b 1 - 128) * 64 + (b 2 - 128)
     else (b 0 - 240) * 262144 + (b 1 - 128) * 4096 + (b 2 - 128) * 64 + (b 3 - 128))"

definition ascii_escape :: "int \<Rightarrow> string" where
  "ascii_escape b =
    (if b = 7 then [CHR 92, CHR ''a''] else if b = 8 then [CHR 92, CHR ''b''] else if b = 12 then [CHR 92, CHR ''f'']
     else if b = 10 then [CHR 92, CHR ''n''] else if b = 13 then [CHR 92, CHR ''r''] else if b = 9 then [CHR 92, CHR ''t'']
     else if b = 11 then [CHR 92, CHR ''v''] else [CHR 92, CHR ''x''] @ hex_width 2 b)"

definition escaped_rune :: "(int \<Rightarrow> bool) \<Rightarrow> string \<Rightarrow> string" where
  "escaped_rune is_print r =
    (let v = rune_value r in
     if v = 34 \<or> v = 92 then CHR 92 # r
     else if v < 128 then (if 32 \<le> v \<and> v < 127 then r else ascii_escape v)
     else if is_print v then r
     else if v < 65536 then [CHR 92, CHR ''u''] @ hex_width 4 v
     else [CHR 92, CHR ''U''] @ hex_width 8 v)"

function (sequential) quote_body :: "(int \<Rightarrow> bool) \<Rightarrow> string \<Rightarrow> string" where
  "quote_body is_print [] = []"
| "quote_body is_print (c # s) =
     (let n = rune_len (c # s) in
      if n = 0 then [CHR 92, CHR ''x''] @ hex_width 2 (byte c) @ quote_body is_print s
      else escaped_rune is_print (take n (c # s)) @ quote_body is_print (drop n (c # s)))"
  by pat_completeness auto
termination by (relation "measure (length \<circ> snd)") auto

definition Quote :: "(int \<Rightarrow> bool) \<Rightarrow> string \<Rightarrow> string" where
  "Quote is_print s = CHR 34 # quote_body is_print s @ [CHR 34]"

section \<open>Lemmas\<close>

text \<open>A quoted text is a single line: it contains no control character.\<close>

definition no_control :: "string \<Rightarrow> bool" where "no_control s \<longleftrightarrow> list_all (\<lambda>c. 32 \<le> byte c) s"

lemma no_control_simps [simp]:
  "no_control []" "no_control (c # s) \<longleftrightarrow> 32 \<le> byte c \<and> no_control s"
  "no_control (s @ t) \<longleftrightarrow> no_control s \<and> no_control t"
  by (auto simp: no_control_def)

lemma no_control_newline: "no_control s \<Longrightarrow> CHR 10 \<notin> set s"
  by (auto simp: no_control_def list_all_iff byte_def)

lemma hex_digit_visible: "0 \<le> d \<Longrightarrow> d < 16 \<Longrightarrow> 32 \<le> byte (hex_digit d)"
proof -
  assume d: "0 \<le> d" "d < 16"
  then have "d \<in> {0..15}" by simp
  also have "{0..15::int} = set [0..15]" by simp
  also have "[0..15::int] = [0, 1, 2, 3, 4, 5, 6, 7, 8, 9, 10, 11, 12, 13, 14, 15]" by code_simp
  finally show ?thesis unfolding list.set by (elim insertE emptyE) (simp_all add: hex_digit_def byte_def)
qed

lemma hex_width_visible: "no_control (hex_width n x)"
  by (auto simp: no_control_def hex_width_def list_all_iff intro!: hex_digit_visible)

lemma ascii_escape_visible: "no_control (ascii_escape b)"
  using hex_width_visible[of 2 b] by (simp add: ascii_escape_def byte_def)

text \<open>Longer encodings consist of bytes above ASCII.\<close>

lemma rune_len_le: "rune_len s \<le> length s"
  by (auto simp del: length_greater_0_conv simp: length_greater_0_conv[symmetric] rune_len_def Let_def split: list.split)

lemma long_rune:
  "rune_len (c # rest) \<noteq> 1 \<Longrightarrow> rune_len (c # rest) = Suc n \<Longrightarrow> 128 \<le> byte c \<and> (\<forall>k < n. 128 \<le> byte (rest ! k))"
  by (auto simp: rune_len_def Let_def cont_byte_def less_Suc_eq numeral_eq_Suc split: if_splits)

lemma rune_bytes: "rune_len s \<noteq> 1 \<Longrightarrow> no_control (take (rune_len s) s)"
proof (cases s)
  case (Cons c rest)
  assume n: "rune_len s \<noteq> 1"
  show ?thesis
  proof (cases "rune_len s")
    case (Suc n)
    then have "128 \<le> byte c" and r: "\<forall>k < n. 128 \<le> byte (rest ! k)"
      using long_rune[of c rest n] \<open>rune_len s \<noteq> 1\<close> Cons by simp_all
    moreover have "n \<le> length rest" using rune_len_le[of s] Suc Cons by simp
    then have "\<forall>x \<in> set (take n rest). 128 \<le> byte x" using r by (auto simp: in_set_conv_nth)
    ultimately show ?thesis using Cons Suc by (fastforce simp: no_control_def list_all_iff)
  qed simp
qed simp

lemma escaped_rune_visible: "rune_len s \<noteq> 0 \<Longrightarrow> no_control (escaped_rune is_print (take (rune_len s) s))"
proof (cases "rune_len s = 1")
  case True
  then obtain c rest where s: "s = c # rest" using rune_len_le[of s] by (cases s) auto
  then show ?thesis
    using True hex_width_visible ascii_escape_visible
    by (auto simp: escaped_rune_def Let_def rune_value_def byte_def)
next
  case False
  then show ?thesis
    using rune_bytes[OF False] hex_width_visible ascii_escape_visible
    by (simp add: escaped_rune_def Let_def byte_def)
qed

lemma quote_body_visible: "no_control (quote_body is_print s)"
proof (induction is_print s rule: quote_body.induct)
  case (2 is_print c s)
  then show ?case
    using escaped_rune_visible[of "c # s" is_print] hex_width_visible[of 2 "byte c"]
    by (auto simp: Let_def byte_def)
qed simp

lemma Quote_line: "no_control (Quote is_print s)"
  using quote_body_visible by (simp add: Quote_def byte_def)

end
