(* ===== verification/LinuxService.thy ===== *)
theory LinuxService
  imports Host GoQuote "HOL-Library.Word"
begin

unbundle bit_operations_syntax

text \<open>
  The installation as a systemd service (\<open>ipc/service_linux.go\<close>, \<open>service_linux_assets.go\<close>): the choice of the
  binary the service runs, its copy, the files that are written and removed.  The file system keeps the mode of
  a file and symbolic links at the end of a path (a link holds the path it finally leads to); directories are not
  links.  What the system refuses, and what commands return, are parameters.
\<close>

section \<open>The machine\<close>

datatype node = Regular string "12 word" | Directory "12 word" | Symlink string

datatype sysop =
    Do_mkdir string | Do_open string | Do_remove string | Do_create string | Do_copy string | Do_write string
  | Do_chown string | Do_command "string list"

record machine =
  m_fs :: "string \<rightharpoonup> node"
  m_owner :: "string \<rightharpoonup> int \<times> int"
  m_users :: "string \<rightharpoonup> int \<times> int"
  m_commands :: "string list list"

text \<open>
  The process: its user, environment and file mask, its executable with all links resolved, the printable code
  points, the operations that fail, and the ids a new user gets.
\<close>

record process =
  px_euid :: nat
  px_env :: "string \<Rightarrow> string"
  px_umask :: "12 word"
  px_exe :: "string option"
  px_resolve :: "string \<Rightarrow> string option"
  px_print :: "int \<Rightarrow> bool"
  px_fails :: "sysop \<Rightarrow> bool"
  px_new_ids :: "int \<times> int"

text \<open>
  A directory and its missing parents; an existing directory keeps its mode.  Modes are decimal here: 493 is 0755,
  420 is 0644.
\<close>

definition prefixes :: "string \<Rightarrow> string list" where
  "prefixes path = map (\<lambda>k. path_of True (take (Suc k) (clean_elems path))) [0..<length (clean_elems path)]"

fun make_dirs :: "12 word \<Rightarrow> string list \<Rightarrow> (string \<rightharpoonup> node) \<Rightarrow> (string \<rightharpoonup> node) option" where
  "make_dirs mode [] fs = Some fs"
| "make_dirs mode (p # ps) fs =
     (case fs p of
        None \<Rightarrow> make_dirs mode ps (fs(p \<mapsto> Directory mode))
      | Some (Regular _ _) \<Rightarrow> None
      | Some _ \<Rightarrow> make_dirs mode ps fs)"

definition sys_MkdirAll :: "process \<Rightarrow> string \<Rightarrow> machine \<Rightarrow> machine option" where
  "sys_MkdirAll px path m =
    (if px_fails px (Do_mkdir path) then None
     else map_option (\<lambda>fs. m\<lparr>m_fs := fs\<rparr>) (make_dirs (493 AND NOT (px_umask px)) (prefixes path) (m_fs m)))"

text \<open>\<open>os.Remove\<close> takes away the name itself, also when it is a link.\<close>

datatype removal = Removed | Not_exist | Remove_failed

definition sys_Remove :: "process \<Rightarrow> string \<Rightarrow> machine \<Rightarrow> removal \<times> machine" where
  "sys_Remove px path m =
    (if m_fs m path = None then (Not_exist, m)
     else if px_fails px (Do_remove path) then (Remove_failed, m)
     else (Removed, m\<lparr>m_fs := (m_fs m)(path := None)\<rparr>))"

text \<open>\<open>os.WriteFile\<close> follows a link and keeps the mode of an existing file.\<close>

definition final_path :: "(string \<rightharpoonup> node) \<Rightarrow> string \<Rightarrow> string" where
  "final_path fs path = (case fs path of Some (Symlink t) \<Rightarrow> t | _ \<Rightarrow> path)"

definition sys_WriteFile :: "process \<Rightarrow> string \<Rightarrow> string \<Rightarrow> 12 word \<Rightarrow> machine \<Rightarrow> machine option" where
  "sys_WriteFile px path data mode m =
    (if px_fails px (Do_write path) then None
     else
       (let p = final_path (m_fs m) path in
        case m_fs m p of
          None \<Rightarrow> Some (m\<lparr>m_fs := (m_fs m)(p \<mapsto> Regular data (mode AND NOT (px_umask px)))\<rparr>)
        | Some (Regular _ old) \<Rightarrow> Some (m\<lparr>m_fs := (m_fs m)(p \<mapsto> Regular data old)\<rparr>)
        | Some _ \<Rightarrow> None))"

text \<open>\<open>os.OpenFile\<close> with \<open>O_CREATE|O_EXCL|O_NOFOLLOW\<close>: a new file or an error.\<close>

definition sys_CreateExcl :: "process \<Rightarrow> string \<Rightarrow> 12 word \<Rightarrow> machine \<Rightarrow> machine option" where
  "sys_CreateExcl px path mode m =
    (if px_fails px (Do_create path) \<or> m_fs m path \<noteq> None then None
     else Some (m\<lparr>m_fs := (m_fs m)(path \<mapsto> Regular [] (mode AND NOT (px_umask px)))\<rparr>))"

definition fill_file :: "string \<Rightarrow> string \<Rightarrow> machine \<Rightarrow> machine" where
  "fill_file path data m =
    (case m_fs m path of
       Some (Regular _ mode) \<Rightarrow> m\<lparr>m_fs := (m_fs m)(path \<mapsto> Regular data mode)\<rparr>
     | _ \<Rightarrow> m)"

definition runCmd :: "process \<Rightarrow> string list \<Rightarrow> machine \<Rightarrow> bool \<times> machine" where
  "runCmd px args m = (\<not> px_fails px (Do_command args), m\<lparr>m_commands := m_commands m @ [args]\<rparr>)"

section \<open>Paths\<close>

definition LinuxServiceName :: string where "LinuxServiceName = ''singcast-core''"
definition serviceStateDir :: string where "serviceStateDir = ''/var/lib/singcast''"
definition serviceBinaryDir :: string where "serviceBinaryDir = ''/usr/local/lib/singcast''"
definition serviceUser :: string where "serviceUser = ''singcast''"

definition legacyServiceBinaryPath :: string where
  "legacyServiceBinaryPath = Join [serviceStateDir, ''singcast-core'']"

definition stableServiceBinaryPath :: string where
  "stableServiceBinaryPath = Join [serviceBinaryDir, ''singcast-core'']"

text \<open>\<open>appimage\<close> is the environment variable \<open>APPIMAGE\<close>.\<close>

definition needsStableBinaryCopy :: "string \<Rightarrow> string \<Rightarrow> bool" where
  "needsStableBinaryCopy appimage exe =
    (if appimage \<noteq> [] then True
     else
       let clean = Clean exe in
       if clean = stableServiceBinaryPath then False
       else if has_prefix clean ''/tmp/'' \<or> has_prefix clean ''/home/'' \<or> has_prefix clean ''/root/'' then True
       else if clean = legacyServiceBinaryPath then True
       else if has_prefix clean ''/usr/'' \<or> has_prefix clean ''/opt/'' then False
       else True)"

section \<open>Files that are installed\<close>

definition unlines :: "string list \<Rightarrow> string" where "unlines ls = concat (map (\<lambda>l. l @ [CHR 10]) ls)"

definition gui_environment :: "string \<Rightarrow> string list" where
  "gui_environment guiUID =
    (if guiUID \<noteq> [] \<and> guiUID \<noteq> ''0'' then [''Environment=SINGCAST_GUI_UID='' @ guiUID] else [])"

definition systemdUnit :: "(int \<Rightarrow> bool) \<Rightarrow> string \<Rightarrow> string \<Rightarrow> string \<Rightarrow> string" where
  "systemdUnit is_print execPath stateDir guiUID =
    unlines
      ([''[Unit]'',
        ''Description=Singcast core service'',
        ''After=network-online.target nss-lookup.target'',
        ''Wants=network-online.target'',
        [],
        ''[Service]'',
        ''Type=simple'',
        ''User='' @ serviceUser,
        ''Group='' @ serviceUser,
        ''StateDirectory=singcast'',
        ''RuntimeDirectory=singcast'',
        ''RuntimeDirectoryMode=0755'',
        ''WorkingDirectory='' @ stateDir,
        ''Environment=SINGCAST_IPC_PATH=/run/singcast/command.sock'']
       @ gui_environment guiUID @
       [''ExecStart='' @ Quote is_print execPath @ '' ipc --home '' @ Quote is_print stateDir,
        ''AmbientCapabilities=CAP_NET_ADMIN'',
        ''CapabilityBoundingSet=CAP_NET_ADMIN CAP_NET_RAW CAP_NET_BIND_SERVICE'',
        ''NoNewPrivileges=yes'',
        ''RestrictSUIDSGID=yes'',
        ''ProtectHome=yes'',
        ''ProtectClock=yes'',
        ''RestrictAddressFamilies=AF_UNIX AF_INET AF_INET6 AF_NETLINK'',
        ''Restart=on-failure'',
        ''RestartSec=2'',
        ''LimitNOFILE=infinity'',
        [],
        ''[Install]'',
        ''WantedBy=multi-user.target''])"

definition polkitRules :: string where \<open>
  polkitRules =
    unlines
      [''polkit.addRule(function(action, subject) {'',
       ''    if ((action.id == "org.freedesktop.resolve1.set-domains" ||'',
       ''         action.id == "org.freedesktop.resolve1.set-default-route" ||'',
       ''         action.id == "org.freedesktop.resolve1.set-dns-servers" ||'',
       ''         action.id == "org.freedesktop.resolve1.revert") &&'',
       ''        subject.user == "'' @ serviceUser @ ''") {'',
       ''        return polkit.Result.YES;'',
       ''    }'',
       ''});'',
       [],
       ''polkit.addRule(function(action, subject) {'',
       ''    if (action.id == "org.freedesktop.systemd1.manage-units" &&'',
       ''        subject.active == true && subject.local == true &&'',
       ''        action.lookup("unit") == "'' @ LinuxServiceName @ ''.service") {'',
       ''        '' @ ''// '' @ [CHR 0xE4, CHR 0xB8, CHR 0x8D, CHR 0xE6, CHR 0x8C, CHR 0x89] @ '' verb '' @ [CHR 0xE8, CHR 0xBF, CHR
         0x87, CHR 0xE6, CHR 0xBB, CHR 0xA4, CHR 0xEF, CHR 0xBC, CHR 0x9A, CHR 0xE7, CHR 0xBB, CHR 0x86, CHR 0xE8, CHR
         0x8A, CHR 0x82, CHR 0xE5, CHR 0xAD, CHR 0x97, CHR 0xE6, CHR 0xAE, CHR 0xB5, CHR 0xE5, CHR 0x9C, CHR 0xA8, CHR
         0xE5, CHR 0x8F, CHR 0x91, CHR 0xE8, CHR 0xA1, CHR 0x8C, CHR 0xE7, CHR 0x89, CHR 0x88, CHR 0xE9, CHR 0x97, CHR
         0xB4, CHR 0xE4, CHR 0xB8, CHR 0x8D, CHR 0xE7, CHR 0xA8, CHR 0xB3, CHR 0xE5, CHR 0xAE, CHR 0x9A, CHR 0xEF, CHR
         0xBC, CHR 0x9B, CHR 0xE5, CHR 0xB7, CHR 0xB2, CHR 0xE7, CHR 0x94, CHR 0xA8] @ '' unit '' @ [CHR 0xE5, CHR
         0x90, CHR 0x8D, CHR 0xE6, CHR 0x94, CHR 0xB6, CHR 0xE7, CHR 0xAA, CHR 0x84, CHR 0xE5, CHR 0x88, CHR 0xB0, CHR
         0xE6, CHR 0x9C, CHR 0xAC, CHR 0xE6, CHR 0x9C, CHR 0x8D, CHR 0xE5, CHR 0x8A, CHR 0xA1, CHR 0xE3, CHR 0x80, CHR
         0x82],
       ''        return polkit.Result.YES;'',
       ''    }'',
       ''});'']\<close>

record linuxFile =
  lf_Path :: string
  lf_Content :: string
  lf_Mode :: "12 word"

definition unit_path :: string where "unit_path = ''/etc/systemd/system/'' @ LinuxServiceName @ ''.service''"
definition rules_path :: string where "rules_path = ''/usr/share/polkit-1/rules.d/singcast.rules''"

definition linuxInstallFiles :: "(int \<Rightarrow> bool) \<Rightarrow> string \<Rightarrow> string \<Rightarrow> string \<Rightarrow> linuxFile list" where
  "linuxInstallFiles is_print execPath stateDir guiUID =
    [\<lparr>lf_Path = unit_path, lf_Content = systemdUnit is_print execPath stateDir guiUID, lf_Mode = 420\<rparr>,
     \<lparr>lf_Path = rules_path, lf_Content = polkitRules, lf_Mode = 420\<rparr>]"

definition linuxUninstallPaths :: "string list" where
  "linuxUninstallPaths = [unit_path, rules_path, stableServiceBinaryPath, legacyServiceBinaryPath]"

section \<open>Installing\<close>

datatype install_error =
    Not_root | No_executable | Bad_symlink | User_failed | State_dir_failed
  | Binary_dir_failed | Read_binary_failed | Replace_binary_failed | Create_binary_failed | Write_binary_failed
  | File_dir_failed string | Write_file_failed string | Reload_failed

text \<open>
  \<open>installServiceBinary\<close>: the source is open before the destination is removed, so its content is what it was then.
\<close>

definition installServiceBinary :: "process \<Rightarrow> string \<Rightarrow> machine \<Rightarrow> (install_error + string) \<times> machine" where
  "installServiceBinary px exe m =
    (if \<not> needsStableBinaryCopy (px_env px ''APPIMAGE'') exe then (Inr exe, m)
     else
       let dst = stableServiceBinaryPath in
       case sys_MkdirAll px serviceBinaryDir m of
         None \<Rightarrow> (Inl Binary_dir_failed, m)
       | Some m \<Rightarrow>
           (case m_fs m (final_path (m_fs m) exe) of
              None \<Rightarrow> (Inl Read_binary_failed, m)
            | Some src \<Rightarrow>
                if px_fails px (Do_open exe) then (Inl Read_binary_failed, m)
                else
                  (case sys_Remove px dst m of
                     (Remove_failed, m) \<Rightarrow> (Inl Replace_binary_failed, m)
                   | (_, m) \<Rightarrow>
                       (case sys_CreateExcl px dst 493 m of
                          None \<Rightarrow> (Inl Create_binary_failed, m)
                        | Some m \<Rightarrow>
                            (case src of
                               Regular data _ \<Rightarrow>
                                 if px_fails px (Do_copy exe) then (Inl Write_binary_failed, m)
                                 else (Inr dst, fill_file dst data m)
                             | _ \<Rightarrow> (Inl Write_binary_failed, m))))))"

definition removeLegacyServiceBinary :: "process \<Rightarrow> machine \<Rightarrow> machine" where
  "removeLegacyServiceBinary px m = snd (sys_Remove px legacyServiceBinaryPath m)"

definition effectiveCallerUID :: "(string \<Rightarrow> string) \<Rightarrow> string" where
  "effectiveCallerUID env =
    (case find (\<lambda>v. v \<noteq> []) (map env [''PKEXEC_UID'', ''SUDO_UID'']) of Some v \<Rightarrow> v | None \<Rightarrow> ''0'')"

definition useradd :: "string list" where
  "useradd = [''useradd'', ''--system'', ''--no-create-home'', ''--home-dir'', serviceStateDir, ''--shell'',
    ''/usr/sbin/nologin'', serviceUser]"

definition ensureServiceUser :: "process \<Rightarrow> machine \<Rightarrow> bool \<times> machine" where
  "ensureServiceUser px m =
    (if m_users m serviceUser \<noteq> None then (True, m)
     else
       (case runCmd px useradd m of
          (True, m) \<Rightarrow> (True, m\<lparr>m_users := (m_users m)(serviceUser \<mapsto> px_new_ids px)\<rparr>)
        | (False, m) \<Rightarrow> (False, m)))"

text \<open>The owner of the state directory; a failure is only logged.\<close>

definition chown_state_dir :: "process \<Rightarrow> machine \<Rightarrow> machine" where
  "chown_state_dir px m =
    (case m_users m serviceUser of
       None \<Rightarrow> m
     | Some ids \<Rightarrow>
         if px_fails px (Do_chown serviceStateDir) then m
         else m\<lparr>m_owner := (m_owner m)(serviceStateDir \<mapsto> ids)\<rparr>)"

fun install_files :: "process \<Rightarrow> linuxFile list \<Rightarrow> machine \<Rightarrow> install_error option \<times> machine" where
  "install_files px [] m = (None, m)"
| "install_files px (f # fs) m =
     (case sys_MkdirAll px (Dir (lf_Path f)) m of
        None \<Rightarrow> (Some (File_dir_failed (lf_Path f)), m)
      | Some m \<Rightarrow>
          (case sys_WriteFile px (lf_Path f) (lf_Content f) (lf_Mode f) m of
             None \<Rightarrow> (Some (Write_file_failed (lf_Path f)), m)
           | Some m \<Rightarrow> install_files px fs m))"

definition daemon_reload :: "string list" where "daemon_reload = [''systemctl'', ''daemon-reload'']"

text \<open>The last part: the binary, the files and the reload.\<close>

definition install_from :: "process \<Rightarrow> string \<Rightarrow> machine \<Rightarrow> install_error option \<times> machine" where
  "install_from px exe m =
    (case installServiceBinary px exe m of
       (Inl e, m) \<Rightarrow> (Some e, m)
     | (Inr exe, m) \<Rightarrow>
         (let m = (if exe \<noteq> legacyServiceBinaryPath then removeLegacyServiceBinary px m else m) in
          case install_files px (linuxInstallFiles (px_print px) exe serviceStateDir (effectiveCallerUID (px_env px))) m of
            (Some e, m) \<Rightarrow> (Some e, m)
          | (None, m) \<Rightarrow>
              (case runCmd px daemon_reload m of
                 (True, m) \<Rightarrow> (None, m)
               | (False, m) \<Rightarrow> (Some Reload_failed, m))))"

definition InstallService :: "process \<Rightarrow> machine \<Rightarrow> install_error option \<times> machine" where
  "InstallService px m =
    (if px_euid px \<noteq> 0 then (Some Not_root, m)
     else
       (case px_exe px of
          None \<Rightarrow> (Some No_executable, m)
        | Some exe \<Rightarrow>
            (case px_resolve px exe of
               None \<Rightarrow> (Some Bad_symlink, m)
             | Some exe \<Rightarrow>
                 (case ensureServiceUser px m of
                    (False, m) \<Rightarrow> (Some User_failed, m)
                  | (True, m) \<Rightarrow>
                      (case sys_MkdirAll px serviceStateDir m of
                         None \<Rightarrow> (Some State_dir_failed, m)
                       | Some m \<Rightarrow> install_from px exe (chown_state_dir px m))))))"

text \<open>\<open>UninstallService\<close>: only the privilege and the reload can fail, everything else is logged.\<close>

definition service_unit :: string where "service_unit = LinuxServiceName @ ''.service''"

definition UninstallService :: "process \<Rightarrow> machine \<Rightarrow> install_error option \<times> machine" where
  "UninstallService px m =
    (if px_euid px \<noteq> 0 then (Some Not_root, m)
     else
       let m = snd (runCmd px [''systemctl'', ''stop'', service_unit] m);
           m = snd (runCmd px [''systemctl'', ''disable'', service_unit] m);
           m = fold (\<lambda>p m. snd (sys_Remove px p m)) linuxUninstallPaths m
       in (case runCmd px daemon_reload m of (True, m) \<Rightarrow> (None, m) | (False, m) \<Rightarrow> (Some Reload_failed, m)))"

text \<open>On macOS (\<open>service_posix.go\<close>) both operations are refused.\<close>

definition darwin_InstallService :: "string option" where
  "darwin_InstallService = Some ''service management is not supported on macOS''"

definition darwin_UninstallService :: "string option" where
  "darwin_UninstallService = Some ''service management is not supported on macOS''"

section \<open>Lemmas\<close>

text \<open>The paths as they are, and what they have in common.\<close>

lemma paths_eval:
  "stableServiceBinaryPath = ''/usr/local/lib/singcast/singcast-core''"
  "legacyServiceBinaryPath = ''/var/lib/singcast/singcast-core''"
  "unit_path = ''/etc/systemd/system/singcast-core.service''"
  by code_simp+

lemma paths_distinct:
  "distinct [stableServiceBinaryPath, legacyServiceBinaryPath, unit_path, rules_path]"
  by code_simp

text \<open>A path that goes into the unit as it is lies under \<open>/usr\<close> or \<open>/opt\<close>.\<close>

definition trusted_binary :: "string \<Rightarrow> bool" where
  "trusted_binary exe \<longleftrightarrow> Clean exe = stableServiceBinaryPath \<or> has_prefix (Clean exe) ''/usr/'' \<or> has_prefix (Clean exe) ''/opt/''"

lemma not_copied_trusted: "\<not> needsStableBinaryCopy appimage exe \<Longrightarrow> trusted_binary exe"
  by (auto simp: needsStableBinaryCopy_def Let_def trusted_binary_def split: if_splits)

lemma trusted_stable: "trusted_binary stableServiceBinaryPath" by code_simp

lemma trusted_not_legacy: "trusted_binary exe \<Longrightarrow> exe \<noteq> legacyServiceBinaryPath"
proof -
  have "\<not> trusted_binary legacyServiceBinaryPath" by code_simp
  then show "trusted_binary exe \<Longrightarrow> exe \<noteq> legacyServiceBinaryPath" by auto
qed

subsection \<open>What stays as it is\<close>

text \<open>
  Outside \<open>S\<close> nothing that exists is touched and only directories appear; nowhere does a link appear.
\<close>

definition kept :: "string set \<Rightarrow> (string \<rightharpoonup> node) \<Rightarrow> (string \<rightharpoonup> node) \<Rightarrow> bool" where
  "kept S fs fs' \<longleftrightarrow>
     (\<forall>p. p \<notin> S \<longrightarrow> fs' p = fs p \<or> fs p = None \<and> (\<exists>mode. fs' p = Some (Directory mode))) \<and>
     (\<forall>p t. fs' p = Some (Symlink t) \<longrightarrow> fs p = Some (Symlink t))"

lemma kept_refl [simp]: "kept S fs fs" by (simp add: kept_def)

lemma kept_trans: "kept S fs fs' \<Longrightarrow> kept S fs' fs'' \<Longrightarrow> kept S fs fs''"
  unfolding kept_def by (metis option.distinct(1))

lemma kept_mono: "kept S fs fs' \<Longrightarrow> S \<subseteq> T \<Longrightarrow> kept T fs fs'"
  unfolding kept_def by blast

lemma kept_update: "p \<in> S \<Longrightarrow> (\<And>t. v \<noteq> Some (Symlink t)) \<Longrightarrow> kept S fs (fs(p := v))"
  by (auto simp: kept_def)

lemma kept_existing: "kept S fs fs' \<Longrightarrow> p \<notin> S \<Longrightarrow> fs p = Some n \<Longrightarrow> fs' p = Some n"
  unfolding kept_def by (metis option.distinct(1))

lemma kept_absent: "kept S fs fs' \<Longrightarrow> p \<notin> S \<Longrightarrow> fs p = None \<Longrightarrow> fs' p \<noteq> Some (Regular d md)"
  unfolding kept_def by (metis node.distinct(1) option.distinct(1) option.inject)

definition unlinked :: "(string \<rightharpoonup> node) \<Rightarrow> string \<Rightarrow> bool" where
  "unlinked fs p \<longleftrightarrow> (case fs p of Some (Symlink _) \<Rightarrow> False | _ \<Rightarrow> True)"

lemma kept_unlinked: "kept S fs fs' \<Longrightarrow> unlinked fs p \<Longrightarrow> unlinked fs' p"
  unfolding kept_def unlinked_def by (fastforce split: option.splits node.splits)

lemma make_dirs_kept: "make_dirs mode ps fs = Some fs' \<Longrightarrow> kept S fs fs'"
proof (induction mode ps fs rule: make_dirs.induct)
  case (2 mode p ps fs)
  show ?case
  proof (cases "fs p")
    case None
    then have "kept S fs (fs(p \<mapsto> Directory mode))" by (auto simp: kept_def)
    then show ?thesis using "2.IH"(1)[OF None] 2(4) None kept_trans by fastforce
  next
    case (Some n)
    then show ?thesis using "2.IH"(2)[OF Some] "2.IH"(3)[OF Some] 2(4) by (cases n) auto
  qed
qed simp

lemma mkdir_kept: "sys_MkdirAll px path m = Some m' \<Longrightarrow> kept S (m_fs m) (m_fs m')"
  by (auto simp: sys_MkdirAll_def split: if_splits intro: make_dirs_kept)

lemma remove_kept: "path \<in> S \<Longrightarrow> kept S (m_fs m) (m_fs (snd (sys_Remove px path m)))"
  by (simp add: sys_Remove_def kept_update)

lemma write_kept:
  "sys_WriteFile px path data mode m = Some m' \<Longrightarrow> unlinked (m_fs m) path \<Longrightarrow> path \<in> S \<Longrightarrow> kept S (m_fs m) (m_fs m')"
  by (auto simp: sys_WriteFile_def Let_def final_path_def unlinked_def intro!: kept_update
      split: if_splits option.splits node.splits)

lemma write_content:
  "sys_WriteFile px path data mode m = Some m' \<Longrightarrow> unlinked (m_fs m) path \<Longrightarrow> \<exists>mode'. m_fs m' path = Some (Regular data mode')"
  by (auto simp: sys_WriteFile_def Let_def final_path_def unlinked_def split: if_splits option.splits node.splits)

lemma create_kept: "sys_CreateExcl px path mode m = Some m' \<Longrightarrow> path \<in> S \<Longrightarrow> kept S (m_fs m) (m_fs m')"
  by (auto simp: sys_CreateExcl_def intro!: kept_update split: if_splits)

lemma fill_kept: "path \<in> S \<Longrightarrow> kept S (m_fs m) (m_fs (fill_file path data m))"
  by (auto simp: fill_file_def intro!: kept_update split: option.split node.split)

subsection \<open>The copy of the binary\<close>

lemma installServiceBinary_kept:
  assumes "installServiceBinary px exe m = (r, m')"
  shows "kept {stableServiceBinaryPath} (m_fs m) (m_fs m')"
proof -
  let ?S = "{stableServiceBinaryPath}"
  have "kept ?S (m_fs m) (m_fs m1)" if "sys_MkdirAll px serviceBinaryDir m = Some m1" for m1
    using mkdir_kept[OF that] .
  moreover have "kept ?S (m_fs m1) (m_fs m2)" if "sys_Remove px stableServiceBinaryPath m1 = (x, m2)" for m1 m2 x
    using remove_kept[of stableServiceBinaryPath ?S m1 px] that by simp
  moreover have "kept ?S (m_fs m1) (m_fs m2)" if "sys_CreateExcl px stableServiceBinaryPath 493 m1 = Some m2" for m1 m2
    using create_kept[OF that] by simp
  moreover have "kept ?S (m_fs m1) (m_fs (fill_file stableServiceBinaryPath d m1))" for m1 d by (rule fill_kept) simp
  ultimately show ?thesis
    using assms unfolding installServiceBinary_def Let_def
    by (auto split: if_splits option.splits prod.splits removal.splits node.splits)
      (meson kept_trans)+
qed

text \<open>
  On success the path is trusted; a copy is a new file of the content of the source, with the mode of the
  program under the file mask.
\<close>

lemma installServiceBinary_done:
  assumes "installServiceBinary px exe m = (Inr exe', m')"
  shows "trusted_binary exe' \<and>
    (if needsStableBinaryCopy (px_env px ''APPIMAGE'') exe
     then exe' = stableServiceBinaryPath \<and>
       (\<exists>data. m_fs m' exe' = Some (Regular data (493 AND NOT (px_umask px))) \<and>
          (\<exists>m1 mode. sys_MkdirAll px serviceBinaryDir m = Some m1 \<and>
             m_fs m1 (final_path (m_fs m1) exe) = Some (Regular data mode)))
     else exe' = exe \<and> m' = m)"
  using assms not_copied_trusted[of "px_env px ''APPIMAGE''" exe] trusted_stable unfolding installServiceBinary_def Let_def
  by (auto simp: sys_CreateExcl_def fill_file_def split: if_splits option.splits prod.splits removal.splits node.splits)

subsection \<open>The whole installation\<close>

definition installed_paths :: "string set" where
  "installed_paths = {stableServiceBinaryPath, legacyServiceBinaryPath, unit_path, rules_path}"

lemma installed_simps [simp]:
  "stableServiceBinaryPath \<in> installed_paths" "legacyServiceBinaryPath \<in> installed_paths"
  "unit_path \<in> installed_paths" "rules_path \<in> installed_paths"
  by (simp_all add: installed_paths_def)

lemma install_files_kept:
  "install_files px fs m = (r, m') \<Longrightarrow> \<forall>f \<in> set fs. lf_Path f \<in> S \<and> unlinked (m_fs m) (lf_Path f) \<Longrightarrow>
     kept S (m_fs m) (m_fs m')"
proof (induction px fs m arbitrary: r m' rule: install_files.induct)
  case (2 px f fs m)
  show ?case
  proof (cases "sys_MkdirAll px (Dir (lf_Path f)) m")
    case (Some m1)
    note k1 = mkdir_kept[OF Some, of S]
    show ?thesis
    proof (cases "sys_WriteFile px (lf_Path f) (lf_Content f) (lf_Mode f) m1")
      case None
      then show ?thesis using 2(2) Some k1 by simp
    next
      case s2: (Some m2)
      have k2: "kept S (m_fs m1) (m_fs m2)"
        using write_kept[OF s2] kept_unlinked[OF k1] 2(3) by simp
      have "kept S (m_fs m2) (m_fs m')"
        using "2.IH"[OF Some s2, of r m'] 2(2,3) Some s2 kept_unlinked[OF kept_trans[OF k1 k2]] by simp
      then show ?thesis using k1 k2 kept_trans by blast
    qed
  qed (use 2(2) in simp)
qed simp

lemma linux_files_written:
  assumes "install_files px (linuxInstallFiles pr exe dir uid) m = (None, m')"
    and "unlinked (m_fs m) unit_path" and "unlinked (m_fs m) rules_path"
  shows "\<exists>mode. m_fs m' unit_path = Some (Regular (systemdUnit pr exe dir uid) mode)"
proof -
  have d: "unit_path \<noteq> rules_path" using paths_distinct by simp
  obtain m1 m2 m3 m4 where s: "sys_MkdirAll px (Dir unit_path) m = Some m1"
    "sys_WriteFile px unit_path (systemdUnit pr exe dir uid) 420 m1 = Some m2"
    "sys_MkdirAll px (Dir rules_path) m2 = Some m3" "sys_WriteFile px rules_path polkitRules 420 m3 = Some m4" "m' = m4"
    using assms(1) by (auto simp: linuxInstallFiles_def split: option.splits)
  have k1: "kept {} (m_fs m) (m_fs m1)" and k3: "kept {} (m_fs m2) (m_fs m3)"
    using mkdir_kept s(1,3) by blast+
  have u1: "unlinked (m_fs m1) unit_path" "unlinked (m_fs m1) rules_path" using kept_unlinked[OF k1] assms(2,3) by simp_all
  have k2: "kept {unit_path} (m_fs m1) (m_fs m2)" using write_kept[OF s(2) u1(1)] by simp
  have "unlinked (m_fs m3) rules_path" using kept_unlinked[OF k3 kept_unlinked[OF k2 u1(2)]] .
  then have k4: "kept {rules_path} (m_fs m3) (m_fs m4)" using write_kept[OF s(4)] by simp
  obtain mode where "m_fs m2 unit_path = Some (Regular (systemdUnit pr exe dir uid) mode)"
    using write_content[OF s(2) u1(1)] by blast
  then have "m_fs m3 unit_path = Some (Regular (systemdUnit pr exe dir uid) mode)" by (rule kept_existing[OF k3, rotated]) simp
  then have "m_fs m4 unit_path = Some (Regular (systemdUnit pr exe dir uid) mode)"
    by (rule kept_existing[OF k4, rotated]) (simp add: d)
  then show ?thesis using s(5) by blast
qed

lemma runCmd_fs [simp]: "m_fs (snd (runCmd px args m)) = m_fs m" by (simp add: runCmd_def)

lemma ensureServiceUser_fs: "ensureServiceUser px m = (b, m') \<Longrightarrow> m_fs m' = m_fs m"
  by (auto simp: ensureServiceUser_def runCmd_def split: if_splits prod.splits bool.splits)

lemma chown_fs [simp]: "m_fs (chown_state_dir px m) = m_fs m"
  by (simp add: chown_state_dir_def split: option.split)

text \<open>No link stands where the unit and the rules are written.\<close>

definition plain_targets :: "(string \<rightharpoonup> node) \<Rightarrow> bool" where
  "plain_targets fs \<longleftrightarrow> unlinked fs unit_path \<and> unlinked fs rules_path"

lemma install_from_kept:
  assumes "install_from px exe m = (r, m')" and t: "plain_targets (m_fs m)"
  shows "kept installed_paths (m_fs m) (m_fs m')"
proof -
  obtain b m1 where b: "installServiceBinary px exe m = (b, m1)" by (rule prod.exhaust)
  have k1: "kept installed_paths (m_fs m) (m_fs m1)"
    using kept_mono[OF installServiceBinary_kept[OF b]] by simp
  show ?thesis
  proof (cases b)
    case (Inl e)
    then show ?thesis using assms(1) b k1 by (simp add: install_from_def)
  next
    case (Inr exe')
    define m2 where "m2 = (if exe' \<noteq> legacyServiceBinaryPath then removeLegacyServiceBinary px m1 else m1)"
    have "kept installed_paths (m_fs m1) (m_fs m2)"
      by (simp add: m2_def removeLegacyServiceBinary_def remove_kept)
    with k1 have k2: "kept installed_paths (m_fs m) (m_fs m2)" by (rule kept_trans)
    obtain x m3 where f: "install_files px (linuxInstallFiles (px_print px) exe' serviceStateDir (effectiveCallerUID (px_env px))) m2 = (x, m3)"
      by (rule prod.exhaust)
    have "kept installed_paths (m_fs m2) (m_fs m3)"
      using install_files_kept[OF f, of installed_paths] kept_unlinked[OF k2] t
      by (simp add: linuxInstallFiles_def plain_targets_def)
    with k2 have "kept installed_paths (m_fs m) (m_fs m3)" by (rule kept_trans)
    moreover have "m_fs m' = m_fs m3"
      using assms(1) b Inr f by (auto simp: install_from_def m2_def[symmetric] runCmd_def Let_def
          split: option.splits if_splits bool.splits)
    ultimately show ?thesis by simp
  qed
qed

lemma InstallService_cases:
  assumes "InstallService px m = (r, m')"
  shows "kept {} (m_fs m) (m_fs m') \<and> r \<noteq> None \<or>
    (\<exists>exe0 exe m1. px_exe px = Some exe0 \<and> px_resolve px exe0 = Some exe \<and> kept {} (m_fs m) (m_fs m1) \<and>
       install_from px exe m1 = (r, m'))"
proof (cases "px_euid px \<noteq> 0 \<or> px_exe px = None \<or> Option.bind (px_exe px) (px_resolve px) = None")
  case True
  then show ?thesis using assms by (auto simp: InstallService_def split: if_splits option.splits)
next
  case False
  then obtain exe0 exe where e: "px_euid px = 0" "px_exe px = Some exe0" "px_resolve px exe0 = Some exe"
    by (cases "px_exe px") auto
  obtain b m1 where u: "ensureServiceUser px m = (b, m1)" by (rule prod.exhaust)
  note fs1 = ensureServiceUser_fs[OF u]
  show ?thesis
  proof (cases "b \<and> sys_MkdirAll px serviceStateDir m1 \<noteq> None")
    case True
    then obtain m2 where m2: "sys_MkdirAll px serviceStateDir m1 = Some m2" by auto
    have "kept {} (m_fs m) (m_fs (chown_state_dir px m2))" using mkdir_kept[OF m2, of "{}"] fs1 by simp
    moreover have "install_from px exe (chown_state_dir px m2) = (r, m')"
      using assms e u True m2 by (simp add: InstallService_def)
    ultimately show ?thesis using e by blast
  next
    case False
    then show ?thesis using assms e u fs1 by (auto simp: InstallService_def split: bool.splits option.splits)
  qed
qed

text \<open>Whatever happens, only the four paths of the installation are touched.\<close>

lemma InstallService_kept:
  assumes "InstallService px m = (r, m')" and "plain_targets (m_fs m)"
  shows "kept installed_paths (m_fs m) (m_fs m')"
  using InstallService_cases[OF assms(1)]
proof (elim disjE conjE exE)
  assume "kept {} (m_fs m) (m_fs m')"
  then show ?thesis by (rule kept_mono) simp
next
  fix exe m1
  assume k: "kept {} (m_fs m) (m_fs m1)" and f: "install_from px exe m1 = (r, m')"
  have "plain_targets (m_fs m1)" using kept_unlinked[OF k] assms(2) by (simp add: plain_targets_def)
  then show ?thesis using kept_trans[OF kept_mono[OF k] install_from_kept[OF f]] by simp
qed

subsection \<open>What a successful installation leaves\<close>

lemma install_from_done:
  assumes inst: "install_from px exe m = (None, m')" and t: "plain_targets (m_fs m)"
    and src: "m_fs m exe = Some (Regular data mode)"
  shows "\<exists>exe'. trusted_binary exe' \<and>
    (\<exists>mode'. m_fs m' unit_path =
       Some (Regular (systemdUnit (px_print px) exe' serviceStateDir (effectiveCallerUID (px_env px))) mode')) \<and>
    (if needsStableBinaryCopy (px_env px ''APPIMAGE'') exe
     then exe' = stableServiceBinaryPath \<and> m_fs m' exe' = Some (Regular data (493 AND NOT (px_umask px))) else exe' = exe) \<and>
    (px_fails px (Do_remove legacyServiceBinaryPath) \<or> (\<forall>d md. m_fs m' legacyServiceBinaryPath \<noteq> Some (Regular d md)))"
proof -
  note d = paths_distinct[simplified]
  obtain exe' m1 where b: "installServiceBinary px exe m = (Inr exe', m1)"
    using inst by (auto simp: install_from_def split: prod.splits sum.splits)
  note bd = installServiceBinary_done[OF b]
  have nl: "exe' \<noteq> legacyServiceBinaryPath" using bd trusted_not_legacy by blast
  define m2 where "m2 = removeLegacyServiceBinary px m1"
  obtain m3 where f: "install_files px (linuxInstallFiles (px_print px) exe' serviceStateDir (effectiveCallerUID (px_env px))) m2 = (None, m3)"
    and m': "m_fs m' = m_fs m3"
    using inst b nl by (auto simp: install_from_def m2_def[symmetric] runCmd_def Let_def
        split: option.splits if_splits bool.splits prod.splits)
  have k1: "kept {stableServiceBinaryPath} (m_fs m) (m_fs m1)" using installServiceBinary_kept[OF b] .
  have k2: "kept {legacyServiceBinaryPath} (m_fs m1) (m_fs m2)"
    by (simp add: m2_def removeLegacyServiceBinary_def remove_kept)
  have u: "unlinked (m_fs m2) unit_path" "unlinked (m_fs m2) rules_path"
    using kept_unlinked[OF k2 kept_unlinked[OF k1]] t by (simp_all add: plain_targets_def)
  have k3: "kept {unit_path, rules_path} (m_fs m2) (m_fs m3)"
    using install_files_kept[OF f, of "{unit_path, rules_path}"] u by (simp add: linuxInstallFiles_def)
  have copied: "m_fs m' exe' = Some (Regular data (493 AND NOT (px_umask px)))"
    if need: "needsStableBinaryCopy (px_env px ''APPIMAGE'') exe"
  proof -
    obtain data' m0 mode0 where e: "exe' = stableServiceBinaryPath" "m_fs m1 exe' = Some (Regular data' (493 AND NOT (px_umask px)))"
      "sys_MkdirAll px serviceBinaryDir m = Some m0" "m_fs m0 (final_path (m_fs m0) exe) = Some (Regular data' mode0)"
      using bd need by auto
    have "m_fs m0 exe = Some (Regular data mode)" using kept_existing[OF mkdir_kept[OF e(3), of "{}"] _ src] by simp
    then have "data' = data" using e(4) by (simp add: final_path_def)
    moreover have "m_fs m2 exe' = m_fs m1 exe'" "m_fs m3 exe' = m_fs m1 exe'"
      using kept_existing[OF k2 _ e(2)] kept_existing[OF k3, of exe'] e(1,2) d by simp_all
    ultimately show ?thesis using e(2) m' by simp
  qed
  have "px_fails px (Do_remove legacyServiceBinaryPath) \<or> m_fs m2 legacyServiceBinaryPath = None"
    by (auto simp: m2_def removeLegacyServiceBinary_def sys_Remove_def)
  then have legacy: "px_fails px (Do_remove legacyServiceBinaryPath) \<or> (\<forall>d md. m_fs m' legacyServiceBinaryPath \<noteq> Some (Regular d md))"
    using kept_absent[OF k3, of legacyServiceBinaryPath] d m' by auto
  have written: "\<exists>mode'. m_fs m' unit_path =
      Some (Regular (systemdUnit (px_print px) exe' serviceStateDir (effectiveCallerUID (px_env px))) mode')"
    using linux_files_written[OF f u] m' by simp
  have "trusted_binary exe'" using bd by blast
  moreover have "if needsStableBinaryCopy (px_env px ''APPIMAGE'') exe
     then exe' = stableServiceBinaryPath \<and> m_fs m' exe' = Some (Regular data (493 AND NOT (px_umask px))) else exe' = exe"
    using bd copied by (simp split: if_split_asm)
  ultimately show ?thesis using written legacy by blast
qed

lemma InstallService_done:
  assumes inst: "InstallService px m = (None, m')" and t: "plain_targets (m_fs m)"
    and exe: "px_exe px = Some exe0" "px_resolve px exe0 = Some exe" and src: "m_fs m exe = Some (Regular data mode)"
  shows "\<exists>exe'. trusted_binary exe' \<and>
    (\<exists>mode'. m_fs m' unit_path =
       Some (Regular (systemdUnit (px_print px) exe' serviceStateDir (effectiveCallerUID (px_env px))) mode')) \<and>
    (if needsStableBinaryCopy (px_env px ''APPIMAGE'') exe
     then exe' = stableServiceBinaryPath \<and> m_fs m' exe' = Some (Regular data (493 AND NOT (px_umask px))) else exe' = exe) \<and>
    (px_fails px (Do_remove legacyServiceBinaryPath) \<or> (\<forall>d md. m_fs m' legacyServiceBinaryPath \<noteq> Some (Regular d md)))"
proof -
  obtain m1 where k: "kept {} (m_fs m) (m_fs m1)" and f: "install_from px exe m1 = (None, m')"
    using InstallService_cases[OF inst] exe by auto
  have "plain_targets (m_fs m1)" using kept_unlinked[OF k] t by (simp add: plain_targets_def)
  then show ?thesis using install_from_done[OF f] kept_existing[OF k _ src] by simp
qed

subsection \<open>Uninstalling\<close>

lemma remove_all:
  "\<forall>p \<in> set ps. \<not> px_fails px (Do_remove p) \<Longrightarrow>
     m_fs (fold (\<lambda>p m. snd (sys_Remove px p m)) ps m) = (\<lambda>p. if p \<in> set ps then None else m_fs m p)"
  by (induction ps arbitrary: m) (auto simp: sys_Remove_def fun_eq_iff)

lemma UninstallService_fs:
  assumes "px_euid px = 0" and "\<forall>p \<in> installed_paths. \<not> px_fails px (Do_remove p)"
  shows "m_fs (snd (UninstallService px m)) = (\<lambda>p. if p \<in> installed_paths then None else m_fs m p)"
proof -
  have s: "set linuxUninstallPaths = installed_paths" by (auto simp: linuxUninstallPaths_def installed_paths_def)
  show ?thesis
    using assms remove_all[of linuxUninstallPaths px]
    by (auto simp: UninstallService_def Let_def s runCmd_def split: bool.split)
qed

text \<open>Installing and uninstalling leaves the file system as it was, up to new directories.\<close>

lemma uninstall_after_install:
  assumes "InstallService px m = (r, m')" and "plain_targets (m_fs m)"
    and "px_euid px' = 0" and "\<forall>p \<in> installed_paths. \<not> px_fails px' (Do_remove p)"
  defines "fs \<equiv> m_fs (snd (UninstallService px' m'))"
  shows "(p \<in> installed_paths \<longrightarrow> fs p = None) \<and>
    (p \<notin> installed_paths \<longrightarrow> fs p = m_fs m p \<or> m_fs m p = None \<and> (\<exists>mode. fs p = Some (Directory mode)))"
  using InstallService_kept[OF assms(1,2)] UninstallService_fs[OF assms(3,4), of m']
  by (auto simp: fs_def kept_def)

subsection \<open>The lines of the unit\<close>

lemma split_unlines:
  "\<forall>l \<in> set ls. CHR 10 \<notin> set l \<Longrightarrow> str_split (CHR 10) (unlines ls) = ls @ [[]]"
  by (induction ls) (simp_all add: unlines_def str_split_append_no_sep)

lemma quote_no_newline [simp]: "CHR 10 \<notin> set (Quote is_print s)"
  using no_control_newline[OF Quote_line] .

text \<open>Whatever the path of the binary, the unit has one \<open>ExecStart\<close> line and no line the path adds.\<close>

lemma unit_lines:
  assumes "CHR 10 \<notin> set guiUID"
  shows "filter (\<lambda>l. has_prefix l ''ExecStart='') (str_split (CHR 10) (systemdUnit is_print exe serviceStateDir guiUID)) =
      [''ExecStart='' @ Quote is_print exe @ '' ipc --home '' @ Quote is_print serviceStateDir] \<and>
    length (str_split (CHR 10) (systemdUnit is_print exe serviceStateDir guiUID)) =
      (if guiUID = [] \<or> guiUID = ''0'' then 29 else 30)"
  unfolding systemdUnit_def
  by (subst (1 2) split_unlines) (auto simp: gui_environment_def has_prefix_def serviceUser_def serviceStateDir_def assms)

end
