(* ===== verification/CmdIpc.thy ===== *)
theory CmdIpc
  imports IpcServer FrontEnds CmdRun LinuxService
begin

text \<open>
  The \<open>ipc\<close> command (\<open>cmd/singcast/ipc_command.go\<close>, \<open>ipc_foreground.go\<close>): initialisation, the IPC server of
  \<open>IpcServer\<close> on the socket of \<open>IpcListen\<close>, and the deferred \<open>Destroy\<close>; and the \<open>service\<close> command
  (\<open>cmd/singcast/service.go\<close>).
\<close>

section \<open>The ipc command\<close>

datatype ipc_end = Ipc_home_failed | Ipc_init_failed init_error | Ipc_listen_failed listen_error | Ipc_ended

text \<open>
  The events are what happens to the accept loop; a signal is \<open>Cancel\<close>.  \<open>Run\<close> returns without waiting for the goroutines
  of requests, so those still in progress go on beside the deferred calls: \<open>late\<close> are the ones that end before the
  process does, after \<open>Destroy\<close> (those that end before it are among the events).  The result is missing when the
  events do not fit or do not end the loop.
\<close>

definition serve_until_end ::
  "library \<Rightarrow> event list \<Rightarrow> core \<Rightarrow> (core_failure, core) server option" where
  "serve_until_end lib evs c =
    (case server_run (singcast_api lib) evs (NewServer c) of
       None \<Rightarrow> None
     | Some sv \<Rightarrow> if sv_loop sv = Ended then Some sv else None)"

definition destroyed :: "core \<Rightarrow> core" where
  "destroyed c = c\<lparr>co_service := perform 0 CallDestroy Proceed (co_service c)\<rparr>"

definition finish_late :: "library \<Rightarrow> nat list \<Rightarrow> (core_failure, core) server \<Rightarrow> core option" where
  "finish_late lib late sv = map_option sv_core (server_run (singcast_api lib) (map Finish late) sv)"

definition runIpcForeground ::
  "library \<Rightarrow> os \<Rightarrow> (nat \<Rightarrow> bind_answer) \<Rightarrow> access \<Rightarrow> string \<Rightarrow> kernel_view \<Rightarrow> event list \<Rightarrow> nat list \<Rightarrow> host \<Rightarrow> sockets \<Rightarrow>
   (ipc_end \<times> core \<times> sockets) option" where
  "runIpcForeground lib os binds ac homeDir view evs late h sk =
    (case init_home os (home_options homeDir) (h, LogLevelInfo) of
       (Some e, _, level) \<Rightarrow>
         Some (Ipc_init_failed e,
           \<lparr>co_service = perform 0 CallInit InitFails NewService, co_view = view, co_level = level\<rparr>, sk)
     | (None, h, level) \<Rightarrow>
         (let c = \<lparr>co_service = perform 0 CallInit Proceed NewService, co_view = view, co_level = level\<rparr>;
              path = file_at h (IpcPath False (h_env h) (Some (h_cwd h)) homeDir)
          in case listenPlatform binds ac path sk of
               (Inl e, sk) \<Rightarrow> Some (Ipc_listen_failed e, destroyed c, sk)
             | (Inr l, sk) \<Rightarrow>
                 (case serve_until_end lib evs c of
                    None \<Rightarrow> None
                  | Some sv \<Rightarrow>
                      (let sk = cleanupPlatform (Some l) path (close_listener l path sk)
                       in map_option (\<lambda>c. (Ipc_ended, c, sk))
                            (finish_late lib late (sv\<lparr>sv_core := destroyed (sv_core sv)\<rparr>))))))"

definition ipcCommand ::
  "library \<Rightarrow> os \<Rightarrow> (nat \<Rightarrow> bind_answer) \<Rightarrow> access \<Rightarrow> string \<Rightarrow> kernel_view \<Rightarrow> event list \<Rightarrow> nat list \<Rightarrow> host \<Rightarrow> sockets \<Rightarrow>
   (ipc_end \<times> core \<times> sockets) option" where
  "ipcCommand lib os binds ac homeDir view evs late h sk =
    (if \<not> MkdirAll os homeDir h
     then Some (Ipc_home_failed, \<lparr>co_service = NewService, co_view = view, co_level = LogLevelInfo\<rparr>, sk)
     else runIpcForeground lib os binds ac homeDir view evs late h sk)"

section \<open>The service command\<close>

definition serviceCommand :: "bool \<Rightarrow> process \<Rightarrow> machine \<Rightarrow> string option \<times> machine" where
  "serviceCommand install px m =
    (case (if install then InstallService px m else UninstallService px m) of
       (Some e, m) \<Rightarrow> (None, m)
     | (None, m) \<Rightarrow> (Some (if install then ''service installed'' else ''service uninstalled''), m))"

section \<open>Lemmas\<close>

lemma destroyed_quiet: "quiet (co_service c) \<Longrightarrow> quiet (co_service (destroyed c)) \<and> kernel_of (co_service (destroyed c)) = Gone"
  using perform_destroy[of "co_service c" 0 Proceed] by (simp add: destroyed_def refines_def)

lemma serve_until_end_ok: "serve_until_end lib evs c = Some sv \<Longrightarrow> core_ok c \<Longrightarrow> core_ok (sv_core sv)"
  by (auto simp: serve_until_end_def NewServer_def split: option.splits if_splits dest!: singcast.run_keeps)

text \<open>
  Being destroyed is an invariant of the operations as well: a request that is still in progress brings nothing back.
\<close>

definition core_gone :: "core \<Rightarrow> bool" where
  "core_gone s \<longleftrightarrow> quiet (co_service s) \<and> kernel_of (co_service s) = Gone"

lemma gone_start: "core_gone s \<Longrightarrow> core_gone (snd (core_start lib content proxy s))"
  using perform_refines[of "co_service s" "CallStart (lib_translate lib content proxy)" 0]
  by (simp add: core_gone_def core_start_def Let_def is_call_def refines_def start_kernel_def split: option.split prod.split)

lemma gone_stop: "core_gone s \<Longrightarrow> core_gone (snd (core_stop lib s))"
  using perform_stop[of "co_service s" 0] by (simp add: core_gone_def core_stop_def Let_def refines_def stop_kernel_def)

interpretation gone: core_backend "singcast_api lib" core_gone for lib
proof
  show "core_gone s \<Longrightarrow> core_gone (snd (api_StartWithContent (singcast_api lib) c p s))" for s c p
    using gone_start by (simp add: singcast_api_def)
  show "core_gone s \<Longrightarrow> core_gone (snd (api_Stop (singcast_api lib) s))" for s
    using gone_stop by (simp add: singcast_api_def)
  show "core_gone s \<Longrightarrow> api_StartWithContent (singcast_api lib) c p s = (None, s') \<Longrightarrow>
      api_State (singcast_api lib) s' = StateRunning" for s c p s'
    using singcast.start_ok[of s lib c p s'] by (simp add: core_gone_def core_ok_def)
  show "core_gone s \<Longrightarrow> api_State (singcast_api lib) (snd (api_Stop (singcast_api lib) s)) \<noteq> StateRunning" for s
    using singcast.stop_ok[of s lib] by (simp add: core_gone_def core_ok_def)
qed (simp_all add: singcast_api_def core_gone_def)

lemma destroyed_gone: "core_ok c \<Longrightarrow> core_gone (destroyed c)"
  using destroyed_quiet[of c] by (simp add: core_ok_def core_gone_def)

lemma finish_late_gone: "finish_late lib late sv = Some c \<Longrightarrow> core_gone (sv_core sv) \<Longrightarrow> core_gone c"
  by (auto simp: finish_late_def dest!: gone.run_keeps)

text \<open>
  Once the server could listen, the command leaves nothing: whatever the clients did, the service is destroyed and at
  rest, no listener is open, and after serving its name is gone too.
\<close>

lemma ipc_leaves_nothing:
  assumes "ipcCommand lib os binds ac homeDir view evs late h sk = Some (e, c, sk')" and "sockets_ok sk"
    and "e \<noteq> Ipc_home_failed" and "\<And>x. e \<noteq> Ipc_init_failed x"
  shows "core_gone c \<and> set (sk_open sk') = set (sk_open sk) \<and>
    (e = Ipc_ended \<longrightarrow> (\<exists>path. sk_names sk' = (sk_names sk)(path := None)))"
proof -
  obtain h1 level where i: "init_home os (home_options homeDir) (h, LogLevelInfo) = (None, h1, level)"
    using assms by (cases "init_home os (home_options homeDir) (h, LogLevelInfo)")
      (auto simp: ipcCommand_def runIpcForeground_def split: if_splits option.splits)
  define c0 where "c0 = \<lparr>co_service = perform 0 CallInit Proceed NewService, co_view = view, co_level = level\<rparr>"
  define path where "path = file_at h1 (IpcPath False (h_env h1) (Some (h_cwd h1)) homeDir)"
  have q: "core_ok c0" using perform_init[OF quiet_new, of 0 Proceed] by (simp add: core_ok_def c0_def refines_def)
  obtain x sk1 where l: "listenPlatform binds ac path sk = (x, sk1)" by (rule prod.exhaust)
  have r: "(case x of
         Inl e \<Rightarrow> Some (Ipc_listen_failed e, destroyed c0, sk1)
       | Inr n \<Rightarrow> (case serve_until_end lib evs c0 of None \<Rightarrow> None
                   | Some sv \<Rightarrow> map_option (\<lambda>c. (Ipc_ended, c, cleanupPlatform (Some n) path (close_listener n path sk1)))
                       (finish_late lib late (sv\<lparr>sv_core := destroyed (sv_core sv)\<rparr>)))) = Some (e, c, sk')"
    using assms(1,3) i l
    by (auto simp: ipcCommand_def runIpcForeground_def Let_def c0_def[symmetric] path_def[symmetric]
        split: if_splits sum.splits option.splits)
  show ?thesis
  proof (cases x)
    case (Inl le)
    then have "c = destroyed c0" "sk' = sk1" "e \<noteq> Ipc_ended" using r by auto
    then show ?thesis
      using destroyed_gone[OF q] posix.listen_fails[OF assms(2) l[unfolded Inl]] by simp
  next
    case (Inr n)
    then obtain sv where s: "serve_until_end lib evs c0 = Some sv"
      "finish_late lib late (sv\<lparr>sv_core := destroyed (sv_core sv)\<rparr>) = Some c"
      "sk' = cleanupPlatform (Some n) path (close_listener n path sk1)"
      using r by (auto split: option.splits)
    have "core_gone c" using finish_late_gone[OF s(2)] destroyed_gone[OF serve_until_end_ok[OF s(1) q]] by simp
    then show ?thesis
      using posix.listen_and_end(2,3)[OF assms(2) l[unfolded Inr]] unfolding s(3) by (intro conjI impI exI) simp_all
  qed
qed

text \<open>
  A signal always ends the server: the cancelled context closes the listener and the connection in use, and these two
  errors are all the loop needs.
\<close>

definition stop_events :: "('e, 's) core_api \<Rightarrow> ('e, 's) server \<Rightarrow> event list" where
  "stop_events api sv =
    Cancel #
    (case sv_loop sv of
       Ended \<Rightarrow> []
     | Listening \<Rightarrow> [Accept_fails]
     | Connected _ \<Rightarrow> Disconnect # (if api_State api (sv_core sv) = StateRunning then [Accept_fails] else []))"

lemma signal_ends_loop:
  "\<exists>sv'. server_run api (stop_events api sv) sv = Some sv' \<and> sv_loop sv' = Ended \<and> sv_core sv' = sv_core sv"
  by (cases "sv_loop sv")
    (auto simp: stop_events_def server_step_def accept_error_def serve_disconnect_def)

section \<open>From the installation to the socket\<close>

text \<open>
  The user who installs the service is the one who may use its socket.  \<open>environment\<close> is what systemd makes of the unit:
  each line \<open>Environment=K=V\<close> whose value has no white space, quotes or escapes sets K to V.
\<close>

definition plain_value :: "string \<Rightarrow> bool" where
  "plain_value v \<longleftrightarrow> list_all (\<lambda>c. is_alnum c \<or> c \<in> set ''/._-'') v"

definition unit_variables :: "string \<Rightarrow> (string \<times> string) list" where
  "unit_variables unit =
    map (\<lambda>l. case str_cut (drop 12 l) ''='' of (k, v, _) \<Rightarrow> (k, v))
      (filter (\<lambda>l. has_prefix l ''Environment='') (str_split (CHR 10) unit))"

definition systemd_environment :: "string \<Rightarrow> (string \<Rightarrow> string) \<Rightarrow> bool" where
  "systemd_environment unit environment \<longleftrightarrow>
     list_all (\<lambda>(k, v). plain_value v \<longrightarrow> environment k = v) (unit_variables unit)"

lemma unit_variable:
  assumes "''Environment='' @ k @ CHR ''='' # v \<in> set (str_split (CHR 10) unit)" and "CHR ''='' \<notin> set k"
  shows "(k, v) \<in> set (unit_variables unit)"
proof -
  let ?l = "''Environment='' @ k @ CHR ''='' # v"
  have "drop 12 ?l = k @ CHR ''='' # v" by simp
  then have "(case str_cut (drop 12 ?l) ''='' of (k, v, _) \<Rightarrow> (k, v)) = (k, v)"
    using str_cut_char[OF assms(2), of v] by simp
  moreover have "has_prefix ?l ''Environment=''" by (simp add: has_prefix_def)
  ultimately show ?thesis using assms(1) unfolding unit_variables_def by force
qed

lemma unit_members:
  assumes "CHR 10 \<notin> set guiUID"
  shows "set (str_split (CHR 10) (systemdUnit is_print exe serviceStateDir guiUID)) \<supseteq>
    {''Environment=SINGCAST_IPC_PATH=/run/singcast/command.sock''} \<union> set (gui_environment guiUID)"
  unfolding systemdUnit_def
  by (subst split_unlines) (auto simp: gui_environment_def serviceUser_def serviceStateDir_def assms)

lemma itoa_positive: "0 < uid \<Longrightarrow> itoa uid \<noteq> []" "0 < uid \<Longrightarrow> itoa uid \<noteq> ''0''"
proof -
  have "itoa 0 = ''0''" by code_simp
  then show "0 < uid \<Longrightarrow> itoa uid \<noteq> ''0''" using itoa_inj[of uid 0] by auto
qed (simp add: itoa_nonneg)

lemma plain_digits: "0 < uid \<Longrightarrow> plain_value (itoa uid)"
  using dec_str_digits[of uid] by (auto simp: plain_value_def itoa_nonneg list_all_iff is_alnum_def)

lemma digits_newline: "0 < uid \<Longrightarrow> CHR 10 \<notin> set (itoa uid)"
  using dec_str_digits[of uid] by (auto simp: itoa_nonneg list_all_iff is_digit_def)

lemma unit_environment:
  assumes "systemd_environment (systemdUnit is_print exe serviceStateDir (itoa uid)) environment" and "0 < uid"
  shows "environment ''SINGCAST_GUI_UID'' = itoa uid \<and> environment ''SINGCAST_IPC_PATH'' = ''/run/singcast/command.sock''"
proof -
  let ?lines = "set (str_split (CHR 10) (systemdUnit is_print exe serviceStateDir (itoa uid)))"
  note n = itoa_positive[OF assms(2)]
  define vs where "vs = unit_variables (systemdUnit is_print exe serviceStateDir (itoa uid))"
  note m = unit_members[OF digits_newline[OF assms(2)], of is_print exe]
  have l1: "''Environment='' @ ''SINGCAST_GUI_UID'' @ CHR ''='' # itoa uid \<in> ?lines"
    using m n by (auto simp: gui_environment_def)
  have l2: "''Environment='' @ ''SINGCAST_IPC_PATH'' @ CHR ''='' # ''/run/singcast/command.sock'' \<in> ?lines"
    using m by auto
  have v: "(''SINGCAST_GUI_UID'', itoa uid) \<in> set vs" "(''SINGCAST_IPC_PATH'', ''/run/singcast/command.sock'') \<in> set vs"
    unfolding vs_def using unit_variable[OF l1] unit_variable[OF l2] by simp_all
  have all: "\<forall>x \<in> set vs. case x of (k, v) \<Rightarrow> plain_value v \<longrightarrow> environment k = v"
    using assms(1) by (simp only: systemd_environment_def vs_def list_all_iff)
  have "environment ''SINGCAST_GUI_UID'' = itoa uid"
    using bspec[OF all v(1)] plain_digits[OF assms(2)] by simp
  moreover have "plain_value ''/run/singcast/command.sock''" by code_simp
  then have "environment ''SINGCAST_IPC_PATH'' = ''/run/singcast/command.sock''"
    using bspec[OF all v(2)] by simp
  ultimately show ?thesis by (rule conjI)
qed

lemma grant_gui:
  assumes "ac_env ac ''SINGCAST_GUI_UID'' = itoa uid" and "0 < uid" and "uid \<le> max_int64" and "ac_setfacl ac uid"
  shows "grantSocketAccess ac path sk = (True, sk\<lparr>sk_acl := sk_acl sk @ [(path, uid)]\<rparr>)"
proof -
  note n = itoa_positive[OF assms(2)]
  have "atoi (itoa uid) = (uid, None)" using assms(2,3) atoi_itoa[of uid] by (simp add: min_int64_def)
  then show ?thesis using assms(1,4) n by (simp add: grantSocketAccess_def setfacl_def)
qed

end
