(* ===== verification/CmdMain.thy ===== *)
theory CmdMain
  imports CmdRun
begin

text \<open>
  The rest of \<open>cmd/singcast\<close>: the default home directory (\<open>run.go\<close>), the signals (\<open>signal_unix.go\<close>,
  \<open>signal_windows.go\<close>), the daemon on Windows (\<open>daemon_windows.go\<close>) and the \<open>version\<close> command (\<open>version.go\<close>).
\<close>

section \<open>The home directory\<close>

text \<open>\<open>home\<close> is what \<open>os.UserHomeDir\<close> says.\<close>

definition defaultHomeDir :: "string option \<Rightarrow> string" where
  "defaultHomeDir home = (case home of None \<Rightarrow> ''.singcast'' | Some h \<Rightarrow> Join [h, ''.singcast''])"

section \<open>Signals\<close>

datatype os_signal = SIGINT | SIGTERM | SIGHUP

definition shutdownSignals :: "bool \<Rightarrow> os_signal list" where
  "shutdownSignals windows = (if windows then [SIGINT] else [SIGINT, SIGTERM, SIGHUP])"

definition isReloadSignal :: "bool \<Rightarrow> os_signal \<Rightarrow> bool" where
  "isReloadSignal windows sig = (if windows then False else sig = SIGHUP)"

text \<open>
  What the loop of \<open>runForeground\<close> gets of the signals that arrive, each with the files at its time; the others are not
  delivered to it.  Its channel holds two: signals that find it full are lost and are not among those that arrive.
\<close>

definition delivered :: "bool \<Rightarrow> (os_signal \<times> (string \<rightharpoonup> string)) list \<Rightarrow> signal list" where
  "delivered windows arrived =
    map (\<lambda>(sig, files). if isReloadSignal windows sig then Reload files else Shutdown)
      (filter (\<lambda>(sig, _). sig \<in> set (shutdownSignals windows)) arrived)"

section \<open>The daemon on Windows\<close>

text \<open>The arguments come without the name of the program, and no running daemon is looked for.\<close>

definition windows_daemon_args :: "string \<Rightarrow> string \<Rightarrow> string \<Rightarrow> string \<Rightarrow> string list" where
  "windows_daemon_args homeDir configPath ruleSetProxy apiAddr =
    [''run'', ''-c'', configPath, ''--home'', homeDir]
    @ (if ruleSetProxy = [] then [] else [''--rule-set-proxy'', ruleSetProxy])
    @ (if apiAddr = [] then [] else [''--api'', apiAddr])"

definition windows_startDaemon ::
  "os \<Rightarrow> processes \<Rightarrow> string \<Rightarrow> string \<Rightarrow> string \<Rightarrow> string \<Rightarrow> host \<Rightarrow> (run_error + child) \<times> host" where
  "windows_startDaemon os pr homeDir configPath ruleSetProxy apiAddr h =
    (if pr_self pr = None then (Inl E_executable, h)
     else
       (case OpenAppend os (Join [homeDir, ''singcast.log'']) h of
          None \<Rightarrow> (Inl E_log, h)
        | Some h \<Rightarrow>
            (let c = \<lparr>ch_args = windows_daemon_args homeDir configPath ruleSetProxy apiAddr, ch_dir = file_at h homeDir\<rparr> in
             case pr_fork pr c of
               None \<Rightarrow> (Inl E_fork, h)
             | Some pid \<Rightarrow> (Inr c, case WriteFile os (pidPath homeDir) (itoa pid) h of None \<Rightarrow> h | Some h \<Rightarrow> h))))"

section \<open>The version\<close>

definition versionCommand :: "string \<Rightarrow> string \<Rightarrow> string \<Rightarrow> string \<Rightarrow> string list" where
  "versionCommand version go goos goarch =
    [''singcast '' @ version, ''  core:    singcast'', ''  go:      '' @ go, ''  os/arch: '' @ goos @ ''/'' @ goarch]"

section \<open>Lemmas\<close>

text \<open>Without a home directory of the user the default is a relative path.\<close>

lemma default_home_relative: "\<not> IsAbs (defaultHomeDir None)" "defaultHomeDir None = path_of False [''.singcast'']"
  by (simp_all add: defaultHomeDir_def IsAbs_def path_of_def)

text \<open>On Windows the configuration is never read again; elsewhere a signal to end ends the loop, whatever comes after it.\<close>

lemma windows_never_reloads: "Reload files \<notin> set (delivered True arrived)"
  by (auto simp: delivered_def isReloadSignal_def)

lemma shutdown_ends:
  "sig \<in> {SIGINT, SIGTERM} \<Longrightarrow>
     run_signals translate answer out (delivered False ((sig, files) # arrived)) s = perform 0 CallStop Proceed s"
  by (auto simp: delivered_def isReloadSignal_def shutdownSignals_def)

text \<open>
  On Windows a second daemon is started beside a living one, and the number in the file is that of the last.
\<close>

lemma windows_second_daemon:
  assumes "pr_self pr \<noteq> None" and "OpenAppend os (Join [homeDir, ''singcast.log'']) h = Some h1"
    and "pr_fork pr \<lparr>ch_args = windows_daemon_args homeDir configPath p a, ch_dir = file_at h1 homeDir\<rparr> = Some pid"
    and "WriteFile os (pidPath homeDir) (itoa pid) h1 = Some h2"
  shows "\<exists>c. windows_startDaemon os pr homeDir configPath p a h = (Inr c, h2) \<and>
    ReadFile h2 (pidPath homeDir) = Some (itoa pid)"
  using assms
  by (auto simp: windows_startDaemon_def Let_def WriteFile_def ReadFile_def file_at_def split: if_splits)

end
