(* ===== verification/Geo.thy ===== *)
theory Geo
  imports Country GoJson
begin

text \<open>
  The five geolocation services of \<open>translator/country.go\<close>: what the program makes of an HTTP response.  The
  request itself, which the common deadline can cut off, is the parameter \<open>get\<close>: no response, or a status and a
  body.
\<close>

record http_response =
  hr_Status :: int
  hr_Body :: string

text \<open>\<open>Decode\<close> reads the first JSON value of what the limited reader gives; what follows is not looked at.\<close>

definition decode_limited :: "nat \<Rightarrow> string \<Rightarrow> json option" where
  "decode_limited limit body =
    (let s = take limit body in map_option fst (json_value (Suc (2 * length s + 1)) 10000 s))"

definition fetch_json :: "(string \<Rightarrow> http_response option) \<Rightarrow> string \<Rightarrow> nat \<Rightarrow> json option" where
  "fetch_json get url limit =
    (case get url of
       None \<Rightarrow> None
     | Some r \<Rightarrow> if hr_Status r \<noteq> 200 then None else decode_limited limit (hr_Body r))"

definition detectByCountryIs :: "(string \<Rightarrow> http_response option) \<Rightarrow> string option" where
  "detectByCountryIs get =
    Option.bind (fetch_json get ''https://api.country.is'' 512) (json_field dec_string ''country'' [])"

definition detectByIPInfo :: "(string \<Rightarrow> http_response option) \<Rightarrow> string option" where
  "detectByIPInfo get =
    Option.bind (fetch_json get ''https://ipinfo.io/json'' 1024) (json_field dec_string ''country'' [])"

definition detectByIPApi :: "(string \<Rightarrow> http_response option) \<Rightarrow> string option" where
  "detectByIPApi get =
    Option.bind (fetch_json get ''http://ip-api.com/json/?fields=countryCode'' 512) (json_field dec_string ''countryCode'' [])"

definition detectByIPSb :: "(string \<Rightarrow> http_response option) \<Rightarrow> string option" where
  "detectByIPSb get =
    Option.bind (fetch_json get ''https://api.ip.sb/geoip'' 512) (json_field dec_string ''country_code'' [])"

definition detectByIPWhoIs :: "(string \<Rightarrow> http_response option) \<Rightarrow> string option" where
  "detectByIPWhoIs get =
    (case fetch_json get ''https://ipwho.is/'' 1024 of
       None \<Rightarrow> None
     | Some j \<Rightarrow>
         (case (json_field dec_bool ''success'' False j, json_field dec_string ''country_code'' [] j) of
            (Some success, Some code) \<Rightarrow> if success then Some code else None
          | _ \<Rightarrow> None))"

definition providers :: "((string \<Rightarrow> http_response option) \<Rightarrow> string option) list" where
  "providers = [detectByIPSb, detectByIPWhoIs, detectByCountryIs, detectByIPInfo, detectByIPApi]"

text \<open>The results in the order in which the goroutines send them; \<open>order\<close> is a permutation of the indices.\<close>

definition race :: "(string \<Rightarrow> http_response option) \<Rightarrow> nat list \<Rightarrow> string option list" where
  "race get order = map (\<lambda>k. (providers ! k) get) order"

section \<open>Lemmas\<close>

text \<open>A detected country is the answer of a service, given with status 200; without one it is CN.\<close>

lemma find_Some_nth: "find P xs = Some x \<Longrightarrow> \<exists>i < length xs. xs ! i = x \<and> P x"
  by (auto simp: find_Some_iff)

lemma detected_by_provider:
  assumes "detectCountryByIP (race get order) = Some cc" and "set order \<subseteq> {..<length providers}"
  shows "length cc = 2 \<and> (\<exists>p \<in> set providers. p get = Some cc)"
proof -
  obtain r where r: "find (\<lambda>r. case r of Some c \<Rightarrow> length c = 2 | None \<Rightarrow> False) (race get order) = Some r" "r = Some cc"
    using assms(1) by (auto simp: detectCountryByIP_def split: option.splits)
  then obtain i where i: "i < length order" "(providers ! (order ! i)) get = Some cc"
    using find_Some_nth[OF r(1)] by (auto simp: race_def)
  have "order ! i \<in> set order" using i(1) by simp
  then have "providers ! (order ! i) \<in> set providers" using assms(2) by auto
  then show ?thesis using detected_length[OF assms(1)] i(2) by blast
qed

lemma provider_fetches:
  assumes "p \<in> set providers" and "p get = Some cc"
  shows "\<exists>url r. get url = Some r \<and> hr_Status r = 200"
  using assms
  by (auto simp: providers_def detectByIPSb_def detectByIPWhoIs_def detectByCountryIs_def detectByIPInfo_def
      detectByIPApi_def fetch_json_def bind_eq_Some_conv split: option.splits if_splits; blast)

text \<open>The answer of a service is not checked to consist of letters: two bytes are enough.\<close>

lemma unchecked_answer:
  "detectByCountryIs (\<lambda>_. Some \<lparr>hr_Status = 200, hr_Body = ''{'' @ [CHR 34] @ ''country'' @ [CHR 34] @ '':'' @ [CHR 34] @ ''4?'' @ [CHR 34] @ ''}''\<rparr>)
     = Some ''4?'' \<and> normalizeCountryCode ''4?'' = None"
  by code_simp

end
