(* ===== verification/CoreStart.thy ===== *)
theory CoreStart
  imports Query Platform CoreLog Ipc
begin

text \<open>
  The inside of \<open>startWithJSON\<close> of \<open>core/service.go\<close> (what the step \<open>StartWork\<close> of \<open>Service\<close> leaves open), and the
  observers of \<open>core/events.go\<close>: the goroutines that turn the notifications of the kernel library into events.
\<close>

section \<open>Starting an instance\<close>

text \<open>
  The kernel library: parsing (with or without the platform interface), the options it yields, and whether an
  instance can be made of them and started.
\<close>

record 'o kernel_lib =
  kl_parse :: "bool \<Rightarrow> string \<Rightarrow> 'o option"
  kl_has_route :: "'o \<Rightarrow> bool"
  kl_auto_detect :: "'o \<Rightarrow> 'o"
  kl_new :: "'o \<Rightarrow> bool"
  kl_start :: "'o \<Rightarrow> bool"

datatype start_error = Parse_config | Create_instance | Start_instance

definition platform_SetRouter :: "PlatformIO \<Rightarrow> PlatformIO" where
  "platform_SetRouter p = p\<lparr>pf_monitor := map_option (\<lambda>m. m\<lparr>mn_router := True\<rparr>) (pf_monitor p)\<rparr>"

definition start_options :: "'o kernel_lib \<Rightarrow> bool \<Rightarrow> 'o \<Rightarrow> 'o" where
  "start_options kl mobile opts = (if mobile \<and> kl_has_route kl opts then kl_auto_detect kl opts else opts)"

definition startWithJSON ::
  "'o kernel_lib \<Rightarrow> string \<Rightarrow> int \<Rightarrow> PlatformIO \<Rightarrow> (start_error + 'o) \<times> int \<times> PlatformIO" where
  "startWithJSON kl jsonContent level p =
    (let level = syncLogLevelFromConfig jsonContent level;
         p = p\<lparr>pf_protectCount := 0\<rparr>
     in case kl_parse kl (pf_isMobile p) jsonContent of
          None \<Rightarrow> (Inl Parse_config, level, p)
        | Some opts \<Rightarrow>
            (let opts = start_options kl (pf_isMobile p) opts
             in if \<not> kl_new kl opts then (Inl Create_instance, level, p)
                else if \<not> kl_start kl opts then (Inl Start_instance, level, p)
                else (Inr opts, level, platform_SetRouter p)))"

text \<open>What the step of the service is told.\<close>

definition start_answer :: "(start_error + 'o) \<Rightarrow> call" where
  "start_answer r = (case r of Inl _ \<Rightarrow> StartFails | Inr _ \<Rightarrow> Proceed)"

section \<open>Events\<close>

text \<open>An event of the core; \<open>emitEvent\<close> reaches the callback that is registered at that moment.\<close>

type_synonym core_event = "int \<times> json option \<times> string"

definition emitEvent :: "bool \<Rightarrow> core_event \<Rightarrow> core_event list" where
  "emitEvent registered e = (if registered then [e] else [])"

text \<open>
  \<open>observe\<close>: what its \<open>select\<close> can see.  After the context is cancelled, the subscription has ended or the channel is
  closed the goroutine returns.
\<close>

datatype 'a observed = Sub_done | Ctx_cancelled | Channel_closed | Value 'a

fun observe :: "('a \<Rightarrow> core_event list) \<Rightarrow> 'a observed list \<Rightarrow> core_event list" where
  "observe fn [] = []"
| "observe fn (Value v # evs) = fn v @ observe fn evs"
| "observe fn (_ # evs) = []"

text \<open>The three subscriptions of \<open>subscribeHooks\<close>; an event of a connection without metadata is dropped.\<close>

definition observe_urltest :: "unit observed list \<Rightarrow> core_event list" where
  "observe_urltest = observe (\<lambda>_. [(1, None, [])])"

definition observe_mode :: "string observed list \<Rightarrow> core_event list" where
  "observe_mode = observe (\<lambda>mode. [(2, None, mode)])"

definition observe_connections :: "(int \<times> conn_view option) observed list \<Rightarrow> core_event list" where
  "observe_connections = observe (\<lambda>(ty, meta). case meta of None \<Rightarrow> [] | Some c \<Rightarrow> [(3, Some (trackerToEntry ty c), [])])"

text \<open>\<open>observeStats\<close>: each tick with what the instance is then; at the end the zero statistics.\<close>

datatype stats_event = Stats_tick running_view | Stats_done

fun observeStats :: "stats_event list \<Rightarrow> core_event list" where
  "observeStats [] = []"
| "observeStats (Stats_tick r # evs) = (5, Some (QueryStats r), []) # observeStats evs"
| "observeStats (Stats_done # evs) = [(5, Some zeroStatsJSON, [])]"

section \<open>Lemmas\<close>

text \<open>On a mobile platform every instance with a route detects its interface by itself.\<close>

lemma mobile_auto_detect:
  assumes "startWithJSON kl jsonContent level p = (Inr opts, level', p')" and "pf_isMobile p"
    and "\<And>x. kl_has_route kl (kl_auto_detect kl x) = kl_has_route kl x"
  shows "kl_has_route kl opts \<longrightarrow> (\<exists>parsed. opts = kl_auto_detect kl parsed)"
  using assms by (auto simp: startWithJSON_def start_options_def Let_def split: option.splits if_splits)

text \<open>Nothing is observed once the subscription has ended; the statistics end with zeros.\<close>

lemma observe_append: "observe fn (map Value vs @ evs) = concat (map fn vs) @ observe fn evs"
  by (induction vs) auto

lemma observe_ended: "x \<in> {Sub_done, Ctx_cancelled, Channel_closed} \<Longrightarrow> observe fn (map Value vs @ x # evs) = concat (map fn vs)"
  by (auto simp: observe_append)

lemma observeStats_ended: "observeStats (map Stats_tick rs @ Stats_done # evs) = map (\<lambda>r. (5, Some (QueryStats r), [])) rs @ [(5, Some zeroStatsJSON, [])]"
  by (induction rs) auto

end
