(* ===== verification/SockDiag.thy ===== *)
theory SockDiag
  imports GoNet "HOL-Library.Word"
begin

unbundle bit_operations_syntax

text \<open>
  \<open>core/sockdiag_linux.go\<close>: which process owns a connection.  The request and the answer of the kernel are
  byte lists with the layout of \<open>inet_diag.h\<close>; the byte order of the machine is little endian, as on every
  platform the program is built for.  The kernel and the \<open>/proc\<close> file system are parameters.
\<close>

section \<open>Bytes\<close>

definition be16 :: "16 word \<Rightarrow> 8 word list" where
  "be16 w = [ucast (drop_bit 8 w), ucast w]"

definition le16 :: "16 word \<Rightarrow> 8 word list" where
  "le16 w = [ucast w, ucast (drop_bit 8 w)]"

definition le32 :: "32 word \<Rightarrow> 8 word list" where
  "le32 w = [ucast w, ucast (drop_bit 8 w), ucast (drop_bit 16 w), ucast (drop_bit 24 w)]"

definition get_be16 :: "8 word list \<Rightarrow> 16 word" where
  "get_be16 bs = push_bit 8 (ucast (bs ! 0)) OR ucast (bs ! 1)"

definition get_le32 :: "8 word list \<Rightarrow> 32 word" where
  "get_le32 bs = push_bit 24 (ucast (bs ! 3)) OR push_bit 16 (ucast (bs ! 2)) OR push_bit 8 (ucast (bs ! 1)) OR ucast (bs ! 0)"

lemma get_be16: "get_be16 (be16 w) = w"
proof (rule bit_word_eqI)
  fix n
  assume "n < LENGTH(16)"
  then show "bit (get_be16 (be16 w)) n = bit w n"
    by (cases "n < 8") (auto simp: get_be16_def be16_def bit_simps)
qed

lemma get_le32: "get_le32 (le32 w) = w"
proof (rule bit_word_eqI)
  fix n
  assume "n < LENGTH(32)"
  then consider "n < 8" | "8 \<le> n" "n < 16" | "16 \<le> n" "n < 24" | "24 \<le> n" "n < 32" by fastforce
  then show "bit (get_le32 (le32 w)) n = bit w n"
    by cases (auto simp: get_le32_def le32_def bit_simps)
qed

lemma bytes_length [simp]: "length (be16 w) = 2" "length (le16 w) = 2" "length (le32 v) = 4"
  by (simp_all add: be16_def le16_def le32_def)

text \<open>\<open>copy(req[off:], bs)\<close> within a buffer that is long enough, and \<open>req[off:off+n]\<close>.\<close>

definition put :: "nat \<Rightarrow> 8 word list \<Rightarrow> 8 word list \<Rightarrow> 8 word list" where
  "put off bs req = take off req @ bs @ drop (off + length bs) req"

definition bytes_at :: "nat \<Rightarrow> nat \<Rightarrow> 8 word list \<Rightarrow> 8 word list" where
  "bytes_at off n bs = take n (drop off bs)"

lemma put_length [simp]: "off + length bs \<le> length req \<Longrightarrow> length (put off bs req) = length req"
  by (simp add: put_def)

lemma bytes_at_put_same: "off + length bs \<le> length req \<Longrightarrow> bytes_at off (length bs) (put off bs req) = bs"
  by (simp add: bytes_at_def put_def)

lemma bytes_at_put_before: "off + length bs \<le> length req \<Longrightarrow> i + n \<le> off \<Longrightarrow> bytes_at i n (put off bs req) = bytes_at i n req"
  by (auto simp: bytes_at_def put_def drop_take min_def)

lemma bytes_at_put_after:
  "off + length bs \<le> length req \<Longrightarrow> off + length bs \<le> i \<Longrightarrow> bytes_at i n (put off bs req) = bytes_at i n req"
  by (simp add: bytes_at_def put_def)

lemmas bytes_at_put_other = bytes_at_put_before bytes_at_put_after

section \<open>The request\<close>

text \<open>An address as \<open>net.IP\<close>: the four bytes of an IPv4 address (mapped ones too), or sixteen.\<close>

definition octets :: "int list \<Rightarrow> 8 word list" where "octets os = map word_of_int os"

definition ip_bytes :: "ip_addr \<Rightarrow> 8 word list" where
  "ip_bytes ip =
    (case to4 ip of
       Some os \<Rightarrow> octets os
     | None \<Rightarrow> (case ip of V4 os \<Rightarrow> octets os | V6 gs z \<Rightarrow> octets (concat (map (\<lambda>g. [g div 256, g mod 256]) gs))))"

definition sockDiagByFamily :: "16 word" where "sockDiagByFamily = 20"
definition tcpStateEstablished :: "32 word" where "tcpStateEstablished = 2"
definition inetDiagNoCookie :: "32 word" where "inetDiagNoCookie = 0xFFFFFFFF"
definition NLM_F_REQUEST :: "16 word" where "NLM_F_REQUEST = 1"
definition AF_INET :: "8 word" where "AF_INET = 2"
definition AF_INET6 :: "8 word" where "AF_INET6 = 10"
definition IPPROTO_TCP :: "8 word" where "IPPROTO_TCP = 6"
definition IPPROTO_UDP :: "8 word" where "IPPROTO_UDP = 17"

definition packSockDiagRequest :: "8 word \<Rightarrow> 8 word \<Rightarrow> ip_addr \<Rightarrow> 16 word \<Rightarrow> ip_addr \<Rightarrow> 16 word \<Rightarrow> 8 word list" where
  "packSockDiagRequest family protocol srcIP srcPort dstIP dstPort =
    (let req = replicate 72 0;
         req = put 0 (le32 72) req;
         req = put 4 (le16 sockDiagByFamily) req;
         req = put 6 (le16 NLM_F_REQUEST) req;
         req = put 16 [family] req;
         req = put 17 [protocol] req;
         req = put 20 (le32 tcpStateEstablished) req;
         req = put 24 (be16 srcPort) req;
         req = put 26 (be16 dstPort) req;
         req = put 28 (ip_bytes srcIP) req;
         req = put 44 (ip_bytes dstIP) req;
         req = put 64 (le32 inetDiagNoCookie) req
     in put 68 (le32 inetDiagNoCookie) req)"

section \<open>Asking the kernel\<close>

datatype errno = EPROTONOSUPPORT | EAFNOSUPPORT | EPERM | ENOSYS | Other_errno nat

definition isNetlinkUnsupported :: "errno \<Rightarrow> bool" where
  "isNetlinkUnsupported e \<longleftrightarrow> e \<in> set [EPROTONOSUPPORT, EAFNOSUPPORT, EPERM, ENOSYS]"

datatype diag_error = Unavailable | Open_failed errno | Exchange_failed | Netlink_error | Not_found

text \<open>A message of the answer: its type and its data.\<close>

type_synonym netlink_msg = "16 word \<times> 8 word list"

definition NLMSG_ERROR :: "16 word" where "NLMSG_ERROR = 2"

fun scan_messages :: "netlink_msg list \<Rightarrow> diag_error + 32 word \<times> 32 word" where
  "scan_messages [] = Inl Not_found"
| "scan_messages ((ty, data) # msgs) =
     (if ty = sockDiagByFamily then
        (if 72 \<le> length data then Inr (get_le32 (bytes_at 64 4 data), get_le32 (bytes_at 68 4 data)) else scan_messages msgs)
      else if ty = NLMSG_ERROR then Inl Netlink_error
      else scan_messages msgs)"

text \<open>
  The kernel: opening the socket may fail, and the exchange of a request for messages may too.  The first
  result is the latch \<open>netlinkUnavailable\<close> after the call.
\<close>

record netlink =
  nl_open :: "errno option"
  nl_exchange :: "8 word list \<Rightarrow> netlink_msg list option"

definition querySockDiag ::
  "netlink \<Rightarrow> 8 word \<Rightarrow> 8 word \<Rightarrow> ip_addr \<Rightarrow> 16 word \<Rightarrow> ip_addr \<Rightarrow> 16 word \<Rightarrow> bool \<Rightarrow>
   bool \<times> (diag_error + 32 word \<times> 32 word)" where
  "querySockDiag nl family protocol srcIP srcPort dstIP dstPort unavailable =
    (if unavailable then (True, Inl Unavailable)
     else (case nl_open nl of
             Some e \<Rightarrow> (isNetlinkUnsupported e, Inl (Open_failed e))
           | None \<Rightarrow>
               (case nl_exchange nl (packSockDiagRequest family protocol srcIP srcPort dstIP dstPort) of
                  None \<Rightarrow> (False, Inl Exchange_failed)
                | Some msgs \<Rightarrow> (False, scan_messages msgs))))"

section \<open>The process\<close>

text \<open>
  An entry of \<open>/proc\<close>: its name, the owner when it can be read, the targets of its descriptors when they can
  be listed (\<open>None\<close> for one that cannot be read), and the target of \<open>exe\<close> (empty when it cannot be read).
\<close>

record proc_entry =
  pe_Name :: string
  pe_Uid :: "32 word option"
  pe_Fds :: "string option list option"
  pe_Exe :: string

definition socket_link :: "32 word \<Rightarrow> string" where
  "socket_link inode = ''socket:['' @ dec_str (uint inode) @ '']''"

definition holds_socket :: "32 word \<Rightarrow> 32 word \<Rightarrow> proc_entry \<Rightarrow> bool" where
  "holds_socket inode uid e \<longleftrightarrow>
     snd (atoi (pe_Name e)) = None \<and> pe_Uid e = Some uid \<and>
     (case pe_Fds e of None \<Rightarrow> False | Some links \<Rightarrow> Some (socket_link inode) \<in> set links)"

text \<open>\<open>None\<close> for \<open>/proc\<close> itself: it cannot be read.\<close>

definition resolveProcessPathByInode :: "proc_entry list option \<Rightarrow> 32 word \<Rightarrow> 32 word \<Rightarrow> string option" where
  "resolveProcessPathByInode proc inode uid =
    (case proc of None \<Rightarrow> None | Some es \<Rightarrow> map_option pe_Exe (find (holds_socket inode uid) es))"

section \<open>The owner of a connection\<close>

definition ParseIP :: "string \<Rightarrow> ip_addr option" where
  "ParseIP s = (case ParseAddr s of Some (V6 gs z) \<Rightarrow> if z = [] then Some (V6 gs z) else None | r \<Rightarrow> r)"

record connection_owner =
  co_UserId :: "32 word"
  co_ProcessPath :: string

datatype owner_error = Invalid | Diag diag_error

definition findConnectionOwnerImpl ::
  "netlink \<Rightarrow> proc_entry list option \<Rightarrow> int \<Rightarrow> string \<Rightarrow> int \<Rightarrow> string \<Rightarrow> int \<Rightarrow> bool \<Rightarrow>
   bool \<times> (owner_error + connection_owner)" where
  "findConnectionOwnerImpl nl proc ipProtocol srcAddr srcPort dstAddr dstPort unavailable =
    (case (ParseIP srcAddr, ParseIP dstAddr) of
       (Some srcIP, Some dstIP) \<Rightarrow>
         (let protocol = (if ipProtocol = 17 then IPPROTO_UDP else IPPROTO_TCP);
              family = (if to4 srcIP = None then AF_INET6 else AF_INET)
          in case querySockDiag nl family protocol srcIP (word_of_int srcPort) dstIP (word_of_int dstPort) unavailable of
               (latch, Inl e) \<Rightarrow> (latch, Inl (Diag e))
             | (latch, Inr (uid, inode)) \<Rightarrow>
                 if inode = 0 then (latch, Inl Invalid)
                 else (case resolveProcessPathByInode proc inode uid of
                         None \<Rightarrow> (latch, Inr \<lparr>co_UserId = uid, co_ProcessPath = []\<rparr>)
                       | Some path \<Rightarrow> (latch, Inr \<lparr>co_UserId = uid, co_ProcessPath = path\<rparr>)))
     | _ \<Rightarrow> (unavailable, Inl Invalid))"

section \<open>Lemmas\<close>

lemma octets_length [simp]: "length (octets os) = length os"
  by (simp add: octets_def)

text \<open>An address the parser returns has four octets or eight groups.\<close>

definition ip_shape :: "ip_addr \<Rightarrow> bool" where
  "ip_shape ip \<longleftrightarrow> (case ip of V4 os \<Rightarrow> length os = 4 | V6 gs _ \<Rightarrow> length gs = 8)"

lemma ip_bytes_length: "ip_shape ip \<Longrightarrow> length (ip_bytes ip) \<le> 16"
  by (cases ip) (auto simp: ip_shape_def ip_bytes_def v4_of_def Let_def length_concat o_def
      sum_list_triv split: option.split)

lemma ip_bytes_cases: "ip_shape ip \<Longrightarrow> length (ip_bytes ip) = (if to4 ip = None then 16 else 4)"
  by (cases ip) (auto simp: ip_shape_def ip_bytes_def v4_of_def Let_def length_concat o_def sum_list_triv split: option.split)

text \<open>Where the fields of the request are.\<close>

lemma request_layout:
  assumes "ip_shape src" and "ip_shape dst"
  shows "let req = packSockDiagRequest family protocol src sport dst dport in
    length req = 72 \<and> get_le32 (bytes_at 0 4 req) = 72 \<and> bytes_at 16 1 req = [family] \<and> bytes_at 17 1 req = [protocol] \<and>
    get_le32 (bytes_at 20 4 req) = 2 \<and> get_be16 (bytes_at 24 2 req) = sport \<and> get_be16 (bytes_at 26 2 req) = dport \<and>
    bytes_at 28 (length (ip_bytes src)) req = ip_bytes src \<and> bytes_at 44 (length (ip_bytes dst)) req = ip_bytes dst"
proof -
  define n1 n2 where n: "n1 = length (ip_bytes src)" "n2 = length (ip_bytes dst)"
  have l: "n1 \<le> 16" "n2 \<le> 16" using assms ip_bytes_length n by auto
  note s4 = bytes_at_put_same[of _ "le32 w" for w, simplified] and s2 = bytes_at_put_same[of _ "be16 w" for w, simplified]
    and s1 = bytes_at_put_same[of _ "[b]" for b, simplified]
    and sn = bytes_at_put_same[of _ "ip_bytes src", folded n] bytes_at_put_same[of _ "ip_bytes dst", folded n]
  show ?thesis
    using l by (simp add: packSockDiagRequest_def Let_def s4 s2 s1 sn bytes_at_put_other get_le32 get_be16
        n[symmetric] tcpStateEstablished_def)
qed

text \<open>The kernel's answer is read from where the kernel puts it.\<close>

lemma scan_first_answer:
  "length pre = 64 \<Longrightarrow>
     scan_messages ((sockDiagByFamily, pre @ le32 uid @ le32 inode) # msgs) = Inr (uid, inode)"
  by (simp add: bytes_at_def get_le32)

text \<open>The latch closes only on an error that says the kernel has no such socket, and then stays closed.\<close>

lemma latch:
  "fst (querySockDiag nl f p s sp d dp unavailable) \<longleftrightarrow>
     unavailable \<or> (\<exists>e. nl_open nl = Some e \<and> isNetlinkUnsupported e)"
  by (simp add: querySockDiag_def split: option.split)

lemma resolve_sound:
  "resolveProcessPathByInode (Some es) inode uid = Some path \<Longrightarrow>
     \<exists>e \<in> set es. holds_socket inode uid e \<and> pe_Exe e = path"
  by (auto simp: resolveProcessPathByInode_def find_Some_iff)

lemma resolve_complete:
  "resolveProcessPathByInode (Some es) inode uid = None \<longleftrightarrow> (\<forall>e \<in> set es. \<not> holds_socket inode uid e)"
  by (auto simp: resolveProcessPathByInode_def find_None_iff)

end
