(* ===== verification/HostApi.thy ===== *)
theory HostApi
  imports FrontEnds CoreInit CoreStart SockDiag
begin

text \<open>
  The rest of what a host program can do: the settings and constant answers of \<open>core/platform.go\<close>, the event callback
  (\<open>SetOnEvent\<close> of \<open>core/events.go\<close>), and the initialisation and the end of the mobile object (\<open>mobile/api.go\<close>) and
  of the C library (\<open>cmd/lib/exports.go\<close>).
\<close>

section \<open>The platform\<close>

definition SetInterfaceProvider :: "string option \<Rightarrow> PlatformIO \<Rightarrow> PlatformIO" where
  "SetInterfaceProvider fn p = p\<lparr>pf_interfaces := fn\<rparr>"

definition SetWiFiStateProvider :: "string option \<Rightarrow> PlatformIO \<Rightarrow> PlatformIO" where
  "SetWiFiStateProvider fn p = p\<lparr>pf_wifi := fn\<rparr>"

definition SetIncludeAllNetworks :: "bool \<Rightarrow> PlatformIO \<Rightarrow> PlatformIO" where
  "SetIncludeAllNetworks v p = p\<lparr>pf_includeAll := v\<rparr>"

definition NetworkExtensionIncludeAllNetworks :: "PlatformIO \<Rightarrow> bool" where
  "NetworkExtensionIncludeAllNetworks p = pf_includeAll p"

definition UsePlatformDefaultInterfaceMonitor :: "PlatformIO \<Rightarrow> bool" where
  "UsePlatformDefaultInterfaceMonitor p = pf_isMobile p"

definition UsePlatformNetworkInterfaces :: "PlatformIO \<Rightarrow> bool" where
  "UsePlatformNetworkInterfaces p = pf_isMobile p"

text \<open>The monitor handed to the kernel: \<open>None\<close> is no monitor, \<open>Some None\<close> an interface that holds a nil pointer.\<close>

definition CreateDefaultInterfaceMonitor :: "PlatformIO \<Rightarrow> monitor option option" where
  "CreateDefaultInterfaceMonitor p = (if \<not> pf_isMobile p then None else Some (pf_monitor p))"

definition platform_UpdateDefaultInterface ::
  "(int \<Rightarrow> interface option) \<Rightarrow> nat \<Rightarrow> string \<Rightarrow> int \<Rightarrow> PlatformIO \<Rightarrow> PlatformIO" where
  "platform_UpdateDefaultInterface by_index t name index p =
    p\<lparr>pf_monitor := map_option (UpdateDefaultInterface by_index t name index) (pf_monitor p)\<rparr>"

definition UsePlatformConnectionOwnerFinder :: "string \<Rightarrow> bool" where
  "UsePlatformConnectionOwnerFinder goos = (goos = ''linux'')"

definition FindConnectionOwner ::
  "netlink \<Rightarrow> proc_entry list option \<Rightarrow> int \<Rightarrow> string \<times> int \<Rightarrow> string \<times> int \<Rightarrow> bool \<Rightarrow> bool \<times> (owner_error + connection_owner)"
  where
  "FindConnectionOwner nl proc ipProtocol src dst unavailable =
    findConnectionOwnerImpl nl proc ipProtocol (fst src) (snd src) (fst dst) (snd dst) unavailable"

text \<open>
  \<open>updateMobileInterfaces\<close>, between the creation of an instance and its start: \<open>nm\<close> is the network manager of the kernel, if
  the instance has one; its refresh gives the interfaces it knows then, or fails.  The outcome is only logged.
\<close>

datatype refresh = Not_mobile | No_manager | Refresh_failed | Refreshed nat

definition updateMobileInterfaces :: "(PlatformIO \<Rightarrow> nat option) option \<Rightarrow> PlatformIO \<Rightarrow> refresh" where
  "updateMobileInterfaces nm p =
    (if \<not> pf_isMobile p then Not_mobile
     else
       (case nm of
          None \<Rightarrow> No_manager
        | Some UpdateInterfaces \<Rightarrow> (case UpdateInterfaces p of None \<Rightarrow> Refresh_failed | Some n \<Rightarrow> Refreshed n)))"

text \<open>What a host and a kernel can do to the platform object.\<close>

datatype platform_op =
    P_mobile bool | P_tun_fd int | P_protector "(int \<Rightarrow> bool) option" | P_interfaces "string option"
  | P_wifi "string option" | P_include_all bool | P_default_interface string int | P_router
  | P_open "int \<Rightarrow> string + string option" | P_protect int

primrec platform_do :: "(int \<Rightarrow> interface option) \<Rightarrow> platform_op \<Rightarrow> PlatformIO \<Rightarrow> PlatformIO" where
  "platform_do by_index (P_mobile b) p = SetMobile b p"
| "platform_do by_index (P_tun_fd fd) p = SetTunFd fd p"
| "platform_do by_index (P_protector f) p = SetSocketProtector f p"
| "platform_do by_index (P_interfaces f) p = SetInterfaceProvider f p"
| "platform_do by_index (P_wifi f) p = SetWiFiStateProvider f p"
| "platform_do by_index (P_include_all b) p = SetIncludeAllNetworks b p"
| "platform_do by_index (P_default_interface name index) p = platform_UpdateDefaultInterface by_index 0 name index p"
| "platform_do by_index P_router p = platform_SetRouter p"
| "platform_do by_index (P_open open_tun) p = snd (OpenInterface open_tun p)"
| "platform_do by_index (P_protect fd) p = snd (AutoDetectInterfaceControl fd p)"

text \<open>A mobile platform always has a monitor, so the kernel never gets the nil pointer.\<close>

definition has_monitor :: "PlatformIO \<Rightarrow> bool" where
  "has_monitor p \<longleftrightarrow> (pf_isMobile p \<longrightarrow> pf_monitor p \<noteq> None)"

lemma platform_do_monitor: "has_monitor p \<Longrightarrow> has_monitor (platform_do by_index op p)"
  by (cases op)
    (auto simp: has_monitor_def SetMobile_def SetTunFd_def SetSocketProtector_def SetInterfaceProvider_def
      SetWiFiStateProvider_def SetIncludeAllNetworks_def platform_UpdateDefaultInterface_def platform_SetRouter_def
      OpenInterface_def AutoDetectInterfaceControl_def Let_def split: sum.split option.split)

lemma fold_platform_monitor: "has_monitor p \<Longrightarrow> has_monitor (fold (platform_do by_index) ops p)"
  by (induction ops arbitrary: p) (simp_all add: platform_do_monitor)

lemma monitor_never_nil: "CreateDefaultInterfaceMonitor (fold (platform_do by_index) ops NewPlatformIO) \<noteq> Some None"
proof -
  have "has_monitor NewPlatformIO" by (simp add: has_monitor_def NewPlatformIO_def)
  then show ?thesis
    using fold_platform_monitor[of NewPlatformIO by_index ops] by (auto simp: CreateDefaultInterfaceMonitor_def has_monitor_def)
qed

text \<open>
  What the kernel is told of the interfaces is what the provider says, as soon as one is registered.
\<close>

lemma provider_answers:
  "NetworkInterfaces (SetInterfaceProvider (Some text) p) =
     (case parseAdapterInterfaces text of None \<Rightarrow> Inl Bad_interfaces | Some is \<Rightarrow> Inr is)"
  "NetworkInterfaces (SetInterfaceProvider None p) = Inl No_provider"
  by (simp_all add: NetworkInterfaces_def SetInterfaceProvider_def)

section \<open>The event callback\<close>

text \<open>The callback of one service and the one of the log, which belongs to the process; callbacks are numbers.\<close>

record event_sinks =
  es_service :: "nat option"
  es_log :: "nat option"

definition SetOnEvent :: "nat option \<Rightarrow> event_sinks \<Rightarrow> event_sinks" where
  "SetOnEvent fn es = es\<lparr>es_service := fn, es_log := fn\<rparr>"

text \<open>Where an event of the service and an entry of the log arrive.\<close>

definition event_target :: "event_sinks \<Rightarrow> core_event \<Rightarrow> (nat \<times> core_event) list" where
  "event_target es e = (case es_service es of None \<Rightarrow> [] | Some cb \<Rightarrow> map (Pair cb) (emitEvent True e))"

definition log_target :: "event_sinks \<Rightarrow> int \<Rightarrow> string \<Rightarrow> log_record \<Rightarrow> (nat \<times> LogEntry) list" where
  "log_target es level extra r =
    (case (log_call level extra r, es_log es) of (Some entry, Some cb) \<Rightarrow> [(cb, entry)] | _ \<Rightarrow> [])"

text \<open>
  A second service in the process takes the log away from the first: \<open>SetOnEvent\<close> of one replaces the callback of the
  log for all.
\<close>

lemma log_belongs_to_last:
  assumes "log_call level extra r = Some entry"
  shows "log_target (SetOnEvent (Some cb') (SetOnEvent (Some cb) es)) level extra r = [(cb', entry)]"
    and "log_target (SetOnEvent None es) level extra r = []"
  using assms by (simp_all add: log_target_def SetOnEvent_def)

section \<open>The mobile object\<close>

record Singcast =
  sc_runtime :: runtime
  sc_platform :: PlatformIO
  sc_endpoint :: endpoint
  sc_sinks :: event_sinks

definition Singcast_Create :: "host \<Rightarrow> geo_cache \<Rightarrow> int \<Rightarrow> 12 word \<Rightarrow> event_sinks \<Rightarrow> Singcast" where
  "Singcast_Create h g level umask es =
    \<lparr>sc_runtime = \<lparr>rt_service = NewService, rt_host = h, rt_level = level, rt_geo = g, rt_watchdog = None\<rparr>,
     sc_platform = mobile_Create, sc_endpoint = new_endpoint umask, sc_sinks = es\<lparr>es_service := None\<rparr>\<rparr>"

definition Singcast_Init :: "os \<Rightarrow> string option list \<Rightarrow> string \<Rightarrow> Singcast \<Rightarrow> init_error option \<times> Singcast" where
  "Singcast_Init os geo optionsJSON sc =
    (case InitContext os geo optionsJSON (sc_runtime sc) of (e, rt) \<Rightarrow> (e, sc\<lparr>sc_runtime := rt\<rparr>))"

definition Singcast_Destroy :: "Singcast \<Rightarrow> Singcast" where
  "Singcast_Destroy sc =
    (let sc = sc\<lparr>sc_endpoint := StopIpcServer (sc_endpoint sc)\<rparr>
     in sc\<lparr>sc_runtime := (sc_runtime sc)\<lparr>rt_service := perform 0 CallDestroy Proceed (rt_service (sc_runtime sc))\<rparr>\<rparr>)"

definition Singcast_SetOnEvent :: "nat option \<Rightarrow> Singcast \<Rightarrow> Singcast" where
  "Singcast_SetOnEvent l sc = sc\<lparr>sc_sinks := SetOnEvent l (sc_sinks sc)\<rparr>"

definition Singcast_SetTunFd :: "int \<Rightarrow> Singcast \<Rightarrow> Singcast" where
  "Singcast_SetTunFd fd sc = sc\<lparr>sc_platform := mobile_SetTunFd fd (sc_platform sc)\<rparr>"

definition Singcast_SetInterfaceProvider :: "string option \<Rightarrow> Singcast \<Rightarrow> Singcast" where
  "Singcast_SetInterfaceProvider p sc = sc\<lparr>sc_platform := SetInterfaceProvider p (sc_platform sc)\<rparr>"

definition Singcast_SetWiFiStateProvider :: "string option \<Rightarrow> Singcast \<Rightarrow> Singcast" where
  "Singcast_SetWiFiStateProvider p sc = sc\<lparr>sc_platform := SetWiFiStateProvider p (sc_platform sc)\<rparr>"

definition Singcast_SetIncludeAllNetworks :: "bool \<Rightarrow> Singcast \<Rightarrow> Singcast" where
  "Singcast_SetIncludeAllNetworks v sc = sc\<lparr>sc_platform := SetIncludeAllNetworks v (sc_platform sc)\<rparr>"

definition Singcast_UpdateDefaultInterface ::
  "(int \<Rightarrow> interface option) \<Rightarrow> string \<Rightarrow> int \<Rightarrow> Singcast \<Rightarrow> Singcast" where
  "Singcast_UpdateDefaultInterface by_index name index sc =
    sc\<lparr>sc_platform := platform_UpdateDefaultInterface by_index 0 name index (sc_platform sc)\<rparr>"

text \<open>\<open>Destroy\<close> is final: the server has been told to stop, the service is gone, and no \<open>Init\<close> brings it back.\<close>

lemma stopped_endpoint: "ep_server (StopIpcServer ep) = None \<and> ep_cancel (StopIpcServer ep) = None"
  by (simp add: StopIpcServer_def split: option.split)

lemma stop_cancels: "ep_cancel ep = Some r \<Longrightarrow> r \<in> set (ep_cancelled (StopIpcServer ep))"
  by (simp add: StopIpcServer_def)

lemma destroyed_runtime:
  assumes "quiet (rt_service (sc_runtime sc))"
  shows "quiet (rt_service (sc_runtime (Singcast_Destroy sc))) \<and>
    kernel_of (rt_service (sc_runtime (Singcast_Destroy sc))) = Gone \<and>
    state (rt_service (sc_runtime (Singcast_Destroy sc))) = StateDestroyed"
proof -
  have "refines 0 CallDestroy Proceed (rt_service (sc_runtime sc))" by (rule perform_destroy[OF assms])
  then have "quiet (perform 0 CallDestroy Proceed (rt_service (sc_runtime sc)))"
    "kernel_of (perform 0 CallDestroy Proceed (rt_service (sc_runtime sc))) = Gone"
    by (simp_all add: refines_def)
  then show ?thesis
    by (auto simp: Singcast_Destroy_def Let_def kernel_of_def split: State.splits option.splits)
qed

lemma Singcast_Destroy_final:
  assumes "quiet (rt_service (sc_runtime sc))" and "Singcast_Init os geo optionsJSON (Singcast_Destroy sc) = (e, sc')"
  shows "e = Some (Init_state StateDestroyed) \<and> kernel_of (rt_service (sc_runtime sc')) = Gone \<and>
    rt_host (sc_runtime sc') = rt_host (sc_runtime sc) \<and> ep_server (sc_endpoint sc') = None"
proof -
  note d = destroyed_runtime[OF assms(1)]
  have "refines 0 CallInit Proceed (rt_service (sc_runtime (Singcast_Destroy sc)))" by (rule perform_init) (simp add: d)
  then have "kernel_of (perform 0 CallInit Proceed (rt_service (sc_runtime (Singcast_Destroy sc)))) = Gone"
    using d by (simp add: refines_def init_kernel_def)
  then show ?thesis
    using assms(2) d stopped_endpoint[of "sc_endpoint sc"]
    by (auto simp: Singcast_Init_def InitContext_def Singcast_Destroy_def Let_def)
qed

section \<open>The C library\<close>

definition export_Init :: "os \<Rightarrow> string option list \<Rightarrow> string \<Rightarrow> runtime clib \<Rightarrow> c_value \<times> runtime clib" where
  "export_Init os geo optionsJSON cl =
    (case InitContext os geo optionsJSON (cl_core cl) of
       (e, rt) \<Rightarrow> apfst C_string (errorString e (cl\<lparr>cl_core := rt\<rparr>)))"

definition export_Destroy :: "runtime clib \<Rightarrow> runtime clib" where
  "export_Destroy cl =
    cl\<lparr>cl_core := (cl_core cl)\<lparr>rt_service := perform 0 CallDestroy Proceed (rt_service (cl_core cl))\<rparr>\<rparr>"

text \<open>\<open>CoreInit\<close> returns NULL exactly when the service was initialised, and then makes no string.\<close>

lemma export_Init_null:
  assumes "quiet (rt_service (cl_core cl))" and "state (rt_service (cl_core cl)) = StateCreated"
    and "export_Init os geo optionsJSON cl = (v, cl')"
  shows "if v = C_string None
    then kernel_of (rt_service (cl_core cl')) = Stopped \<and> cl_live cl' = cl_live cl
    else kernel_of (rt_service (cl_core cl')) = Fresh \<and> (\<exists>p. v = C_string (Some p) \<and> cl_live cl' = p # cl_live cl)"
proof -
  obtain e rt where i: "InitContext os geo optionsJSON (cl_core cl) = (e, rt)" by (rule prod.exhaust)
  note o = InitContext_outcome[OF assms(1,2) i]
  show ?thesis
  proof (cases e)
    case None
    then show ?thesis using assms(3) i o by (auto simp: export_Init_def errorString_def)
  next
    case (Some x)
    then show ?thesis using assms(3) i o by (auto simp: export_Init_def errorString_def cString_def Let_def)
  qed
qed

end
