(* ===== verification/WindowsService.thy ===== *)
theory WindowsService
  imports GoNet "HOL-Library.Word"
begin

unbundle bit_operations_syntax

text \<open>
  The Windows service: its installation with the service manager (\<open>ipc/service_windows.go\<close>) and its control loop
  (\<open>cmd/singcast/ipc_run_windows.go\<close>).  The answers of the service manager are parameters.
\<close>

section \<open>The service manager\<close>

definition ServiceName :: string where "ServiceName = ''SingcastService''"

record scm_service =
  ws_DisplayName :: string
  ws_Manual :: bool
  ws_Binary :: string
  ws_Dacl :: string

text \<open>
  What the manager does: \<open>sm_command\<close> is the command line it makes of a program and its arguments; the flags say
  which calls succeed.
\<close>

record scm =
  sm_services :: "string \<rightharpoonup> scm_service"
  sm_command :: "string \<Rightarrow> string list \<Rightarrow> string"
  sm_connect :: bool
  sm_update :: bool
  sm_create :: bool
  sm_set_dacl :: bool

datatype win_error =
    No_config_dir | No_exe | No_connection | Update_failed | Create_failed | Dacl_failed
  | Open_failed | Stop_control_failed | Delete_failed

definition service_sddl :: string where "service_sddl = ''D:(A;;0x100B4;;;AU)(A;;0xF01FF;;;BA)(A;;0xF01FF;;;SY)''"

definition setServiceDACL :: "string \<Rightarrow> scm \<Rightarrow> win_error option \<times> scm" where
  "setServiceDACL name sm =
    (case sm_services sm name of
       None \<Rightarrow> (Some Dacl_failed, sm)
     | Some s \<Rightarrow>
         if sm_set_dacl sm then (None, sm\<lparr>sm_services := (sm_services sm)(name \<mapsto> s\<lparr>ws_Dacl := service_sddl\<rparr>)\<rparr>)
         else (Some Dacl_failed, sm))"

text \<open>An existing service is updated with a quoted command line; a new one gets the arguments one by one.\<close>

definition quoted_command :: "string \<Rightarrow> string \<Rightarrow> string" where
  "quoted_command exe homeDir = [CHR 34] @ exe @ [CHR 34] @ '' ipc --home '' @ [CHR 34] @ homeDir @ [CHR 34]"

definition win_InstallService :: "string option \<Rightarrow> string option \<Rightarrow> (string \<Rightarrow> string) \<Rightarrow> scm \<Rightarrow> win_error option \<times> scm" where
  "win_InstallService configDir exe home_of sm =
    (case configDir of
       None \<Rightarrow> (Some No_config_dir, sm)
     | Some dir \<Rightarrow>
         (let homeDir = home_of dir in
          case exe of
            None \<Rightarrow> (Some No_exe, sm)
          | Some exe \<Rightarrow>
              if \<not> sm_connect sm then (Some No_connection, sm)
              else
                (case sm_services sm ServiceName of
                   Some s \<Rightarrow>
                     if \<not> sm_update sm then (Some Update_failed, sm)
                     else setServiceDACL ServiceName
                       (sm\<lparr>sm_services := (sm_services sm)(ServiceName \<mapsto>
                          s\<lparr>ws_DisplayName := ''Singcast Service'', ws_Manual := True,
                            ws_Binary := quoted_command exe homeDir\<rparr>)\<rparr>)
                 | None \<Rightarrow>
                     if \<not> sm_create sm then (Some Create_failed, sm)
                     else setServiceDACL ServiceName
                       (sm\<lparr>sm_services := (sm_services sm)(ServiceName \<mapsto>
                          \<lparr>ws_DisplayName = ''Singcast Service'', ws_Manual = True,
                           ws_Binary = sm_command sm exe [''ipc'', ''--home'', homeDir], ws_Dacl = []\<rparr>)\<rparr>))))"

text \<open>
  The rights of \<open>winsvc.h\<close> and \<open>winnt.h\<close>: querying the status is 4, starting 16, stopping 32, deleting 65536.
\<close>

definition SERVICE_QUERY_STATUS :: "32 word" where "SERVICE_QUERY_STATUS = 4"
definition SERVICE_START :: "32 word" where "SERVICE_START = 16"
definition SERVICE_STOP :: "32 word" where "SERVICE_STOP = 32"
definition DELETE_RIGHT :: "32 word" where "DELETE_RIGHT = 65536"

definition uninstall_rights :: "32 word" where
  "uninstall_rights = SERVICE_STOP OR SERVICE_QUERY_STATUS OR DELETE_RIGHT"

datatype stop_answer = Stop_sent | Not_active | Stop_refused

text \<open>
  \<open>waitForStopped\<close>: each poll has the time at which it is made (in milliseconds after the start) and what the query
  says, \<open>None\<close> for an error.
\<close>

fun waitForStopped :: "(int \<times> bool option) list \<Rightarrow> bool" where
  "waitForStopped [] = False"
| "waitForStopped ((now, q) # polls) =
     (if 5000 \<le> now then False
      else (case q of None \<Rightarrow> False | Some stopped \<Rightarrow> if stopped then True else waitForStopped polls))"

text \<open>\<open>granted\<close> are the rights the list of the service gives to the caller.\<close>

definition win_UninstallService ::
  "(scm_service \<Rightarrow> 32 word) \<Rightarrow> stop_answer \<Rightarrow> (int \<times> bool option) list \<Rightarrow> bool \<Rightarrow> scm \<Rightarrow> win_error option \<times> scm" where
  "win_UninstallService granted stop polls deletable sm =
    (if \<not> sm_connect sm then (Some No_connection, sm)
     else
       (case sm_services sm ServiceName of
          None \<Rightarrow> (Some Open_failed, sm)
        | Some s \<Rightarrow>
            if uninstall_rights AND granted s \<noteq> uninstall_rights then (Some Open_failed, sm)
            else if stop = Stop_refused then (Some Stop_control_failed, sm)
            else
              (let stopped = (if stop = Stop_sent then waitForStopped polls else True) in
               if deletable then (None, sm\<lparr>sm_services := (sm_services sm)(ServiceName := None)\<rparr>)
               else (Some Delete_failed, sm))))"

section \<open>The control loop\<close>

datatype win_status = Start_pending | Win_running | Stop_pending | Win_stopped | Current string

datatype control = Interrogate string | Stop_control | Shutdown_control | Other_control | Server_ended "string option"

text \<open>
  \<open>Execute\<close> after a successful initialisation: the reported states, and the exit (whether the code is of the service,
  and the code) when the loop ends.  A stop waits for the server.
\<close>

fun execute_loop :: "control list \<Rightarrow> win_status list \<times> (bool \<times> nat) option" where
  "execute_loop [] = ([], None)"
| "execute_loop (Interrogate st # cs) = apfst (\<lambda>ss. Current st # ss) (execute_loop cs)"
| "execute_loop (Stop_control # cs) = ([Stop_pending, Win_stopped], Some (False, 0))"
| "execute_loop (Shutdown_control # cs) = ([Stop_pending, Win_stopped], Some (False, 0))"
| "execute_loop (Other_control # cs) = execute_loop cs"
| "execute_loop (Server_ended None # cs) = ([Win_stopped], Some (False, 0))"
| "execute_loop (Server_ended (Some e) # cs) = ([Win_stopped], Some (False, 1))"

definition Execute :: "bool \<Rightarrow> control list \<Rightarrow> win_status list \<times> (bool \<times> nat) option" where
  "Execute init_ok cs =
    (if \<not> init_ok then ([Start_pending, Win_stopped], Some (True, 1))
     else apfst (\<lambda>ss. Start_pending # Win_running # ss) (execute_loop cs))"

section \<open>Lemmas\<close>

text \<open>The rights asked for when uninstalling are within those the list gives to authenticated users.\<close>

lemma uninstall_within_dacl:
  "word_of_int (hex_value 0 ''100B4'') AND uninstall_rights = uninstall_rights"
  by (simp add: uninstall_rights_def SERVICE_STOP_def SERVICE_QUERY_STATUS_def DELETE_RIGHT_def hex_val_def is_digit_def)

lemma sddl_rights: "service_sddl = ''D:(A;;0x'' @ ''100B4'' @ '';;;AU)(A;;0xF01FF;;;BA)(A;;0xF01FF;;;SY)''"
  by (simp add: service_sddl_def)

text \<open>
  After a successful installation the service has the list, and a caller with its rights can remove it.
\<close>

lemma win_install_done:
  assumes "win_InstallService configDir exe home_of sm = (None, sm')"
  shows "\<exists>s. sm_services sm' ServiceName = Some s \<and> ws_Dacl s = service_sddl \<and> ws_Manual s \<and> sm_connect sm'"
  using assms
  by (auto simp: win_InstallService_def setServiceDACL_def Let_def split: option.splits if_splits)

lemma win_uninstall_after_install:
  assumes "win_InstallService configDir exe home_of sm = (None, sm')"
    and "\<And>s. ws_Dacl s = service_sddl \<Longrightarrow> granted s = word_of_int (hex_value 0 ''100B4'')"
    and "stop \<noteq> Stop_refused"
  shows "win_UninstallService granted stop polls True sm' = (None, sm'\<lparr>sm_services := (sm_services sm')(ServiceName := None)\<rparr>)"
  using win_install_done[OF assms(1)] assms(2,3) uninstall_within_dacl
  by (auto simp: win_UninstallService_def and.commute)

text \<open>Whenever the loop ends, the last state reported is Stopped; without an error the code is zero.\<close>

lemma execute_loop_stopped:
  "snd (execute_loop cs) \<noteq> None \<Longrightarrow> fst (execute_loop cs) \<noteq> [] \<and> last (fst (execute_loop cs)) = Win_stopped"
  by (induction cs rule: execute_loop.induct) (auto simp: apfst_def map_prod_def split: prod.splits)

lemma Execute_stopped:
  "snd (Execute init_ok cs) \<noteq> None \<Longrightarrow> last (fst (Execute init_ok cs)) = Win_stopped"
  using execute_loop_stopped[of cs] by (auto simp: Execute_def)

end
