(* ===== verification/EndToEnd.thy ===== *)
theory EndToEnd
  imports ServiceConfig
begin

text \<open>
  The translator and the service together: what a host asks of the service, as calls whose configurations come from
  \<open>translateConfig\<close>, and where a running configuration can come from.
\<close>

section \<open>Where a running configuration comes from\<close>

lemma kernel_call_serving:
  "fst (kernel_call call c k) = Serving json \<Longrightarrow> k = Serving json \<or> (\<exists>stubs. call = CallStart (Some (json, stubs)))"
  by (cases call; cases k)
    (auto simp: init_kernel_def start_kernel_def stop_kernel_def split: option.splits if_splits)

lemma kernel_run_serving:
  "fst (kernel_run cs k) = Serving json \<Longrightarrow>
     k = Serving json \<or> (\<exists>i stubs c. (i, CallStart (Some (json, stubs)), c) \<in> set cs)"
proof (induction cs k rule: kernel_run.induct)
  case (2 i call c cs k)
  obtain k1 r where k1: "kernel_call call c k = (k1, r)" by (rule prod.exhaust)
  obtain k2 rs where k2: "kernel_run cs k1 = (k2, rs)" by (rule prod.exhaust)
  have "fst (kernel_run cs k1) = Serving json" using 2(2) by (simp add: k1 k2)
  from "2.IH"[OF k1[symmetric] refl this]
  show ?case using kernel_call_serving[of call c k json] k1 by auto
qed simp

section \<open>What the translation delivers\<close>

text \<open>
  A text in JSON passes unchanged (after decoding base64), anything else becomes the encoding of a translation whose
  references are closed.
\<close>

definition delivers :: "(translation \<Rightarrow> string) \<Rightarrow> string \<Rightarrow> string \<Rightarrow> bool" where
  "delivers encode content base \<longleftrightarrow>
     (DetectFormat base = FormatJSON \<and> base = (case decodeBase64Input content of Some d \<Rightarrow> d | None \<Rightarrow> content)) \<or>
     (\<exists>t. base = encode t \<and> references_closed t)"

lemma translateFromConfig_closed:
  "translateFromConfig valid_uuid geo cfg opts g = ((None, t), g') \<Longrightarrow> references_closed t"
proof -
  assume a: "translateFromConfig valid_uuid geo cfg opts g = ((None, t), g')"
  obtain country g1 where p: "pick_country geo opts g = (country, g1)" by (rule prod.exhaust)
  let ?t = "translate_steps valid_uuid cfg country"
  have v: "validate ?t = (None, t)" using a by (simp add: translateFromConfig_def p)
  have "snd (validate ?t) = ?t" by (rule validate_translate_steps)
  then have "t = ?t" using v by simp
  moreover have "references_closed ?t" using v validate_decides[of ?t] by simp
  ultimately show ?thesis by simp
qed

lemma ConvertWithMeta_delivers:
  "fst (ConvertWithMeta valid_uuid yaml geo content opts g) = Passed_through s \<Longrightarrow> delivers encode content s"
  "fst (ConvertWithMeta valid_uuid yaml geo content opts g) = Translated None t \<Longrightarrow> delivers encode content (encode t)"
proof -
  let ?d = "case decodeBase64Input content of Some d \<Rightarrow> d | None \<Rightarrow> content"
  let ?r = "fst (ConvertWithMeta valid_uuid yaml geo content opts g)"
  have tr: "fst (case translateFromConfig valid_uuid geo cfg opts g of ((err, t), g') \<Rightarrow> (Translated err t, g')) = Translated None t \<Longrightarrow>
      references_closed t" for cfg t
    using translateFromConfig_closed[of valid_uuid geo cfg opts g] by (auto split: prod.splits)
  have pt: "fst (case translateFromConfig valid_uuid geo cfg opts g of ((err, t), g') \<Rightarrow> (Translated err t, g')) \<noteq> Passed_through x"
    for cfg x by (simp split: prod.split)
  show "?r = Passed_through s \<Longrightarrow> delivers encode content s"
    using pt by (auto simp: ConvertWithMeta_def Let_def delivers_def split: if_splits option.splits)
  show "?r = Translated None t \<Longrightarrow> delivers encode content (encode t)"
    using tr by (auto simp: ConvertWithMeta_def Let_def delivers_def split: if_splits option.splits)
qed

lemma translateConfig_delivers:
  assumes "translateConfig valid_uuid yaml encode proxied geo g content prefix = Some (json, stubs)"
  shows "\<exists>base. delivers encode content base \<and> (if prefix = [] then json = base else proxied base prefix = Some json)"
proof (cases "fst (ConvertWithMeta valid_uuid yaml geo content None g)")
  case (Passed_through s)
  then show ?thesis
    using assms ConvertWithMeta_delivers(1)[OF Passed_through]
    by (auto simp: translateConfig_def split: option.splits if_splits)
next
  case (Translated err t)
  then show ?thesis
    using assms ConvertWithMeta_delivers(2)[of valid_uuid yaml geo content None g t encode]
    by (auto simp: translateConfig_def split: option.splits if_splits)
qed (use assms in \<open>simp_all add: translateConfig_def\<close>)

section \<open>A host and its service\<close>

text \<open>
  What a host does: the initialisation, a start with a text and a prefix for the rule sets (\<open>StartWithContent\<close>), a stop, the end.
  The state of the country detection is the one at the time of the call.
\<close>

datatype host_call = Host_init | Host_start "string option list" geo_cache string string | Host_stop | Host_destroy

definition service_call ::
  "(string \<Rightarrow> bool) \<Rightarrow> (string \<Rightarrow> RawConfig option) \<Rightarrow> (translation \<Rightarrow> string) \<Rightarrow> (string \<Rightarrow> string \<Rightarrow> string option) \<Rightarrow>
   host_call \<Rightarrow> call" where
  "service_call valid_uuid yaml encode proxied hc =
    (case hc of
       Host_init \<Rightarrow> CallInit
     | Host_start geo g content prefix \<Rightarrow> CallStart (translateConfig valid_uuid yaml encode proxied geo g content prefix)
     | Host_stop \<Rightarrow> CallStop
     | Host_destroy \<Rightarrow> CallDestroy)"

definition service_calls ::
  "(string \<Rightarrow> bool) \<Rightarrow> (string \<Rightarrow> RawConfig option) \<Rightarrow> (translation \<Rightarrow> string) \<Rightarrow> (string \<Rightarrow> string \<Rightarrow> string option) \<Rightarrow>
   (host_call \<times> call) list \<Rightarrow> service" where
  "service_calls valid_uuid yaml encode proxied hcs =
    performs (map (\<lambda>(hc, answer). (0, service_call valid_uuid yaml encode proxied hc, answer)) hcs) NewService"

lemma serving_started:
  assumes "kernel_of (service_calls valid_uuid yaml encode proxied hcs) = Serving json"
  shows "\<exists>geo g content prefix answer. (Host_start geo g content prefix, answer) \<in> set hcs \<and>
    (\<exists>base. delivers encode content base \<and> (if prefix = [] then json = base else proxied base prefix = Some json))"
proof -
  let ?cs = "map (\<lambda>(hc, answer). (0 :: nat, service_call valid_uuid yaml encode proxied hc, answer)) hcs"
  have "kernel_of NewService = Fresh" by (simp add: kernel_of_def NewService_def)
  then have "fst (kernel_run ?cs Fresh) = Serving json"
    using assms performs_refines[OF quiet_new, of ?cs] by (simp add: service_calls_def)
  then obtain i stubs c where "(i, CallStart (Some (json, stubs)), c) \<in> set ?cs" using kernel_run_serving by fastforce
  then obtain hc where hc: "(hc, c) \<in> set hcs" "service_call valid_uuid yaml encode proxied hc = CallStart (Some (json, stubs))"
    by auto
  then obtain geo g content prefix where s: "hc = Host_start geo g content prefix"
    "translateConfig valid_uuid yaml encode proxied geo g content prefix = Some (json, stubs)"
    by (cases hc) (auto simp: service_call_def)
  show ?thesis using hc(1) translateConfig_delivers[OF s(2)] unfolding s(1) by blast
qed

end
