(* ===== verification/Spec2Isabelle.thy ===== *)
theory Spec2Isabelle
  imports Pipeline CmdIpc CmdMain Geo HostApi WindowsService EndToEnd
begin

text \<open>
  \<^bold>\<open>The program.\<close>  singcast turns a mihomo (Clash) configuration into one for the sing-box kernel and
  runs that kernel.  The package \<open>translator\<close> is a pure pipeline over a mutable \<open>translation\<close> state: general
  settings, proxies, groups, routing rules, DNS, TUN, experimental settings, assembly, validation
  (\<open>translateFromConfig\<close> in \<open>translator/translator.go\<close>).  The package \<open>core\<close> owns the running kernel, \<open>ipc\<close>
  serves it over JSON-RPC, \<open>cmd\<close> and \<open>mobile\<close> are bindings.

  \<^bold>\<open>How the model follows the code.\<close>  A Go function that reads and returns values is a HOL function of the
  same name.  A function that changes the \<open>*translation\<close> takes the state and returns it changed, a
  \<open>warn\<close> callback is the list of its messages.  Go structs are records, and a value of type \<open>any\<close> is a
  \<open>gval\<close> (\<open>GoValues\<close>); maps with string keys are association lists with the writes of Go (\<open>Prelude\<close>); a map
  whose iteration order could show is sorted by the code, and the model sorts it too.  Strings are lists of
  bytes.  A Go \<open>int\<close> is an \<open>int\<close>, with the ranges and the wrap-around written out where they matter.

  \<^bold>\<open>The theories.\<close>
  \<^item> \<open>Prelude\<close>, \<open>GoStrings\<close>, \<open>GoValues\<close>, \<open>GoBase64\<close>, \<open>GoNet\<close>: maps, the functions of the Go standard library
    the code uses (strings, strconv, base64, pem, netip), and the values of decoded YAML.
  \<^item> \<open>ProxyCommon\<close>, \<open>ProxyTLS\<close>, \<open>ProxyTransport\<close>, \<open>ProxyProtocols\<close>: the package \<open>translator/proxy\<close>, one section
    per file; the locale \<open>outbound_translator\<close> is the contract of a protocol, interpreted for each of them.
  \<^item> \<open>Types\<close>: \<open>types_mihomo.go\<close> and \<open>types_singbox.go\<close>.  \<open>General\<close>: \<open>general.go\<close>, \<open>experimental.go\<close>, \<open>tun.go\<close>.
    \<open>Country\<close>: \<open>country.go\<close>.  \<open>Proxies\<close>: \<open>proxy.go\<close>.  \<open>ProxyGroups\<close>: \<open>group.go\<close>, with the locale
    \<open>fixpoint_loop\<close> for the clean-up.  \<open>Rules\<close>: \<open>rule.go\<close> and \<open>autoroute.go\<close>.
  \<^item> \<open>DnsServer\<close>, \<open>Dns\<close>: \<open>dns.go\<close> (and \<open>generateDNSRules\<close> of \<open>autoroute.go\<close>); \<open>DnsInvariant\<close> and \<open>DnsRules\<close>
    hold the invariant of the DNS state and the shape of its rules.
  \<^item> \<open>Assemble\<close>: \<open>assemble.go\<close>.  \<open>Validate\<close>: \<open>validation.go\<close>.  \<open>Pipeline\<close>: \<open>translator.go\<close>.
  \<^item> \<open>GoJson\<close>, \<open>GoUrl\<close>: JSON syntax and decoding, URL parsing.  \<open>Input\<close>, \<open>InputLemmas\<close>: \<open>input.go\<close>, \<open>detect.go\<close> and
    \<open>ConvertWithMeta\<close>.
  \<^item> \<open>Service\<close>: the life cycle of \<open>core/service.go\<close> (and the subscription of \<open>core/events.go\<close>) as a step relation; a
    step is one access to the shared state, and threads interleave.  \<open>ServiceInv\<close> has its invariants, \<open>ServiceSeq\<close>
    the abstract kernel that calls one at a time refine, and the schedules.  \<open>EndToEnd\<close>: translator and service together.
  \<^item> \<open>Watchdog\<close>: \<open>core/watchdog.go\<close>.  \<open>ServiceConfig\<close>: \<open>translateConfig\<close> and the stub tags of \<open>core/service.go\<close>.
    \<open>Query\<close>: \<open>core/query.go\<close>.  \<open>CoreLog\<close>: \<open>core/logging.go\<close>.  \<open>Platform\<close>: \<open>core/platform.go\<close>.  \<open>SockDiag\<close>:
    \<open>core/sockdiag_linux.go\<close>.
  \<^item> \<open>Ipc\<close>: \<open>ipc/types.go\<close> and \<open>ipc/handler.go\<close>.  \<open>IpcCore\<close>: the locale \<open>core_backend\<close>, the contract between handler
    and service, interpreted on the model of the service.  \<open>IpcServer\<close>: the accept loop of \<open>ipc/server.go\<close>.
    \<open>IpcListen\<close>: the sockets of \<open>ipc/listen_posix.go\<close> and \<open>IpcPath\<close>; the locale \<open>listener\<close> is what a server relies on.
  \<^item> \<open>GoPath\<close>, \<open>Host\<close>: the functions of \<open>path/filepath\<close>, and a process with its working directory and files.
    \<open>CoreInit\<close>: \<open>InitContext\<close> in full, \<open>CheckConfig\<close>, \<open>Convert\<close>.  \<open>CoreStart\<close>: \<open>startWithJSON\<close> and the observers of
    \<open>core/events.go\<close>.  \<open>Geo\<close>: the five services of \<open>translator/country.go\<close>.
  \<^item> \<open>Cmd\<close>, \<open>CmdRun\<close>, \<open>CmdMain\<close>, \<open>CmdIpc\<close>: the commands of \<open>cmd/singcast\<close> (\<open>check\<close>, \<open>convert\<close>; \<open>run\<close> with its daemon;
    signals and \<open>version\<close>; \<open>ipc\<close> and \<open>service\<close>).
  \<^item> \<open>GoQuote\<close>, \<open>LinuxService\<close>, \<open>WindowsService\<close>: \<open>strconv.Quote\<close> and the installation as a service
    (\<open>ipc/service_*.go\<close>, and the control loop of \<open>cmd/singcast/ipc_run_windows.go\<close>).
  \<^item> \<open>FrontEnds\<close>, \<open>HostApi\<close>: the mobile API (\<open>mobile/api.go\<close>) and the C library (\<open>cmd/lib\<close>), with the remaining
    settings of \<open>core/platform.go\<close>.

  \<^bold>\<open>How the parts interact.\<close>  \<open>IpcServer\<close> hands requests to \<open>Handle\<close>, which calls the operations of \<open>core_api\<close>;
  \<open>singcast_api\<close> builds them from the service (\<open>perform\<close>) and the queries.  A start translates its text with
  \<open>ConvertWithMeta\<close>, which runs the pipeline of \<open>Pipeline\<close>; the watchdog restarts the service with the
  configuration it runs.  The C library and the mobile API call the same operations (\<open>FrontEnds\<close>); the \<open>ipc\<close> command puts
  the server on a socket of \<open>IpcListen\<close>, whose path and user the unit of \<open>LinuxService\<close> has set.
  
  \<^bold>\<open>What is shown.\<close>  This theory states the properties.  The translation never produces a dangling reference
  (C1 to C6), its DNS rules come in the order a first-match engine needs (C7), no node is lost and the
  broken ones are kept out of health checks (C8 to C10), groups are closed and the clean-up ends (C11 to C13), and the
  texts written for the kernel denote what the user wrote (C14; the theorems without a number beside it).
  A subscription is read the same in every wrapping (C15), links are read back (C16), and C17 is a defect of the link
  parser.  Calls of the service refine an abstract kernel (C18); under every interleaving instances are closed
  at most once, nothing is left behind, nothing deadlocks and the states follow the life cycle (C19 to C22), with the
  one schedule that leaks as C23.  Whatever a host calls, what runs comes from
  one of its starts and has no dangling reference (C24).  The watchdog keeps the configuration and its cooldown (C25,
  C26); stubs survive saving (C27).  Requests are answered once and control the service (C28, C29); the
  platform keeps its callbacks informed and speaks the kernel's format (C30, C31).  The \<open>run\<close> command needs an
  absolute home directory (C32, a defect), the \<open>ipc\<close> command leaves nothing behind (C33), an installed service runs a
  binary its user cannot change, the installation can be undone and gives the installing user access (C34 to C36),
  the socket is private (C37), a restarted server can lose its socket (C38, a defect).  The front ends agree (C39) and the strings
  of the C library have one owner (C40).  Further results and defects are theorems without a number, below the
  properties they qualify, or lemmas of the theories.

  \<^bold>\<open>Loops and fuel.\<close>  The recursions of the translator are structural except the clean-up of groups, whose measure
  is the number of groups.  The JSON parser has fuel of twice the length of the text, more than it has tokens; a
  call of the service that nobody disturbs takes at most 24 steps and gets 30, which C18 shows to be enough: every
  call returns.  The walk to the probed node stops after 16 outbounds and the
  bind is tried 30 times, as in the code.

  \<^bold>\<open>Not modelled.\<close>  Decoding YAML and encoding JSON (libraries; the model starts from the decoded
  \<open>RawConfig\<close> and ends in the value that is encoded), the transfer of the HTTP requests of the country detection
  (the responses are a parameter, and the order in which they arrive), the UUID parser (parameter \<open>valid_uuid\<close>).  The
  kernel library (an instance is a number, what the code reads of it a record; parsing, creating and starting one are
  parameters), the parser of command-line flags, printed progress messages, and the memory limit of the Go runtime.  Of the operating system the
  model has the part the code relies on: files by path with one working directory per process, sockets by name and
  listener (a name in the directory of the socket can always be removed), commands by their arguments; what can fail is a parameter.
\<close>

unbundle bit_operations_syntax


section \<open>Properties of the translation pipeline\<close>

text \<open>
  C1.  The references of a translated configuration always resolve: whatever the input, the country
  answer and the override, the final validation fails exactly when two outbounds share a tag.  No
  dangling group member, final outbound, DNS detour, DNS rule server or DNS final can occur.
\<close>

theorem translation_fails_only_on_duplicates:
  "fst (fst (translateFromConfig valid_uuid geo cfg opts g)) = None \<longleftrightarrow>
   distinct (named_tags (snd (fst (translateFromConfig valid_uuid geo cfg opts g))))"
  by (simp add: translateFromConfig_def validate_translate_steps validate_decides translate_steps_closed
      split: prod.split)

text \<open>
  C2.  The validation is sound and complete for any state, not only for those the pipeline builds: it
  returns no error exactly when the tags are unique and every hard reference resolves.
\<close>

theorem validation_decides_closedness: "fst (validate t) = None \<longleftrightarrow> references_closed t"
  by (rule validate_decides)

text \<open>
  C3.  The routing rules of a translation, in their order: sniffing and DNS hijacking first, the two
  mode switches when there is a group, then the private networks and the rules of the country, each
  finished with its action and mode condition.  The user's own rules never appear.
\<close>

theorem routing_rules_of_a_translation:
  "let (country, g') = pick_country geo opts g;
       t = snd (fst (translateFromConfig valid_uuid geo cfg opts g))
   in t_rules t = default_rules (firstGroupTag t) @
        map finish_rule (auto_rules (to_lower country) (route_tag t))"
  by (simp add: translateFromConfig_def validate_translate_steps translate_steps_rules[symmetric]
      split: prod.split)

text \<open>
  C4.  Every routing rule of a translation names no outbound or an existing one, so the validation has
  nothing to report about them.
\<close>

theorem routing_rules_never_dangle:
  "let t = snd (fst (translateFromConfig valid_uuid geo cfg opts g))
   in list_all (\<lambda>r. mstr r ''outbound'' \<in> insert [] (known_outbounds t)) (t_rules t)"
proof -
  obtain country g' where p: "pick_country geo opts g = (country, g')" by (rule prod.exhaust)
  have e: "snd (fst (translateFromConfig valid_uuid geo cfg opts g)) = translate_steps valid_uuid cfg country"
    by (simp add: translateFromConfig_def p validate_translate_steps)
  show ?thesis
    unfolding Let_def e using translate_steps_rule_outbounds[of valid_uuid cfg country]
    by (simp add: list_all_iff)
qed

text \<open>
  C5.  The rule-set definitions of a translation are sorted by tag without repetition (so the output
  does not depend on map iteration order), are downloaded directly, and cover every rule set that a
  routing rule or a DNS rule names.
\<close>

theorem rule_sets_sorted_and_complete:
  "let t = snd (fst (translateFromConfig valid_uuid geo cfg opts g));
       tags = map (\<lambda>d. mstr d ''tag'') (rt_RuleSet (t_route t))
   in sorted tags \<and> distinct tags \<and>
      list_all (\<lambda>d. map_of d ''download_detour'' = Some (VStr ''DIRECT'')) (rt_RuleSet (t_route t)) \<and>
      list_all (\<lambda>r. set (mstrs r ''rule_set'') \<subseteq> set tags) (t_rules t) \<and>
      (case sb_DNS (t_config t) of
         None \<Rightarrow> False
       | Some d \<Rightarrow> list_all (\<lambda>r. set (mstrs r ''rule_set'') \<subseteq> set tags) (sd_Rules d))"
proof -
  obtain country g' where p: "pick_country geo opts g = (country, g')" by (rule prod.exhaust)
  have e: "snd (fst (translateFromConfig valid_uuid geo cfg opts g)) = translate_steps valid_uuid cfg country"
    by (simp add: translateFromConfig_def p validate_translate_steps)
  obtain defs d where w: "defs_wf defs"
    and rs: "rt_RuleSet (t_route (translate_steps valid_uuid cfg country)) = sorted_defs defs"
    and r: "list_all (\<lambda>r. list_all (mhas defs) (mstrs r ''rule_set'')) (t_rules (translate_steps valid_uuid cfg country))"
    and d: "sb_DNS (t_config (translate_steps valid_uuid cfg country)) = Some d"
    "list_all (\<lambda>r. list_all (mhas defs) (mstrs r ''rule_set'') \<and> mhas r ''action'') (sd_Rules d)"
    using translate_steps_rule_sets[of valid_uuid cfg country] by blast
  have k: "list_all (mhas defs) ss \<longleftrightarrow> set ss \<subseteq> set (sort (mkeys defs))" for ss
    by (auto simp: list_all_iff mhas_iff_key)
  have "distinct (mkeys defs)" using w by (simp add: defs_wf_def wf_map_def mkeys_def)
  then show ?thesis
    using r d sorted_defs_tags[OF w] unfolding Let_def e rs k by (simp add: list_all_iff)
qed

text \<open>
  C6.  A translation always has a default domain resolver, it is one of the DNS servers of the output,
  and that server is not the system resolver (type \<open>local\<close>), which does not work inside a VPN service.
\<close>

theorem default_resolver_usable:
  "let t = snd (fst (translateFromConfig valid_uuid geo cfg opts g))
   in case sb_DNS (t_config t) of
        None \<Rightarrow> False
      | Some d \<Rightarrow> t_resolver t \<in> set (dns_tags d) \<and> \<not> isLocalDNSServer (t_resolver t) d"
proof -
  obtain country g' where p: "pick_country geo opts g = (country, g')" by (rule prod.exhaust)
  have e: "snd (fst (translateFromConfig valid_uuid geo cfg opts g)) = translate_steps valid_uuid cfg country"
    by (simp add: translateFromConfig_def p validate_translate_steps)
  show ?thesis
    unfolding Let_def e using translate_steps_rule_sets[of valid_uuid cfg country] by auto
qed

section \<open>Properties of the DNS rules\<close>




text \<open>
  The server the direct rules use is the first plain UDP server among the direct ones (no detour, not
  a fake-ip or hosts server, named), and otherwise the first direct one of any type.
\<close>

theorem direct_server_choice:
  "findFirstDirectDNSTag t =
     (case sb_DNS (t_config t) of
        None \<Rightarrow> []
      | Some d \<Rightarrow>
          (case find (\<lambda>s. direct_server s \<and> mstr s ''type'' = ''udp'') (sd_Servers d) of
             Some s \<Rightarrow> mstr s ''tag''
           | None \<Rightarrow> (case find direct_server (sd_Servers d) of Some s \<Rightarrow> mstr s ''tag'' | None \<Rightarrow> [])))"
  by (simp add: findFirstDirectDNSTag_def search_direct_spec split: option.split)

text \<open>
  A \<open>proxy-server-nameserver\<close> entry can become the server of the direct rules, although the comment at
  its translation says that these entries are not wired into any route: it does when it is the first
  direct UDP server.
\<close>

theorem proxy_nameserver_is_routed_to:
  "findFirstDirectDNSTag (translateDNS
     (empty_config\<lparr>cfg_DNS := empty_dns\<lparr>dns_Enable := True, dns_DefaultNameserver := [''tls://1.1.1.1''],
        dns_ProxyServerNameserver := [''9.9.9.9''], dns_NameServer := [''https://8.8.8.8/dns-query'']\<rparr>\<rparr>)
     empty_translation) = ''psn-0''"
  by code_simp

section \<open>Properties of the proxies\<close>

text \<open>
  C8.  Every named entry of the \<open>proxies\<close> section yields exactly one outbound, with that name as its tag, in
  the order of the entries: an unsupported or broken node is degraded, never lost.
\<close>

theorem proxies_keep_their_names:
  "map (\<lambda>ob. mstr ob ''tag'') (fst (translateProxies valid_uuid cfg t)) =
     filter (\<lambda>n. n \<noteq> []) (map (\<lambda>p. mstr p ''name'') (cfg_Proxy cfg))"
  using translateProxies_result[of valid_uuid cfg t "fst (translateProxies valid_uuid cfg t)"
      "snd (translateProxies valid_uuid cfg t)"]
  unfolding proxies_done_def by simp

text \<open>
  C9.  Every node that was degraded to a stub is excluded from health checks and registered as a proxy.
\<close>

theorem stubs_are_excluded_from_health_checks:
  "let t' = snd (translateProxies valid_uuid cfg empty_translation)
   in list_all (\<lambda>n. n \<in> t_invalidHealth t' \<and> n \<in> t_proxyTags t') (mkeys (t_stubTags t'))"
proof -
  let ?t' = "snd (translateProxies valid_uuid cfg empty_translation)"
  have d: "proxies_done (cfg_Proxy cfg) empty_translation (fst (translateProxies valid_uuid cfg empty_translation)) ?t'"
    by (rule translateProxies_result) simp
  have "\<forall>n. mhas (t_stubTags ?t') n \<longrightarrow>
      mhas (t_stubTags empty_translation) n \<or> n \<in> t_invalidHealth ?t' \<and> n \<in> t_proxyTags ?t'"
    using d unfolding proxies_done_def by blast
  moreover have "\<not> mhas (t_stubTags empty_translation) n" for n
    by (simp add: empty_translation_def)
  ultimately show ?thesis
    unfolding Let_def list_all_iff mhas_iff_key by blast
qed


section \<open>Properties of the groups\<close>

text \<open>
  C11.  Every translated group has at least one member, its default is a member, no member is a dangling
  name (it is a proxy, a translated group or \<open>DIRECT\<close>), and a health-checked group has no member that is
  excluded from health checks.
\<close>

theorem translated_groups_are_closed: "groups_ok t (fst (translateGroups cfg t))"
  using translateGroups_done[of cfg t "fst (translateGroups cfg t)" "snd (translateGroups cfg t)"]
  by (simp add: groups_done_def)

text \<open>
  C12.  The clean-up loop ends, never with more groups than it got, and its result is one that a last pass
  returned without dropping anything.
\<close>

theorem cleanup_reaches_a_fixed_point:
  "length (fst (cleanupGroupOutbounds groups st)) \<le> length groups \<and>
   (\<exists>gs s. cleanupGroupOutboundsOnce gs s =
      ((fst (cleanupGroupOutbounds groups st), 0), snd (cleanupGroupOutbounds groups st)))"
proof
  show "length (fst (cleanupGroupOutbounds groups st)) \<le> length groups" by (rule cleanup.never_longer)
  show "\<exists>gs s. cleanupGroupOutboundsOnce gs s =
      ((fst (cleanupGroupOutbounds groups st), 0), snd (cleanupGroupOutbounds groups st))"
    using cleanup.last_pass[where I = "\<lambda>_ _. True"] by blast
qed

text \<open>
  C13.  The check interval of a group is a duration of 1 second to 30 minutes and its idle timeout is a
  longer one, which the consumer requires.
\<close>

theorem group_timing:
  "\<exists>n m. map_of (fst (translateURLTestGroup name proxies g t)) ''interval'' = Some (VStr (SecondsToDuration n)) \<and>
         map_of (fst (translateURLTestGroup name proxies g t)) ''idle_timeout'' = Some (VStr (SecondsToDuration m)) \<and>
         duration_seconds (SecondsToDuration n) = Some n \<and> duration_seconds (SecondsToDuration m) = Some m \<and>
         1 \<le> n \<and> n \<le> 1800 \<and> n < m"
proof -
  obtain url n t' where u: "groupURLDefaults g name t = ((url, n), t')" "1 \<le> n" "n \<le> maxGroupInterval"
    using groupURLDefaults_cases[of g name t] by blast
  let ?m = "max (n * 2) minGroupIdleTimeout"
  have m: "n < ?m" "0 \<le> ?m" using u(2,3) by (auto simp: maxGroupInterval_def minGroupIdleTimeout_def)
  have "map_of (fst (translateURLTestGroup name proxies g t)) ''interval'' = Some (VStr (SecondsToDuration n))"
    "map_of (fst (translateURLTestGroup name proxies g t)) ''idle_timeout'' = Some (VStr (SecondsToDuration ?m))"
    using u(1) by (auto simp: translateURLTestGroup_def Let_def urltest_base_def split: option.split)
  then show ?thesis
    using u m SecondsToDuration_value[of n] SecondsToDuration_value[of ?m]
    by (intro exI[of _ n] exI[of _ ?m]) (simp add: maxGroupInterval_def max_def)
qed

definition failed_groups_config :: RawConfig where
  "failed_groups_config = empty_config\<lparr>
     cfg_Proxy := [[(''type'', VStr ''trojan''), (''name'', VStr ''a''), (''server'', VStr ''h''), (''port'', VInt 443),
                    (''password'', VStr ''x'')]],
     cfg_ProxyGroup := [[(''name'', VStr ''G''), (''type'', VStr ''relay''), (''proxies'', VList [VStr ''a''])]]\<rparr>"

text \<open>
  When no configured group survives but there is a proxy, the warning says that the final outbound
  falls back to \<open>DIRECT\<close>; in fact default groups are generated and it is \<open>PROXY\<close>.
\<close>

theorem failed_groups_do_not_fall_back_to_direct:
  "let t = translate_steps (\<lambda>_. True) failed_groups_config ''CN''
   in no_groups_warning \<in> set (t_warnings t) \<and> rt_Final (t_route t) = ''PROXY''"
  by code_simp

section \<open>Properties of the value converters\<close>

text \<open>
  A duration text denotes the number of seconds it was made from, negative numbers counting as zero.
\<close>

theorem duration_text_value: "duration_seconds (SecondsToDuration n) = Some (max 0 n)"
  by (rule SecondsToDuration_value)

text \<open>
  C14.  A bandwidth of the form number, optional spaces, optional prefix, unit is the number of Mbps it
  denotes, rounded up to 1 and capped at 32 bits, as long as the bits per second fit 64 bits.
\<close>

theorem bandwidth_value:
  assumes "0 \<le> v" and "list_all re_space sp" and "pre \<in> set rate_prefixes" and "u \<in> set ''bB''"
    and "v * rate_scale pre * unit_bits u < 18446744073709551616"
  shows "ParseBandwidth (dec_str v @ sp @ pre @ u # ''ps'') = mbps_of_bits (v * rate_scale pre * unit_bits u)"
  using assms by (rule ParseBandwidth_value)

theorem bandwidth_value_witness: "ParseBandwidth (dec_str 12 @ '' '' @ ''M'' @ CHR ''B'' # ''ps'') = 96"
proof -
  have "ParseBandwidth (dec_str 12 @ '' '' @ ''M'' @ CHR ''B'' # ''ps'') =
      mbps_of_bits (12 * rate_scale ''M'' * unit_bits CHR ''B'')"
    by (rule bandwidth_value) (simp_all add: re_space_def rate_prefixes_def rate_scale_def unit_bits_def)
  then show ?thesis by (simp add: mbps_of_bits_def rate_scale_def unit_bits_def max_int32_def)
qed

text \<open>
  Beyond 64 bits the multiplication wraps around: a limit of this size is read as zero, which means no
  limit, although the code is written to never turn a limit into no limit.
\<close>

theorem huge_bandwidth_is_unlimited: "ParseBandwidth ''562949953421312 TBps'' = 0"
  by code_simp

text \<open>
  A port list of single ports and ranges is rendered entry by entry in the form the consumer reads.
\<close>

theorem server_ports_rendered:
  assumes "gs \<noteq> []" and "list_all seg_valid gs"
  shows "ParseServerPorts (str_join '','' (map mihomo_seg gs)) = map sing_seg gs"
  using assms by (rule ParseServerPorts_render)

theorem server_ports_rendered_witness:
  "ParseServerPorts (str_join '','' (map mihomo_seg [Range 1000 2000, Single 3000])) = [''1000:2000'', ''3000:3000'']"
proof -
  have "ParseServerPorts (str_join '','' (map mihomo_seg [Range 1000 2000, Single 3000])) =
      map sing_seg [Range 1000 2000, Single 3000]"
    by (rule server_ports_rendered) simp_all
  moreover have "map sing_seg [Range 1000 2000, Single 3000] = [''1000:2000'', ''3000:3000'']" by code_simp
  ultimately show ?thesis by simp
qed

text \<open>
  Whatever the text, every entry produced is two port numbers joined by a colon: nothing the consumer
  would reject gets through.
\<close>

theorem server_ports_well_formed: "list_all sing_port_entry (ParseServerPorts s)"
  by (rule ParseServerPorts_entries)

text \<open>
  The ECH lines are the PEM text of the configured bytes: the lines between the first and the last,
  joined, decode to the bytes of the given base64; without valid base64 there are no lines.
\<close>

theorem ech_lines_roundtrip:
  "map_option (\<lambda>ls. (hd ls, base64_decode StdEncoding (concat (butlast (tl ls))), last ls)) (echConfigToPEMLines b64) =
     (case base64_decode StdEncoding (trim_space b64) of
        None \<Rightarrow> None
      | Some raw \<Rightarrow> if raw = [] then None
                    else Some (''-----BEGIN ECH CONFIGS-----'', Some raw, ''-----END ECH CONFIGS-----''))"
  by (simp add: echConfigToPEMLines_cases pem_lines_def concat_chunks base64_roundtrip split: option.split)

text \<open>
  The plugin options of a shadowsocks node depend on the option map only, not on the order in which the
  map is iterated.
\<close>

theorem plugin_options_deterministic:
  assumes "wf_map a" and "wf_map b" and "map_of a = map_of b"
  shows "buildSIP003Opts a p = buildSIP003Opts b p"
proof -
  have "set (mkeys a) = set (mkeys b)" using assms(3) by (metis dom_map_of_conv_image_fst mkeys_def set_map)
  then have "sort (mkeys a) = sort (mkeys b)"
    using assms(1,2) by (intro sorted_distinct_set_unique) (simp_all add: wf_map_def mkeys_def)
  moreover have "a = [] \<longleftrightarrow> b = []" using \<open>set (mkeys a) = set (mkeys b)\<close> by (auto simp: mkeys_def)
  ultimately show ?thesis by (simp add: buildSIP003Opts_def sip003_value_def assms(3))
qed

theorem plugin_options_deterministic_witness:
  "buildSIP003Opts [(''mode'', VStr ''tls''), (''host'', VStr ''a.b'')] ''obfs-local'' = ''obfs-host=a.b;obfs=tls''"
proof -
  have "buildSIP003Opts [(''mode'', VStr ''tls''), (''host'', VStr ''a.b'')] ''obfs-local'' =
      buildSIP003Opts [(''host'', VStr ''a.b''), (''mode'', VStr ''tls'')] ''obfs-local''"
    by (rule plugin_options_deterministic) (auto simp: wf_map_def fun_eq_iff)
  moreover have "buildSIP003Opts [(''host'', VStr ''a.b''), (''mode'', VStr ''tls'')] ''obfs-local'' =
      ''obfs-host=a.b;obfs=tls''"
    by code_simp
  ultimately show ?thesis by simp
qed

section \<open>Properties of the country detection\<close>

text \<open>
  Once the services have been asked, later calls return the same country and the same state whatever
  the services would answer then, and a valid override always wins without touching the state.
\<close>

theorem country_is_detected_once:
  "case normalizeCountryCode override of
     Some cc \<Rightarrow> DetectCountry replies override g = (cc, g)
   | None \<Rightarrow> DetectCountry replies' override (snd (DetectCountry replies override g)) =
               DetectCountry replies override g"
  by (simp add: DetectCountry_def Let_def detect_once_stable split: option.split)

text \<open>
  An accepted country code consists of two ASCII capital letters.
\<close>

theorem country_code_shape:
  "case normalizeCountryCode code of None \<Rightarrow> True | Some cc \<Rightarrow> length cc = 2 \<and> list_all is_upper cc"
  using normalizeCountryCode_shape[of code] by (auto split: option.split)

text \<open>
  The comment says that Unicode letters are not accepted; the long s is, because its upper case is the
  ASCII letter S.
\<close>

theorem long_s_is_accepted: "normalizeCountryCode ([CHR 197, CHR 191] @ ''g'') = Some ''SG''"
  by code_simp

section \<open>Properties of the input formats\<close>

text \<open>
  C15.  A subscription in base64 is converted exactly as its decoded text is (unless that text is itself
  something that decodes to a subscription).
\<close>

theorem base64_subscription_transparent:
  assumes "looksLikeSubscription s" and "decodeBase64Input s = None"
  shows "ConvertWithMeta valid_uuid yaml geo (base64_encode s) opts g = ConvertWithMeta valid_uuid yaml geo s opts g"
  using assms by (simp add: ConvertWithMeta_def decodeBase64Input_encode)

theorem base64_subscription_transparent_witness:
  "ConvertWithMeta (\<lambda>_. True) (\<lambda>_. None) [] (base64_encode ''{}'') None fresh_cache =
     (Passed_through ''{}'', fresh_cache)"
proof -
  have "looksLikeSubscription ''{}''" "decodeBase64Input ''{}'' = None" "DetectFormat ''{}'' = FormatJSON" by code_simp+
  then show ?thesis using base64_subscription_transparent[of "''{}''"] convert_json by simp
qed

text \<open>
  C16.  A shadowsocks link with a base64 user part is read back field by field: method, password, host, port and
  name.
\<close>

theorem ss_link_roundtrip:
  assumes "CHR '':'' \<notin> set method" and "plain_host host" and "0 \<le> port" and "port \<le> max_int64"
    and "name \<noteq> []" and "list_all (\<lambda>c. c \<notin> set ''%+'') name"
  shows "parseProxyURI (ss_link method password host port name) =
     Some [(''name'', VStr name), (''type'', VStr ''ss''), (''server'', VStr host), (''port'', VInt port),
           (''cipher'', VStr method), (''password'', VStr password)]"
  using assms by (rule parse_ss_link)

theorem ss_link_roundtrip_witness:
  "parseProxyURI (ss_link ''aes-128-gcm'' ''p:@#'' ''example.com'' 443 ''node 1'') =
     Some [(''name'', VStr ''node 1''), (''type'', VStr ''ss''), (''server'', VStr ''example.com''), (''port'', VInt 443),
           (''cipher'', VStr ''aes-128-gcm''), (''password'', VStr ''p:@#'')]"
  by (rule ss_link_roundtrip) (simp_all add: plain_host_def max_int64_def)

text \<open>
  C17.  No \<open>vless://\<close> link ever yields a usable node: the parser does not read the user id, so the
  translation of every parsed link is missing and the node becomes a stub.
\<close>

theorem vless_links_are_unusable:
  "case parseVless body name of None \<Rightarrow> True | Some p \<Rightarrow> fst (translateOneProxy valid_uuid p fp) = None"
  using vless_link_untranslated by (auto split: option.split)

text \<open>A \<open>vmess://\<close> link loses its transport and its TLS settings.\<close>

theorem vmess_links_are_plain:
  "case parseVmess body name of
     None \<Rightarrow> True
   | Some p \<Rightarrow>
       (case fst (translateOneProxy valid_uuid p []) of
          None \<Rightarrow> True | Some ob \<Rightarrow> map_of ob ''tls'' = None \<and> map_of ob ''transport'' = None)"
  using vmess_link_plain[of body name] by (auto split: option.split)

section \<open>Properties of the service\<close>

text \<open>
  C18.  Calls that do not overlap refine a kernel with four states (fresh, stopped, serving a configuration,
  gone): whatever the sequence of initialisations, starts, stops and destroys and whatever the library
  answers, the service ends at rest in the state of the abstract kernel, and every call returns its result.
\<close>

theorem calls_refine_kernel:
  "quiet (performs cs NewService) \<and> kernel_of (performs cs NewService) = fst (kernel_run cs Fresh) \<and>
   results (performs cs NewService) = snd (kernel_run cs Fresh)"
  using performs_refines[OF quiet_new, of cs] by (simp add: kernel_of_def NewService_def)

text \<open>
  C19.  However calls interleave, no instance is closed twice, none is closed that was not started, and the
  running one is not closed.
\<close>

theorem instances_closed_at_most_once:
  "case run_steps acts NewService of
     None \<Rightarrow> True
   | Some s \<Rightarrow> distinct (closed s) \<and>
       list_all (\<lambda>g. g < opened s \<and> map_option instance_id (running s) \<noteq> Some g) (closed s)"
  using ownership_reachable[OF any_reachable] by (auto simp: ownership_def list_all_iff split: option.split)

text \<open>
  C20.  When all calls have returned and no initialisation failed, an instance is only there in state
  \<open>Running\<close>, and the event subscription, if there is one, is that of the running instance.
\<close>

theorem nothing_left_behind_at_rest:
  "case run_steps (well_behaved acts) NewService of
     None \<Rightarrow> True
   | Some s \<Rightarrow> (\<exists>i. thread s i \<noteq> Idle) \<or>
       (running s = None \<or> state s = StateRunning) \<and>
       (subCancel s = None \<or> subCancel s = map_option instance_id (running s))"
proof (cases "run_steps (well_behaved acts) NewService")
  case (Some s)
  then have l: "lifecycle s \<and> subscribed s" by (rule lifecycle_reachable[OF well_behaved_reachable])
  have "thread s i = Idle \<Longrightarrow> \<not> before_swap (thread s i) \<and> \<not> storing (thread s i) \<and> \<not> stopping (thread s i)" for i
    by simp
  then show ?thesis
    using l unfolding Some lifecycle_def subscribed_def by (cases "subCancel s") auto
qed simp


text \<open>
  C22.  The state only makes the transitions of the life cycle, and \<open>Destroyed\<close> is never left, as long as no
  initialisation fails.
\<close>

theorem state_follows_life_cycle:
  "case run_steps (well_behaved acts) NewService of
     None \<Rightarrow> True
   | Some s \<Rightarrow>
       (case service_step i c s of
          None \<Rightarrow> True
        | Some s' \<Rightarrow> c = InitFails \<or> state s' = state s \<or> (state s, state s') \<in> state_transitions)"
proof (cases "run_steps (well_behaved acts) NewService")
  case (Some s)
  then have "stop_cas_ok s" by (rule stop_cas_ok_reachable[OF well_behaved_reachable])
  then show ?thesis
    using state_transition[of i c s] Some by (cases "c = InitFails") (auto simp: no_init_failure_def split: option.split)
qed simp


text \<open>A failing initialisation brings a destroyed service back to \<open>Created\<close>.\<close>

theorem failing_init_revives:
  "case run_steps failing_init NewService of
     None \<Rightarrow> False
   | Some s \<Rightarrow> thread s 0 = Idle \<and> thread s 1 = Idle \<and> state s = StateCreated \<and>
       results s = [(1, Return_nil), (0, Init_failed)] \<and> notified s = [StateDestroyed]"
  by (rule failing_init_run)



text \<open>
  C25.  A restart by the watchdog starts the configuration that was running, with its stubs, and nothing else
  changes: a running configuration is JSON, and JSON passes the translation unchanged.
\<close>

theorem health_restart_keeps_configuration:
  assumes "quiet s" and "running s = Some rs" and "DetectFormat (currentConfig rs) = FormatJSON" and "c \<noteq> StartFails"
  shows "let s' = restartForHealth (\<lambda>cfg. translateConfig valid_uuid yaml encode proxied geo g cfg []) i c s
    in quiet s' \<and> kernel_of s' = Serving (currentConfig rs) \<and> results s' = results s @ [(i, Return_nil)]"
proof -
  let ?cfg = "translateConfig valid_uuid yaml encode proxied geo g (currentConfig rs) []"
  have r: "refines i (CallStart ?cfg) c s" using assms(1) by (rule perform_refines) (simp add: is_call_def)
  have k: "kernel_of s = Serving (currentConfig rs)" using assms(1,2) by (simp add: quiet_def kernel_of_def)
  show ?thesis
    using r assms(2,4) by (simp add: restartForHealth_def refines_def k translateConfig_json[OF assms(3)] start_kernel_def)
qed

theorem health_restart_keeps_configuration_witness:
  "let s = performs [(0, CallInit, Proceed), (0, CallStart (Some (''{}'', [])), Proceed)] NewService;
       s' = restartForHealth (\<lambda>cfg. translateConfig (\<lambda>_. True) (\<lambda>_. None) (\<lambda>_. []) (\<lambda>_ _. None) [] fresh_cache cfg []) 1 Proceed s
   in kernel_of s' = Serving ''{}''"
proof -
  let ?s = "performs [(0, CallInit, Proceed), (0, CallStart (Some (''{}'', [])), Proceed)] NewService"
  have k: "kernel_of ?s = Serving ''{}''" "quiet ?s"
    using performs_refines[OF quiet_new, of "[(0, CallInit, Proceed), (0, CallStart (Some (''{}'', [])), Proceed)]"]
    by (simp_all add: init_kernel_def start_kernel_def kernel_of_def NewService_def)
  then obtain rs where rs: "running ?s = Some rs" "currentConfig rs = ''{}''"
    by (auto simp: kernel_of_def split: State.splits option.splits)
  have "DetectFormat (currentConfig rs) = FormatJSON" unfolding rs(2) by code_simp
  from health_restart_keeps_configuration[OF k(2) rs(1) this, of Proceed]
  show ?thesis unfolding rs(2) by (simp add: Let_def)
qed

text \<open>
  C26.  The watchdog never restarts twice within its cooldown, whatever ticks and probe results it sees.
\<close>

theorem restarts_respect_cooldown:
  "case watchdog_run (normalizeHealthConfig cfg) evs of
     None \<Rightarrow> True
   | Some acts \<Rightarrow>
       successively (\<lambda>r r'. snd r + sint (cooldown (normalizeHealthConfig cfg)) \<le> fst r') (restart_times acts)"
  using watchdog_loop_spaced[of "normalizeHealthConfig cfg" None evs 0]
  by (auto simp: watchdog_run_def spaced_def split: option.split)

text \<open>An interval whose nanoseconds overflow makes \<open>NewTicker\<close> panic.\<close>

theorem huge_interval_panics:
  "watchdog_run (normalizeHealthConfig (Some \<lparr>hc_Enabled = True, hc_Interval = 9223372036855, hc_Timeout = 0,
     hc_FailThreshold = 0, hc_Cooldown = 0\<rparr>)) evs = None"
  by (simp add: watchdog_run_def normalizeHealthConfig_def positive_def milliseconds_def default_health_def Let_def)

text \<open>
  The watchdog probes the node the selections lead to: following the selected members of at most 16
  outbounds, none twice and none without a proxy, it finds the last one.
\<close>

theorem probed_node_is_selected:
  assumes "selection_chain lookup obs" and "distinct (map ob_Tag obs)" and "length obs \<le> 16"
  shows "currentProxyNode lookup (Some (hd obs)) = Some (last obs)"
  using assms proxy_node_complete[of lookup obs "{}" 16] by (simp add: currentProxyNode_def maxProxyDepth_def)

theorem probed_node_is_selected_witness:
  "let g = \<lparr>ob_Type = ''selector'', ob_Tag = ''PROXY'', ob_Now = Some ''n''\<rparr>;
       n = \<lparr>ob_Type = ''vless'', ob_Tag = ''n'', ob_Now = None\<rparr>
   in currentProxyNode [''n'' \<mapsto> n] (Some g) = Some n"
  using probed_node_is_selected[of "[''n'' \<mapsto> \<lparr>ob_Type = ''vless'', ob_Tag = ''n'', ob_Now = None\<rparr>]"
      "[\<lparr>ob_Type = ''selector'', ob_Tag = ''PROXY'', ob_Now = Some ''n''\<rparr>, \<lparr>ob_Type = ''vless'', ob_Tag = ''n'', ob_Now = None\<rparr>]"]
  by (simp add: no_proxy_def)

text \<open>
  C27.  A stub survives saving: the name and the original protocol of every node that was degraded are read back
  from the written outbounds, as long as their fields decode and their tags differ.
\<close>

theorem stubs_survive_saving:
  assumes "translateProxies valid_uuid cfg empty_translation = (obs, t)"
    and "all_some (map (\<lambda>ob. dec_rawOutbound (to_json (VMap ob))) obs) = Some raws" and "distinct (map raw_Tag raws)"
    and "map_of (t_stubTags t) n = Some ty"
  shows "map_of (extract_stub_tags (outbounds_json obs)) n = Some ty"
proof -
  have "makeStubOutbound n ty \<in> set obs"
    using translateProxies_stubs[OF assms(1)] assms(4) by (auto simp: stubs_in_def empty_translation_def)
  then show ?thesis by (rule extract_outbounds[OF assms(2,3)])
qed

definition stub_config :: RawConfig where
  "stub_config = empty_config\<lparr>cfg_Proxy := [[(''type'', VStr ''snell''), (''name'', VStr ''a''), (''server'', VStr ''h''),
     (''port'', VInt 443)]]\<rparr>"

theorem stubs_survive_saving_witness:
  "map_of (extract_stub_tags (outbounds_json (fst (translateProxies (\<lambda>_. True) stub_config empty_translation)))) ''a'' =
     Some ''snell''"
proof -
  let ?r = "translateProxies (\<lambda>_. True) stub_config empty_translation"
  have d: "map_option (map raw_Tag) (all_some (map (\<lambda>ob. dec_rawOutbound (to_json (VMap ob))) (fst ?r))) = Some [''a'']"
    "map_of (t_stubTags (snd ?r)) ''a'' = Some ''snell''"
    by code_simp+
  then obtain raws where "all_some (map (\<lambda>ob. dec_rawOutbound (to_json (VMap ob))) (fst ?r)) = Some raws"
    "map raw_Tag raws = [''a'']" by auto
  then show ?thesis using stubs_survive_saving[of "\<lambda>_. True" stub_config "fst ?r" "snd ?r" raws] d(2) by simp
qed

section \<open>Properties of queries and control\<close>

text \<open>
  Selecting a member of a group either fails and changes nothing, or makes the member the selected one, and
  then it is one of the members of the group.
\<close>

theorem selection_takes_effect:
  "case SelectOutbound groupTag tag (Some (rs, kv)) of
     (Some e, r) \<Rightarrow> r = Some (rs, kv)
   | (None, r) \<Rightarrow> \<exists>kv' ob g. r = Some (rs, kv') \<and> find_outbound kv' groupTag = Some ob \<and> ov_Group ob = Some g \<and>
       gv_Now g = tag \<and> tag \<in> set (gv_All g)"
proof (cases "SelectOutbound groupTag tag (Some (rs, kv))")
  case (Pair e r)
  show ?thesis
  proof (cases e)
    case None
    then show ?thesis using select_then_selected[of groupTag tag rs kv] Pair by simp
  next
    case (Some e')
    then show ?thesis using Pair by (auto simp: SelectOutbound_def split: option.splits if_splits)
  qed
qed

text \<open>
  A delay test of a group reports every member, and only members; without a slot in time the delay is -1.
\<close>

theorem group_delays:
  "map_of (TestGroupDelay url_test ready (Some (rs, kv)) groupTag) tag =
     (case find_outbound kv groupTag of
        None \<Rightarrow> None
      | Some ob \<Rightarrow>
          (case ov_Group ob of
             None \<Rightarrow> None
           | Some g \<Rightarrow> if tag \<in> set (gv_All g) then Some (member_delay url_test ready kv tag) else None))"
  by (rule TestGroupDelay_members)

section \<open>Properties of the JSON-RPC server\<close>

text \<open>
  C28.  Every request with an id is answered exactly once, with its id and on the connection it came from: in
  whatever order connections, requests, disconnections and events come, the requests still in progress can
  all end, and then the ids of the answers on each connection are those of its requests.
\<close>

theorem requests_answered_once:
  "case server_run api evs (NewServer s) of
     None \<Rightarrow> True
   | Some sv \<Rightarrow> \<exists>sv'. server_run api (replicate (length (sv_pending sv)) (Finish 0)) sv = Some sv' \<and>
       (\<forall>c. answers_on c (sv_sent sv') = ids_on c (sv_received sv))"
  using drained_answers[of api evs s] by (auto split: option.split)

text \<open>
  C29.  Through the interface of the handler, after any sequence of requests, the service is at rest; a start that
  is answered without an error leaves it running, and a stop leaves it not running.
\<close>

theorem rpc_controls_service:
  "let s = handle_all (singcast_api lib) reqs
         \<lparr>co_service = performs [(0, CallInit, Proceed)] NewService, co_view = view, co_level = level\<rparr>;
       (r, started) = Handle (singcast_api lib) (req\<lparr>jr_Method := ''core.startWithContent''\<rparr>) s;
       stopped = snd (Handle (singcast_api lib) (req\<lparr>jr_Method := ''core.stop''\<rparr>) s)
   in quiet (co_service started) \<and> quiet (co_service stopped) \<and> state (co_service stopped) \<noteq> StateRunning \<and>
      (case resp_Error r of None \<Rightarrow> state (co_service started) = StateRunning | Some _ \<Rightarrow> True)"
proof -
  let ?init = "\<lparr>co_service = performs [(0, CallInit, Proceed)] NewService, co_view = view, co_level = level\<rparr>"
  let ?s = "handle_all (singcast_api lib) reqs ?init"
  have "core_ok ?init" using performs_refines[OF quiet_new, of "[(0, CallInit, Proceed)]"] by (simp add: core_ok_def)
  then have ok: "core_ok ?s" by (rule handle_all_ok)
  have st: "api_State (singcast_api l) = (\<lambda>s. state (co_service s))" for l by (simp add: singcast_api_def)
  let ?start = "Handle (singcast_api lib) (req\<lparr>jr_Method := ''core.startWithContent''\<rparr>) ?s"
  let ?stop = "Handle (singcast_api lib) (req\<lparr>jr_Method := ''core.stop''\<rparr>) ?s"
  have "core_ok (snd ?start)" "core_ok (snd ?stop)" using ok by (auto intro: singcast.Handle_keeps)
  moreover have "resp_Error (fst ?start) = None \<Longrightarrow> state (co_service (snd ?start)) = StateRunning"
    by (rule singcast.Handle_start[OF ok, unfolded st]) simp_all
  moreover have "state (co_service (snd ?stop)) \<noteq> StateRunning"
    by (rule singcast.Handle_stop[OF ok, unfolded st]) simp
  moreover obtain r started where "?start = (r, started)" by (rule prod.exhaust)
  ultimately show ?thesis by (simp add: core_ok_def Let_def split: option.split)
qed

section \<open>Properties of the platform\<close>

text \<open>
  The TUN descriptor of the host is used once: opening the interface either fails and leaves everything as
  it was, or clears the descriptor, and then the kernel is told not to use the platform's interface and a
  second opening fails until the host sets a new descriptor.
\<close>

theorem tun_descriptor_used_once:
  "case OpenInterface open_tun p of
     (Some e, p') \<Rightarrow> p' = p
   | (None, p') \<Rightarrow> pf_tunFd p \<noteq> 0 \<and> pf_tunFd p' = 0 \<and> \<not> UsePlatformInterface p' \<and>
       OpenInterface open_tun' p' = (Some No_tun_fd, p')"
proof (cases "OpenInterface open_tun p")
  case (Pair e p')
  then show ?thesis using OpenInterface_once[of open_tun p p'] OpenInterface_failure[of open_tun p] by (cases e) auto
qed

text \<open>
  C30.  As long as calls of the monitor do not overlap, every registered callback has last been told the current
  default interface, whatever the registrations, updates and resolutions of interfaces.
\<close>

theorem callbacks_know_interface: "up_to_date (complete_calls cs NewMonitor)"
  using complete_calls_ok[OF monitor_ok_new, of cs] by (simp add: monitor_ok_def)

text \<open>A registration that overlaps with an update leaves its callback with the old interface.\<close>

theorem late_registration_is_stale:
  "case monitor_steps (\<lambda>_. None) late_registration NewMonitor of
     None \<Rightarrow> False
   | Some m \<Rightarrow> mn_todo m 0 = [] \<and> mn_todo m 1 = [] \<and> mn_iface m = Some (unresolved ''rmnet0'' 2) \<and>
       last_told 0 (mn_told m) = Some (unresolved ''wlan0'' 1) \<and> \<not> up_to_date m"
  by (rule late_registration_run)

text \<open>
  C31.  The netlink request carries its length, the family, the protocol, the state filter, the ports in network
  byte order and the addresses at the offsets of the kernel's structure.
\<close>

theorem netlink_request_layout:
  assumes "ip_shape src" and "ip_shape dst"
  shows "let req = packSockDiagRequest family protocol src sport dst dport in
    length req = 72 \<and> get_le32 (bytes_at 0 4 req) = 72 \<and> bytes_at 16 1 req = [family] \<and> bytes_at 17 1 req = [protocol] \<and>
    get_le32 (bytes_at 20 4 req) = 2 \<and> get_be16 (bytes_at 24 2 req) = sport \<and> get_be16 (bytes_at 26 2 req) = dport \<and>
    bytes_at 28 (length (ip_bytes src)) req = ip_bytes src \<and> bytes_at 44 (length (ip_bytes dst)) req = ip_bytes dst"
  using assms by (rule request_layout)

theorem netlink_request_layout_witness:
  "let req = packSockDiagRequest AF_INET IPPROTO_TCP (V4 [192, 168, 0, 2]) 40000 (V4 [1, 1, 1, 1]) 443 in
   get_be16 (bytes_at 24 2 req) = 40000 \<and> bytes_at 28 4 req = [192, 168, 0, 2] \<and> bytes_at 44 4 req = [1, 1, 1, 1]"
proof -
  have v: "ip_shape (V4 [192, 168, 0, 2])" "ip_shape (V4 [1, 1, 1, 1])"
    "length (ip_bytes (V4 [192, 168, 0, 2])) = 4" "length (ip_bytes (V4 [1, 1, 1, 1])) = 4"
    "ip_bytes (V4 [192, 168, 0, 2]) = [192, 168, 0, 2]" "ip_bytes (V4 [1, 1, 1, 1]) = [1, 1, 1, 1]"
    by (simp_all add: ip_shape_def ip_bytes_def octets_def)
  show ?thesis
    using netlink_request_layout[OF v(1,2), of AF_INET IPPROTO_TCP 40000 443]
    unfolding v(3,4) unfolding v(5,6) Let_def by blast
qed

section \<open>Properties of the command line\<close>

text \<open>
  Applying the rule-set prefix to a document that has it already changes nothing, so a daemon that loads what
  its parent wrote starts the same configuration.
\<close>

theorem rule_set_prefix_once:
  assumes "foreign_prefix proxy" and "apply_rule_set_proxy proxy root = Some root'"
  shows "apply_rule_set_proxy proxy root' = Some root'"
  using assms by (rule apply_rule_set_proxy_twice)

theorem rule_set_prefix_once_witness:
  "let root = [(''route'', VMap [(''rule_set'', VList [VMap [(''url'', VStr (RawGitHubPrefix @ ''x''))]])])];
       root' = [(''route'', VMap [(''rule_set'', VList [VMap [(''url'', VStr (''https://p.io/'' @ RawGitHubPrefix @ ''x''))]])])]
   in apply_rule_set_proxy ''https://p.io'' root = Some root' \<and> apply_rule_set_proxy ''https://p.io'' root' = Some root'"
proof -
  let ?root = "[(''route'', VMap [(''rule_set'', VList [VMap [(''url'', VStr (RawGitHubPrefix @ ''x''))]])])]"
  let ?root' = "[(''route'', VMap [(''rule_set'', VList [VMap [(''url'', VStr (''https://p.io/'' @ RawGitHubPrefix @ ''x''))]])])]"
  have "foreign_prefix ''https://p.io''" "apply_rule_set_proxy ''https://p.io'' ?root = Some ?root'" by code_simp+
  then show ?thesis using rule_set_prefix_once[of "''https://p.io''" ?root ?root'] unfolding Let_def by blast
qed







text \<open>A second daemon is refused while the first one lives.\<close>

theorem daemon_started_once:
  assumes "startDaemon os pr homeDir configPath ruleSetProxy apiAddr h = (Inr c, h')" and "pr_fork pr c = Some pid"
    and "0 < pid" and "pid \<le> max_int64" and "pr_alive pr pid" and "os_write os (file_at h (pidPath homeDir))"
  shows "startDaemon os pr homeDir configPath' ruleSetProxy' apiAddr' h' = (Inl (E_daemon_running pid), h')"
  using startDaemon_pid[OF assms(1,2,6)] scan_int_itoa[OF assms(3,4)] assms(3,5)
  by (simp add: startDaemon_def running_daemon_def)


section \<open>Properties of the installation\<close>


definition root_process :: process where
  "root_process =
    \<lparr>px_euid = 0, px_env = (\<lambda>_. []), px_umask = 18, px_exe = Some ''/home/u/core'', px_resolve = Some, px_print = (\<lambda>_. True),
     px_fails = (\<lambda>_. False), px_new_ids = (997, 997)\<rparr>"

definition sample_machine :: machine where
  "sample_machine =
    \<lparr>m_fs = [''/home/u/core'' \<mapsto> Regular ''ELF'' 493, ''/usr/local/lib/singcast/singcast-core'' \<mapsto> Symlink ''/etc/passwd'',
             ''/etc/passwd'' \<mapsto> Regular ''root'' 420],
     m_owner = Map.empty, m_users = Map.empty, m_commands = []\<rparr>"


text \<open>
  C35.  Uninstalling undoes an installation, whether it succeeded or stopped half-way: apart from directories that were
  made, every path is as it was before, and of the four paths of the service none is left.  In particular a link that
  stood at the place of the copied binary was replaced, not followed.
\<close>

theorem uninstall_undoes_install:
  assumes "InstallService px m = (r, m')" and "plain_targets (m_fs m)"
    and "px_euid px' = 0" and "\<forall>p \<in> installed_paths. \<not> px_fails px' (Do_remove p)"
  shows "let fs = m_fs (snd (UninstallService px' m')) in
    (p \<in> installed_paths \<longrightarrow> fs p = None) \<and>
    (p \<notin> installed_paths \<longrightarrow> fs p = m_fs m p \<or> m_fs m p = None \<and> (\<exists>mode. fs p = Some (Directory mode)))"
  using uninstall_after_install[OF assms, of p] by (simp add: Let_def)

theorem uninstall_undoes_install_witness:
  "m_fs (snd (UninstallService root_process (snd (InstallService root_process sample_machine)))) ''/etc/passwd'' =
     Some (Regular ''root'' 420)"
proof -
  have t: "plain_targets (m_fs sample_machine)" by code_simp
  have p: "px_euid root_process = 0" "\<forall>p \<in> installed_paths. \<not> px_fails root_process (Do_remove p)"
    by (simp_all add: root_process_def)
  have n: "''/etc/passwd'' \<notin> installed_paths" by code_simp
  have s: "m_fs sample_machine ''/etc/passwd'' = Some (Regular ''root'' 420)" by (simp add: sample_machine_def)
  show ?thesis
    using uninstall_undoes_install[OF prod.collapse[symmetric] t p, where p = "''/etc/passwd''"] n s by (simp add: Let_def)
qed

text \<open>
  C36.  The user who asked for the installation is the one who gets access to the socket: the id that \<open>pkexec\<close> reports goes
  through the unit into the environment of the service, and the service grants exactly that id on the fixed socket.
\<close>

theorem gui_user_reaches_socket:
  assumes "px_env px ''PKEXEC_UID'' = itoa uid" and "0 < uid" and "uid \<le> max_int64"
    and "systemd_environment (systemdUnit (px_print px) exe serviceStateDir (effectiveCallerUID (px_env px))) environment"
    and "ac_env ac = environment" and "ac_setfacl ac uid"
  shows "IpcPath False environment cwd homeDir = ''/run/singcast/command.sock'' \<and>
    grantSocketAccess ac path sk = (True, sk\<lparr>sk_acl := sk_acl sk @ [(path, uid)]\<rparr>)"
proof -
  have "effectiveCallerUID (px_env px) = itoa uid"
    using assms(1) itoa_positive(1)[OF assms(2)] by (simp add: effectiveCallerUID_def)
  then have e: "environment ''SINGCAST_GUI_UID'' = itoa uid" "environment ''SINGCAST_IPC_PATH'' = ''/run/singcast/command.sock''"
    using unit_environment[of "px_print px" exe uid environment] assms(2,4) by simp_all
  then show ?thesis using grant_gui[of ac uid] assms(2,3,5,6) by (simp add: IpcPath_def)
qed

definition sample_environment :: "string \<Rightarrow> string" where
  "sample_environment k =
    (if k = ''SINGCAST_GUI_UID'' then ''1000'' else if k = ''SINGCAST_IPC_PATH'' then ''/run/singcast/command.sock'' else [])"

theorem gui_user_reaches_socket_witness:
  "IpcPath False sample_environment None [] = ''/run/singcast/command.sock'' \<and>
   sk_acl (snd (grantSocketAccess \<lparr>ac_env = sample_environment, ac_stat = None, ac_setfacl = (\<lambda>_. True)\<rparr> ''s'' (no_sockets 18))) =
     [(''s'', 1000)]"
proof -
  let ?px = "root_process\<lparr>px_env := (\<lambda>k. if k = ''PKEXEC_UID'' then ''1000'' else [])\<rparr>"
  have "px_env ?px ''PKEXEC_UID'' = itoa 1000" by code_simp
  moreover have "systemd_environment (systemdUnit (px_print ?px) ''/usr/bin/x'' serviceStateDir (effectiveCallerUID (px_env ?px)))
      sample_environment"
    by code_simp
  ultimately show ?thesis
    using gui_user_reaches_socket[of ?px 1000 "''/usr/bin/x''" sample_environment
        "\<lparr>ac_env = sample_environment, ac_stat = None, ac_setfacl = (\<lambda>_. True)\<rparr>" None "[]" "''s''" "no_sockets 18"]
    by (simp add: max_int64_def no_sockets_def)
qed

section \<open>Properties of the socket\<close>



text \<open>
  C38.  Servers of the mobile API that are started one after the other has ended are reachable as long as they serve.  A
  start that follows a stop at once is not safe, although both calls succeed: the clean-up of the old server removes the
  socket of the new one, or the new one finds the old one still listening and gives up.
\<close>

theorem ipc_restart_needs_a_pause:
  "(case orderly_run binds ac path actions (new_endpoint umask) of
      None \<Rightarrow> True
    | Some ep \<Rightarrow>
        list_all (\<lambda>ph. case ph of Serving_on l \<Rightarrow> sk_names (ep_sockets ep) path = Some (l, 384) \<and> isSocketAlive path (ep_sockets ep)
          | _ \<Rightarrow> True) (ep_runs ep)) \<and>
   map_option (\<lambda>ep. (ep_server ep, ep_runs ep, sk_names (ep_sockets ep) ''s'', sk_open (ep_sockets ep)))
     (endpoint_run (\<lambda>_. Allowed) plain_access ''s'' fast_restart (new_endpoint 18)) =
     Some (Some 1, [Finished, Serving_on 1], None, [1]) \<and>
   map_option (\<lambda>ep. (ep_server ep, ep_runs ep, sk_names (ep_sockets ep) ''s'', sk_open (ep_sockets ep)))
     (endpoint_run (\<lambda>_. Allowed) plain_access ''s'' faster_restart (new_endpoint 18)) =
     Some (Some 1, [Finished, Listen_error], None, [])"
proof (intro conjI restart_runs)
  show "case orderly_run binds ac path actions (new_endpoint umask) of
      None \<Rightarrow> True
    | Some ep \<Rightarrow>
        list_all (\<lambda>ph. case ph of Serving_on l \<Rightarrow> sk_names (ep_sockets ep) path = Some (l, 384) \<and> isSocketAlive path (ep_sockets ep)
          | _ \<Rightarrow> True) (ep_runs ep)"
  proof (cases "orderly_run binds ac path actions (new_endpoint umask)")
    case (Some ep)
    have "list_all (phase_ok path (ep_sockets ep)) (ep_runs ep)"
      using orderly_run_ok[OF Some endpoint_ok_new] by (simp add: endpoint_ok_def)
    then show ?thesis using Some by (auto simp: list_all_iff phase_ok_def isSocketAlive_def split: run_phase.splits)
  qed simp
qed

section \<open>Properties of the libraries\<close>


text \<open>
  C40.  The strings of the C library have one owner: every string that was ever made has reached the host exactly once, as
  a result or in its callback; those the host has not freed are alive, and the host can free them all.  Without a
  callback an event makes no string.
\<close>

theorem strings_have_one_owner:
  "case clib_run api actions (clib_init s) of
     None \<Rightarrow> True
   | Some h \<Rightarrow>
       mset (cl_given (ch_lib h)) = host_got h \<and>
       mset (cl_live (ch_lib h)) + mset (ch_freed h) = host_got h \<and> distinct (cl_given (ch_lib h)) \<and>
       (case clib_run api (map (\<lambda>p. Free (Some p)) (cl_live (ch_lib h))) h of None \<Rightarrow> False | Some h' \<Rightarrow> cl_live (ch_lib h') = [])"
proof (cases "clib_run api actions (clib_init s)")
  case (Some h)
  have "strings_owned h" using clib_run_owned[OF Some strings_owned_init] .
  then show ?thesis using Some free_all[of api h] by (auto simp: strings_owned_def)
qed simp

text \<open>The detected country is the answer of a service, or CN with the fallback flag set.\<close>

theorem country_has_a_source:
  assumes "set order \<subseteq> {..<length providers}" and "normalizeCountryCode override = None"
  shows "case DetectCountryWithFallback (race get order) override fresh_cache of
    ((cc, fallback), g) \<Rightarrow>
      if fallback then cc = ''CN'' \<and> detectCountryByIP (race get order) = None
      else \<exists>p \<in> set providers. \<exists>answer. p get = Some answer \<and> length answer = 2 \<and> cc = to_upper answer"
proof (cases "detectCountryByIP (race get order)")
  case None
  then show ?thesis
    using assms(2) by (simp add: DetectCountryWithFallback_def DetectCountry_def detect_once_def fresh_cache_def Let_def)
next
  case (Some a)
  then show ?thesis
    using assms(2) detected_by_provider[OF Some assms(1)] detected_length[OF Some]
    by (auto simp: DetectCountryWithFallback_def DetectCountry_def detect_once_def fresh_cache_def Let_def)
qed

text \<open>The control loop of the Windows service always ends in state Stopped.\<close>

theorem windows_service_ends_stopped:
  "case Execute init_ok controls of
     (statuses, None) \<Rightarrow> True
   | (statuses, Some (service_code, code)) \<Rightarrow> hd statuses = Start_pending \<and> last statuses = Win_stopped \<and> code \<le> 1"
proof (cases "Execute init_ok controls")
  case (Pair statuses e)
  have "hd statuses = Start_pending" using Pair by (auto simp: Execute_def apfst_def map_prod_def split: if_splits prod.splits)
  moreover have "snd (execute_loop controls) = Some (b, n) \<Longrightarrow> n \<le> 1" for b n
    by (induction controls rule: execute_loop.induct) (auto simp: apfst_def map_prod_def split: prod.splits)
  ultimately show ?thesis
    using Execute_stopped[of init_ok controls] Pair
    by (auto simp: Execute_def apfst_def map_prod_def split: if_splits prod.splits option.split)
qed

end
